(* ===== verification/JsPrelude.thy ===== *)
theory JsPrelude
  imports Complex_Main
begin

text \<open>
  The part of the JavaScript language and of its standard library that the browser code under
  \<^verbatim>\<open>src/portal\<close> uses, and the lemmas about it that the components share.

  \<^item> Strings are byte lists (\<^typ>\<open>string\<close>), read as the UTF-8 encoding of the JavaScript text. UTF-8 is
    self-synchronising, so equality, concatenation, prefix, substring and splitting at an ASCII
    character agree with the code; case mapping and trimming are those of the ASCII range, and
    lengths count bytes.
  \<^item> Values that come out of \<^verbatim>\<open>JSON.parse\<close> or \<^verbatim>\<open>response.json()\<close> are of type \<open>jsv\<close>; objects
    keep their keys in insertion order.
  \<^item> Numbers are exact rationals together with the non-finite values; rounding of doubles is not
    modelled.
  \<^item> A property access on \<^verbatim>\<open>undefined\<close> or \<^verbatim>\<open>null\<close> throws; \<open>get_prop\<close> returns \<^const>\<open>None\<close> there, so that
    every \<^verbatim>\<open>TypeError\<close> of the source is a branch of the model.
\<close>

named_theorems js_defs \<open>definitions of the string and value operations, for evaluation\<close>
named_theorems js_intros \<open>introduction rules of the development's invariants\<close>

section \<open>Characters\<close>

definition is_ws :: "char \<Rightarrow> bool" where
  "is_ws c = (c = CHR 0x20 \<or> c = CHR 0x09 \<or> c = CHR 0x0A \<or> c = CHR 0x0B \<or> c = CHR 0x0C \<or> c = CHR 0x0D)"

definition is_digit :: "char \<Rightarrow> bool" where
  "is_digit c = (48 \<le> (of_char c :: nat) \<and> (of_char c :: nat) \<le> 57)"

definition is_upper :: "char \<Rightarrow> bool" where
  "is_upper c = (65 \<le> (of_char c :: nat) \<and> (of_char c :: nat) \<le> 90)"

definition is_lower :: "char \<Rightarrow> bool" where
  "is_lower c = (97 \<le> (of_char c :: nat) \<and> (of_char c :: nat) \<le> 122)"

text \<open>Upper- and lower-case ASCII letters differ in bit 5.\<close>

definition lower_char :: "char \<Rightarrow> char" where
  "lower_char c = (if is_upper c
     then (case c of Char b0 b1 b2 b3 b4 b5 b6 b7 \<Rightarrow> Char b0 b1 b2 b3 b4 True b6 b7) else c)"

definition upper_char :: "char \<Rightarrow> char" where
  "upper_char c = (if is_lower c
     then (case c of Char b0 b1 b2 b3 b4 b5 b6 b7 \<Rightarrow> Char b0 b1 b2 b3 b4 False b6 b7) else c)"

lemmas char_defs [js_defs] = is_ws_def is_digit_def is_upper_def is_lower_def lower_char_def
  upper_char_def

section \<open>Strings\<close>

text \<open>\<^verbatim>\<open>s.toLowerCase()\<close>, \<^verbatim>\<open>s.toUpperCase()\<close>, \<^verbatim>\<open>s.trim()\<close>.\<close>

definition lower :: "string \<Rightarrow> string" where
  "lower s = map lower_char s"

definition upper :: "string \<Rightarrow> string" where
  "upper s = map upper_char s"

definition trim_left :: "string \<Rightarrow> string" where
  "trim_left s = dropWhile is_ws s"

definition trim_right :: "string \<Rightarrow> string" where
  "trim_right s = rev (dropWhile is_ws (rev s))"

definition trim :: "string \<Rightarrow> string" where
  "trim s = trim_right (trim_left s)"

text \<open>\<^verbatim>\<open>s.startsWith(p)\<close>, \<^verbatim>\<open>s.endsWith(p)\<close>, \<^verbatim>\<open>s.includes(p)\<close>.\<close>

fun starts_with :: "'a list \<Rightarrow> 'a list \<Rightarrow> bool" where
  "starts_with s [] = True"
| "starts_with [] (p # ps) = False"
| "starts_with (c # s) (p # ps) = (c = p \<and> starts_with s ps)"

definition ends_with :: "'a list \<Rightarrow> 'a list \<Rightarrow> bool" where
  "ends_with s p = starts_with (rev s) (rev p)"

fun includes_str :: "'a list \<Rightarrow> 'a list \<Rightarrow> bool" where
  "includes_str [] p = (p = [])"
| "includes_str (c # s) p = (starts_with (c # s) p \<or> includes_str s p)"

text \<open>\<^verbatim>\<open>s.split(c)\<close> for a one-character separator, and \<^verbatim>\<open>xs.join(sep)\<close>.\<close>

fun split_on :: "'a \<Rightarrow> 'a list \<Rightarrow> 'a list list" where
  "split_on c [] = [[]]"
| "split_on c (x # xs) =
     (if x = c then [] # split_on c xs
      else (case split_on c xs of [] \<Rightarrow> [[x]] | y # ys \<Rightarrow> (x # y) # ys))"

fun join :: "'a list \<Rightarrow> 'a list list \<Rightarrow> 'a list" where
  "join sep [] = []"
| "join sep [x] = x"
| "join sep (x # y # ys) = x @ sep @ join sep (y # ys)"

text \<open>\<^verbatim>\<open>s.replace(/x/g, r)\<close> for one character, and \<^verbatim>\<open>s.replace(p, r)\<close> for a string pattern (the
  first occurrence only).\<close>

definition replace_char :: "char \<Rightarrow> string \<Rightarrow> string \<Rightarrow> string" where
  "replace_char x r s = concat (map (\<lambda>c. if c = x then r else [c]) s)"

fun replace_first :: "string \<Rightarrow> string \<Rightarrow> string \<Rightarrow> string" where
  "replace_first p r [] = (if p = [] then r else [])"
| "replace_first p r (c # s) =
     (if starts_with (c # s) p then r @ drop (length p) (c # s) else c # replace_first p r s)"

text \<open>Template literals: in the model's text \<^verbatim>\<open>^\<close> stands for a double quote, \<^verbatim>\<open>`\<close> for a single quote and
  \<^verbatim>\<open>~\<close> for a line feed.\<close>

definition html :: "string \<Rightarrow> string" where
  "html s = map (\<lambda>c. if c = CHR 0x5E then CHR 0x22 else if c = CHR 0x60 then CHR 0x27
     else if c = CHR 0x7E then CHR 0x0A else c) s"

lemmas string_defs [js_defs] = html_def lower_def upper_def trim_left_def trim_right_def trim_def
  ends_with_def replace_char_def

subsection \<open>Shared lemmas on strings\<close>

lemma starts_with_take: "starts_with s p \<longleftrightarrow> take (length p) s = p"
  by (induction s p rule: starts_with.induct) auto

lemma starts_with_append [simp]: "starts_with (p @ s) p"
  by (induction p) auto

lemma starts_with_self [simp]: "starts_with s s"
  using starts_with_append [of s "[]"] by simp

lemma starts_withE:
  assumes "starts_with s p"
  obtains r where "s = p @ r"
  using assms by (metis append_take_drop_id starts_with_take)

lemma includes_iff: "includes_str s p \<longleftrightarrow> (\<exists>u v. s = u @ p @ v)"
proof (induction s)
  case Nil
  then show ?case by auto
next
  case (Cons c s)
  have "includes_str (c # s) p \<longleftrightarrow> (\<exists>r. c # s = p @ r) \<or> (\<exists>u v. s = u @ p @ v)"
    using Cons.IH by (auto simp: starts_with_take elim: starts_withE) (metis append_take_drop_id)
  also have "\<dots> \<longleftrightarrow> (\<exists>u v. c # s = u @ p @ v)"
    by (metis append_Cons append_Nil neq_Nil_conv list.inject)
  finally show ?case .
qed

lemma includes_char_iff [simp]: "includes_str s [c] \<longleftrightarrow> c \<in> set s"
  by (auto simp: includes_iff in_set_conv_decomp)

lemma includes_append_mid: "includes_str (u @ p @ v) p"
  by (auto simp: includes_iff)

lemma split_on_nonempty [simp]: "split_on c xs \<noteq> []"
  by (induction xs) (auto split: list.splits)

lemma split_on_no_sep [simp]: "c \<notin> set xs \<Longrightarrow> split_on c xs = [xs]"
  by (induction xs) auto

lemma split_on_sep: "split_on c (xs @ c # ys) = split_on c xs @ split_on c ys"
  by (induction xs) (auto split: list.splits)

lemma split_on_parts: "\<forall>p \<in> set (split_on c xs). c \<notin> set p"
  by (induction xs) (auto split: list.splits)

lemma split_on_append:
  "split_on c (xs @ ys) =
     butlast (split_on c xs) @ (last (split_on c xs) @ hd (split_on c ys)) # tl (split_on c ys)"
proof (induction xs)
  case Nil
  then show ?case by (simp add: list.collapse)
next
  case (Cons x xs)
  show ?case
  proof (cases "split_on c xs")
    case Nil
    then show ?thesis by simp
  next
    case (Cons p ps)
    with Cons.IH show ?thesis by (cases ps) auto
  qed
qed

lemma join_cons: "xs \<noteq> [] \<Longrightarrow> join sep (x # xs) = x @ sep @ join sep xs"
  by (cases xs) auto

lemma join_split_on: "join [c] (split_on c xs) = xs"
proof (induction xs)
  case Nil
  then show ?case by simp
next
  case (Cons x xs)
  then show ?case
  proof (cases "split_on c xs")
    case Nil
    then show ?thesis by simp
  next
    case (Cons p ps)
    with Cons.IH show ?thesis by (cases ps) auto
  qed
qed

lemma replace_char_append [simp]: "replace_char x r (s @ t) = replace_char x r s @ replace_char x r t"
  by (simp add: replace_char_def)

lemma replace_char_absent: "x \<notin> set s \<Longrightarrow> replace_char x r s = s"
  by (induction s) (auto simp: replace_char_def)

lemma set_replace_char:
  "set (replace_char x r s) = (set s - {x}) \<union> (if x \<in> set s then set r else {})"
  by (auto simp: replace_char_def)

lemma set_dropWhile_subset: "set (dropWhile P xs) \<subseteq> set xs"
  by (induction xs) auto

lemma set_trim: "set (trim s) \<subseteq> set s"
  by (auto simp: trim_def trim_left_def trim_right_def dest!: set_dropWhile_subset [THEN subsetD])

lemma trim_right_append_nonws:
  assumes "\<not> is_ws c"
  shows "trim_right (s @ [c]) = s @ [c]"
  using assms by (simp add: trim_right_def)

lemma trim_ends:
  assumes "trim s \<noteq> []"
  shows "\<not> is_ws (hd (trim s)) \<and> \<not> is_ws (last (trim s))"
proof -
  let ?l = "trim_left s"
  have l: "trim s = trim_right ?l" by (simp add: trim_def)
  have suf: "\<exists>w. ?l = trim_right ?l @ w"
    by (metis rev_append rev_rev_ident takeWhile_dropWhile_id trim_right_def)
  then obtain w where w: "?l = trim_right ?l @ w" by blast
  have "?l \<noteq> []" using assms l w by auto
  then have h: "\<not> is_ws (hd ?l)"
    by (metis hd_dropWhile trim_left_def)
  have "hd (trim s) = hd ?l" using assms l w by (metis hd_append2)
  moreover have "\<not> is_ws (last (trim s))"
  proof -
    have "dropWhile is_ws (rev ?l) \<noteq> []" using assms l by (auto simp: trim_right_def)
    then have "\<not> is_ws (hd (dropWhile is_ws (rev ?l)))" by (rule hd_dropWhile)
    then show ?thesis using assms l by (simp add: trim_right_def last_rev)
  qed
  ultimately show ?thesis using h by simp
qed

lemma trim_nil [simp]: "trim [] = []"
  by (simp add: trim_def trim_left_def trim_right_def)

lemma trim_idem [simp]: "trim (trim s) = trim s"
proof (cases "trim s")
  case Nil
  then show ?thesis by simp
next
  case (Cons c r)
  with trim_ends [of s] have e: "\<not> is_ws c" "\<not> is_ws (last (c # r))" by auto
  then have "trim_left (c # r) = c # r" by (simp add: trim_left_def)
  moreover have "trim_right (c # r) = c # r"
    by (metis e(2) append_butlast_last_id list.distinct(1) trim_right_append_nonws)
  ultimately show ?thesis using Cons by (simp add: trim_def)
qed

lemma trim_pad:
  assumes "\<forall>c \<in> set u. is_ws c" and "\<forall>c \<in> set v. is_ws c" and "s \<noteq> []" and "\<not> is_ws (hd s)" and "\<not> is_ws (last s)"
  shows "trim (u @ s @ v) = s"
proof -
  have "trim_left (u @ s @ v) = s @ v"
    using assms by (cases s) (auto simp: trim_left_def dropWhile_append)
  moreover have "dropWhile is_ws (rev v @ rev s) = rev s"
    using assms by (cases s rule: rev_cases) (auto simp: dropWhile_append)
  ultimately show ?thesis by (simp add: trim_def trim_right_def)
qed

lemma includes_Nil [simp]: "includes_str s []"
  by (cases s) auto

end
