(* ===== verification/JsValue.thy ===== *)
theory JsValue
  imports JsPrelude
begin

text \<open>
  JavaScript values, their conversions (\<^verbatim>\<open>Boolean(v)\<close>, \<^verbatim>\<open>String(v)\<close>, \<^verbatim>\<open>Number(v)\<close>, \<^verbatim>\<open>parseInt\<close>), the
  logical operators that return one of their operands, property access, the array and \<^verbatim>\<open>Math\<close>
  operations the portal uses, and the two URI functions.
\<close>

section \<open>Numbers\<close>

datatype jnum = Fin rat | PInf | NInf | NaN

definition is_finite :: "jnum \<Rightarrow> bool" where
  "is_finite n = (case n of Fin _ \<Rightarrow> True | _ \<Rightarrow> False)"

fun num_less :: "jnum \<Rightarrow> jnum \<Rightarrow> bool" where
  "num_less (Fin a) (Fin b) = (a < b)"
| "num_less NaN _ = False"
| "num_less _ NaN = False"
| "num_less NInf b = (b \<noteq> NInf)"
| "num_less _ NInf = False"
| "num_less PInf _ = False"
| "num_less _ PInf = True"

text \<open>\<^verbatim>\<open>Math.max(a, b)\<close>: not-a-number as soon as one argument is.\<close>

definition num_max :: "jnum \<Rightarrow> jnum \<Rightarrow> jnum" where
  "num_max a b = (if a = NaN \<or> b = NaN then NaN else if num_less a b then b else a)"

definition num_floor :: "jnum \<Rightarrow> jnum" where
  "num_floor n = (case n of Fin q \<Rightarrow> Fin (of_int \<lfloor>q\<rfloor>) | _ \<Rightarrow> n)"

definition math_round :: "rat \<Rightarrow> int" where
  "math_round q = \<lfloor>q + 1 / 2\<rfloor>"

definition math_ceil :: "rat \<Rightarrow> int" where
  "math_ceil q = - \<lfloor>- q\<rfloor>"

subsection \<open>Printing numbers\<close>

fun nat_str :: "nat \<Rightarrow> string" where
  "nat_str n = (if n < 10 then [char_of (48 + n)] else nat_str (n div 10) @ [char_of (48 + n mod 10)])"

declare nat_str.simps [simp del]

definition int_str :: "int \<Rightarrow> string" where
  "int_str i = (if i < 0 then ''-'' @ nat_str (nat (- i)) else nat_str (nat i))"

text \<open>The decimals of a fraction in \<open>[0, 1)\<close>, at most \<open>n\<close> of them.\<close>

fun frac_str :: "nat \<Rightarrow> rat \<Rightarrow> string" where
  "frac_str 0 q = []"
| "frac_str (Suc n) q =
     (if q = 0 then [] else nat_str (nat \<lfloor>10 * q\<rfloor>) @ frac_str n (10 * q - of_int \<lfloor>10 * q\<rfloor>))"

definition rat_str :: "rat \<Rightarrow> string" where
  "rat_str q = (let a = \<bar>q\<bar>; i = \<lfloor>a\<rfloor>; f = a - of_int i in
     (if q < 0 then ''-'' else []) @ nat_str (nat i) @
     (if f = 0 then [] else ''.'' @ frac_str 400 f))"

fun num_str :: "jnum \<Rightarrow> string" where
  "num_str (Fin q) = rat_str q"
| "num_str PInf = ''Infinity''"
| "num_str NInf = ''-Infinity''"
| "num_str NaN = ''NaN''"

text \<open>\<^verbatim>\<open>x.toFixed(d)\<close>: the nearest multiple of \<open>10^-d\<close>, the larger one on a tie.\<close>

definition pad_left :: "nat \<Rightarrow> string \<Rightarrow> string" where
  "pad_left n s = replicate (n - length s) (CHR ''0'') @ s"

definition to_fixed :: "nat \<Rightarrow> rat \<Rightarrow> string" where
  "to_fixed d q = (let n = nat (math_round (\<bar>q\<bar> * 10 ^ d)); digits = pad_left (d + 1) (nat_str n);
       k = length digits - d in
     (if q < 0 then ''-'' else []) @ take k digits @ (if d = 0 then [] else ''.'' @ drop k digits))"

subsection \<open>Reading numbers\<close>

definition digit_val :: "char \<Rightarrow> nat" where
  "digit_val c = of_char c - 48"

definition digits_val :: "string \<Rightarrow> nat" where
  "digits_val s = foldl (\<lambda>a c. 10 * a + digit_val c) 0 s"

text \<open>An unsigned decimal literal at the start of a string, with what is left of it.\<close>

definition read_exponent :: "string \<Rightarrow> int \<times> string" where
  "read_exponent s = (case s of [] \<Rightarrow> (0, s)
     | c # r \<Rightarrow> (if lower_char c \<noteq> CHR ''e'' then (0, s) else
         let (sg, r') = (case r of [] \<Rightarrow> (1, r)
             | d # r'' \<Rightarrow> if d = CHR ''-'' then (-1, r'') else if d = CHR ''+'' then (1, r'') else (1, r));
             ds = takeWhile is_digit r' in
         if ds = [] then (0, s) else (sg * int (digits_val ds), drop (length ds) r')))"

definition scale10 :: "rat \<Rightarrow> int \<Rightarrow> rat" where
  "scale10 q e = (if 0 \<le> e then q * 10 ^ nat e else q / 10 ^ nat (- e))"

definition read_unsigned :: "string \<Rightarrow> (rat \<times> string) option" where
  "read_unsigned s = (let ds = takeWhile is_digit s; r = drop (length ds) s;
       (fs, r') = (case r of [] \<Rightarrow> ([], r)
         | c # t \<Rightarrow> if c = CHR ''.'' then (takeWhile is_digit t, drop (length (takeWhile is_digit t)) t)
                    else ([], r)) in
     if ds = [] \<and> fs = [] then None
     else (let (e, r'') = read_exponent r' in
       Some (scale10 (of_nat (digits_val ds) + of_nat (digits_val fs) / 10 ^ length fs) e, r'')))"

definition read_signed :: "string \<Rightarrow> (rat \<times> string) option" where
  "read_signed s = (case s of [] \<Rightarrow> None
     | c # r \<Rightarrow> if c = CHR ''-'' then map_option (\<lambda>(q, t). (- q, t)) (read_unsigned r)
                else if c = CHR ''+'' then read_unsigned r else read_unsigned s)"

text \<open>\<^verbatim>\<open>Number(s)\<close> for a string: the whole trimmed text must be a literal.\<close>

definition str_num :: "string \<Rightarrow> jnum" where
  "str_num s = (let t = trim s in
     if t = [] then Fin 0
     else if t = ''Infinity'' \<or> t = ''+Infinity'' then PInf
     else if t = ''-Infinity'' then NInf
     else (case read_signed t of Some (q, []) \<Rightarrow> Fin q | _ \<Rightarrow> NaN))"

text \<open>\<^verbatim>\<open>parseInt(s, 10)\<close>: a decimal prefix after leading white space.\<close>

definition parse_int :: "string \<Rightarrow> jnum" where
  "parse_int s = (let t = trim_left s; neg = starts_with t ''-'';
       u = (if starts_with t ''-'' \<or> starts_with t ''+'' then drop 1 t else t); ds = takeWhile is_digit u in
     if ds = [] then NaN else Fin ((if neg then -1 else 1) * of_nat (digits_val ds)))"

text \<open>\<^verbatim>\<open>parseFloat(s)\<close>.\<close>

definition parse_float :: "string \<Rightarrow> jnum" where
  "parse_float s = (let t = trim_left s in
     if starts_with t ''Infinity'' \<or> starts_with t ''+Infinity'' then PInf
     else if starts_with t ''-Infinity'' then NInf
     else (case read_signed t of Some (q, _) \<Rightarrow> Fin q | None \<Rightarrow> NaN))"

section \<open>Values\<close>

datatype jsv = Undef | Null | Bool bool | Num jnum | Str string
  | Arr "jsv list" | Obj "(string \<times> jsv) list"

abbreviation JInt :: "int \<Rightarrow> jsv" where
  "JInt i \<equiv> Num (Fin (of_int i))"

fun truthy :: "jsv \<Rightarrow> bool" where
  "truthy Undef = False"
| "truthy Null = False"
| "truthy (Bool b) = b"
| "truthy (Num n) = (n \<noteq> NaN \<and> n \<noteq> Fin 0)"
| "truthy (Str s) = (s \<noteq> [])"
| "truthy (Arr _) = True"
| "truthy (Obj _) = True"

text \<open>\<^verbatim>\<open>a || b\<close> and \<^verbatim>\<open>a && b\<close> return an operand; \<open>str_or\<close> is \<^verbatim>\<open>||\<close> on two strings.\<close>

definition js_or :: "jsv \<Rightarrow> jsv \<Rightarrow> jsv" where
  "js_or a b = (if truthy a then a else b)"

definition js_and :: "jsv \<Rightarrow> jsv \<Rightarrow> jsv" where
  "js_and a b = (if truthy a then b else a)"

definition str_or :: "string \<Rightarrow> string \<Rightarrow> string" where
  "str_or a b = (if a = [] then b else a)"

definition is_object :: "jsv \<Rightarrow> bool" where
  "is_object v = (case v of Null \<Rightarrow> True | Arr _ \<Rightarrow> True | Obj _ \<Rightarrow> True | _ \<Rightarrow> False)"

subsection \<open>Property access\<close>

definition field :: "(string \<times> jsv) list \<Rightarrow> string \<Rightarrow> jsv" where
  "field kvs k = (case map_of kvs k of Some v \<Rightarrow> v | None \<Rightarrow> Undef)"

text \<open>\<^verbatim>\<open>v.k\<close>: \<^const>\<open>None\<close> is the \<^verbatim>\<open>TypeError\<close>.\<close>

fun get_prop :: "jsv \<Rightarrow> string \<Rightarrow> jsv option" where
  "get_prop Undef k = None"
| "get_prop Null k = None"
| "get_prop (Obj kvs) k = Some (field kvs k)"
| "get_prop _ k = Some Undef"

text \<open>\<^verbatim>\<open>v && v.k\<close> and \<^verbatim>\<open>v?.k\<close>, which cannot throw.\<close>

fun safe_prop :: "jsv \<Rightarrow> string \<Rightarrow> jsv" where
  "safe_prop (Obj kvs) k = field kvs k"
| "safe_prop _ k = Undef"

definition and_prop :: "jsv \<Rightarrow> string \<Rightarrow> jsv" where
  "and_prop v k = (if truthy v then safe_prop v k else v)"

text \<open>Setting a property keeps the position of an existing key and appends a new one;
  \<^verbatim>\<open>Object.assign({}, a, b)\<close> sets the properties of \<open>b\<close> one after the other.\<close>

fun set_field :: "string \<Rightarrow> 'v \<Rightarrow> (string \<times> 'v) list \<Rightarrow> (string \<times> 'v) list" where
  "set_field k v [] = [(k, v)]"
| "set_field k v ((k', v') # kvs) = (if k' = k then (k, v) # kvs else (k', v') # set_field k v kvs)"

text \<open>The properties \<^verbatim>\<open>Object.assign({}, v)\<close> copies: those of an object, or the elements of an array or text.\<close>

definition obj_fields :: "jsv \<Rightarrow> (string \<times> jsv) list" where
  "obj_fields v = (case v of Obj kvs \<Rightarrow> kvs
     | Arr xs \<Rightarrow> zip (map nat_str [0..<length xs]) xs
     | Str s \<Rightarrow> zip (map nat_str [0..<length s]) (map (\<lambda>c. Str [c]) s) | _ \<Rightarrow> [])"

lemma obj_fields_Obj [simp]: "obj_fields (Obj kvs) = kvs"
  by (simp add: obj_fields_def)

definition assign :: "(string \<times> 'v) list \<Rightarrow> (string \<times> 'v) list \<Rightarrow> (string \<times> 'v) list" where
  "assign a b = fold (\<lambda>(k, v). set_field k v) b a"

text \<open>\<^verbatim>\<open>Object.assign({}, v, { k: x })\<close>.\<close>

definition with_field :: "string \<Rightarrow> jsv \<Rightarrow> jsv \<Rightarrow> jsv" where
  "with_field k x v = Obj (set_field k x (assign [] (obj_fields v)))"

text \<open>\<^verbatim>\<open>Array.isArray(v) ? v : []\<close>.\<close>

definition arr_or_empty :: "jsv \<Rightarrow> jsv list" where
  "arr_or_empty v = (case v of Arr xs \<Rightarrow> xs | _ \<Rightarrow> [])"

subsection \<open>Conversions\<close>

fun to_str :: "jsv \<Rightarrow> string" and to_str_list :: "jsv list \<Rightarrow> string list" where
  "to_str Undef = ''undefined''"
| "to_str Null = ''null''"
| "to_str (Bool b) = (if b then ''true'' else ''false'')"
| "to_str (Num n) = num_str n"
| "to_str (Str s) = s"
| "to_str (Arr xs) = join '','' (to_str_list xs)"
| "to_str (Obj _) = ''[object Object]''"
| "to_str_list [] = []"
| "to_str_list (x # xs) = (if x = Undef \<or> x = Null then [] else to_str x) # to_str_list xs"

fun to_num :: "jsv \<Rightarrow> jnum" where
  "to_num Undef = NaN"
| "to_num Null = Fin 0"
| "to_num (Bool b) = Fin (if b then 1 else 0)"
| "to_num (Num n) = n"
| "to_num (Str s) = str_num s"
| "to_num (Arr xs) = str_num (to_str (Arr xs))"
| "to_num (Obj _) = NaN"

text \<open>\<^verbatim>\<open>String(v || d)\<close>, the form in which the code reads an optional text.\<close>

definition str_of_or :: "jsv \<Rightarrow> string \<Rightarrow> string" where
  "str_of_or v d = (if truthy v then to_str v else d)"

lemmas value_defs [js_defs] = is_finite_def num_max_def num_floor_def math_round_def math_ceil_def
  int_str_def rat_str_def pad_left_def to_fixed_def digit_val_def digits_val_def read_exponent_def
  scale10_def read_unsigned_def read_signed_def str_num_def parse_int_def parse_float_def js_or_def
  js_and_def str_or_def is_object_def field_def and_prop_def obj_fields_def assign_def arr_or_empty_def
  str_of_or_def

section \<open>URI encoding\<close>

definition hex_digit :: "nat \<Rightarrow> char" where
  "hex_digit n = (if n < 10 then char_of (48 + n) else char_of (55 + n))"

definition uri_unreserved :: "char \<Rightarrow> bool" where
  "uri_unreserved c = (is_digit c \<or> is_upper c \<or> is_lower c \<or> c \<in> set ''-_.!~*()'' \<or> c = CHR 0x27)"

text \<open>\<^verbatim>\<open>encodeURIComponent(s)\<close>: one \<open>%XX\<close> for every byte of the UTF-8 form that is not unreserved.\<close>

definition encodeURIComponent :: "string \<Rightarrow> string" where
  "encodeURIComponent s = concat (map (\<lambda>c. if uri_unreserved c then [c]
     else let n = of_char c in [CHR ''%'', hex_digit (n div 16), hex_digit (n mod 16)]) s)"

definition hex_val :: "char \<Rightarrow> nat option" where
  "hex_val c = (let n = of_char c in if is_digit c then Some (n - 48)
     else if 65 \<le> n \<and> n \<le> 70 then Some (n - 55) else if 97 \<le> n \<and> n \<le> 102 then Some (n - 87) else None)"

definition read_escape :: "string \<Rightarrow> (nat \<times> string) option" where
  "read_escape s = (case s of p # a # b # r \<Rightarrow>
       (if p = CHR ''%'' then (case (hex_val a, hex_val b) of (Some x, Some y) \<Rightarrow> Some (16 * x + y, r) | _ \<Rightarrow> None)
        else None)
     | _ \<Rightarrow> None)"

text \<open>The continuation bytes of one UTF-8 character, each an escape of its own.\<close>

fun read_cont :: "nat \<Rightarrow> string \<Rightarrow> (nat list \<times> string) option" where
  "read_cont 0 s = Some ([], s)"
| "read_cont (Suc n) s = (case read_escape s of None \<Rightarrow> None
     | Some (b, r) \<Rightarrow> if b < 128 \<or> 192 \<le> b then None
         else map_option (\<lambda>(bs, t). (b # bs, t)) (read_cont n r))"

definition utf8_len :: "nat \<Rightarrow> nat option" where
  "utf8_len b = (if b < 128 then Some 0 else if b < 194 then None else if b < 224 then Some 1
     else if b < 240 then Some 2 else if b < 245 then Some 3 else None)"

text \<open>Overlong forms, surrogates and code points past \<open>10FFFF\<close> are malformed.\<close>

definition utf8_second_ok :: "nat \<Rightarrow> nat list \<Rightarrow> bool" where
  "utf8_second_ok b cs = (case cs of [] \<Rightarrow> True | c # _ \<Rightarrow>
     (b = 224 \<longrightarrow> 160 \<le> c) \<and> (b = 237 \<longrightarrow> c < 160) \<and> (b = 240 \<longrightarrow> 144 \<le> c) \<and> (b = 244 \<longrightarrow> c < 144))"

text \<open>\<^verbatim>\<open>decodeURIComponent(s)\<close>; \<^const>\<open>None\<close> is the \<^verbatim>\<open>URIError\<close>. The fuel bounds the number of characters.\<close>

fun decode_uri :: "nat \<Rightarrow> string \<Rightarrow> string option" where
  "decode_uri 0 s = (if s = [] then Some [] else None)"
| "decode_uri (Suc n) s = (case s of [] \<Rightarrow> Some []
     | c # r \<Rightarrow> if c \<noteq> CHR ''%'' then map_option ((#) c) (decode_uri n r)
        else (case read_escape s of None \<Rightarrow> None
          | Some (b, t) \<Rightarrow> (case utf8_len b of None \<Rightarrow> None
            | Some k \<Rightarrow> (case read_cont k t of None \<Rightarrow> None
              | Some (cs, u) \<Rightarrow> if utf8_second_ok b cs
                  then map_option (\<lambda>v. map char_of (b # cs) @ v) (decode_uri n u) else None))))"

definition decodeURIComponent :: "string \<Rightarrow> string option" where
  "decodeURIComponent s = decode_uri (length s) s"

lemmas uri_defs [js_defs] = hex_digit_def uri_unreserved_def encodeURIComponent_def hex_val_def
  read_escape_def utf8_len_def utf8_second_ok_def decodeURIComponent_def

section \<open>Lemmas on objects\<close>

lemma map_of_set_field: "map_of (set_field k v kvs) = (map_of kvs)(k \<mapsto> v)"
  by (induction k v kvs rule: set_field.induct) (auto simp: fun_eq_iff)

lemma map_of_assign: "map_of (assign a b) k = (case map_of (rev b) k of Some v \<Rightarrow> Some v | None \<Rightarrow> map_of a k)"
proof (induction b arbitrary: a)
  case Nil
  then show ?case by (simp add: assign_def)
next
  case (Cons p b)
  obtain k' v' where p: "p = (k', v')" by (cases p)
  have "map_of (assign a (p # b)) k = map_of (assign (set_field k' v' a) b) k"
    by (simp add: assign_def p)
  also have "\<dots> = (case map_of (rev b) k of Some v \<Rightarrow> Some v | None \<Rightarrow> map_of (set_field k' v' a) k)"
    by (rule Cons.IH)
  finally show ?case
    by (simp add: p map_of_set_field map_add_def split: option.splits)
qed

lemma field_set: "field (set_field k v kvs) k' = (if k' = k then v else field kvs k')"
  by (simp add: field_def map_of_set_field)

lemma field_assign_Nil: "distinct (map fst kvs) \<Longrightarrow> field (assign [] kvs) k = field kvs k"
  by (auto simp: field_def map_of_assign split: option.splits) (metis map_of_eq_Some_iff distinct_rev rev_map set_rev option.sel option.distinct(1))+

section \<open>Printing and reading natural numbers\<close>

lemma of_char_digit [simp]: "n < 10 \<Longrightarrow> (of_char (char_of (48 + n :: nat) :: char) :: nat) = 48 + n"
  by simp

lemma nat_str_digits: "c \<in> set (nat_str n) \<Longrightarrow> is_digit c"
proof (induction n rule: nat_str.induct)
  case (1 n)
  then show ?case
    by (subst (asm) (2) nat_str.simps) (auto simp: is_digit_def split: if_splits)
qed

lemma nat_str_nonempty [simp]: "nat_str n \<noteq> []"
  by (subst nat_str.simps) simp

lemma digits_val_append: "digits_val (s @ [c]) = 10 * digits_val s + digit_val c"
  by (simp add: digits_val_def)

lemma digits_val_nat_str [simp]: "digits_val (nat_str n) = n"
proof (induction n rule: nat_str.induct)
  case (1 n)
  show ?case
  proof (cases "n < 10")
    case True
    then show ?thesis by (subst nat_str.simps) (simp add: digits_val_def digit_val_def)
  next
    case False
    have "digit_val (char_of (48 + n mod 10)) = n mod 10" by (simp add: digit_val_def)
    then show ?thesis using 1 False by (subst nat_str.simps) (simp add: digits_val_append)
  qed
qed

lemma digit_not_ws: "is_digit c \<Longrightarrow> \<not> is_ws c"
  by (auto simp: is_digit_def is_ws_def)

lemma trim_digits: "s \<noteq> [] \<Longrightarrow> \<forall>c \<in> set s. is_digit c \<Longrightarrow> trim s = s"
  using trim_pad [of "[]" "[]" s] by (auto simp: digit_not_ws)

lemma read_unsigned_digits:
  assumes "s \<noteq> []" and "\<forall>c \<in> set s. is_digit c"
  shows "read_unsigned s = Some (of_nat (digits_val s), [])"
proof -
  have t: "takeWhile is_digit s = s" using assms(2) by simp
  show ?thesis
    unfolding read_unsigned_def t using assms(1) by (simp add: Let_def read_exponent_def scale10_def digits_val_def)
qed

lemma str_num_digits:
  assumes "s \<noteq> []" and d: "\<forall>c \<in> set s. is_digit c"
  shows "str_num s = Fin (of_nat (digits_val s))"
proof -
  obtain c r where s: "s = c # r" using assms(1) by (cases s) auto
  have "is_digit c" using d s by simp
  then have c: "c \<noteq> CHR ''-''" "c \<noteq> CHR ''+''" "c \<noteq> CHR ''I''" by (auto simp: is_digit_def)
  have "read_signed s = Some (of_nat (digits_val s), [])"
    using read_unsigned_digits [OF assms] c s by (simp add: read_signed_def)
  then show ?thesis using trim_digits [OF assms] c s by (simp add: str_num_def)
qed

lemma str_num_nat_str [simp]: "str_num (nat_str n) = Fin (of_nat n)"
  by (simp add: str_num_digits nat_str_digits)

lemma rat_str_of_nat [simp]: "rat_str (of_nat n) = nat_str n"
  by (simp add: rat_str_def Let_def)

lemma num_str_of_nat [simp]: "num_str (Fin (of_nat n)) = nat_str n"
  by simp

text \<open>\<^verbatim>\<open>===\<close>. Two arrays or objects of the model come from different parses, so they are never the same
  reference.\<close>

fun strict_eq :: "jsv \<Rightarrow> jsv \<Rightarrow> bool" where
  "strict_eq (Num a) (Num b) = (a \<noteq> NaN \<and> a = b)"
| "strict_eq (Arr _) _ = False"
| "strict_eq (Obj _) _ = False"
| "strict_eq a b = (a = b)"

text \<open>\<^verbatim>\<open>xs.map(f)\<close> for a callback that may throw.\<close>

fun map_throw :: "('a \<Rightarrow> 'b option) \<Rightarrow> 'a list \<Rightarrow> 'b list option" where
  "map_throw f [] = Some []"
| "map_throw f (x # xs) = (case f x of None \<Rightarrow> None | Some y \<Rightarrow> map_option ((#) y) (map_throw f xs))"

lemma map_throw_Some:
  "map_throw f xs = Some ys \<Longrightarrow> map f xs = map Some ys"
  by (induction xs arbitrary: ys) (auto split: option.splits)

lemma map_throw_all:
  "\<forall>x \<in> set xs. f x \<noteq> None \<Longrightarrow> \<exists>ys. map_throw f xs = Some ys"
  by (induction xs) (auto split: option.splits)

definition is_record :: "jsv \<Rightarrow> bool" where
  "is_record v = (case v of Obj _ \<Rightarrow> True | _ \<Rightarrow> False)"

lemma get_prop_record: "is_record v \<Longrightarrow> get_prop v k = Some (safe_prop v k)"
  by (cases v) (auto simp: is_record_def)

lemma record_truthy: "is_record v \<Longrightarrow> truthy v"
  by (cases v) (auto simp: is_record_def)

lemma num_less_irrefl [simp]: "\<not> num_less a a"
  by (cases a) auto

lemma num_less_trans: "num_less a b \<Longrightarrow> num_less b c \<Longrightarrow> num_less a c"
  by (cases a; cases b; cases c) auto

lemma num_less_linear: "a \<noteq> NaN \<Longrightarrow> b \<noteq> NaN \<Longrightarrow> \<not> num_less a b \<Longrightarrow> \<not> num_less b c \<Longrightarrow> \<not> num_less a c"
  by (cases a; cases b; cases c) auto

lemma is_finite_not_NaN: "is_finite n \<Longrightarrow> n \<noteq> NaN"
  by (auto simp: is_finite_def)

lemma find_in_set: "find P xs = Some x \<Longrightarrow> x \<in> set xs \<and> P x"
  by (auto simp: find_Some_iff)

text \<open>A string method called on a value.\<close>

definition as_str :: "jsv \<Rightarrow> string option" where
  "as_str v = (case v of Str s \<Rightarrow> Some s | _ \<Rightarrow> None)"

fun filter_throw :: "('a \<Rightarrow> bool option) \<Rightarrow> 'a list \<Rightarrow> 'a list option" where
  "filter_throw f [] = Some []"
| "filter_throw f (x # xs) = (case f x of None \<Rightarrow> None
     | Some b \<Rightarrow> map_option (\<lambda>ys. if b then x # ys else ys) (filter_throw f xs))"

text \<open>\<^verbatim>\<open>xs.map(f).join('')\<close> for a callback that may throw.\<close>

definition map_join :: "('a \<Rightarrow> string option) \<Rightarrow> 'a list \<Rightarrow> string option" where
  "map_join f xs = map_option concat (map_throw f xs)"

lemma filter_throw_total: "\<forall>x \<in> set xs. f x = Some (P x) \<Longrightarrow> filter_throw f xs = Some (filter P xs)"
  by (induction xs) auto

lemma map_join_total: "\<forall>x \<in> set xs. f x = Some (g x) \<Longrightarrow> map_join f xs = Some (concat (map g xs))"
proof -
  assume "\<forall>x \<in> set xs. f x = Some (g x)"
  then have "map_throw f xs = Some (map g xs)" by (induction xs) auto
  then show ?thesis by (simp add: map_join_def)
qed

text \<open>A session record as the gateway sends it: its title, id and status are texts or missing.\<close>

definition text_or_missing :: "jsv \<Rightarrow> bool" where
  "text_or_missing v = (case v of Str _ \<Rightarrow> True | _ \<Rightarrow> \<not> truthy v)"

lemma as_str_or: "text_or_missing v \<Longrightarrow> as_str (js_or v (Str d)) = Some (str_of_or v d)"
  by (cases v) (auto simp: text_or_missing_def as_str_def js_or_def str_of_or_def)

lemma text_or_missing_or: "text_or_missing v \<Longrightarrow> text_or_missing w \<Longrightarrow> text_or_missing (js_or v w)"
  by (simp add: js_or_def)


definition and_then :: "('s \<times> bool) \<Rightarrow> ('s \<Rightarrow> 's \<times> bool) \<Rightarrow> 's \<times> bool" where
  "and_then r f = (case r of (s, True) \<Rightarrow> f s | (s, False) \<Rightarrow> (s, False))"

lemmas throw_defs [js_defs] = and_then_def as_str_def map_join_def is_record_def text_or_missing_def

end
