(* ===== verification/JsJson.thy ===== *)
theory JsJson
  imports JsValue
begin

text \<open>
  \<^verbatim>\<open>JSON.stringify\<close> (compact and indented by two) and \<^verbatim>\<open>JSON.parse\<close>. The parser returns \<^const>\<open>None\<close>
  where the code would throw a \<^verbatim>\<open>SyntaxError\<close>; its fuel is the length of the text plus one, and
  every recursive call consumes at least one character first, so it never runs out.
\<close>

section \<open>Printing\<close>

definition quote :: char where
  "quote = CHR 0x22"

definition json_char :: "char \<Rightarrow> string" where
  "json_char c = (if c = CHR 0x22 then [CHR 0x5C, CHR 0x22]
     else if c = CHR 0x5C then [CHR 0x5C, CHR 0x5C]
     else if c = CHR 0x08 then [CHR 0x5C, CHR ''b'']
     else if c = CHR 0x0C then [CHR 0x5C, CHR ''f'']
     else if c = CHR 0x0A then [CHR 0x5C, CHR ''n'']
     else if c = CHR 0x0D then [CHR 0x5C, CHR ''r'']
     else if c = CHR 0x09 then [CHR 0x5C, CHR ''t'']
     else let n = of_char c in
       if n < 32 then [CHR 0x5C] @ ''u00'' @ [hex_digit (n div 16), lower_char (hex_digit (n mod 16))] else [c])"

definition json_quote :: "string \<Rightarrow> string" where
  "json_quote s = [quote] @ concat (map json_char s) @ [quote]"

fun json_num :: "jnum \<Rightarrow> string" where
  "json_num (Fin q) = rat_str q"
| "json_num _ = ''null''"

text \<open>\<^verbatim>\<open>JSON.stringify(v)\<close>: fields whose value is \<^verbatim>\<open>undefined\<close> are dropped, such elements are \<^verbatim>\<open>null\<close>.\<close>

fun stringify :: "jsv \<Rightarrow> string" and str_elems :: "jsv list \<Rightarrow> string list"
  and str_fields :: "(string \<times> jsv) list \<Rightarrow> string list" where
  "stringify Undef = ''null''"
| "stringify Null = ''null''"
| "stringify (Bool b) = (if b then ''true'' else ''false'')"
| "stringify (Num n) = json_num n"
| "stringify (Str s) = json_quote s"
| "stringify (Arr xs) = ''['' @ join '','' (str_elems xs) @ '']''"
| "stringify (Obj kvs) = ''{'' @ join '','' (str_fields kvs) @ ''}''"
| "str_elems [] = []"
| "str_elems (x # xs) = stringify x # str_elems xs"
| "str_fields [] = []"
| "str_fields ((k, v) # kvs) =
     (if v = Undef then str_fields kvs else (json_quote k @ '':'' @ stringify v) # str_fields kvs)"

text \<open>\<^verbatim>\<open>JSON.stringify(v, null, 2)\<close>: the first argument is the current indentation.\<close>

fun stringify2 :: "string \<Rightarrow> jsv \<Rightarrow> string" and str_elems2 :: "string \<Rightarrow> jsv list \<Rightarrow> string list"
  and str_fields2 :: "string \<Rightarrow> (string \<times> jsv) list \<Rightarrow> string list" where
  "stringify2 ind (Arr xs) = (if xs = [] then ''[]''
     else ''['' @ [CHR 0x0A] @ join ('','' @ [CHR 0x0A]) (str_elems2 (ind @ ''  '') xs) @ [CHR 0x0A] @ ind @ '']'')"
| "stringify2 ind (Obj kvs) = (let fs = str_fields2 (ind @ ''  '') kvs in if fs = [] then ''{}''
     else ''{'' @ [CHR 0x0A] @ join ('','' @ [CHR 0x0A]) fs @ [CHR 0x0A] @ ind @ ''}'')"
| "stringify2 ind v = stringify v"
| "str_elems2 ind [] = []"
| "str_elems2 ind (x # xs) = (ind @ stringify2 ind x) # str_elems2 ind xs"
| "str_fields2 ind [] = []"
| "str_fields2 ind ((k, v) # kvs) =
     (if v = Undef then str_fields2 ind kvs
      else (ind @ json_quote k @ '': '' @ stringify2 ind v) # str_fields2 ind kvs)"

section \<open>Parsing\<close>

definition json_ws :: "char \<Rightarrow> bool" where
  "json_ws c = (c = CHR 0x20 \<or> c = CHR 0x09 \<or> c = CHR 0x0A \<or> c = CHR 0x0D)"

definition skip_ws :: "string \<Rightarrow> string" where
  "skip_ws s = dropWhile json_ws s"

text \<open>The UTF-8 bytes of a code point.\<close>

definition utf8_bytes :: "nat \<Rightarrow> string" where
  "utf8_bytes n = (if n < 128 then [char_of n]
     else if n < 2048 then [char_of (192 + n div 64), char_of (128 + n mod 64)]
     else if n < 65536 then [char_of (224 + n div 4096), char_of (128 + n div 64 mod 64), char_of (128 + n mod 64)]
     else [char_of (240 + n div 262144), char_of (128 + n div 4096 mod 64),
           char_of (128 + n div 64 mod 64), char_of (128 + n mod 64)])"

definition read_hex4 :: "string \<Rightarrow> (nat \<times> string) option" where
  "read_hex4 s = (case s of a # b # c # d # r \<Rightarrow>
      (case (hex_val a, hex_val b, hex_val c, hex_val d) of
         (Some w, Some x, Some y, Some z) \<Rightarrow> Some (4096 * w + 256 * x + 16 * y + z, r) | _ \<Rightarrow> None)
    | _ \<Rightarrow> None)"

definition simple_escape :: "char \<Rightarrow> char option" where
  "simple_escape c = (if c = CHR 0x22 then Some (CHR 0x22) else if c = CHR 0x5C then Some (CHR 0x5C)
     else if c = CHR ''/'' then Some (CHR ''/'') else if c = CHR ''b'' then Some (CHR 0x08)
     else if c = CHR ''f'' then Some (CHR 0x0C) else if c = CHR ''n'' then Some (CHR 0x0A)
     else if c = CHR ''r'' then Some (CHR 0x0D) else if c = CHR ''t'' then Some (CHR 0x09) else None)"

text \<open>The body of a string literal, up to and including the closing quote; a surrogate pair is one
  code point.\<close>

definition read_unicode :: "string \<Rightarrow> (string \<times> string) option" where
  "read_unicode s = (case read_hex4 s of None \<Rightarrow> None
     | Some (u, r) \<Rightarrow>
        (if 55296 \<le> u \<and> u < 56320 \<and> starts_with r [CHR 0x5C, CHR ''u'']
         then (case read_hex4 (drop 2 r) of
             Some (l, r') \<Rightarrow> if 56320 \<le> l \<and> l < 57344
               then Some (utf8_bytes (65536 + (u - 55296) * 1024 + (l - 56320)), r')
               else Some (utf8_bytes u, r)
           | None \<Rightarrow> Some (utf8_bytes u, r))
         else Some (utf8_bytes u, r)))"

fun parse_chars :: "nat \<Rightarrow> string \<Rightarrow> (string \<times> string) option" where
  "parse_chars 0 s = None"
| "parse_chars (Suc n) s = (case s of [] \<Rightarrow> None
     | c # r \<Rightarrow>
       if c = CHR 0x22 then Some ([], r)
       else if (of_char c :: nat) < 32 then None
       else if c \<noteq> CHR 0x5C then map_option (\<lambda>(t, u). (c # t, u)) (parse_chars n r)
       else (case r of [] \<Rightarrow> None
         | e # r' \<Rightarrow> if e = CHR ''u''
             then (case read_unicode r' of None \<Rightarrow> None
               | Some (bs, r'') \<Rightarrow> map_option (\<lambda>(t, u). (bs @ t, u)) (parse_chars n r''))
             else (case simple_escape e of None \<Rightarrow> None
               | Some d \<Rightarrow> map_option (\<lambda>(t, u). (d # t, u)) (parse_chars n r'))))"

text \<open>A number literal: no leading zeros, digits on both sides of the point.\<close>

definition read_json_num :: "string \<Rightarrow> (rat \<times> string) option" where
  "read_json_num s = (let neg = starts_with s ''-''; u = (if neg then drop 1 s else s);
       ds = takeWhile is_digit u; r = drop (length ds) u;
       fs = (if starts_with r ''.'' then takeWhile is_digit (drop 1 r) else []);
       r' = (if starts_with r ''.'' then drop (Suc (length fs)) r else r) in
     if ds = [] \<or> (hd ds = CHR ''0'' \<and> length ds > 1) \<or> (starts_with r ''.'' \<and> fs = []) then None
     else (let (e, r'') = read_exponent r';
               q = scale10 (of_nat (digits_val ds) + of_nat (digits_val fs) / 10 ^ length fs) e in
           if r'' = r' \<and> (starts_with r' ''e'' \<or> starts_with r' ''E'') then None
           else Some (if neg then - q else q, r'')))"

text \<open>The parsers of a value, of the rest of an array and of the rest of an object.\<close>

fun parse_value :: "nat \<Rightarrow> string \<Rightarrow> (jsv \<times> string) option"
  and parse_elems :: "nat \<Rightarrow> string \<Rightarrow> (jsv list \<times> string) option"
  and parse_fields :: "nat \<Rightarrow> (string \<times> jsv) list \<Rightarrow> string \<Rightarrow> ((string \<times> jsv) list \<times> string) option" where
  "parse_value 0 s = None"
| "parse_value (Suc n) s = (case skip_ws s of [] \<Rightarrow> None
     | c # r \<Rightarrow>
       if c = CHR ''n'' then (if starts_with r ''ull'' then Some (Null, drop 3 r) else None)
       else if c = CHR ''t'' then (if starts_with r ''rue'' then Some (Bool True, drop 3 r) else None)
       else if c = CHR ''f'' then (if starts_with r ''alse'' then Some (Bool False, drop 4 r) else None)
       else if c = CHR 0x22 then map_option (\<lambda>(t, u). (Str t, u)) (parse_chars (length s) r)
       else if c = CHR ''['' then
         (if starts_with (skip_ws r) '']'' then Some (Arr [], drop 1 (skip_ws r))
          else map_option (\<lambda>(xs, u). (Arr xs, u)) (parse_elems n r))
       else if c = CHR ''{'' then
         (if starts_with (skip_ws r) ''}'' then Some (Obj [], drop 1 (skip_ws r))
          else map_option (\<lambda>(kvs, u). (Obj kvs, u)) (parse_fields n [] r))
       else map_option (\<lambda>(q, u). (Num (Fin q), u)) (read_json_num (c # r)))"
| "parse_elems 0 s = None"
| "parse_elems (Suc n) s = (case parse_value n s of None \<Rightarrow> None
     | Some (v, r) \<Rightarrow> (case skip_ws r of [] \<Rightarrow> None
       | c # t \<Rightarrow> if c = CHR '']'' then Some ([v], t)
           else if c = CHR '','' then map_option (\<lambda>(vs, u). (v # vs, u)) (parse_elems n t) else None))"
| "parse_fields 0 acc s = None"
| "parse_fields (Suc n) acc s = (case skip_ws s of [] \<Rightarrow> None
     | c # r \<Rightarrow> if c \<noteq> CHR 0x22 then None
       else (case parse_chars (length s) r of None \<Rightarrow> None
         | Some (k, t) \<Rightarrow> (case skip_ws t of [] \<Rightarrow> None
           | d # u \<Rightarrow> if d \<noteq> CHR '':'' then None
             else (case parse_value n u of None \<Rightarrow> None
               | Some (v, w) \<Rightarrow> (case skip_ws w of [] \<Rightarrow> None
                 | e # x \<Rightarrow> if e = CHR ''}'' then Some (set_field k v acc, x)
                     else if e = CHR '','' then parse_fields n (set_field k v acc) x else None)))))"

definition json_parse :: "string \<Rightarrow> jsv option" where
  "json_parse s = (case parse_value (Suc (length s)) s of
     Some (v, r) \<Rightarrow> if skip_ws r = [] then Some v else None | None \<Rightarrow> None)"

lemmas json_defs [js_defs] = quote_def json_char_def json_quote_def json_ws_def skip_ws_def
  utf8_bytes_def read_hex4_def simple_escape_def read_unicode_def read_json_num_def json_parse_def

section \<open>Round trip\<close>

text \<open>The values a round trip through JSON preserves: no \<^verbatim>\<open>undefined\<close>, no repeated keys, integer numbers.\<close>

fun json_ok :: "jsv \<Rightarrow> bool" where
  "json_ok Undef = False"
| "json_ok Null = True"
| "json_ok (Bool b) = True"
| "json_ok (Num n) = (case n of Fin q \<Rightarrow> q = of_int \<lfloor>q\<rfloor> | _ \<Rightarrow> False)"
| "json_ok (Str s) = True"
| "json_ok (Arr xs) = list_all json_ok xs"
| "json_ok (Obj kvs) = (distinct (map fst kvs) \<and> list_all (\<lambda>(k, v). json_ok v) kvs)"

subsection \<open>Strings\<close>

lemma hex_val_digit:
  assumes "n < 16"
  shows "hex_val (hex_digit n) = Some n" "hex_val (lower_char (hex_digit n)) = Some n"
proof -
  let ?ns = "[0, 1, 2, 3, 4, 5, 6, 7, 8, 9, 10, 11, 12, 13, 14, 15] :: nat list"
  have "list_all (\<lambda>n. hex_val (hex_digit n) = Some n \<and> hex_val (lower_char (hex_digit n)) = Some n) ?ns"
    by (simp add: uri_defs char_defs char_of_def bit_Suc_0_iff Let_def)
  moreover have "n \<in> set ?ns" using assms by (simp only: list.set insert_iff empty_iff) arith
  ultimately show "hex_val (hex_digit n) = Some n" "hex_val (lower_char (hex_digit n)) = Some n"
    unfolding list_all_iff by blast+
qed

lemma control_escape:
  assumes "(of_char c :: nat) < 32"
  shows "read_unicode (''00'' @ [hex_digit (of_char c div 16), lower_char (hex_digit (of_char c mod 16))] @ r) = Some ([c], r)"
proof -
  let ?n = "of_char c :: nat"
  have "?n div 16 < 16" using assms by linarith
  then have n: "hex_val (hex_digit (?n div 16)) = Some (?n div 16)" "hex_val (lower_char (hex_digit (?n mod 16))) = Some (?n mod 16)"
    by (simp_all add: hex_val_digit)
  have z: "hex_val (CHR ''0'') = Some 0" by code_simp
  have "16 * (?n div 16) + ?n mod 16 = ?n" by simp
  then have "read_hex4 (''00'' @ [hex_digit (?n div 16), lower_char (hex_digit (?n mod 16))] @ r) = Some (?n, r)"
    using n z by (simp add: read_hex4_def)
  then show ?thesis using assms by (simp add: read_unicode_def utf8_bytes_def)
qed

lemma parse_char_step:
  assumes "parse_chars n r = Some (t, u)"
  shows "parse_chars (Suc n) (json_char c @ r) = Some (c # t, u)"
proof -
  let ?n = "of_char c :: nat"
  consider "c \<in> {CHR 0x22, CHR 0x5C, CHR 0x08, CHR 0x0C, CHR 0x0A, CHR 0x0D, CHR 0x09}"
    | "c \<notin> {CHR 0x22, CHR 0x5C, CHR 0x08, CHR 0x0C, CHR 0x0A, CHR 0x0D, CHR 0x09}" "?n < 32"
    | "c \<notin> {CHR 0x22, CHR 0x5C, CHR 0x08, CHR 0x0C, CHR 0x0A, CHR 0x0D, CHR 0x09}" "\<not> ?n < 32" by blast
  then show ?thesis
  proof cases
    case 1
    then show ?thesis using assms by (auto simp: json_char_def simple_escape_def)
  next
    case 2
    then have "json_char c = [CHR 0x5C] @ ''u'' @ ''00'' @ [hex_digit (?n div 16), lower_char (hex_digit (?n mod 16))]"
      by (simp add: json_char_def Let_def)
    then show ?thesis using assms control_escape [OF 2(2)] by simp
  next
    case 3
    then show ?thesis using assms by (auto simp: json_char_def Let_def)
  qed
qed

lemma json_char_length: "0 < length (json_char c)"
  by (simp add: json_char_def Let_def)

lemma parse_chars_quote:
  "length (concat (map json_char s)) < n \<Longrightarrow>
   parse_chars n (concat (map json_char s) @ CHR 0x22 # r) = Some (s, r)"
proof (induction s arbitrary: n)
  case Nil
  then show ?case by (cases n) auto
next
  case (Cons c s)
  then obtain m where n: "n = Suc m" by (cases n) auto
  have "length (json_char c) + length (concat (map json_char s)) < Suc m" using Cons.prems n by simp
  then have "length (concat (map json_char s)) < m" using json_char_length [of c] by linarith
  then show ?case using parse_char_step [OF Cons.IH] n by simp
qed

subsection \<open>Numbers\<close>

lemma nat_str_head: "hd (nat_str n) = CHR ''0'' \<Longrightarrow> length (nat_str n) = 1"
proof (induction n rule: nat_str.induct)
  case (1 n)
  show ?case
  proof (cases "n < 10")
    case True
    then show ?thesis by (subst nat_str.simps) simp
  next
    case False
    have e: "nat_str n = nat_str (n div 10) @ [char_of (48 + n mod 10)]" using False by (subst nat_str.simps) simp
    then have "hd (nat_str (n div 10)) = CHR ''0''" using "1.prems" by simp
    then have "length (nat_str (n div 10)) = 1" using 1(1) False by simp
    then have "nat_str (n div 10) = ''0''" using \<open>hd (nat_str (n div 10)) = CHR ''0''\<close> by (cases "nat_str (n div 10)") auto
    then have "n div 10 = 0" using digits_val_nat_str [of "n div 10"] by (simp add: digits_val_def digit_val_def)
    then show ?thesis using False by simp
  qed
qed

definition number_end :: "string \<Rightarrow> bool" where
  "number_end r = (r = [] \<or> hd r = CHR '','' \<or> hd r = CHR '']'' \<or> hd r = CHR ''}'')"

lemma takeWhile_digits:
  assumes "\<forall>c \<in> set s. is_digit c" and "number_end r"
  shows "takeWhile is_digit (s @ r) = s"
proof -
  have "r = [] \<or> \<not> is_digit (hd r)" using assms(2) by (auto simp: number_end_def is_digit_def)
  then have "takeWhile is_digit r = []" by (cases r) auto
  then show ?thesis using assms(1) by (simp add: takeWhile_append)
qed

lemma read_json_num_digits:
  assumes d: "\<forall>c \<in> set s. is_digit c" "s \<noteq> []" "hd s = CHR ''0'' \<longrightarrow> length s = 1" and r: "number_end r"
  shows "read_json_num (s @ r) = Some (of_nat (digits_val s), r)"
    and "read_json_num (CHR ''-'' # s @ r) = Some (- of_nat (digits_val s), r)"
proof -
  have neg: "\<not> starts_with (s @ r) ''-''" using d(1,2) by (cases s) (auto simp: is_digit_def)
  have dot: "\<not> starts_with r ''.''" "\<not> starts_with r ''e''" "\<not> starts_with r ''E''"
    using r by (cases r; auto simp: number_end_def)+
  have ex: "read_exponent r = (0, r)"
    using r by (cases r) (auto simp: read_exponent_def number_end_def char_defs)
  have b: "\<not> (s = [] \<or> (hd s = CHR ''0'' \<and> 1 < length s))" using d(2,3) by auto
  note w = takeWhile_digits [OF d(1) r]
  show "read_json_num (s @ r) = Some (of_nat (digits_val s), r)"
    using neg dot ex b by (simp add: read_json_num_def w Let_def scale10_def digits_val_def)
  show "read_json_num (CHR ''-'' # s @ r) = Some (- of_nat (digits_val s), r)"
    using dot ex b by (simp add: read_json_num_def w Let_def scale10_def digits_val_def)
qed

lemma read_json_num_int:
  assumes "number_end r"
  shows "read_json_num (rat_str (of_int i) @ r) = Some (of_int i, r)"
proof -
  have d: "\<forall>c \<in> set (nat_str n). is_digit c" "nat_str n \<noteq> []" "hd (nat_str n) = CHR ''0'' \<longrightarrow> length (nat_str n) = 1" for n
    using nat_str_digits nat_str_head by auto
  have "\<lfloor>\<bar>of_int i :: rat\<bar>\<rfloor> = \<bar>i\<bar>" by linarith
  then have s: "rat_str (of_int i) = (if i < 0 then ''-'' else []) @ nat_str (nat \<bar>i\<bar>)" by (simp add: rat_str_def Let_def)
  show ?thesis
    using read_json_num_digits [OF d assms, of "nat \<bar>i\<bar>"] by (cases "i < 0") (simp_all add: s)
qed

subsection \<open>Values\<close>

lemma skip_ws_id: "\<not> json_ws c \<Longrightarrow> skip_ws (c # r) = c # r"
  by (simp add: skip_ws_def)

lemma number_start: "is_digit c \<or> c = CHR ''-'' \<Longrightarrow>
   \<not> json_ws c \<and> c \<noteq> CHR ''n'' \<and> c \<noteq> CHR ''t'' \<and> c \<noteq> CHR ''f'' \<and> c \<noteq> CHR 0x22 \<and> c \<noteq> CHR ''['' \<and>
   c \<noteq> CHR ''{'' \<and> c \<noteq> CHR '']'' \<and> c \<noteq> CHR ''}''"
  by (auto simp: is_digit_def json_ws_def)

lemma json_ok_num: "json_ok (Num n) \<Longrightarrow> \<exists>i. n = Fin (of_int i)"
  by (cases n) auto

lemma rat_str_int_head: "\<exists>c r. rat_str (of_int i) = c # r \<and> (is_digit c \<or> c = CHR ''-'')"
proof -
  obtain c r where "nat_str (nat \<bar>i\<bar>) = c # r" by (cases "nat_str (nat \<bar>i\<bar>)") auto
  moreover from this have "is_digit c" using nat_str_digits [of c "nat \<bar>i\<bar>"] by simp
  moreover have "\<lfloor>\<bar>of_int i :: rat\<bar>\<rfloor> = \<bar>i\<bar>" by linarith
  ultimately show ?thesis by (auto simp: rat_str_def Let_def)
qed

lemma stringify_head:
  assumes "json_ok v"
  shows "\<exists>c r. stringify v = c # r \<and> \<not> json_ws c \<and> c \<noteq> CHR '']'' \<and> c \<noteq> CHR ''}''"
proof (cases v)
  case (Num n)
  then obtain i where i: "n = Fin (of_int i)" using assms json_ok_num by blast
  obtain c r where c: "rat_str (of_int i) = c # r" "is_digit c \<or> c = CHR ''-''" using rat_str_int_head by blast
  show ?thesis using c(1) number_start [OF c(2)] by (simp add: Num i)
qed (use assms in \<open>auto simp: json_quote_def quote_def json_ws_def\<close>)

lemma parse_value_num:
  assumes "number_end r"
  shows "parse_value (Suc n) (rat_str (of_int i) @ r) = Some (Num (Fin (of_int i)), r)"
proof -
  obtain c t where c: "rat_str (of_int i) = c # t" "is_digit c \<or> c = CHR ''-''" using rat_str_int_head by blast
  have "\<not> json_ws c \<and> c \<noteq> CHR ''n'' \<and> c \<noteq> CHR ''t'' \<and> c \<noteq> CHR ''f'' \<and> c \<noteq> CHR 0x22 \<and> c \<noteq> CHR ''['' \<and> c \<noteq> CHR ''{''"
    using number_start [OF c(2)] by simp
  moreover have "read_json_num (c # t @ r) = Some (of_int i, r)" using read_json_num_int [OF assms, of i] c(1) by simp
  ultimately show ?thesis using c(1) by (simp add: skip_ws_id)
qed

text \<open>The text of array elements and of object fields, with the closing bracket.\<close>

definition elems_text :: "jsv list \<Rightarrow> string" where
  "elems_text xs = join '','' (str_elems xs) @ '']''"

definition fields_text :: "(string \<times> jsv) list \<Rightarrow> string" where
  "fields_text kvs = join '','' (str_fields kvs) @ ''}''"

lemma str_elems_map: "str_elems xs = map stringify xs"
  by (induction xs) auto

lemma str_fields_map: "list_all (\<lambda>(k, v). json_ok v) kvs \<Longrightarrow> str_fields kvs = map (\<lambda>(k, v). json_quote k @ '':'' @ stringify v) kvs"
  by (induction kvs) auto

lemma elems_text_Cons:
  "elems_text [x] = stringify x @ '']''" "elems_text (x # y # ys) = stringify x @ '','' @ elems_text (y # ys)"
  by (simp_all add: elems_text_def)

lemma fields_text_Cons:
  assumes "json_ok v"
  shows "fields_text [(k, v)] = json_quote k @ '':'' @ stringify v @ ''}''"
    and "list_all (\<lambda>(k, v). json_ok v) (y # ys) \<Longrightarrow> fields_text ((k, v) # y # ys) = json_quote k @ '':'' @ stringify v @ '','' @ fields_text (y # ys)"
proof -
  have v: "v \<noteq> Undef" using assms by auto
  then show "fields_text [(k, v)] = json_quote k @ '':'' @ stringify v @ ''}''" by (simp add: fields_text_def)
  assume "list_all (\<lambda>(k, v). json_ok v) (y # ys)"
  then have "str_fields (y # ys) \<noteq> []" by (simp only: str_fields_map) simp
  then show "fields_text ((k, v) # y # ys) = json_quote k @ '':'' @ stringify v @ '','' @ fields_text (y # ys)"
    using v by (simp add: fields_text_def join_cons del: str_fields.simps(2)) (simp add: str_fields.simps join_cons)
qed

lemma set_field_new: "k \<notin> fst ` set acc \<Longrightarrow> set_field k v acc = acc @ [(k, v)]"
  by (induction acc) auto

lemma parse_key: "parse_chars (length s) (concat (map json_char k) @ CHR 0x22 # r) = Some (k, r)"
  if "s = json_quote k @ r" for s
  by (rule parse_chars_quote) (simp add: that json_quote_def)

definition parses :: "jsv \<Rightarrow> bool" where
  "parses v = (\<forall>n r. length (stringify v) \<le> n \<longrightarrow> number_end r \<longrightarrow> parse_value (Suc n) (stringify v @ r) = Some (v, r))"

lemma number_end_sep [simp]:
  "number_end (CHR '','' # r)" "number_end (CHR '']'' # r)" "number_end (CHR ''}'' # r)"
  by (simp_all add: number_end_def)

lemma skip_ws_sep [simp]:
  "skip_ws (CHR '','' # r) = CHR '','' # r" "skip_ws (CHR '']'' # r) = CHR '']'' # r" "skip_ws (CHR ''}'' # r) = CHR ''}'' # r"
  "skip_ws (CHR '':'' # r) = CHR '':'' # r" "skip_ws (CHR 0x22 # r) = CHR 0x22 # r" "skip_ws [] = []"
  by (simp_all add: skip_ws_def json_ws_def)

lemma parse_elems_text:
  assumes "xs \<noteq> []" and "\<forall>x \<in> set xs. parses x" and "length (elems_text xs) \<le> n"
  shows "parse_elems (Suc n) (elems_text xs @ r) = Some (xs, r)"
  using assms
proof (induction xs arbitrary: n)
  case (Cons x xs)
  show ?case
  proof (cases xs)
    case Nil
    then obtain m where n: "n = Suc m" "length (stringify x) \<le> m" using Cons.prems(3) by (cases n) (auto simp: elems_text_Cons)
    have "parse_value (Suc m) (stringify x @ CHR '']'' # r) = Some (x, CHR '']'' # r)"
      using Cons.prems(2) n(2) by (simp add: parses_def)
    then show ?thesis using Nil n(1) by (simp add: elems_text_Cons)
  next
    case (Cons y ys)
    have len: "length (stringify x) + 1 + length (elems_text xs) \<le> n" using Cons.prems(3) by (simp add: Cons elems_text_Cons)
    then obtain m where n: "n = Suc m" "length (stringify x) \<le> m" "length (elems_text xs) \<le> m" by (cases n) auto
    let ?r = "elems_text xs @ r"
    have "parse_value (Suc m) (stringify x @ CHR '','' # ?r) = Some (x, CHR '','' # ?r)"
      using Cons.prems(2) n(2) by (simp add: parses_def)
    moreover have "parse_elems (Suc m) ?r = Some (xs, r)" using Cons.IH [of m] Cons.prems(2) Cons n(3) by simp
    ultimately show ?thesis using n(1) by (simp add: Cons elems_text_Cons)
  qed
qed simp

lemma parse_fields_text:
  assumes "kvs \<noteq> []" and "\<forall>(k, v) \<in> set kvs. parses v \<and> json_ok v" and "length (fields_text kvs) \<le> n"
    and "distinct (map fst kvs)" and "fst ` set acc \<inter> fst ` set kvs = {}"
  shows "parse_fields (Suc n) acc (fields_text kvs @ r) = Some (acc @ kvs, r)"
  using assms
proof (induction kvs arbitrary: n acc)
  case (Cons p kvs)
  obtain k v where p: "p = (k, v)" by (cases p)
  have v: "parses v" "json_ok v" using Cons.prems(2) p by auto
  have acc: "set_field k v acc = acc @ [(k, v)]" using Cons.prems(5) p by (auto intro!: set_field_new)
  show ?case
  proof (cases kvs)
    case Nil
    have len: "length (json_quote k) + 2 + length (stringify v) \<le> n" using Cons.prems(3) v(2) by (simp add: Nil p fields_text_Cons)
    then obtain m where n: "n = Suc m" "length (stringify v) \<le> m" by (cases n) auto
    let ?r = "'':'' @ stringify v @ ''}'' @ r"
    have "parse_value (Suc m) (stringify v @ CHR ''}'' # r) = Some (v, CHR ''}'' # r)" using v(1) n(2) by (simp add: parses_def)
    moreover have "parse_chars (length (json_quote k @ ?r)) (concat (map json_char k) @ CHR 0x22 # ?r) = Some (k, ?r)"
      by (rule parse_key) simp
    ultimately show ?thesis using v(2) n(1) acc by (simp add: Nil p fields_text_Cons json_quote_def quote_def)
  next
    case (Cons q qs)
    have all: "list_all (\<lambda>(k, v). json_ok v) (q # qs)" using Cons.prems(2) Cons by (auto simp: list_all_iff)
    note f = fields_text_Cons(2) [OF v(2) all, of k]
    have len: "length (json_quote k) + 2 + length (stringify v) + length (fields_text kvs) \<le> n"
      using Cons.prems(3) by (simp add: Cons p f)
    then obtain m where n: "n = Suc m" "length (stringify v) \<le> m" "length (fields_text kvs) \<le> m" by (cases n) auto
    let ?t = "fields_text kvs @ r"
    let ?r = "'':'' @ stringify v @ '','' @ ?t"
    have "parse_value (Suc m) (stringify v @ CHR '','' # ?t) = Some (v, CHR '','' # ?t)" using v(1) n(2) by (simp add: parses_def)
    moreover have "parse_chars (length (json_quote k @ ?r)) (concat (map json_char k) @ CHR 0x22 # ?r) = Some (k, ?r)"
      by (rule parse_key) simp
    moreover have "parse_fields (Suc m) (acc @ [(k, v)]) ?t = Some ((acc @ [(k, v)]) @ kvs, r)"
      using Cons.prems Cons n(3) p by (intro Cons.IH) auto
    ultimately show ?thesis using n(1) acc by (simp add: Cons p f json_quote_def quote_def)
  qed
qed simp

lemma parse_string: "parse_value (Suc n) (json_quote s @ r) = Some (Str s, r)"
proof -
  have "parse_chars (length (json_quote s @ r)) (concat (map json_char s) @ CHR 0x22 # r) = Some (s, r)" by (rule parse_key) simp
  then show ?thesis by (simp add: json_quote_def quote_def)
qed

lemma json_ok_parses: "json_ok v \<Longrightarrow> parses v"
proof (induction v)
  case (Num n)
  then obtain i where "n = Fin (of_int i)" using json_ok_num by blast
  then show ?case by (simp add: parses_def parse_value_num del: parse_value.simps)
next
  case (Str s)
  then show ?case by (simp add: parses_def parse_string del: parse_value.simps)
next
  case (Arr xs)
  have p: "\<forall>x \<in> set xs. parses x" using Arr by (auto simp: list_all_iff)
  show ?case unfolding parses_def
  proof (intro allI impI)
    fix n r assume n: "length (stringify (Arr xs)) \<le> n"
    show "parse_value (Suc n) (stringify (Arr xs) @ r) = Some (Arr xs, r)"
    proof (cases xs)
      case Nil
      then show ?thesis by (simp add: skip_ws_def json_ws_def)
    next
      case (Cons x ys)
      have t: "stringify (Arr xs) = CHR ''['' # elems_text xs" by (simp add: elems_text_def)
      obtain m where m: "n = Suc m" "length (elems_text xs) \<le> m" using n unfolding t by (cases n) auto
      have "json_ok x" using Arr.prems Cons by simp
      then obtain c u where c: "stringify x = c # u" "\<not> json_ws c" "c \<noteq> CHR '']''" using stringify_head by blast
      then obtain w where w: "elems_text xs = c # w" by (cases ys) (simp_all add: Cons elems_text_Cons)
      have "parse_elems (Suc m) (c # w @ r) = Some (xs, r)"
        using parse_elems_text [OF _ p m(2), of r] Cons w by simp
      then show ?thesis using c w t m(1) by (simp add: skip_ws_def json_ws_def)
    qed
  qed
next
  case (Obj kvs)
  have p: "\<forall>(k, v) \<in> set kvs. parses v \<and> json_ok v" using Obj by (fastforce simp: list_all_iff)
  show ?case unfolding parses_def
  proof (intro allI impI)
    fix n r assume n: "length (stringify (Obj kvs)) \<le> n"
    show "parse_value (Suc n) (stringify (Obj kvs) @ r) = Some (Obj kvs, r)"
    proof (cases kvs)
      case Nil
      then show ?thesis by (simp add: skip_ws_def json_ws_def)
    next
      case (Cons q qs)
      obtain k v where q: "q = (k, v)" by (cases q)
      have t: "stringify (Obj kvs) = CHR ''{'' # fields_text kvs" by (simp add: fields_text_def)
      obtain m where m: "n = Suc m" "length (fields_text kvs) \<le> m" using n unfolding t by (cases n) auto
      have v: "json_ok v" "list_all (\<lambda>(k, v). json_ok v) qs" using Obj.prems Cons q by auto
      obtain w where w: "fields_text kvs = CHR 0x22 # w"
        using v fields_text_Cons(1) [OF v(1), where k = k] fields_text_Cons(2) [OF v(1), where k = k] by (cases qs) (simp_all add: Cons q json_quote_def quote_def)
      have "parse_fields (Suc m) [] (CHR 0x22 # w @ r) = Some (kvs, r)"
        using parse_fields_text [OF _ p m(2), of "[]" r] Obj.prems Cons w by simp
      then show ?thesis using w t m(1) by (simp add: skip_ws_def json_ws_def)
    qed
  qed
qed (auto simp: parses_def skip_ws_def json_ws_def)

lemma json_round_trip: "json_ok v \<Longrightarrow> json_parse (stringify v) = Some v"
proof -
  assume "json_ok v"
  then have "parse_value (Suc (length (stringify v))) (stringify v @ []) = Some (v, [])"
    using json_ok_parses [of v] unfolding parses_def number_end_def by blast
  then show ?thesis by (simp add: json_parse_def del: parse_value.simps)
qed

end
