(* ===== verification/JsWeb.thy ===== *)
theory JsWeb
  imports JsJson
begin

text \<open>
  The browser as the portal scripts see it: the page's elements with an id, the two web storages,
  the cookie string, navigation, dialogs, and \<^verbatim>\<open>fetch\<close>. The gateway is not part of the repository's
  scripts: it is a parameter, an arbitrary function \<open>server\<close> from the requests sent so far and the
  current request to the outcome, so a theorem that holds for all servers holds for every sequence of
  replies. All requests are recorded in the order they are issued.
\<close>

section \<open>Storage\<close>

text \<open>\<^verbatim>\<open>localStorage\<close> and \<^verbatim>\<open>sessionStorage\<close>. A browser can refuse access altogether or refuse to write
  (private mode, quota), and the code then sees an exception.\<close>

record storage =
  items :: "string \<rightharpoonup> string"
  can_read :: bool
  can_write :: bool

text \<open>Outer \<^const>\<open>None\<close>: the call throws; inner \<^const>\<open>None\<close>: the call returns \<^verbatim>\<open>null\<close>.\<close>

definition get_item :: "string \<Rightarrow> storage \<Rightarrow> string option option" where
  "get_item k st = (if can_read st then Some (items st k) else None)"

definition set_item :: "string \<Rightarrow> string \<Rightarrow> storage \<Rightarrow> storage option" where
  "set_item k v st = (if can_write st then Some (st\<lparr>items := (items st)(k \<mapsto> v)\<rparr>) else None)"

definition remove_item :: "string \<Rightarrow> storage \<Rightarrow> storage option" where
  "remove_item k st = (if can_read st then Some (st\<lparr>items := (items st)(k := None)\<rparr>) else None)"

text \<open>\<^verbatim>\<open>try { storage.setItem(k, v); } catch (_) {}\<close> and the same for \<^verbatim>\<open>removeItem\<close>.\<close>

definition try_set_item :: "string \<Rightarrow> string \<Rightarrow> storage \<Rightarrow> storage" where
  "try_set_item k v st = (case set_item k v st of Some st' \<Rightarrow> st' | None \<Rightarrow> st)"

definition try_remove_item :: "string \<Rightarrow> storage \<Rightarrow> storage" where
  "try_remove_item k st = (case remove_item k st of Some st' \<Rightarrow> st' | None \<Rightarrow> st)"

text \<open>A read whose result is used as a text, \<^verbatim>\<open>null\<close> counting as the empty text.\<close>

definition item_text :: "string option \<Rightarrow> string" where
  "item_text r = (case r of Some s \<Rightarrow> s | None \<Rightarrow> [])"

definition stored :: "storage \<Rightarrow> string \<Rightarrow> string" where
  "stored st k = item_text (items st k)"

lemmas storage_defs [js_defs] = get_item_def set_item_def remove_item_def try_set_item_def
  try_remove_item_def item_text_def stored_def

lemma try_set_item_access [simp]:
  "can_read (try_set_item k v st) = can_read st" "can_write (try_set_item k v st) = can_write st"
  by (simp_all add: storage_defs)

lemma try_remove_item_access [simp]:
  "can_read (try_remove_item k st) = can_read st" "can_write (try_remove_item k st) = can_write st"
  by (simp_all add: storage_defs)

lemma items_try_set_item: "items (try_set_item k v st) = (if can_write st then (items st)(k \<mapsto> v) else items st)"
  by (simp add: storage_defs)

lemma items_try_remove_item: "items (try_remove_item k st) = (if can_read st then (items st)(k := None) else items st)"
  by (simp add: storage_defs)

section \<open>Elements\<close>

text \<open>What an element shows is the last of \<^verbatim>\<open>textContent\<close>, \<^verbatim>\<open>innerHTML\<close> and child nodes the code gave it.\<close>

datatype node = Node (tag: string) (cls: string) (attrs: "(string \<times> string) list") (label: string)
  (kids: "node list")

datatype content = Text string | Html string | Kids "node list"

record elem =
  content :: content
  val :: string
  classes :: "string list"
  disabled :: bool
  hidden :: bool
  style :: "string \<rightharpoonup> string"
  attr :: "string \<rightharpoonup> string"
  dataset :: "string \<rightharpoonup> string"

definition blank :: elem where
  "blank = \<lparr>content = Text [], val = [], classes = [], disabled = False, hidden = False,
     style = Map.empty, attr = Map.empty, dataset = Map.empty\<rparr>"

definition text_of :: "elem \<Rightarrow> string" where
  "text_of e = (case content e of Text s \<Rightarrow> s | Html s \<Rightarrow> s | Kids _ \<Rightarrow> [])"

abbreviation set_text :: "string \<Rightarrow> elem \<Rightarrow> elem" where
  "set_text s e \<equiv> e\<lparr>content := Text s\<rparr>"

abbreviation set_html :: "string \<Rightarrow> elem \<Rightarrow> elem" where
  "set_html s e \<equiv> e\<lparr>content := Html s\<rparr>"

abbreviation set_style :: "string \<Rightarrow> string \<Rightarrow> elem \<Rightarrow> elem" where
  "set_style k v e \<equiv> e\<lparr>style := (style e)(k \<mapsto> v)\<rparr>"

abbreviation set_attr :: "string \<Rightarrow> string \<Rightarrow> elem \<Rightarrow> elem" where
  "set_attr k v e \<equiv> e\<lparr>attr := (attr e)(k \<mapsto> v)\<rparr>"

abbreviation set_data :: "string \<Rightarrow> string \<Rightarrow> elem \<Rightarrow> elem" where
  "set_data k v e \<equiv> e\<lparr>dataset := (dataset e)(k \<mapsto> v)\<rparr>"

text \<open>\<^verbatim>\<open>classList.add\<close>, \<^verbatim>\<open>classList.remove\<close> and \<^verbatim>\<open>classList.toggle(c, force)\<close>.\<close>

definition add_class :: "string \<Rightarrow> elem \<Rightarrow> elem" where
  "add_class c e = (if c \<in> set (classes e) then e else e\<lparr>classes := classes e @ [c]\<rparr>)"

definition remove_class :: "string \<Rightarrow> elem \<Rightarrow> elem" where
  "remove_class c e = e\<lparr>classes := filter (\<lambda>d. d \<noteq> c) (classes e)\<rparr>"

definition toggle_class :: "string \<Rightarrow> bool \<Rightarrow> elem \<Rightarrow> elem" where
  "toggle_class c force e = (if force then add_class c e else remove_class c e)"

lemma toggle_class_iff [simp]: "c \<in> set (classes (toggle_class c force e)) \<longleftrightarrow> force"
  by (auto simp: toggle_class_def add_class_def remove_class_def)

type_synonym dom = "string \<rightharpoonup> elem"

text \<open>\<^verbatim>\<open>const el = document.getElementById(id); if (el) ...\<close>.\<close>

definition upd_elem :: "string \<Rightarrow> (elem \<Rightarrow> elem) \<Rightarrow> dom \<Rightarrow> dom" where
  "upd_elem i f d = (case d i of None \<Rightarrow> d | Some e \<Rightarrow> d(i \<mapsto> f e))"

lemma upd_elem_same [simp]: "upd_elem i f d i = map_option f (d i)"
  by (simp add: upd_elem_def split: option.splits)

lemma upd_elem_other [simp]: "i \<noteq> j \<Longrightarrow> upd_elem i f d j = d j"
  by (simp add: upd_elem_def split: option.splits)

lemma dom_upd_elem [simp]: "dom (upd_elem i f d) = dom d"
  by (auto simp: upd_elem_def split: option.splits)

lemmas elem_defs [js_defs] = blank_def text_of_def add_class_def remove_class_def toggle_class_def
  upd_elem_def

section \<open>Requests and responses\<close>

record request =
  url :: string
  http_method :: string
  headers :: "(string \<times> string) list"
  body :: "string option"
  credentials :: string

definition get_request :: "string \<Rightarrow> request" where
  "get_request u = \<lparr>url = u, http_method = ''GET'', headers = [], body = None, credentials = ''same-origin''\<rparr>"

record response =
  status :: nat
  ctype :: string
  rheaders :: "string \<rightharpoonup> string"
  rtext :: string

definition ok :: "response \<Rightarrow> bool" where
  "ok r = (200 \<le> status r \<and> status r \<le> 299)"

text \<open>\<^verbatim>\<open>await response.json()\<close>; \<^const>\<open>None\<close>: the promise is rejected.\<close>

definition rjson :: "response \<Rightarrow> jsv option" where
  "rjson r = json_parse (rtext r)"

text \<open>\<^verbatim>\<open>await fetch(...)\<close> is rejected with a message, or gives a response.\<close>

datatype fetched = Rejected string | Resp response

type_synonym server = "request list \<Rightarrow> request \<Rightarrow> fetched"

section \<open>The browser\<close>

datatype navigation = Assign string | Replace string | Reload | Open string

record location =
  hostname :: string
  origin :: string
  pathname :: string
  protocol :: string
  query :: "string \<rightharpoonup> string"

record browser =
  localStorage :: storage
  sessionStorage :: storage
  cookie :: string
  page :: dom
  sent :: "request list"
  navs :: "navigation list"
  alerts :: "string list"

definition do_fetch :: "server \<Rightarrow> request \<Rightarrow> 'a browser_scheme \<Rightarrow> fetched \<times> 'a browser_scheme" where
  "do_fetch srv rq b = (srv (sent b) rq, b\<lparr>sent := sent b @ [rq]\<rparr>)"

text \<open>A request whose reply is treated by another function.\<close>

definition issue :: "request \<Rightarrow> 'a browser_scheme \<Rightarrow> 'a browser_scheme" where
  "issue rq s = s\<lparr>sent := sent s @ [rq]\<rparr>"

lemma do_fetch_sent [simp]: "sent (snd (do_fetch srv rq b)) = sent b @ [rq]"
  by (simp add: do_fetch_def)

abbreviation on_elem :: "string \<Rightarrow> (elem \<Rightarrow> elem) \<Rightarrow> 'a browser_scheme \<Rightarrow> 'a browser_scheme" where
  "on_elem i f b \<equiv> b\<lparr>page := upd_elem i f (page b)\<rparr>"

definition navigate :: "navigation \<Rightarrow> 'a browser_scheme \<Rightarrow> 'a browser_scheme" where
  "navigate n b = b\<lparr>navs := navs b @ [n]\<rparr>"

definition alert :: "string \<Rightarrow> 'a browser_scheme \<Rightarrow> 'a browser_scheme" where
  "alert m b = b\<lparr>alerts := alerts b @ [m]\<rparr>"

definition put_local :: "string \<Rightarrow> string \<Rightarrow> 'a browser_scheme \<Rightarrow> 'a browser_scheme" where
  "put_local k v b = b\<lparr>localStorage := try_set_item k v (localStorage b)\<rparr>"

lemmas browser_defs [js_defs] = get_request_def ok_def rjson_def do_fetch_def navigate_def alert_def
  put_local_def

end
