(* ===== verification/AgentAuth.thy ===== *)
theory AgentAuth
  imports JsWeb
begin

text \<open>
  \<^verbatim>\<open>src/portal/agent-workspace/auth.js\<close>: which token the Agent Workspace sends, and how it is attached
  to a request. The file's header promises fail-closed token resolution: no fallback token is ever
  made up.
\<close>

section \<open>Token resolution\<close>

definition is_quote :: "char \<Rightarrow> bool" where
  "is_quote c = (c = CHR 0x22 \<or> c = CHR 0x27 \<or> c = CHR 0x60)"

text \<open>The replacement of \<^verbatim>\<open>/^["'`]|["'`]$/g\<close> by the empty text: one quote at the start, one at the end.\<close>

definition strip_quotes :: "string \<Rightarrow> string" where
  "strip_quotes s = (let t = (case s of c # r \<Rightarrow> if is_quote c then r else s | [] \<Rightarrow> []) in
     if t \<noteq> [] \<and> is_quote (last t) then butlast t else t)"

text \<open>The replacement of \<^verbatim>\<open>/^Bearer\s+/i\<close> by the empty text.\<close>

definition strip_bearer :: "string \<Rightarrow> string" where
  "strip_bearer s = (let r = drop 6 s in
     if starts_with (lower s) ''bearer'' \<and> r \<noteq> [] \<and> is_ws (hd r) then dropWhile is_ws r else s)"

text \<open>\<^verbatim>\<open>document.cookie.match(/(?:^|;\s*)cm_session=([^;]+)/)\<close>: the group of the leftmost match.\<close>

definition cookie_value :: "string \<Rightarrow> string option" where
  "cookie_value s = (if starts_with s ''cm_session='' then
     (let v = takeWhile (\<lambda>c. c \<noteq> CHR '';'') (drop 11 s) in if v = [] then None else Some v) else None)"

fun cookie_search :: "string \<Rightarrow> string option" where
  "cookie_search [] = None"
| "cookie_search (c # s) = (if c = CHR '';'' then
     (case cookie_value (dropWhile is_ws s) of Some v \<Rightarrow> Some v | None \<Rightarrow> cookie_search s)
     else cookie_search s)"

definition cookie_match :: "string \<Rightarrow> string option" where
  "cookie_match s = (case cookie_value s of Some v \<Rightarrow> Some v | None \<Rightarrow> cookie_search s)"

definition token_keys :: "string list" where
  "token_keys = [''cm_auth_token'', ''cm_session_token'', ''cm_api_key'', ''apiKey'']"

text \<open>\<^verbatim>\<open>localStorage.getItem(k1) || localStorage.getItem(k2) || ...\<close>, \<^verbatim>\<open>null\<close> being read as the empty text.\<close>

fun first_stored :: "storage \<Rightarrow> string list \<Rightarrow> string" where
  "first_stored st [] = []"
| "first_stored st (k # ks) = (if stored st k = [] then first_stored st ks else stored st k)"

definition resolveAuthToken :: "'a browser_scheme \<Rightarrow> string option" where
  "resolveAuthToken b =
     (if \<not> can_read (localStorage b) then None
      else let explicit = first_stored (localStorage b) token_keys in
        if explicit \<noteq> [] \<and> trim explicit \<noteq> [] then Some (strip_bearer (strip_quotes (trim explicit)))
        else (case cookie_match (cookie b) of None \<Rightarrow> None
          | Some v \<Rightarrow> map_option trim (decodeURIComponent v)))"

section \<open>Authenticated requests\<close>

record options =
  o_method :: string
  o_headers :: "(string \<times> string) list"
  o_body :: "string option"

definition no_options :: options where
  "no_options = \<lparr>o_method = ''GET'', o_headers = [], o_body = None\<rparr>"

definition post_json :: "jsv \<Rightarrow> options" where
  "post_json v = \<lparr>o_method = ''POST'', o_headers = [], o_body = Some (stringify v)\<rparr>"

definition auth_headers :: "(string \<times> string) list \<Rightarrow> 'a browser_scheme \<Rightarrow> (string \<times> string) list" where
  "auth_headers hs b = (let h = assign [(''Content-Type'', ''application/json'')] hs in
     case resolveAuthToken b of
       None \<Rightarrow> h
     | Some t \<Rightarrow> if t = [] then h else set_field ''Authorization'' (''Bearer '' @ t) h)"

definition auth_request :: "string \<Rightarrow> options \<Rightarrow> 'a browser_scheme \<Rightarrow> request" where
  "auth_request u opts b = \<lparr>url = u, http_method = o_method opts, headers = auth_headers (o_headers opts) b,
     body = o_body opts, credentials = ''include''\<rparr>"

definition fetchWithAuth :: "server \<Rightarrow> string \<Rightarrow> options \<Rightarrow> 'a browser_scheme \<Rightarrow> fetched \<times> 'a browser_scheme" where
  "fetchWithAuth srv u opts b = do_fetch srv (auth_request u opts b) b"

lemmas auth_defs [js_defs] = is_quote_def strip_quotes_def strip_bearer_def cookie_value_def
  cookie_match_def token_keys_def resolveAuthToken_def no_options_def post_json_def auth_headers_def
  auth_request_def fetchWithAuth_def

section \<open>Lemmas\<close>

lemma resolve_blocked: "\<not> can_read (localStorage b) \<Longrightarrow> resolveAuthToken b = None"
  by (simp add: resolveAuthToken_def)

lemma first_stored_Nil_iff: "first_stored st ks = [] \<longleftrightarrow> (\<forall>k \<in> set ks. stored st k = [])"
  by (induction ks) auto

lemma first_stored_in: "first_stored st ks \<noteq> [] \<Longrightarrow> \<exists>k \<in> set ks. stored st k = first_stored st ks"
  by (induction ks) auto

lemma set_strip_quotes: "set (strip_quotes s) \<subseteq> set s"
  by (cases s) (auto simp: strip_quotes_def Let_def dest: in_set_butlastD)

lemma set_strip_bearer: "set (strip_bearer s) \<subseteq> set s"
  by (auto simp: strip_bearer_def Let_def dest!: set_dropWhile_subset [THEN subsetD] in_set_dropD)

text \<open>No token without a source: with nothing stored under the four keys and no session cookie, there is
  no token.\<close>

lemma no_source_no_token:
  assumes "\<forall>k \<in> set token_keys. stored (localStorage b) k = []" and "cookie_match (cookie b) = None"
  shows "resolveAuthToken b = None"
  using assms by (simp add: resolveAuthToken_def first_stored_Nil_iff [THEN iffD2])

lemma auth_headers_lookup:
  assumes "''Authorization'' \<notin> fst ` set hs"
  shows "map_of (auth_headers hs b) ''Authorization'' =
    (case resolveAuthToken b of None \<Rightarrow> None | Some t \<Rightarrow> if t = [] then None else Some (''Bearer '' @ t))"
proof -
  have "map_of (rev hs) ''Authorization'' = None"
    using assms by (auto simp: map_of_eq_None_iff)
  then have "map_of (assign [(''Content-Type'', ''application/json'')] hs) ''Authorization'' = None"
    by (simp add: map_of_assign)
  then show ?thesis
    by (auto simp: auth_headers_def map_of_set_field Let_def split: option.splits)
qed

lemma fetchWithAuth_sent [simp]: "sent (snd (fetchWithAuth srv u opts b)) = sent b @ [auth_request u opts b]"
  by (simp add: fetchWithAuth_def)

text \<open>A token proper has no white space and no quotes. Users paste it quoted, padded or with the
  scheme in front.\<close>

definition plain_token :: "string \<Rightarrow> bool" where
  "plain_token t = (t \<noteq> [] \<and> (\<forall>c \<in> set t. \<not> is_ws c \<and> \<not> is_quote c))"

lemma plain_token_ends:
  "plain_token t \<Longrightarrow> t \<noteq> [] \<and> \<not> is_ws (hd t) \<and> \<not> is_ws (last t) \<and> \<not> is_quote (hd t) \<and> \<not> is_quote (last t)"
  by (auto simp: plain_token_def)

lemma strip_bearer_plain: "plain_token t \<Longrightarrow> strip_bearer t = t"
proof -
  assume t: "plain_token t"
  have "\<not> is_ws (hd (drop 6 t))" if "drop 6 t \<noteq> []"
    using t in_set_dropD [OF hd_in_set [OF that]] by (simp add: plain_token_def)
  then show ?thesis by (auto simp: strip_bearer_def Let_def)
qed

lemma strip_bearer_scheme:
  assumes "plain_token t"
  shows "strip_bearer (''Bearer '' @ t) = t"
  using plain_token_ends [OF assms] by (cases t) (auto simp: strip_bearer_def lower_def char_defs)

lemma strip_quotes_none: "s \<noteq> [] \<Longrightarrow> \<not> is_quote (hd s) \<Longrightarrow> \<not> is_quote (last s) \<Longrightarrow> strip_quotes s = s"
  by (cases s) (auto simp: strip_quotes_def)

lemma strip_quotes_wrapped: "is_quote q \<Longrightarrow> strip_quotes (q # s @ [q]) = s"
  by (simp add: strip_quotes_def)

lemma quote_not_ws: "is_quote q \<Longrightarrow> \<not> is_ws q"
  by (auto simp: is_quote_def is_ws_def)

lemma resolve_pasted:
  assumes "can_read (localStorage b)" and "first_stored (localStorage b) token_keys = u @ core @ v"
    and "\<forall>c \<in> set u. is_ws c" and "\<forall>c \<in> set v. is_ws c"
    and "core \<noteq> []" and "\<not> is_ws (hd core)" and "\<not> is_ws (last core)"
  shows "resolveAuthToken b = Some (strip_bearer (strip_quotes core))"
  using assms trim_pad [OF assms(3-7)] by (simp add: resolveAuthToken_def)

section \<open>Properties\<close>

text \<open>C4. Fail-closed authentication: a request built by \<^verbatim>\<open>fetchWithAuth\<close> (with no \<^verbatim>\<open>Authorization\<close> header among
  the caller's options) carries an \<^verbatim>\<open>Authorization\<close> header exactly when a non-empty token was resolved, and
  then the header is that token; with unreadable storage, or with nothing stored under the four keys
  and no session cookie, there is none. The session cookie is always allowed along.\<close>

theorem fetchWithAuth_fail_closed:
  assumes "''Authorization'' \<notin> fst ` set (o_headers opts)"
  shows "sent (snd (fetchWithAuth srv u opts b)) = sent b @ [auth_request u opts b] \<and>
    credentials (auth_request u opts b) = ''include'' \<and>
    (\<forall>t. map_of (headers (auth_request u opts b)) ''Authorization'' = Some (''Bearer '' @ t) \<longleftrightarrow>
       resolveAuthToken b = Some t \<and> t \<noteq> []) \<and>
    (resolveAuthToken b = None \<or> resolveAuthToken b = Some [] \<longleftrightarrow>
       map_of (headers (auth_request u opts b)) ''Authorization'' = None) \<and>
    (\<not> can_read (localStorage b) \<or>
       (\<forall>k \<in> set token_keys. stored (localStorage b) k = []) \<and> cookie_match (cookie b) = None \<longrightarrow>
       map_of (headers (auth_request u opts b)) ''Authorization'' = None)"
  using auth_headers_lookup [OF assms, of b] resolve_blocked [of b] no_source_no_token [of b]
  by (auto simp: auth_request_def split: option.splits if_splits)

definition key_browser :: "string \<Rightarrow> string \<Rightarrow> browser" where
  "key_browser k v = \<lparr>localStorage = \<lparr>items = [k \<mapsto> v], can_read = True, can_write = True\<rparr>,
     sessionStorage = \<lparr>items = Map.empty, can_read = True, can_write = True\<rparr>, cookie = [],
     page = Map.empty, sent = [], navs = [], alerts = []\<rparr>"

theorem fetchWithAuth_fail_closed_witness:
  "map_of (headers (auth_request ''/v1/models'' no_options (key_browser ''apiKey'' ''k1''))) ''Authorization''
     = Some (''Bearer '' @ ''k1'')"
proof -
  have h: "''Authorization'' \<notin> fst ` set (o_headers no_options)" by (simp add: no_options_def)
  have "resolveAuthToken (key_browser ''apiKey'' ''k1'') = Some ''k1''"
    by (simp add: key_browser_def js_defs)
  then show ?thesis
    using fetchWithAuth_fail_closed [OF h, of "\<lambda>_ _. Rejected []" "''/v1/models''" "key_browser ''apiKey'' ''k1''"]
    by simp
qed

text \<open>Pasted tokens: whatever combination of surrounding white space, one pair of quotes and a \<^verbatim>\<open>Bearer\<close> scheme
  a user stored a token with, the first non-empty of the four keys yields the bare token, so the header
  never doubles the scheme.\<close>

theorem resolveAuthToken_normalises:
  assumes "plain_token t" and "can_read (localStorage b)"
    and "core \<in> {t, ''Bearer '' @ t} \<union> {q # t @ [q] |q. is_quote q} \<union> {q # (''Bearer '' @ t) @ [q] |q. is_quote q}"
    and "first_stored (localStorage b) token_keys = u @ core @ v"
    and "\<forall>c \<in> set u. is_ws c" and "\<forall>c \<in> set v. is_ws c"
  shows "resolveAuthToken b = Some t"
proof -
  note t = plain_token_ends [OF assms(1)]
  have B: "\<not> is_ws (CHR ''B'')" "\<not> is_quote (CHR ''B'')" by (simp_all add: is_ws_def is_quote_def)
  have "core \<noteq> [] \<and> \<not> is_ws (hd core) \<and> \<not> is_ws (last core)"
    using assms(3) t B by (auto simp: quote_not_ws)
  moreover have "strip_bearer (strip_quotes core) = t"
  proof -
    have "strip_quotes t = t" "strip_quotes (''Bearer '' @ t) = ''Bearer '' @ t"
      using t B by (simp_all add: strip_quotes_none)
    then show ?thesis
      using assms(3) strip_bearer_plain [OF assms(1)] strip_bearer_scheme [OF assms(1)]
        strip_quotes_wrapped [of _ t] strip_quotes_wrapped [of _ "''Bearer '' @ t"] by auto
  qed
  ultimately show ?thesis using resolve_pasted [OF assms(2,4,5,6)] by simp
qed

theorem resolveAuthToken_normalises_witness:
  "resolveAuthToken (key_browser ''cm_api_key'' ('' '' @ (CHR 0x22 # (''Bearer '' @ ''k1'') @ [CHR 0x22]) @ [])) = Some ''k1''"
  by (rule resolveAuthToken_normalises [where u = "'' ''" and v = "[]" and core = "CHR 0x22 # (''Bearer '' @ ''k1'') @ [CHR 0x22]"])
    (auto simp: key_browser_def plain_token_def js_defs)

end
