(* ===== verification/AgentState.thy ===== *)
theory AgentState
  imports AgentAuth
begin

text \<open>
  \<^verbatim>\<open>src/portal/agent-workspace/state.js\<close>: the client-side state of the Agent Workspace and the
  operations that synchronise it with the gateway. Every operation is an \<^verbatim>\<open>async\<close> function whose body is
  one \<^verbatim>\<open>try\<close> block; a rejected promise or an exception leaves what was assigned before it and returns
  the fallback. The part of \<^verbatim>\<open>loadEvents\<close> that runs after the response has arrived is a definition of its
  own, \<open>loadEvents_resume\<close>, because other handlers can run while the request is in flight.
\<close>

section \<open>State\<close>

record agent_state = browser +
  allSessions :: "jsv list"
  activeSessionId :: jsv
  activeSession :: jsv
  events :: "jsv list"
  artifacts :: "jsv list"
  approvals :: "jsv list"
  currentTab :: string
  composerMode :: string
  eventCursor :: jnum
  nodes :: "jsv list"
  workspaces :: "jsv list"
  activeNodeId :: jsv
  activeWorkspaceId :: jsv
  activeWorkspace :: jsv
  models :: "jsv list"

definition initial_state :: "browser \<Rightarrow> agent_state" where
  "initial_state b = browser.extend b
     \<lparr>allSessions = [], activeSessionId = Null, activeSession = Null, events = [], artifacts = [],
      approvals = [], currentTab = ''active'', composerMode = ''queue'', eventCursor = Fin 0, nodes = [],
      workspaces = [], activeNodeId = Null, activeWorkspaceId = Null, activeWorkspace = Null, models = []\<rparr>"

text \<open>\<^verbatim>\<open>xs.find(x => x.k === v)\<close>; outer \<^const>\<open>None\<close>: an element without properties was reached first.\<close>

fun find_prop :: "string \<Rightarrow> jsv \<Rightarrow> jsv list \<Rightarrow> jsv option" where
  "find_prop k v [] = Some Undef"
| "find_prop k v (x # xs) = (case get_prop x k of None \<Rightarrow> None
     | Some y \<Rightarrow> if strict_eq y v then Some x else find_prop k v xs)"

definition first_or_undef :: "jsv list \<Rightarrow> jsv" where
  "first_or_undef xs = (case xs of [] \<Rightarrow> Undef | x # _ \<Rightarrow> x)"

section \<open>Workspaces and nodes\<close>

text \<open>The two selections \<^verbatim>\<open>loadFleetWorkspaces\<close> makes after storing the lists; \<^const>\<open>None\<close> is a thrown
  \<^verbatim>\<open>TypeError\<close>.\<close>

definition select_node :: "jsv \<Rightarrow> 'a agent_state_scheme \<Rightarrow> 'a agent_state_scheme option" where
  "select_node data s =
     (if \<not> truthy (activeNodeId s) \<and> truthy (and_prop data ''active_node_id'')
      then Some (s\<lparr>activeNodeId := and_prop data ''active_node_id''\<rparr>)
      else if \<not> truthy (activeNodeId s) \<and> nodes s \<noteq> []
      then map_option (\<lambda>v. s\<lparr>activeNodeId := v\<rparr>) (get_prop (hd (nodes s)) ''node_id'')
      else Some s)"

definition select_workspace :: "'a agent_state_scheme \<Rightarrow> 'a agent_state_scheme option" where
  "select_workspace s =
     (if \<not> truthy (activeWorkspaceId s) \<and> workspaces s \<noteq> []
      then map_option (\<lambda>v. s\<lparr>activeWorkspaceId := v, activeWorkspace := hd (workspaces s)\<rparr>)
             (get_prop (hd (workspaces s)) ''id'')
      else if truthy (activeWorkspaceId s)
      then map_option (\<lambda>w. s\<lparr>activeWorkspace := js_or (js_or w (first_or_undef (workspaces s))) Null\<rparr>)
             (find_prop ''id'' (activeWorkspaceId s) (workspaces s))
      else Some s)"

definition store_fleet :: "jsv \<Rightarrow> 'a agent_state_scheme \<Rightarrow> 'a agent_state_scheme \<times> (jsv list \<times> jsv list)" where
  "store_fleet data s =
     (let s1 = s\<lparr>workspaces := arr_or_empty (and_prop data ''workspaces''),
                 nodes := arr_or_empty (and_prop data ''nodes'')\<rparr> in
      case select_node data s1 of None \<Rightarrow> (s1, ([], []))
      | Some s2 \<Rightarrow> (case select_workspace s2 of None \<Rightarrow> (s2, ([], []))
        | Some s3 \<Rightarrow> (s3, (workspaces s3, nodes s3))))"

definition loadFleetWorkspaces ::
    "server \<Rightarrow> 'a agent_state_scheme \<Rightarrow> 'a agent_state_scheme \<times> (jsv list \<times> jsv list)" where
  "loadFleetWorkspaces srv s = (case fetchWithAuth srv ''/v1/fleet/workspaces'' no_options s of
     (Rejected _, s') \<Rightarrow> (s', ([], []))
   | (Resp r, s') \<Rightarrow> (if ok r then (case rjson r of None \<Rightarrow> (s', ([], [])) | Some data \<Rightarrow> store_fleet data s')
                      else (s', ([], []))))"

definition registerWorkspace ::
    "server \<Rightarrow> string \<Rightarrow> string \<Rightarrow> 'a agent_state_scheme \<Rightarrow> 'a agent_state_scheme \<times> jsv" where
  "registerWorkspace srv path name s =
     (if path = [] then (s, Null)
      else (case fetchWithAuth srv ''/v1/fleet/workspaces''
               (post_json (Obj [(''path'', Str (trim path)),
                  (''name'', if name = [] then Undef else Str (trim name)), (''node_id'', activeNodeId s)])) s of
          (Rejected _, s') \<Rightarrow> (s', Null)
        | (Resp r, s') \<Rightarrow> (if ok r then (case rjson r of None \<Rightarrow> (s', Null)
              | Some result \<Rightarrow> (fst (loadFleetWorkspaces srv s'), result)) else (s', Null))))"

section \<open>Models\<close>

definition model_entry :: "jsv \<Rightarrow> jsv option" where
  "model_entry m = (case m of
     Str s \<Rightarrow> Some (Obj [(''id'', m), (''name'', m)])
   | Undef \<Rightarrow> None | Null \<Rightarrow> None
   | _ \<Rightarrow> Some (Obj
       [(''id'', js_or (js_or (safe_prop m ''id'') (safe_prop m ''model'')) (safe_prop m ''name'')),
        (''name'', js_or (js_or (safe_prop m ''name'') (safe_prop m ''id'')) (safe_prop m ''model''))]))"

definition fallback_models :: "jsv list" where
  "fallback_models = map (\<lambda>(i, n). Obj [(''id'', Str i), (''name'', Str n)])
     [(''qwen2.5-coder:32b'', ''Qwen 2.5 Coder 32B (Inference Engine)''),
      (''deepseek-r1:70b'', ''DeepSeek R1 70B (P2P Cluster / Kimi RPC)''),
      (''gemma3:4b'', ''Gemma 3 4B (Local CUDA / Node)''),
      (''llama-3.3:70b'', ''Llama 3.3 70B (Mesh Reasoning)'')]"

definition raw_models :: "jsv \<Rightarrow> jsv list" where
  "raw_models data = (case and_prop data ''data'' of Arr xs \<Rightarrow> xs | _ \<Rightarrow> arr_or_empty (and_prop data ''models''))"

definition loadModels :: "server \<Rightarrow> 'a agent_state_scheme \<Rightarrow> 'a agent_state_scheme \<times> jsv list" where
  "loadModels srv s =
     (let (f, s') = fetchWithAuth srv ''/v1/models'' no_options s;
          ms = (case f of Rejected _ \<Rightarrow> fallback_models
            | Resp r \<Rightarrow> if ok r then (case rjson r of None \<Rightarrow> fallback_models
                | Some data \<Rightarrow> (case map_throw model_entry (raw_models data) of
                    None \<Rightarrow> fallback_models | Some ms \<Rightarrow> ms)) else fallback_models)
      in (s'\<lparr>models := ms\<rparr>, ms))"

section \<open>Sessions\<close>

definition loadSessions :: "server \<Rightarrow> 'a agent_state_scheme \<Rightarrow> 'a agent_state_scheme \<times> jsv list" where
  "loadSessions srv s = (case fetchWithAuth srv ''/v1/agents/sessions?limit=100'' no_options s of
     (Rejected _, s') \<Rightarrow> (s', [])
   | (Resp r, s') \<Rightarrow> (if ok r then (case rjson r of None \<Rightarrow> (s', [])
       | Some data \<Rightarrow> (let xs = arr_or_empty (and_prop data ''sessions'') in (s'\<lparr>allSessions := xs\<rparr>, xs)))
       else (s', [])))"

definition createSession ::
    "server \<Rightarrow> jsv \<Rightarrow> jsv \<Rightarrow> jsv \<Rightarrow> 'a agent_state_scheme \<Rightarrow> 'a agent_state_scheme \<times> jsv" where
  "createSession srv workspaceId model policy s =
     (case fetchWithAuth srv ''/v1/agents/sessions''
        (post_json (Obj [(''workspace_id'', js_or workspaceId (activeWorkspaceId s)),
           (''model'', js_or model (and_prop (first_or_undef (models s)) ''id'')), (''policy'', policy)])) s of
        (Rejected _, s') \<Rightarrow> (s', Null)
      | (Resp r, s') \<Rightarrow> (if ok r then (case rjson r of None \<Rightarrow> (s', Null)
          | Some newSession \<Rightarrow>
             (let s2 = fst (loadSessions srv s') in
              (if truthy (and_prop newSession ''session_id'')
               then s2\<lparr>activeSessionId := and_prop newSession ''session_id'', activeSession := newSession\<rparr>
               else s2, newSession))) else (s', Null)))"

definition session_path :: "jsv \<Rightarrow> string" where
  "session_path sid = ''/v1/agents/sessions/'' @ encodeURIComponent (to_str sid)"

definition loadSessionDetails :: "server \<Rightarrow> jsv \<Rightarrow> 'a agent_state_scheme \<Rightarrow> 'a agent_state_scheme \<times> jsv" where
  "loadSessionDetails srv sid s =
     (if \<not> truthy sid then (s, Null)
      else (case fetchWithAuth srv (session_path sid) no_options s of
          (Rejected _, s') \<Rightarrow> (s', Null)
        | (Resp r, s') \<Rightarrow> (if ok r then (case rjson r of None \<Rightarrow> (s', Null)
            | Some v \<Rightarrow> (s'\<lparr>activeSession := v, activeSessionId := sid\<rparr>, v)) else (s', Null))))"

section \<open>Events\<close>

definition events_url :: "jsv \<Rightarrow> jnum \<Rightarrow> string" where
  "events_url sid after = session_path sid @ ''/events?after_sequence='' @ num_str after @ ''&limit=200''"

text \<open>\<^verbatim>\<open>e.sequence || 0\<close> as \<^verbatim>\<open>Math.max\<close> reads it.\<close>

definition event_seq :: "jsv \<Rightarrow> jnum option" where
  "event_seq e = map_option (\<lambda>v. to_num (js_or v (JInt 0))) (get_prop e ''sequence'')"

definition max_seq :: "jnum list \<Rightarrow> jnum" where
  "max_seq ns = fold (\<lambda>n m. num_max m n) ns NInf"

text \<open>The continuation of \<^verbatim>\<open>loadEvents\<close> once the response is there.\<close>

definition loadEvents_resume :: "fetched \<Rightarrow> 'a agent_state_scheme \<Rightarrow> 'a agent_state_scheme \<times> jsv list" where
  "loadEvents_resume f s = (case f of Rejected _ \<Rightarrow> (s, [])
     | Resp r \<Rightarrow> (if \<not> ok r then (s, []) else (case rjson r of None \<Rightarrow> (s, [])
       | Some data \<Rightarrow> (let new = arr_or_empty (and_prop data ''events'') in
          if new = [] then (s, [])
          else (case map_throw event_seq new of None \<Rightarrow> (s, [])
            | Some seqs \<Rightarrow>
               (let m = max_seq seqs;
                    s1 = (if num_less (eventCursor s) m then s\<lparr>eventCursor := m\<rparr> else s) in
                (s1\<lparr>events := events s1 @ new\<rparr>, new)))))))"

definition loadEvents :: "server \<Rightarrow> jsv \<Rightarrow> jnum \<Rightarrow> 'a agent_state_scheme \<Rightarrow> 'a agent_state_scheme \<times> jsv list" where
  "loadEvents srv sid after s =
     (if \<not> truthy sid then (s, [])
      else let (f, s') = fetchWithAuth srv (events_url sid after) no_options s in loadEvents_resume f s')"

definition loadArtifacts :: "server \<Rightarrow> jsv \<Rightarrow> 'a agent_state_scheme \<Rightarrow> 'a agent_state_scheme \<times> jsv list" where
  "loadArtifacts srv sid s =
     (if \<not> truthy sid then (s, [])
      else (case fetchWithAuth srv (session_path sid @ ''/artifacts'') no_options s of
          (Rejected _, s') \<Rightarrow> (s', [])
        | (Resp r, s') \<Rightarrow> (if ok r then (case rjson r of None \<Rightarrow> (s', [])
            | Some data \<Rightarrow> (let xs = arr_or_empty (and_prop data ''artifacts'') in (s'\<lparr>artifacts := xs\<rparr>, xs)))
            else (s', []))))"

section \<open>Commands\<close>

text \<open>\<^verbatim>\<open>return resp.ok\<close>, \<^verbatim>\<open>false\<close> when the request fails.\<close>

definition fetched_ok :: "fetched \<times> 's \<Rightarrow> 's \<times> bool" where
  "fetched_ok fs = (case fs of (Rejected _, s) \<Rightarrow> (s, False) | (Resp r, s) \<Rightarrow> (s, ok r))"

definition submitTurn ::
    "server \<Rightarrow> jsv \<Rightarrow> string \<Rightarrow> string \<Rightarrow> (string \<times> jsv) list \<Rightarrow> 'a agent_state_scheme \<Rightarrow> 'a agent_state_scheme \<times> bool" where
  "submitTurn srv sid prompt mode opts s =
     (if \<not> truthy sid \<or> prompt = [] then (s, False)
      else fetched_ok (fetchWithAuth srv (session_path sid @ (if mode = ''steer'' then ''/steer'' else ''/turns''))
        (post_json (Obj (assign [(''prompt'', Str prompt), (''mode'', Str mode)] opts))) s))"

definition controlSession :: "server \<Rightarrow> jsv \<Rightarrow> string \<Rightarrow> 'a agent_state_scheme \<Rightarrow> 'a agent_state_scheme \<times> bool" where
  "controlSession srv sid action s =
     (if \<not> truthy sid \<or> action = [] then (s, False)
      else fetched_ok (fetchWithAuth srv (session_path sid @ ''/control'')
        (post_json (Obj [(''action'', Str action)])) s))"

definition decideApproval :: "server \<Rightarrow> jsv \<Rightarrow> string \<Rightarrow> 'a agent_state_scheme \<Rightarrow> 'a agent_state_scheme \<times> bool" where
  "decideApproval srv aid decision s =
     (if \<not> truthy aid \<or> decision = [] then (s, False)
      else fetched_ok (fetchWithAuth srv (''/v1/agents/approvals/'' @ encodeURIComponent (to_str aid))
        (post_json (Obj [(''decision'', Str decision)])) s))"

lemmas agent_state_defs [js_defs] = initial_state_def first_or_undef_def select_node_def
  select_workspace_def store_fleet_def loadFleetWorkspaces_def registerWorkspace_def model_entry_def
  fallback_models_def raw_models_def loadModels_def loadSessions_def createSession_def session_path_def
  loadSessionDetails_def events_url_def event_seq_def max_seq_def loadEvents_resume_def loadEvents_def
  loadArtifacts_def fetched_ok_def submitTurn_def controlSession_def decideApproval_def

section \<open>Frame lemmas\<close>

lemma fetchWithAuth_state:
  "snd (fetchWithAuth srv u opts s) = s\<lparr>sent := sent s @ [auth_request u opts s]\<rparr>"
  by (simp add: fetchWithAuth_def do_fetch_def)

lemma fetched_ok_state [simp]: "fst (fetched_ok fs) = snd fs"
  by (cases fs) (auto simp: fetched_ok_def split: fetched.splits)

section \<open>URLs\<close>

text \<open>An encoded component consists of unreserved characters, \<open>%\<close> and hexadecimal digits, so it never
  contains a character with a meaning in a path or query.\<close>

lemma hex_digit_unreserved: "n < 16 \<Longrightarrow> uri_unreserved (hex_digit n)"
proof -
  assume "n < 16"
  then have "n \<in> set [0..<16]" by simp
  then show ?thesis by (simp add: uri_defs char_defs upt_rec) (elim disjE; simp)
qed

lemma set_encodeURIComponent: "c \<in> set (encodeURIComponent s) \<Longrightarrow> uri_unreserved c \<or> c = CHR ''%''"
proof -
  assume "c \<in> set (encodeURIComponent s)"
  then obtain d where d: "c \<in> set (if uri_unreserved d then [d]
      else let n = of_char d in [CHR ''%'', hex_digit (n div 16), hex_digit (n mod 16)])"
    by (simp only: encodeURIComponent_def set_concat set_map UN_iff image_iff) blast
  have "(of_char d :: nat) < 256" by simp
  then have "(of_char d :: nat) div 16 < 16" by linarith
  with d show ?thesis by (auto simp: Let_def hex_digit_unreserved split: if_splits)
qed

lemma encode_no_slash: "CHR ''/'' \<notin> set (encodeURIComponent s)"
  using set_encodeURIComponent [of "CHR ''/''" s] by (auto simp: uri_unreserved_def char_defs)

lemma encode_no_query: "CHR ''?'' \<notin> set (encodeURIComponent s)"
  using set_encodeURIComponent [of "CHR ''?''" s] by (auto simp: uri_unreserved_def char_defs)

lemma split_session_path:
  "split_on (CHR ''/'') (session_path sid @ rest) =
     ['''', ''v1'', ''agents'', ''sessions''] @ split_on (CHR ''/'') (encodeURIComponent (to_str sid) @ rest)"
  by (simp add: session_path_def split: list.splits)

section \<open>Events\<close>

text \<open>The two outcomes of the continuation: nothing changes, or a non-empty batch is appended and the
  cursor raised to the batch's highest sequence number.\<close>

lemma loadEvents_resume_cases:
  obtains (none) "loadEvents_resume f s = (s, [])"
  | (batch) new seqs where "new \<noteq> []" "map_throw event_seq new = Some seqs"
      "loadEvents_resume f s = (s\<lparr>eventCursor := (if num_less (eventCursor s) (max_seq seqs) then max_seq seqs
         else eventCursor s), events := events s @ new\<rparr>, new)"
proof (cases f)
  case (Rejected m)
  then show ?thesis by (intro none) (simp add: loadEvents_resume_def)
next
  case f: (Resp r)
  show ?thesis
  proof (cases "ok r")
    case False
    then show ?thesis by (intro none) (simp add: loadEvents_resume_def f)
  next
    case o: True
    show ?thesis
    proof (cases "rjson r")
      case None
      then show ?thesis by (intro none) (simp add: loadEvents_resume_def f o)
    next
      case data: (Some data)
      let ?new = "arr_or_empty (and_prop data ''events'')"
      show ?thesis
      proof (cases "?new = [] \<or> map_throw event_seq ?new = None")
        case True
        then show ?thesis by (intro none) (auto simp: loadEvents_resume_def f o data Let_def)
      next
        case False
        then obtain seqs where "?new \<noteq> []" "map_throw event_seq ?new = Some seqs" by auto
        then show ?thesis by (intro batch [of ?new seqs]) (simp_all add: loadEvents_resume_def f o data Let_def)
      qed
    qed
  qed
qed

text \<open>Loading only appends: what is returned is exactly what was appended.\<close>

lemma loadEvents_resume_appends:
  "events (fst (loadEvents_resume f s)) = events s @ snd (loadEvents_resume f s)"
  by (cases rule: loadEvents_resume_cases [of f s]) simp_all

lemma loadEvents_resume_cursor:
  "eventCursor (fst (loadEvents_resume f s)) = eventCursor s \<or>
   num_less (eventCursor s) (eventCursor (fst (loadEvents_resume f s)))"
  by (cases rule: loadEvents_resume_cases [of f s]) simp_all

lemma loadEvents_resume_frame [simp]:
  "activeSessionId (fst (loadEvents_resume f s)) = activeSessionId s"
  "sent (fst (loadEvents_resume f s)) = sent s"
  by (cases rule: loadEvents_resume_cases [of f s]; simp)+

lemma loadEvents_appends: "events (fst (loadEvents srv sid k s)) = events s @ snd (loadEvents srv sid k s)"
  by (simp add: loadEvents_def fetchWithAuth_def do_fetch_def loadEvents_resume_appends)

text \<open>The invariant of the event list: the cursor is a finite number that no stored event exceeds.\<close>

definition covered :: "jnum \<Rightarrow> jsv \<Rightarrow> bool" where
  "covered c e = (case event_seq e of Some n \<Rightarrow> is_finite n \<and> \<not> num_less c n | None \<Rightarrow> False)"

definition cursor_covers :: "'a agent_state_scheme \<Rightarrow> bool" where
  "cursor_covers s = (is_finite (eventCursor s) \<and> (\<forall>e \<in> set (events s). covered (eventCursor s) e))"

definition numbered :: "jsv \<Rightarrow> bool" where
  "numbered e = (case event_seq e of Some n \<Rightarrow> is_finite n | None \<Rightarrow> False)"

lemma max_seq_upper:
  assumes "\<forall>n \<in> set ns. is_finite n" and "m \<noteq> NaN"
  shows "let r = fold (\<lambda>n m. num_max m n) ns m in
    r \<noteq> NaN \<and> \<not> num_less r m \<and> (\<forall>n \<in> set ns. \<not> num_less r n) \<and> (r = m \<or> r \<in> set ns)"
  using assms
proof (induction ns arbitrary: m)
  case Nil
  then show ?case by simp
next
  case (Cons n ns)
  let ?m = "num_max m n"
  let ?r = "fold (\<lambda>n m. num_max m n) ns ?m"
  have nn: "n \<noteq> NaN" using Cons.prems by (auto simp: is_finite_def)
  then have m: "?m \<noteq> NaN" "\<not> num_less ?m m" "\<not> num_less ?m n" "?m = m \<or> ?m = n"
    using Cons.prems(2) by (auto simp: num_max_def dest: num_less_trans)
  have ih: "?r \<noteq> NaN" "\<not> num_less ?r ?m" "\<forall>n \<in> set ns. \<not> num_less ?r n" "?r = ?m \<or> ?r \<in> set ns"
    using Cons.IH [of ?m] Cons.prems m(1) by (auto simp: Let_def)
  have "\<not> num_less ?r m" "\<not> num_less ?r n"
    using num_less_linear [OF ih(1) m(1) ih(2)] m by auto
  then show ?case using ih m(4) by (auto simp: Let_def)
qed

lemma max_seq_finite:
  assumes "\<forall>n \<in> set ns. is_finite n" and "ns \<noteq> []"
  shows "is_finite (max_seq ns) \<and> (\<forall>n \<in> set ns. \<not> num_less (max_seq ns) n)"
proof -
  let ?r = "max_seq ns"
  have r: "\<forall>n \<in> set ns. \<not> num_less ?r n" "?r = NInf \<or> ?r \<in> set ns"
    using max_seq_upper [OF assms(1), of NInf] by (auto simp: max_seq_def Let_def)
  obtain n where n: "n \<in> set ns" using assms(2) by (cases ns) auto
  have "?r \<noteq> NInf"
  proof
    assume "?r = NInf"
    with r(1) n assms(1) show False by (cases n) (auto simp: is_finite_def)
  qed
  then show ?thesis using r assms(1) by auto
qed

lemma covered_mono:
  assumes "covered c e" and "c \<noteq> NaN" and "d \<noteq> NaN" and "\<not> num_less d c"
  shows "covered d e"
  using assms num_less_linear [of d c] by (auto simp: covered_def split: option.splits)

lemma loadEvents_resume_covers:
  assumes inv: "cursor_covers s" and num: "\<forall>e \<in> set (snd (loadEvents_resume f s)). numbered e"
  shows "cursor_covers (fst (loadEvents_resume f s))"
proof (cases rule: loadEvents_resume_cases [of f s])
  case none
  with inv show ?thesis by simp
next
  case (batch new seqs)
  let ?m = "max_seq seqs" and ?c = "if num_less (eventCursor s) (max_seq seqs) then max_seq seqs else eventCursor s"
  have eq: "map event_seq new = map Some seqs" using batch(2) by (rule map_throw_Some)
  have mem: "\<exists>n \<in> set seqs. event_seq e = Some n" if "e \<in> set new" for e
    using that eq by (metis imageE image_eqI list.set_map)
  have fin: "\<forall>n \<in> set seqs. is_finite n"
  proof
    fix n assume "n \<in> set seqs"
    then have "Some n \<in> set (map event_seq new)" by (simp add: eq)
    then obtain e where "e \<in> set new" "event_seq e = Some n" by auto
    with num batch(3) show "is_finite n" by (auto simp: numbered_def)
  qed
  have "seqs \<noteq> []" using batch(1) eq by auto
  with fin have mx: "is_finite ?m" "\<forall>n \<in> set seqs. \<not> num_less ?m n" by (auto dest: max_seq_finite)
  have cf: "is_finite (eventCursor s)" and old: "\<forall>e \<in> set (events s). covered (eventCursor s) e"
    using inv by (simp_all add: cursor_covers_def)
  note nn = is_finite_not_NaN [OF mx(1)] is_finite_not_NaN [OF cf]
  have c: "is_finite ?c" "\<not> num_less ?c (eventCursor s)" "\<not> num_less ?c ?m"
    using mx(1) cf by (auto dest: num_less_trans)
  have "covered ?m e" if "e \<in> set new" for e
    using mem [OF that] mx(2) fin by (auto simp: covered_def)
  then have "\<forall>e \<in> set (events s @ new). covered ?c e"
    using old covered_mono [OF _ nn(1) is_finite_not_NaN [OF c(1)] c(3)]
      covered_mono [OF _ nn(2) is_finite_not_NaN [OF c(1)] c(2)] by auto
  with c(1) batch(3) show ?thesis by (simp add: cursor_covers_def)
qed

section \<open>Addressing\<close>

text \<open>The path segments of a URL, without its query.\<close>

definition path_segments :: "string \<Rightarrow> string list" where
  "path_segments u = split_on (CHR ''/'') (takeWhile (\<lambda>c. c \<noteq> CHR ''?'') u)"

lemma hex_digit_inj: "m < 16 \<Longrightarrow> n < 16 \<Longrightarrow> hex_digit m = hex_digit n \<Longrightarrow> m = n"
proof -
  assume "m < 16" "n < 16" and eq: "hex_digit m = hex_digit n"
  have h: "of_char (hex_digit k) = (if k < 10 then 48 + k else 55 + k)" if "k < 16" for k :: nat
    using that by (simp add: hex_digit_def)
  from eq have "of_char (hex_digit m) = (of_char (hex_digit n) :: nat)" by simp
  then show ?thesis using h \<open>m < 16\<close> \<open>n < 16\<close> by (auto split: if_splits)
qed

lemma encode_Nil_iff [simp]: "encodeURIComponent s = [] \<longleftrightarrow> s = []"
  by (cases s) (auto simp: encodeURIComponent_def Let_def)

lemma encode_char_eq:
  fixes c d :: char
  assumes "(if uri_unreserved c then [c] else let n = of_char c in [CHR ''%'', hex_digit (n div 16), hex_digit (n mod 16)]) @ u
    = (if uri_unreserved d then [d] else let n = of_char d in [CHR ''%'', hex_digit (n div 16), hex_digit (n mod 16)]) @ v"
  shows "c = d \<and> u = v"
proof -
  have pc: "\<not> uri_unreserved (CHR ''%'')" by (simp add: uri_unreserved_def char_defs)
  have lt: "(of_char x :: nat) div 16 < 16" for x :: char
  proof -
    have "(of_char x :: nat) < 256" by simp
    then show ?thesis by linarith
  qed
  show ?thesis
  proof (cases "uri_unreserved c \<or> uri_unreserved d")
    case True
    with assms pc show ?thesis by (auto simp: Let_def split: if_splits)
  next
    case False
    with assms have eq: "(of_char c :: nat) div 16 = of_char d div 16" "(of_char c :: nat) mod 16 = of_char d mod 16" "u = v"
      using hex_digit_inj [OF lt [of c] lt [of d]] hex_digit_inj [of "of_char c mod 16" "of_char d mod 16"]
      by (auto simp: Let_def)
    then have "(of_char c :: nat) = of_char d" by (metis div_mult_mod_eq)
    with eq(3) show ?thesis by simp
  qed
qed

lemma encode_inj: "encodeURIComponent s = encodeURIComponent t \<Longrightarrow> s = t"
proof (induction s arbitrary: t)
  case Nil
  then show ?case by (cases t) (auto simp: encodeURIComponent_def Let_def split: if_splits)
next
  case (Cons c s)
  then obtain d t' where t: "t = d # t'"
    by (cases t) (auto simp: encodeURIComponent_def Let_def split: if_splits)
  have "c = d \<and> encodeURIComponent s = encodeURIComponent t'"
    by (rule encode_char_eq) (use Cons.prems t in \<open>simp add: encodeURIComponent_def\<close>)
  with Cons.IH t show ?case by simp
qed

lemma takeWhile_none: "c \<notin> set s \<Longrightarrow> takeWhile (\<lambda>x. x \<noteq> c) (s @ u) = s @ takeWhile (\<lambda>x. x \<noteq> c) u"
  by (induction s) auto

lemma takeWhile_all: "c \<notin> set s \<Longrightarrow> takeWhile (\<lambda>x. x \<noteq> c) s = s"
  by (induction s) auto

lemma path_segments_session:
  "path_segments (session_path sid @ rest) =
     ['''', ''v1'', ''agents'', ''sessions''] @
       split_on (CHR ''/'') (encodeURIComponent (to_str sid) @ takeWhile (\<lambda>c. c \<noteq> CHR ''?'') rest)"
  by (simp add: path_segments_def session_path_def takeWhile_none encode_no_query split: list.splits)

lemma split_on_join_segment:
  "c \<notin> set s \<Longrightarrow> split_on c (s @ c # r) = s # split_on c r"
  by (simp add: split_on_sep)

lemma session_segments:
  "path_segments (session_path sid) = ['''', ''v1'', ''agents'', ''sessions'', encodeURIComponent (to_str sid)]"
  "CHR ''/'' \<notin> set r \<Longrightarrow> CHR ''?'' \<notin> set r \<Longrightarrow>
   path_segments (session_path sid @ CHR ''/'' # r) = ['''', ''v1'', ''agents'', ''sessions'', encodeURIComponent (to_str sid), r]"
  "CHR ''/'' \<notin> set r \<Longrightarrow> CHR ''?'' \<notin> set r \<Longrightarrow>
   path_segments (session_path sid @ CHR ''/'' # r @ CHR ''?'' # q) = ['''', ''v1'', ''agents'', ''sessions'', encodeURIComponent (to_str sid), r]"
  using path_segments_session [of sid "[]"]
  by (simp_all add: path_segments_session split_on_join_segment encode_no_slash takeWhile_none takeWhile_all)

lemma auth_request_simps [simp]:
  "url (auth_request u opts b) = u" "http_method (auth_request u opts b) = o_method opts"
  "body (auth_request u opts b) = o_body opts"
  by (simp_all add: auth_request_def)

lemma loadEvents_sent:
  "truthy sid \<Longrightarrow> sent (fst (loadEvents srv sid k s)) = sent s @ [auth_request (events_url sid k) no_options s]"
  by (simp add: loadEvents_def fetchWithAuth_def do_fetch_def)

lemma loadSessionDetails_sent:
  "truthy sid \<Longrightarrow> sent (fst (loadSessionDetails srv sid s)) = sent s @ [auth_request (session_path sid) no_options s]"
  by (auto simp: loadSessionDetails_def fetchWithAuth_def do_fetch_def split: fetched.splits option.splits)

lemma loadArtifacts_sent:
  "truthy sid \<Longrightarrow> sent (fst (loadArtifacts srv sid s)) =
     sent s @ [auth_request (session_path sid @ ''/artifacts'') no_options s]"
  by (auto simp: loadArtifacts_def fetchWithAuth_def do_fetch_def Let_def split: fetched.splits option.splits)

lemma command_sent:
  "sent (fst (fetched_ok (fetchWithAuth srv u opts s))) = sent s @ [auth_request u opts s]"
  by simp

lemmas session_requests = loadEvents_sent loadSessionDetails_sent loadArtifacts_sent

section \<open>Fleet selection\<close>

definition has_id :: "jsv \<Rightarrow> jsv \<Rightarrow> bool" where
  "has_id i v = strict_eq (safe_prop v ''id'') i"

lemma find_prop_records:
  "\<forall>v \<in> set xs. is_record v \<Longrightarrow>
   find_prop ''id'' i xs = Some (case find (has_id i) xs of Some w \<Rightarrow> w | None \<Rightarrow> Undef)"
  by (induction xs) (auto simp: get_prop_record has_id_def)

lemma select_node_keeps:
  "select_node data s = Some t \<Longrightarrow> workspaces t = workspaces s \<and> nodes t = nodes s \<and>
     activeWorkspaceId t = activeWorkspaceId s \<and> activeWorkspace t = activeWorkspace s \<and> sent t = sent s"
  by (auto simp: select_node_def split: if_splits)

lemma select_node_records:
  "\<forall>v \<in> set (nodes s). is_record v \<Longrightarrow> \<exists>t. select_node data s = Some t"
  by (auto simp: select_node_def get_prop_record)

text \<open>A workspace was selected before: the entry with that id, or else the first entry.\<close>

definition chosen :: "jsv \<Rightarrow> jsv list \<Rightarrow> jsv" where
  "chosen i ws = (case find (has_id i) ws of Some w \<Rightarrow> w | None \<Rightarrow> js_or (first_or_undef ws) Null)"

lemma select_workspace_selected:
  assumes "\<forall>v \<in> set (workspaces s). is_record v" and "truthy (activeWorkspaceId s)"
  shows "select_workspace s = Some (s\<lparr>activeWorkspace := chosen (activeWorkspaceId s) (workspaces s)\<rparr>)"
proof (cases "find (has_id (activeWorkspaceId s)) (workspaces s)")
  case None
  then show ?thesis using assms by (simp add: select_workspace_def find_prop_records chosen_def js_or_def)
next
  case (Some w)
  then have "truthy w" using assms(1) by (auto dest: find_in_set record_truthy)
  with Some show ?thesis using assms by (simp add: select_workspace_def find_prop_records chosen_def js_or_def)
qed

lemma select_workspace_first:
  assumes "\<forall>v \<in> set (workspaces s). is_record v" and "\<not> truthy (activeWorkspaceId s)" and "workspaces s \<noteq> []"
  shows "select_workspace s = Some (s\<lparr>activeWorkspaceId := safe_prop (hd (workspaces s)) ''id'', activeWorkspace := hd (workspaces s)\<rparr>)"
  using assms by (simp add: select_workspace_def get_prop_record)

lemma chosen_consistent:
  assumes "\<forall>v \<in> set ws. is_record v" and "ws \<noteq> []"
  shows "chosen i ws \<in> set ws \<and> (has_id i (chosen i ws) \<longleftrightarrow> (\<exists>w \<in> set ws. has_id i w))"
proof (cases "find (has_id i) ws")
  case None
  then have no: "\<forall>w \<in> set ws. \<not> has_id i w" by (auto simp: find_None_iff)
  obtain w ws' where ws: "ws = w # ws'" using assms(2) by (cases ws) auto
  then have "chosen i ws = w"
    using None assms(1) record_truthy [of w] by (simp add: chosen_def first_or_undef_def js_or_def)
  with no ws show ?thesis by auto
next
  case (Some w)
  then show ?thesis by (auto simp: chosen_def dest: find_in_set)
qed

section \<open>Event batches in the order of delivery\<close>

text \<open>The batch a reply contributes does not depend on the state it arrives in.\<close>

definition reply_events :: "fetched \<Rightarrow> jsv list" where
  "reply_events f = (case f of Rejected _ \<Rightarrow> []
     | Resp r \<Rightarrow> if \<not> ok r then [] else (case rjson r of None \<Rightarrow> []
       | Some data \<Rightarrow> (let new = arr_or_empty (and_prop data ''events'') in
           if map_throw event_seq new = None then [] else new)))"

lemma reply_events: "snd (loadEvents_resume f s) = reply_events f"
  by (auto simp: loadEvents_resume_def reply_events_def Let_def split: fetched.split option.split)

definition deliver :: "fetched list \<Rightarrow> 'a agent_state_scheme \<Rightarrow> 'a agent_state_scheme" where
  "deliver fs s = fold (\<lambda>f s. fst (loadEvents_resume f s)) fs s"

lemma deliver_Cons: "deliver (f # fs) s = deliver fs (fst (loadEvents_resume f s))"
  by (simp add: deliver_def)

lemma deliver_events: "events (deliver fs s) = events s @ concat (map reply_events fs)"
proof (induction fs arbitrary: s)
  case Nil
  then show ?case by (simp add: deliver_def)
next
  case (Cons f fs)
  then show ?case by (simp add: deliver_Cons loadEvents_resume_appends reply_events)
qed

lemma deliver_cursor: "\<not> num_less (eventCursor (deliver fs s)) (eventCursor s)"
proof (induction fs arbitrary: s)
  case Nil
  then show ?case by (simp add: deliver_def)
next
  case (Cons f fs)
  let ?t = "fst (loadEvents_resume f s)"
  show ?case
    using Cons.IH [of ?t] loadEvents_resume_cursor [of f s] num_less_trans [of "eventCursor (deliver fs ?t)" "eventCursor s" "eventCursor ?t"]
    by (auto simp: deliver_Cons)
qed

lemma deliver_covers:
  "cursor_covers s \<Longrightarrow> \<forall>f \<in> set fs. \<forall>e \<in> set (reply_events f). numbered e \<Longrightarrow> cursor_covers (deliver fs s)"
proof (induction fs arbitrary: s)
  case Nil
  then show ?case by (simp add: deliver_def)
next
  case (Cons f fs)
  have "cursor_covers (fst (loadEvents_resume f s))"
    using Cons.prems by (intro loadEvents_resume_covers) (auto simp: reply_events)
  with Cons show ?case by (simp add: deliver_Cons)
qed

section \<open>Properties\<close>



text \<open>C17. The event log: through any sequence of poll replies (failures, malformed bodies and error statuses
  included) the log grows exactly by the batches of the replies, in the order of delivery, the cursor never moves back,
  and as long as the gateway numbers its events no event on display lies beyond the cursor, so the next poll
  asks for nothing that was already shown.\<close>

theorem event_log_invariant:
  assumes "cursor_covers s" and "\<forall>f \<in> set fs. \<forall>e \<in> set (reply_events f). numbered e"
  shows "events (deliver fs s) = events s @ concat (map reply_events fs) \<and>
    \<not> num_less (eventCursor (deliver fs s)) (eventCursor s) \<and> cursor_covers (deliver fs s)"
  using deliver_covers [OF assms] by (simp add: deliver_events deliver_cursor)

definition json_reply :: "nat \<Rightarrow> jsv \<Rightarrow> fetched" where
  "json_reply code v = Resp \<lparr>status = code, ctype = ''application/json'', rheaders = Map.empty, rtext = stringify v\<rparr>"

definition event_batch :: "int list \<Rightarrow> fetched" where
  "event_batch ns = json_reply 200 (Obj [(''events'', Arr (map (\<lambda>n. Obj [(''sequence'', JInt n)]) ns))])"

lemma event_batch_evals:
  "reply_events (event_batch [1, 2]) = [Obj [(''sequence'', JInt 1)], Obj [(''sequence'', JInt 2)]]"
  "reply_events (event_batch [3]) = [Obj [(''sequence'', JInt 3)]]"
  "reply_events (Rejected ''offline'') = []"
  by code_simp+

theorem event_log_invariant_witness:
  "events (deliver [event_batch [1, 2], Rejected ''offline'', event_batch [3]] (initial_state (key_browser ''apiKey'' ''k1''))) =
     [Obj [(''sequence'', JInt 1)], Obj [(''sequence'', JInt 2)], Obj [(''sequence'', JInt 3)]]"
proof -
  let ?s = "initial_state (key_browser ''apiKey'' ''k1'')" and ?fs = "[event_batch [1, 2], Rejected ''offline'', event_batch [3]]"
  have "cursor_covers ?s" by (simp add: cursor_covers_def initial_state_def browser.defs is_finite_def)
  moreover have "\<forall>f \<in> set ?fs. \<forall>e \<in> set (reply_events f). numbered e"
    by (simp add: event_batch_evals numbered_def event_seq_def js_defs)
  moreover have "events ?s = []" by (simp add: initial_state_def browser.defs)
  ultimately show ?thesis
    using event_log_invariant [of ?s ?fs] by (simp add: event_batch_evals)
qed

text \<open>Fleet selection: after \<^verbatim>\<open>loadFleetWorkspaces\<close> got a list of workspace objects and node objects, the active
  workspace is an entry of that list. Without a previous selection it is the first entry and the id agrees
  with it. With a previous selection the id is kept, and it names the active workspace exactly if the
  fleet still lists it: a selected workspace that disappeared leaves the stale id next to another
  workspace's object.\<close>

theorem fleet_selection:
  assumes "srv (sent s) (auth_request ''/v1/fleet/workspaces'' no_options s) = Resp r" and "ok r" and "rjson r = Some data"
    and "ws = arr_or_empty (and_prop data ''workspaces'')" and "\<forall>w \<in> set ws. is_record w" and "ws \<noteq> []"
    and "\<forall>n \<in> set (arr_or_empty (and_prop data ''nodes'')). is_record n"
    and "s' = fst (loadFleetWorkspaces srv s)"
  shows "workspaces s' = ws \<and> activeWorkspace s' \<in> set ws \<and>
    (\<not> truthy (activeWorkspaceId s) \<longrightarrow>
       activeWorkspace s' = hd ws \<and> activeWorkspaceId s' = safe_prop (hd ws) ''id'') \<and>
    (truthy (activeWorkspaceId s) \<longrightarrow> activeWorkspaceId s' = activeWorkspaceId s \<and>
       (has_id (activeWorkspaceId s') (activeWorkspace s') \<longleftrightarrow> (\<exists>w \<in> set ws. has_id (activeWorkspaceId s) w)))"
proof -
  let ?s0 = "s\<lparr>sent := sent s @ [auth_request ''/v1/fleet/workspaces'' no_options s]\<rparr>"
  let ?s1 = "?s0\<lparr>workspaces := ws, nodes := arr_or_empty (and_prop data ''nodes'')\<rparr>"
  obtain s2 where s2: "select_node data ?s1 = Some s2" using select_node_records [of ?s1] assms(7) by auto
  note k = select_node_keeps [OF s2]
  have s': "s' = (case select_workspace s2 of None \<Rightarrow> s2 | Some s3 \<Rightarrow> s3)"
    using assms s2 by (auto simp: loadFleetWorkspaces_def fetchWithAuth_def do_fetch_def store_fleet_def Let_def split: option.splits)
  show ?thesis
  proof (cases "truthy (activeWorkspaceId s)")
    case True
    then have "s' = s2\<lparr>activeWorkspace := chosen (activeWorkspaceId s2) (workspaces s2)\<rparr>"
      using s' k assms(5) select_workspace_selected [of s2] by simp
    then show ?thesis using True k chosen_consistent [OF assms(5,6)] by simp
  next
    case False
    then show ?thesis using s' k assms(5,6) select_workspace_first [of s2] by simp
  qed
qed

definition fleet_reply :: "string list \<Rightarrow> fetched" where
  "fleet_reply ids = json_reply 200 (Obj [(''workspaces'', Arr (map (\<lambda>i. Obj [(''id'', Str i)]) ids)), (''nodes'', Arr [])])"

theorem fleet_selection_witness:
  "let s = (initial_state (key_browser ''apiKey'' ''k1''))\<lparr>activeWorkspaceId := Str ''gone''\<rparr>;
     s' = fst (loadFleetWorkspaces (\<lambda>_ _. fleet_reply [''w1'', ''w2'']) s) in
   activeWorkspaceId s' = Str ''gone'' \<and> \<not> has_id (activeWorkspaceId s') (activeWorkspace s')"
proof -
  let ?s = "(initial_state (key_browser ''apiKey'' ''k1''))\<lparr>activeWorkspaceId := Str ''gone''\<rparr>"
  let ?ws = "[Obj [(''id'', Str ''w1'')], Obj [(''id'', Str ''w2'')]]"
  let ?data = "Obj [(''workspaces'', Arr ?ws), (''nodes'', Arr [])]"
  obtain r where r: "fleet_reply [''w1'', ''w2''] = Resp r" "ok r" "rtext r = stringify ?data"
    by (simp add: fleet_reply_def json_reply_def ok_def)
  have "json_parse (stringify ?data) = Some ?data" by code_simp
  with r have j: "rjson r = Some ?data" by (simp add: rjson_def)
  have w: "?ws = arr_or_empty (and_prop ?data ''workspaces'')" "\<forall>n \<in> set (arr_or_empty (and_prop ?data ''nodes'')). is_record n"
    by (simp_all add: js_defs)
  show ?thesis
    using fleet_selection [of "\<lambda>_ _. fleet_reply [''w1'', ''w2'']" ?s r ?data ?ws, OF r(1,2) j w(1) _ _ w(2) refl]
    by (auto simp: is_record_def Let_def has_id_def field_def)
qed

end
