(* ===== verification/LabelTables.thy ===== *)
theory LabelTables
  imports JsWeb
begin

text \<open>
  The contract of the label tables the front-ends share: a table per language, complete with respect to the
  fallback language. The Agent Workspace and the model selector each provide tables and a lookup; both
  are interpretations of the locale \<open>label_tables\<close>. The executable test \<open>complete_tables\<close> discharges the laws for
  the lookup \<open>label_of\<close> that the model selector's tables use.
\<close>

section \<open>The contract of label tables\<close>

locale label_tables =
  fixes tables :: "(string \<times> (string \<times> string) list) list"
    and fallback :: string
    and lookup :: "string \<Rightarrow> string \<Rightarrow> string"
  assumes known: "(l, tab) \<in> set tables \<Longrightarrow> map_of tab k = Some v \<Longrightarrow> v \<noteq> [] \<Longrightarrow> lookup l k = v"
    and missing: "map_of tables l = None \<Longrightarrow> map_of tables fallback = Some tab \<Longrightarrow> map_of tab k = Some v \<Longrightarrow>
      v \<noteq> [] \<Longrightarrow> lookup l k = v"
    and complete: "(l, tab) \<in> set tables \<Longrightarrow> (l', tab') \<in> set tables \<Longrightarrow> dom (map_of tab) = dom (map_of tab')"
    and nonempty: "(l, tab) \<in> set tables \<Longrightarrow> map_of tab k = Some v \<Longrightarrow> v \<noteq> []"
    and has_fallback: "map_of tables fallback \<noteq> None"
begin

text \<open>A key of any table has a non-empty text in every language, known or not.\<close>

lemma lookup_total:
  assumes "(l, tab) \<in> set tables" and "k \<in> dom (map_of tab)"
  shows "lookup l' k \<noteq> []"
proof -
  obtain ft where ft: "map_of tables fallback = Some ft" using has_fallback by auto
  then have fm: "(fallback, ft) \<in> set tables" by (rule map_of_SomeD)
  show ?thesis
  proof (cases "map_of tables l'")
    case None
    obtain v where "map_of ft k = Some v" using complete [OF assms(1) fm] assms(2) by auto
    then show ?thesis using missing [OF None ft] nonempty [OF fm] by simp
  next
    case (Some t')
    then have tm: "(l', t') \<in> set tables" by (rule map_of_SomeD)
    obtain v where "map_of t' k = Some v" using complete [OF assms(1) tm] assms(2) by auto
    then show ?thesis using known [OF tm] nonempty [OF tm] by simp
  qed
qed

end

lemma dom_map_of_fst: "map fst xs = map fst ys \<Longrightarrow> dom (map_of xs) = dom (map_of ys)"
  by (metis dom_map_of_conv_image_fst list.set_map)

section \<open>Lookup with a fallback language\<close>

text \<open>\<^verbatim>\<open>(tables[locale] || tables.en)[key] || tables.en[key]\<close>; the empty text stands for \<^verbatim>\<open>undefined\<close>.\<close>

definition label_of :: "(string \<times> (string \<times> string) list) list \<Rightarrow> string \<Rightarrow> string \<Rightarrow> string" where
  "label_of tabs l k = (let en = (case map_of tabs ''en'' of Some d \<Rightarrow> d | None \<Rightarrow> []);
       d = (case map_of tabs l of Some d \<Rightarrow> d | None \<Rightarrow> en) in
     str_or (item_text (map_of d k)) (item_text (map_of en k)))"

definition complete_tables :: "(string \<times> (string \<times> string) list) list \<Rightarrow> bool" where
  "complete_tables tabs = (distinct (map fst tabs) \<and> (case map_of tabs ''en'' of None \<Rightarrow> False
     | Some en \<Rightarrow> list_all (\<lambda>(l, t). map fst t = map fst en \<and> list_all (\<lambda>(k, v). v \<noteq> []) t) tabs))"

lemma complete_tables_contract:
  assumes "complete_tables tabs"
  shows "label_tables tabs ''en'' (label_of tabs)"
proof -
  obtain en where en: "map_of tabs ''en'' = Some en"
    using assms by (cases "map_of tabs ''en''") (simp_all add: complete_tables_def)
  have d: "distinct (map fst tabs)" and all: "\<forall>(l, t) \<in> set tabs. map fst t = map fst en \<and> (\<forall>(k, v) \<in> set t. v \<noteq> [])"
    using assms unfolding complete_tables_def list_all_iff en option.case by blast+
  show ?thesis
  proof
    show "label_of tabs l k = v" if "(l, tab) \<in> set tabs" "map_of tab k = Some v" "v \<noteq> []" for l tab k v
      using that d by (simp add: label_of_def Let_def item_text_def str_or_def)
    show "label_of tabs l k = v" if "map_of tabs l = None" "map_of tabs ''en'' = Some tab" "map_of tab k = Some v" "v \<noteq> []" for l tab k v
      using that by (simp add: label_of_def Let_def item_text_def str_or_def)
    show "dom (map_of tab) = dom (map_of tab')" if "(l, tab) \<in> set tabs" "(l', tab') \<in> set tabs" for l tab l' tab'
    proof (rule dom_map_of_fst)
      have "map fst tab = map fst en" "map fst tab' = map fst en" using bspec [OF all that(1)] bspec [OF all that(2)] by simp_all
      then show "map fst tab = map fst tab'" by simp
    qed
    show "v \<noteq> []" if "(l, tab) \<in> set tabs" "map_of tab k = Some v" for l tab k v
      using bspec [OF all that(1)] map_of_SomeD [OF that(2)] by auto
    show "map_of tabs ''en'' \<noteq> None" using en by simp
  qed
qed

end
