(* ===== verification/AgentI18n.thy ===== *)
theory AgentI18n
  imports AgentState LabelTables
begin

text \<open>
  \<^verbatim>\<open>src/portal/agent-workspace/i18n.js\<close>: the two label tables of the Agent Workspace and the lookup with its
  fallbacks. The interface the views rely on is the locale \<open>label_tables\<close>: complete tables give every
  known key a text in every known language.
\<close>

section \<open>Tables\<close>

definition translations_de :: "(string \<times> string) list" where
  "translations_de = [
    (''brandBadge'', ''AGENT WORKSPACE''),
    (''navFleet'', ([CHR 0xF0, CHR 0x9F, CHR 0x96, CHR 0xA5, CHR 0xEF, CHR 0xB8, CHR 0x8F] @ '' Flotte'')),
    (''navChat'', ([CHR 0xF0, CHR 0x9F, CHR 0x92, CHR 0xAC] @ '' AI-Chat '' @ [CHR 0xE2, CHR 0x86, CHR 0x97])),
    (''btnNewTask'', ''+ Neue Aufgabe''),
    (''lblWorkspace'', ''Workspace:''),
    (''lblBranch'', ''Branch:''),
    (''lblNode'', ''Node:''),
    (''lblModel'', ''Model:''),
    (''lblPolicy'', ''Policy:''),
    (''searchPlaceholder'', ''Sitzung suchen...''),
    (''tabActive'', ''Aktiv''),
    (''tabPinned'', ''Angeheftet''),
    (''tabArchived'', ''Archiv''),
    (''modeQueue'', ([CHR 0xF0, CHR 0x9F, CHR 0x93, CHR 0xA5] @ '' Turn einreihen (Queue)'')),
    (''modeSteer'', ([CHR 0xE2, CHR 0x9A, CHR 0xA1] @ '' Turn steuern (Steer)'')),
    (''hintQueue'', (''Normaler Folgeauftrag '' @ [CHR 0xE2, CHR 0x80, CHR 0x93] @ '' wird nach aktuellem Turn ausgef'' @ [CHR 0xC3, CHR 0xBC] @ ''hrt'')),
    (''hintSteer'', (''Echtzeit-Steuerung '' @ [CHR 0xE2, CHR 0x80, CHR 0x93] @ '' unterbricht oder lenkt den aktiven Turn sofort um'')),
    (''btnSend'', ''Senden''),
    (''inspectorPlan'', (''Aktiver Ausf'' @ [CHR 0xC3, CHR 0xBC] @ ''hrungsplan'')),
    (''inspectorGoal'', ''Dauerhaftes Ziel (Grand Goal)''),
    (''inspectorArtifacts'', ''Erzeugte Artefakte''),
    (''inspectorFiles'', (''Ge'' @ [CHR 0xC3, CHR 0xA4] @ ''nderte Dateien (Diff / Review)'')),
    (''inspectorMetrics'', ''Kontext- & Laufzeitmetriken''),
    (''inspectorCluster'', ''Mesh Node & Inferenzstatus''),
    (''statusReady'', ''BEREIT''),
    (''statusRunning'', (''L'' @ [CHR 0xC3, CHR 0x84] @ ''UFT'')),
    (''statusPaused'', ''PAUSIERT''),
    (''statusWaitingTool'', ''WARTET AUF TOOL''),
    (''statusWaitingApproval'', ''APPROVAL ERFORDERLICH''),
    (''statusCompleted'', ''ABGESCHLOSSEN''),
    (''statusFailed'', ''FEHLGESCHLAGEN''),
    (''statusCancelled'', ''ABGEBROCHEN''),
    (''emptyTimeline'', (''Noch keine Aktivit'' @ [CHR 0xC3, CHR 0xA4] @ ''t vorhanden. Starte eine Aufgabe '' @ [CHR 0xC3, CHR 0xBC] @ ''ber den Composer unten.'')),
    (''emptySessions'', ''Keine Sitzungen gefunden.'')]"

definition translations_en :: "(string \<times> string) list" where
  "translations_en = [
    (''brandBadge'', ''AGENT WORKSPACE''),
    (''navFleet'', ([CHR 0xF0, CHR 0x9F, CHR 0x96, CHR 0xA5, CHR 0xEF, CHR 0xB8, CHR 0x8F] @ '' Fleet'')),
    (''navChat'', ([CHR 0xF0, CHR 0x9F, CHR 0x92, CHR 0xAC] @ '' AI Chat '' @ [CHR 0xE2, CHR 0x86, CHR 0x97])),
    (''btnNewTask'', ''+ New Task''),
    (''lblWorkspace'', ''Workspace:''),
    (''lblBranch'', ''Branch:''),
    (''lblNode'', ''Node:''),
    (''lblModel'', ''Model:''),
    (''lblPolicy'', ''Policy:''),
    (''searchPlaceholder'', ''Search sessions...''),
    (''tabActive'', ''Active''),
    (''tabPinned'', ''Pinned''),
    (''tabArchived'', ''Archived''),
    (''modeQueue'', ([CHR 0xF0, CHR 0x9F, CHR 0x93, CHR 0xA5] @ '' Queue Turn'')),
    (''modeSteer'', ([CHR 0xE2, CHR 0x9A, CHR 0xA1] @ '' Steer Turn'')),
    (''hintQueue'', (''Standard follow-up turn '' @ [CHR 0xE2, CHR 0x80, CHR 0x93] @ '' executed after current turn finishes'')),
    (''hintSteer'', (''Priority steering '' @ [CHR 0xE2, CHR 0x80, CHR 0x93] @ '' interrupts or redirects active turn immediately'')),
    (''btnSend'', ''Send''),
    (''inspectorPlan'', ''Active Execution Plan''),
    (''inspectorGoal'', ''Persistent Goal (Grand Goal)''),
    (''inspectorArtifacts'', ''Produced Artifacts''),
    (''inspectorFiles'', ''Changed Files (Diff / Review)''),
    (''inspectorMetrics'', ''Context & Runtime Metrics''),
    (''inspectorCluster'', ''Mesh Node & Inference Status''),
    (''statusReady'', ''READY''),
    (''statusRunning'', ''RUNNING''),
    (''statusPaused'', ''PAUSED''),
    (''statusWaitingTool'', ''WAITING FOR TOOL''),
    (''statusWaitingApproval'', ''APPROVAL REQUIRED''),
    (''statusCompleted'', ''COMPLETED''),
    (''statusFailed'', ''FAILED''),
    (''statusCancelled'', ''CANCELLED''),
    (''emptyTimeline'', ''No activity yet. Start a task using the composer below.''),
    (''emptySessions'', ''No sessions found.'')]"

definition label_texts :: "(string \<times> (string \<times> string) list) list" where
  "label_texts = [(''de'', translations_de), (''en'', translations_en)]"

section \<open>Lookup\<close>

text \<open>\<^verbatim>\<open>translations[locale]\<close> is an object too for the names every object inherits; none of the label keys is a
  property of such a value.\<close>

definition object_prototype :: "string list" where
  "object_prototype = [''constructor'', ''__proto__'', ''hasOwnProperty'', ''isPrototypeOf'', ''propertyIsEnumerable'',
     ''toLocaleString'', ''toString'', ''valueOf'', ''__defineGetter__'', ''__defineSetter__'', ''__lookupGetter__'',
     ''__lookupSetter__'']"

definition setLocale :: "string \<Rightarrow> string \<Rightarrow> string" where
  "setLocale l current = (if map_of label_texts l \<noteq> None \<or> l \<in> set object_prototype then l else current)"

text \<open>\<^verbatim>\<open>dict[key] || translations.en[key] || key\<close>.\<close>

definition i18n_t :: "string \<Rightarrow> string \<Rightarrow> string" where
  "i18n_t current k = (let dict = (case map_of label_texts current of Some d \<Rightarrow> d
         | None \<Rightarrow> if current \<in> set object_prototype then [] else translations_en) in
     str_or (item_text (map_of dict k)) (str_or (item_text (map_of translations_en k)) k))"

lemmas i18n_defs [js_defs] = translations_de_def translations_en_def label_texts_def object_prototype_def
  setLocale_def i18n_t_def

lemma translation_keys: "map fst translations_de = map fst translations_en"
  by (simp add: translations_de_def translations_en_def)

lemma translation_texts: "\<forall>v \<in> snd ` set translations_de. v \<noteq> []" "\<forall>v \<in> snd ` set translations_en. v \<noteq> []"
  by (simp_all add: translations_de_def translations_en_def html_def)

interpretation agent_labels: label_tables label_texts "''en''" i18n_t
proof
  show "i18n_t l k = v" if "(l, tab) \<in> set label_texts" "map_of tab k = Some v" "v \<noteq> []" for l tab k v
    using that by (auto simp: i18n_t_def label_texts_def item_text_def str_or_def)
  show "i18n_t l k = v" if "map_of label_texts l = None" "map_of label_texts ''en'' = Some tab" "map_of tab k = Some v" "v \<noteq> []"
    for l tab k v
    using that by (auto simp: i18n_t_def label_texts_def item_text_def str_or_def)
  show "dom (map_of tab) = dom (map_of tab')" if "(l, tab) \<in> set label_texts" "(l', tab') \<in> set label_texts" for l tab l' tab'
    using that dom_map_of_fst [OF translation_keys] by (auto simp: label_texts_def)
  show "v \<noteq> []" if "(l, tab) \<in> set label_texts" "map_of tab k = Some v" for l tab k v
    using that translation_texts by (force simp: label_texts_def dest!: map_of_SomeD)
  show "map_of label_texts ''en'' \<noteq> None" by (simp add: label_texts_def)
qed

section \<open>Properties\<close>

text \<open>Labels: both languages translate the same keys, every key of the tables gets a non-empty text whatever
  locale is current, in the locale's own words when the locale is one of the two, an unknown key is shown
  as it is, and \<^verbatim>\<open>setLocale\<close> never selects a language without a table unless it is a name every JavaScript
  object inherits.\<close>

theorem labels_total:
  "map fst translations_de = map fst translations_en \<and>
   (\<forall>k \<in> set (map fst translations_en). i18n_t l k \<noteq> []) \<and>
   (\<forall>k v. map_of translations_de k = Some v \<longrightarrow> i18n_t ''de'' k = v) \<and>
   (\<forall>k v. map_of translations_en k = Some v \<longrightarrow> i18n_t ''en'' k = v) \<and>
   (\<forall>k. k \<notin> set (map fst translations_en) \<longrightarrow> i18n_t l k = k) \<and>
   (setLocale l c = l \<or> setLocale l c = c) \<and>
   (l \<notin> set object_prototype \<and> c \<in> {''de'', ''en''} \<longrightarrow> setLocale l c \<in> {''de'', ''en''})"
proof -
  have mem: "(''en'', translations_en) \<in> set label_texts" "(''de'', translations_de) \<in> set label_texts"
    by (simp_all add: label_texts_def)
  have "i18n_t l k = k" if "k \<notin> set (map fst translations_en)" for k
  proof -
    have "map_of translations_en k = None" "map_of translations_de k = None"
      using that translation_keys by (metis list.set_map map_of_eq_None_iff)+
    then show ?thesis by (auto simp: i18n_t_def label_texts_def item_text_def str_or_def)
  qed
  moreover have "i18n_t l k \<noteq> []" if "k \<in> set (map fst translations_en)" for k
    by (rule agent_labels.lookup_total [OF mem(1)]) (use that in \<open>simp add: dom_map_of_conv_image_fst\<close>)
  ultimately show ?thesis
    using translation_keys agent_labels.known [OF mem(1)] agent_labels.known [OF mem(2)]
      agent_labels.nonempty [OF mem(1)] agent_labels.nonempty [OF mem(2)]
    by (auto simp: setLocale_def label_texts_def)
qed

theorem labels_total_witness:
  "i18n_t ''en'' ''tabPinned'' = ''Pinned'' \<and> i18n_t ''fr'' ''tabPinned'' \<noteq> [] \<and> i18n_t ''fr'' ''nope'' = ''nope''"
proof -
  have "map_of translations_en ''tabPinned'' = Some ''Pinned''" by (simp add: translations_en_def)
  moreover have "''tabPinned'' \<in> set (map fst translations_en)" "''nope'' \<notin> set (map fst translations_en)"
    by (simp_all add: translations_en_def)
  ultimately show ?thesis using labels_total [of "''fr''" "''de''"] labels_total [of "''en''" "''de''"] by blast
qed

end
