(* ===== verification/AgentViews.thy ===== *)
theory AgentViews
  imports AgentI18n
begin

text \<open>
  \<^verbatim>\<open>src/portal/agent-workspace/sidebar.js\<close>, \<^verbatim>\<open>timeline.js\<close> and \<^verbatim>\<open>inspector.js\<close>: the functions that turn the
  state into the page's HTML. A function returns \<^const>\<open>None\<close> where the code throws (a method called on a
  value that is not a text, a property of \<^verbatim>\<open>null\<close>). Dates and locale-dependent numbers are printed by the
  browser: the record \<open>clock\<close> holds these printers, and no lemma says anything about what they print.
\<close>

record clock =
  time_str :: "jsv \<Rightarrow> string"
  date_time_str :: "jsv \<Rightarrow> string"
  locale_str :: "jsv \<Rightarrow> string"
  now :: jsv

section \<open>Escaping\<close>

definition escape_text :: "string \<Rightarrow> string" where
  "escape_text s = replace_char (CHR 0x22) ''&quot;'' (replace_char (CHR ''>'') ''&gt;''
     (replace_char (CHR ''<'') ''&lt;'' (replace_char (CHR ''&'') ''&amp;'' s)))"

text \<open>\<^verbatim>\<open>escapeHtml\<close>, the same in the three files.\<close>

definition escapeHtml :: "jsv \<Rightarrow> string" where
  "escapeHtml v = escape_text (str_of_or v [])"

section \<open>Sidebar\<close>

definition session_matches :: "string \<Rightarrow> string \<Rightarrow> jsv \<Rightarrow> bool option" where
  "session_matches qry tab s = (case get_prop s ''title'' of None \<Rightarrow> None
     | Some title \<Rightarrow> (case as_str (js_or (js_or title (safe_prop s ''session_id'')) (Str [])) of None \<Rightarrow> None
       | Some m \<Rightarrow> Some (if qry \<noteq> [] \<and> \<not> includes_str (lower m) qry then False
           else if tab = ''pinned'' then safe_prop s ''pinned'' = Bool True
           else if tab = ''archived'' then safe_prop s ''archived'' = Bool True
           else \<not> truthy (safe_prop s ''archived''))))"

definition formatTime :: "clock \<Rightarrow> jsv \<Rightarrow> string" where
  "formatTime ck v = (if truthy v then time_str ck v else [])"

definition session_item :: "clock \<Rightarrow> jsv \<Rightarrow> jsv \<Rightarrow> string option" where
  "session_item ck active s = (case as_str (js_or (safe_prop s ''status'') (Str ''ready'')) of None \<Rightarrow> None
     | Some st \<Rightarrow> (let sid = to_str (safe_prop s ''session_id'') in
         Some ((html ''~        <div class=^sidebar-session-item session-card '') @ (if strict_eq (safe_prop s ''session_id'') active then ''active'' else []) @ (html ''^ data-id=^'') @ sid @ (html ''^ onclick=^typeof selectSession === `function` ? selectSession(`'') @ sid @ (html ''`) : AgentApp.selectSession(`'') @ sid @ (html ''`)^>~          <div style=^display: flex; justify-content: space-between; align-items: flex-start; gap: 0.5rem;^>~            <span class=^session-item-title session-title^>'') @ escapeHtml (js_or (safe_prop s ''title'') (safe_prop s ''session_id'')) @ (html ''</span>~            <span class=^status-badge '') @ (''status-'' @ lower st) @ (html ''^>'') @ upper st @ (html ''</span>~          </div>~          <div class=^session-meta^ style=^display: flex; gap: 0.35rem; font-size: 0.7rem; color: var(--studio-text-tertiary, #94a3b8);^>~            <span>'') @ escapeHtml (js_or (safe_prop s ''model'') (Str ''auto'')) @ (html ''</span>~            <span>'' @ [CHR 0xC2, CHR 0xB7] @ html ''</span>~            <span>'') @ formatTime ck (safe_prop s ''created_at'') @ (html ''</span>~          </div>~        </div>~      ''))))"

definition search_query :: "dom \<Rightarrow> string" where
  "search_query d = (case d ''sidebar-search-input'' of None \<Rightarrow> [] | Some e \<Rightarrow> lower (val e))"

definition session_list_html :: "clock \<Rightarrow> string \<Rightarrow> 'a agent_state_scheme \<Rightarrow> string option" where
  "session_list_html ck loc s =
     (case filter_throw (session_matches (search_query (page s)) (currentTab s)) (allSessions s) of None \<Rightarrow> None
      | Some [] \<Rightarrow> Some ((html ''<div style=^padding: 1.5rem; color: var(--text-muted); font-size: 0.85rem; text-align: center;^>'') @ i18n_t loc ''emptySessions'' @ ''</div>'')
      | Some xs \<Rightarrow> map_join (session_item ck (activeSessionId s)) xs)"

text \<open>A renderer with its container: nothing happens without the container, and an exception leaves it as it was.\<close>

definition render_into :: "string \<Rightarrow> string option \<Rightarrow> 'a browser_scheme \<Rightarrow> 'a browser_scheme option" where
  "render_into cid h s = (if page s cid = None then Some s
     else map_option (\<lambda>t. on_elem cid (set_html t) s) h)"

definition renderSessionList :: "clock \<Rightarrow> string \<Rightarrow> string \<Rightarrow> 'a agent_state_scheme \<Rightarrow> 'a agent_state_scheme option" where
  "renderSessionList ck loc cid s = render_into cid (session_list_html ck loc s) s"

definition node_option :: "jsv \<Rightarrow> jsv \<Rightarrow> string option" where
  "node_option active n = (case get_prop n ''node_id'' of None \<Rightarrow> None
     | Some i \<Rightarrow> Some ((html ''~          <option value=^'') @ escapeHtml i @ (html ''^ '') @ (if strict_eq i active then ''selected'' else []) @ (html ''>~            '') @ escapeHtml (js_or (js_or (safe_prop n ''display_name'') (safe_prop n ''node_name'')) i) @ '' '' @ (if truthy (safe_prop n ''is_online'') then ''(Online)'' else []) @ (html ''~          </option>~        '')))"

definition node_selector_html :: "'a agent_state_scheme \<Rightarrow> string option" where
  "node_selector_html s = (if nodes s = []
     then Some ((html ''~        <div class=^node-pill-status^>~          <span class=^status-indicator-dot online^></span>~          <span class=^node-name-label^>mifcom (cm-win-mifcom-rtx3080)</span>~        </div>~      ''))
     else map_option (\<lambda>opts. (html ''~      <select class=^node-select-dropdown^ onchange=^typeof selectNode === `function` ? selectNode(this.value) : (AgentState.state.activeNodeId = this.value)^>~        '') @ opts @ (html ''~      </select>~    '')) (map_join (node_option (activeNodeId s)) (nodes s)))"

definition renderNodeSelector :: "string \<Rightarrow> 'a agent_state_scheme \<Rightarrow> 'a agent_state_scheme option" where
  "renderNodeSelector cid s = render_into cid (node_selector_html s) s"

definition workspace_item :: "jsv \<Rightarrow> jsv \<Rightarrow> string option" where
  "workspace_item active w = (case get_prop w ''id'' of None \<Rightarrow> None
     | Some i \<Rightarrow> (let badge = (if truthy (safe_prop w ''git_branch'')
           then (html ''<span class=^project-branch-tag^>'') @ escapeHtml (safe_prop w ''git_branch'') @ ''</span>'' else []) in
         Some ((html ''~        <div class=^sidebar-project-item '') @ (if strict_eq i active then ''active'' else []) @ (html ''^ data-id=^'') @ escapeHtml i @ (html ''^ onclick=^typeof selectWorkspace === `function` ? selectWorkspace(`'') @ escapeHtml i @ (html ''`) : (AgentState.state.activeWorkspaceId = `'') @ escapeHtml i @ (html ''`)^>~          <span class=^project-item-icon^>'' @ [CHR 0xF0, CHR 0x9F, CHR 0x93, CHR 0x81] @ html ''</span>~          <span class=^project-item-name^ title=^'') @ escapeHtml (safe_prop w ''path'') @ (html ''^>'') @ escapeHtml (js_or (safe_prop w ''name'') i) @ (html ''</span>~          '') @ badge @ (html ''~        </div>~      ''))))"

definition workspaces_list_html :: "'a agent_state_scheme \<Rightarrow> string option" where
  "workspaces_list_html s = (if workspaces s = []
     then Some ((html ''<div style=^padding: 1rem; color: var(--text-muted); font-size: 0.82rem; text-align: center;^>Keine Projekte auf Node registriert.</div>''))
     else map_join (workspace_item (activeWorkspaceId s)) (workspaces s))"

definition renderWorkspacesList :: "string \<Rightarrow> 'a agent_state_scheme \<Rightarrow> 'a agent_state_scheme option" where
  "renderWorkspacesList cid s = render_into cid (workspaces_list_html s) s"

section \<open>Timeline\<close>

definition event_type :: "jsv \<Rightarrow> jsv" where
  "event_type e = js_or (js_or (safe_prop e ''type'') (safe_prop e ''event_type'')) (Str ''unknown'')"

definition event_payload :: "jsv \<Rightarrow> jsv" where
  "event_payload e = js_or (js_or (safe_prop e ''payload'') (safe_prop e ''data'')) (Obj [])"

definition or2 :: "jsv \<Rightarrow> string \<Rightarrow> string \<Rightarrow> jsv \<Rightarrow> jsv" where
  "or2 v k1 k2 d = js_or (js_or (safe_prop v k1) (safe_prop v k2)) d"

definition card_seq :: "jsv \<Rightarrow> string" where
  "card_seq e = str_of_or (safe_prop e ''sequence'') []"

definition approval_id :: "jsv \<Rightarrow> string" where
  "approval_id e = to_str (js_or (js_or (safe_prop (event_payload e) ''approval_id'') (safe_prop e ''approval_id'')) (Str []))"

definition card_body :: "jsv \<Rightarrow> string" where
  "card_body e = (let ty = event_type e; p = event_payload e; seq = card_seq e in
     if ty = Str ''turn_start'' \<or> ty = Str ''user_message'' then
       (html ''~        <div class=^timeline-card card-user^>~          <div class=^card-header^>~            <span>'' @ [CHR 0xF0, CHR 0x9F, CHR 0x91, CHR 0xA4] @ html '' User</span>~            <span class=^card-seq^>#'') @ seq @ (html ''</span>~          </div>~          <div class=^card-content^>'') @ escapeHtml (or2 p ''prompt'' ''text'' (Str [])) @ (html ''</div>~        </div>~      '')
     else if ty = Str ''agent_message'' \<or> ty = Str ''assistant_message'' then
       (html ''~        <div class=^timeline-card card-agent^>~          <div class=^card-header^>~            <span>'' @ [CHR 0xF0, CHR 0x9F, CHR 0xA4, CHR 0x96] @ html '' Agent</span>~            <span class=^card-seq^>#'') @ seq @ (html ''</span>~          </div>~          <div class=^card-content^>'') @ escapeHtml (or2 p ''text'' ''content'' (Str [])) @ (html ''</div>~        </div>~      '')
     else if ty = Str ''tool_call'' then
       (html ''~        <div class=^timeline-card card-tool^>~          <div class=^card-header^>~            <span>'' @ [CHR 0xF0, CHR 0x9F, CHR 0x94, CHR 0xA7] @ '' Tool: '') @ escapeHtml (or2 p ''tool_name'' ''name'' (Str ''exec'')) @ (html ''</span>~            <span class=^card-seq^>#'') @ seq @ (html ''</span>~          </div>~          <div class=^card-content^>~            <pre class=^code-block^>'') @ escapeHtml (Str (stringify2 [] (or2 p ''args'' ''parameters'' (Obj [])))) @ (html ''</pre>~          </div>~        </div>~      '')
     else if ty = Str ''tool_result'' then
       (html ''~        <div class=^timeline-card card-result^>~          <div class=^card-header^>~            <span>'' @ [CHR 0xF0, CHR 0x9F, CHR 0x93, CHR 0x8B] @ html '' Tool Result</span>~            <span class=^card-seq^>#'') @ seq @ (html ''</span>~          </div>~          <div class=^card-content^>~            <pre class=^terminal-block^>'') @ escapeHtml (Str (to_str (or2 p ''output'' ''result'' (Str [])))) @ (html ''</pre>~          </div>~        </div>~      '')
     else if ty = Str ''approval_requested'' then
       (html ''~        <div class=^timeline-card card-approval^>~          <div class=^card-header^ style=^color: var(--accent-amber);^>~            <span>'' @ [CHR 0xE2, CHR 0x9A, CHR 0xA0, CHR 0xEF, CHR 0xB8, CHR 0x8F] @ html '' Freigabe angefordert (Approval Required)</span>~            <span class=^card-seq^>#'') @ seq @ (html ''</span>~          </div>~          <div class=^card-content^>~            <p><strong>Aktion:</strong> '') @ escapeHtml (js_or (safe_prop p ''action'') (Str ''Side-effect operation'')) @ (html ''</p>~            <p><strong>Details:</strong> '') @ escapeHtml (js_or (safe_prop p ''description'') (Str (stringify p))) @ (html ''</p>~            <div style=^display: flex; gap: 0.5rem; margin-top: 0.75rem;^>~              <button class=^btn btn-primary btn-sm^ onclick=^AgentApp.handleApproval(`'') @ approval_id e @ (html ''`, `approve`)^>'' @ [CHR 0xE2, CHR 0x9C, CHR 0x93] @ html '' Freigeben (Approve)</button>~              <button class=^btn btn-secondary btn-sm^ onclick=^AgentApp.handleApproval(`'') @ approval_id e @ (html ''`, `reject`)^>'' @ [CHR 0xE2, CHR 0x9C, CHR 0x95] @ html '' Ablehnen (Reject)</button>~            </div>~          </div>~        </div>~      '')
     else if ty = Str ''diff'' \<or> ty = Str ''file_patch'' then
       (html ''~        <div class=^timeline-card card-diff^>~          <div class=^card-header^>~            <span>'' @ [CHR 0xF0, CHR 0x9F, CHR 0x93, CHR 0x9D] @ '' File Diff: '') @ escapeHtml (js_or (safe_prop p ''path'') (Str [])) @ (html ''</span>~            <span class=^card-seq^>#'') @ seq @ (html ''</span>~          </div>~          <div class=^card-content^>~            <pre class=^diff-block^>'') @ escapeHtml (or2 p ''diff'' ''patch'' (Str [])) @ (html ''</pre>~          </div>~        </div>~      '')
     else
       (html ''~      <div class=^timeline-card card-generic^>~        <div class=^card-header^>~          <span>'' @ [CHR 0xE2, CHR 0x84, CHR 0xB9, CHR 0xEF, CHR 0xB8, CHR 0x8F] @ '' '') @ escapeHtml ty @ (html ''</span>~          <span class=^card-seq^>#'') @ seq @ (html ''</span>~        </div>~        <div class=^card-content^>'') @ escapeHtml (Str (stringify p)) @ (html ''</div>~      </div>~    ''))"

definition renderEventCard :: "jsv \<Rightarrow> string option" where
  "renderEventCard e = (if get_prop e ''type'' = None then None else Some (card_body e))"

definition timeline_html :: "string \<Rightarrow> 'a agent_state_scheme \<Rightarrow> string option" where
  "timeline_html loc s = (if events s = []
     then Some ((html ''<div style=^padding: 2rem; color: var(--text-muted); text-align: center; font-size: 0.9rem;^>'') @ i18n_t loc ''emptyTimeline'' @ ''</div>'')
     else map_join renderEventCard (events s))"

definition renderTimeline :: "string \<Rightarrow> string \<Rightarrow> 'a agent_state_scheme \<Rightarrow> 'a agent_state_scheme option" where
  "renderTimeline loc cid s = render_into cid (timeline_html loc s) s"

section \<open>Inspector\<close>

definition plan_step :: "nat \<times> jsv \<Rightarrow> string option" where
  "plan_step ist = (case ist of (i, step) \<Rightarrow> (case get_prop step ''completed'' of None \<Rightarrow> None
     | Some done_v \<Rightarrow> Some ((html ''~          <div class=^plan-step '') @ (if truthy done_v then ''completed'' else if truthy (safe_prop step ''active'') then ''active'' else []) @ (html ''^>~            <span>'') @ nat_str (i + 1) @ (html ''.</span>~            <span>'') @ escapeHtml (or2 step ''title'' ''description'' step) @ (html ''</span>~          </div>~        ''))))"

definition plan_of :: "jsv \<Rightarrow> jsv" where
  "plan_of v = js_or (js_or (safe_prop v ''plan'') (and_prop (safe_prop v ''metadata'') ''plan'')) (Arr [])"

definition plan_html :: "jsv \<Rightarrow> string option" where
  "plan_html v = (case plan_of v of
     Arr (x # xs) \<Rightarrow> map_join plan_step (enumerate 0 (x # xs))
   | _ \<Rightarrow> Some ((html ''<span style=^color: var(--text-muted); font-size: 0.8rem;^>Kein Plan aktiv</span>'')))"

definition artifact_item :: "jsv \<Rightarrow> string option" where
  "artifact_item a = (case get_prop a ''name'' of None \<Rightarrow> None
     | Some name \<Rightarrow> Some ((html ''~          <div class=^artifact-item^>~            <span class=^artifact-name^>'') @ escapeHtml (js_or name (safe_prop a ''ref_id'')) @ (html ''</span>~            <a href=^/v1/agents/artifacts/'') @ encodeURIComponent (to_str (safe_prop a ''ref_id'')) @ (html ''^ download=^'') @ escapeHtml (js_or name (Str ''artifact'')) @ (html ''^ class=^btn btn-secondary btn-xs^>Download</a>~          </div>~        '')))"

definition artifacts_html :: "jsv list \<Rightarrow> string option" where
  "artifacts_html xs = (if xs = [] then Some ((html ''<span style=^color: var(--text-muted); font-size: 0.8rem;^>Keine Artefakte erzeugt</span>'')) else map_join artifact_item xs)"

definition tokens_of :: "jsv \<Rightarrow> jsv" where
  "tokens_of v = js_or (js_or (and_prop (safe_prop v ''usage'') ''total_tokens'') (safe_prop v ''tokens_used'')) (JInt 0)"

definition metrics_html :: "clock \<Rightarrow> jsv \<Rightarrow> string option" where
  "metrics_html ck v = (case as_str (js_or (safe_prop v ''status'') (Str ''READY'')) of None \<Rightarrow> None
     | Some st \<Rightarrow> Some ((html ''~        <div class=^metric-row^><span>Tokens verwendet:</span><strong>'') @ locale_str ck (tokens_of v) @ (html ''</strong></div>~        <div class=^metric-row^><span>Status:</span><strong>'') @ upper st @ (html ''</strong></div>~        <div class=^metric-row^><span>Erstellt:</span><span>'') @ date_time_str ck (js_or (safe_prop v ''created_at'') (now ck)) @ (html ''</span></div>~      '')))"

text \<open>The four parts are written one after the other; an exception in one leaves the later ones as they were.\<close>

definition render_step :: "string \<Rightarrow> string option \<Rightarrow> 'a browser_scheme \<times> bool \<Rightarrow> 'a browser_scheme \<times> bool" where
  "render_step cid h sb = (case sb of (s, False) \<Rightarrow> (s, False)
     | (s, True) \<Rightarrow> (case render_into cid h s of None \<Rightarrow> (s, False) | Some s' \<Rightarrow> (s', True)))"

definition goal_text :: "jsv \<Rightarrow> string" where
  "goal_text v = to_str (or2 v ''goal'' ''title'' (Str ''Kein explizites Ziel hinterlegt''))"

definition renderInspector :: "clock \<Rightarrow> 'a agent_state_scheme \<Rightarrow> 'a agent_state_scheme \<times> bool" where
  "renderInspector ck s = (if \<not> truthy (activeSession s) then (s, True)
     else let v = activeSession s; s1 = on_elem ''inspector-goal-content'' (set_text (goal_text v)) s in
       render_step ''inspector-metrics-content'' (metrics_html ck v)
         (render_step ''inspector-artifacts-content'' (artifacts_html (artifacts s))
           (render_step ''inspector-plan-content'' (plan_html v) (s1, True))))"

lemmas view_defs [js_defs] = escape_text_def escapeHtml_def session_matches_def formatTime_def
  session_item_def search_query_def session_list_html_def render_into_def renderSessionList_def
  node_option_def node_selector_html_def renderNodeSelector_def workspace_item_def workspaces_list_html_def
  renderWorkspacesList_def event_type_def event_payload_def or2_def card_seq_def approval_id_def card_body_def
  renderEventCard_def timeline_html_def renderTimeline_def plan_step_def plan_of_def plan_html_def
  artifact_item_def artifacts_html_def tokens_of_def metrics_html_def render_step_def goal_text_def
  renderInspector_def

section \<open>Escaping is safe and loses nothing\<close>

definition esc_char :: "char \<Rightarrow> string" where
  "esc_char c = (if c = CHR ''&'' then ''&amp;'' else if c = CHR ''<'' then ''&lt;''
     else if c = CHR ''>'' then ''&gt;'' else if c = CHR 0x22 then ''&quot;'' else [c])"

lemma escape_text_chars: "escape_text s = concat (map esc_char s)"
  by (induction s) (auto simp: escape_text_def replace_char_def esc_char_def)

text \<open>The characters that end a text or an attribute value.\<close>

definition markup :: "char \<Rightarrow> bool" where
  "markup c = (c = CHR ''<'' \<or> c = CHR ''>'' \<or> c = CHR 0x22)"

definition skeleton :: "string \<Rightarrow> string" where
  "skeleton h = filter markup h"

lemma skeleton_append [simp]: "skeleton (a @ b) = skeleton a @ skeleton b"
  by (simp add: skeleton_def)

lemma skeleton_Nil [simp]: "skeleton [] = []"
  by (simp add: skeleton_def)

lemma skeleton_Cons: "skeleton (c # s) = (if markup c then c # skeleton s else skeleton s)"
  by (simp add: skeleton_def)

lemma skeleton_escape_text [simp]: "skeleton (escape_text s) = []"
  by (induction s) (auto simp: escape_text_chars esc_char_def skeleton_def markup_def)

lemma skeleton_escapeHtml [simp]: "skeleton (escapeHtml v) = []"
  by (simp add: escapeHtml_def)

text \<open>How a browser reads the four entities back.\<close>

fun unescape :: "string \<Rightarrow> string" where
  "unescape [] = []"
| "unescape (c # r) = (if starts_with (c # r) ''&amp;'' then CHR ''&'' # unescape (drop 4 r)
     else if starts_with (c # r) ''&lt;'' then CHR ''<'' # unescape (drop 3 r)
     else if starts_with (c # r) ''&gt;'' then CHR ''>'' # unescape (drop 3 r)
     else if starts_with (c # r) ''&quot;'' then CHR 0x22 # unescape (drop 5 r)
     else c # unescape r)"

lemma unescape_escape_text: "unescape (escape_text s) = s"
  by (induction s) (auto simp: escape_text_chars esc_char_def)

section \<open>Numbers carry no markup\<close>

lemma not_markup_digit: "n < 10 \<Longrightarrow> \<not> markup (char_of (48 + n :: nat))"
proof -
  assume "n < 10"
  have "(of_char c :: nat) \<in> {60, 62, 34}" if "markup c" for c using that by (auto simp: markup_def)
  moreover have "(of_char (char_of (48 + n :: nat)) :: nat) = 48 + n" using \<open>n < 10\<close> by simp
  ultimately show ?thesis using \<open>n < 10\<close> by force
qed

lemma skeleton_nat_str [simp]: "skeleton (nat_str n) = []"
proof (induction n rule: nat_str.induct)
  case (1 n)
  then show ?case by (subst nat_str.simps) (simp add: skeleton_Cons not_markup_digit)
qed

lemma skeleton_frac_str [simp]: "skeleton (frac_str n q) = []"
  by (induction n q rule: frac_str.induct) auto

lemma skeleton_num_str [simp]: "skeleton (num_str n) = []"
  by (cases n) (auto simp: rat_str_def Let_def skeleton_Cons markup_def)

section \<open>Timeline cards\<close>

text \<open>The six kinds of card the code distinguishes, and the generic one.\<close>

definition card_kind :: "jsv \<Rightarrow> nat" where
  "card_kind e = (let ty = event_type e in
     if ty = Str ''turn_start'' \<or> ty = Str ''user_message'' then 0
     else if ty = Str ''agent_message'' \<or> ty = Str ''assistant_message'' then 1
     else if ty = Str ''tool_call'' then 2 else if ty = Str ''tool_result'' then 3
     else if ty = Str ''approval_requested'' then 4
     else if ty = Str ''diff'' \<or> ty = Str ''file_patch'' then 5 else 6)"

definition numeric_seq :: "jsv \<Rightarrow> bool" where
  "numeric_seq e = (case safe_prop e ''sequence'' of Num _ \<Rightarrow> True | v \<Rightarrow> \<not> truthy v)"

lemma skeleton_card_seq: "numeric_seq e \<Longrightarrow> skeleton (card_seq e) = []"
  by (auto simp: numeric_seq_def card_seq_def str_of_or_def split: jsv.splits)

definition card_template :: "nat \<Rightarrow> string" where
  "card_template k = skeleton (card_body (Obj [(''type'', Str ([''user_message'', ''agent_message'', ''tool_call'',
     ''tool_result'', ''approval_requested'', ''diff'', ''other''] ! k))]))"

lemma bare_event:
  assumes "x \<noteq> []"
  shows "event_type (Obj [(''type'', Str x)]) = Str x" "event_payload (Obj [(''type'', Str x)]) = Obj []"
    "card_seq (Obj [(''type'', Str x)]) = []" "approval_id (Obj [(''type'', Str x)]) = []"
  using assms by (simp_all add: event_type_def event_payload_def card_seq_def approval_id_def field_def js_or_def str_of_or_def)

lemma skeleton_card_body:
  assumes "skeleton (card_seq e) = []" and "card_kind e = 4 \<Longrightarrow> skeleton (approval_id e) = []"
  shows "skeleton (card_body e) = card_template (card_kind e)"
proof -
  define ty where "ty = event_type e"
  note d = card_body_def card_kind_def card_template_def Let_def bare_event skeleton_Cons markup_def ty_def [symmetric]
  consider "ty = Str ''turn_start'' \<or> ty = Str ''user_message''" | "ty = Str ''agent_message'' \<or> ty = Str ''assistant_message''"
    | "ty = Str ''tool_call''" | "ty = Str ''tool_result''" | "ty = Str ''approval_requested''"
    | "ty = Str ''diff'' \<or> ty = Str ''file_patch''"
    | "ty \<noteq> Str ''turn_start'' \<and> ty \<noteq> Str ''user_message'' \<and> ty \<noteq> Str ''agent_message'' \<and> ty \<noteq> Str ''assistant_message'' \<and>
       ty \<noteq> Str ''tool_call'' \<and> ty \<noteq> Str ''tool_result'' \<and> ty \<noteq> Str ''approval_requested'' \<and> ty \<noteq> Str ''diff'' \<and>
       ty \<noteq> Str ''file_patch''"
    by satx
  then show ?thesis
  proof cases
    case 5
    then have "card_kind e = 4" by (simp add: card_kind_def ty_def [symmetric])
    with 5 assms show ?thesis by (simp add: d)
  next
    case 7
    then show ?thesis using assms(1) by (simp add: d)
  qed (use assms(1) in \<open>elim disjE; simp add: d\<close>, use assms(1) in \<open>elim disjE; simp add: d\<close>, use assms(1) in \<open>simp add: d\<close>,
       use assms(1) in \<open>simp add: d\<close>, use assms(1) in \<open>elim disjE; simp add: d\<close>)
qed

definition visible :: "string \<Rightarrow> string \<Rightarrow> jsv \<Rightarrow> bool" where
  "visible qry tab s =
     (includes_str (lower (to_str (js_or (js_or (safe_prop s ''title'') (safe_prop s ''session_id'')) (Str [])))) qry \<and>
      (if tab = ''pinned'' then safe_prop s ''pinned'' = Bool True
       else if tab = ''archived'' then safe_prop s ''archived'' = Bool True
       else \<not> truthy (safe_prop s ''archived'')))"

definition session_record :: "jsv \<Rightarrow> bool" where
  "session_record s = (is_record s \<and> text_or_missing (safe_prop s ''title'') \<and>
     text_or_missing (safe_prop s ''session_id'') \<and> text_or_missing (safe_prop s ''status''))"

lemma session_matches_record:
  assumes "session_record s"
  shows "session_matches qry tab s = Some (visible qry tab s)"
proof -
  let ?v = "js_or (safe_prop s ''title'') (safe_prop s ''session_id'')"
  have "as_str (js_or ?v (Str [])) = Some (str_of_or ?v [])"
    using assms by (intro as_str_or text_or_missing_or) (simp_all add: session_record_def)
  moreover have "str_of_or ?v [] = to_str (js_or ?v (Str []))" by (simp add: str_of_or_def js_or_def)
  ultimately show ?thesis
    using assms by (simp add: session_matches_def visible_def session_record_def get_prop_record)
qed

lemma session_item_total: "session_record s \<Longrightarrow> session_item ck a s = Some (the (session_item ck a s))"
  by (simp add: session_item_def as_str_or session_record_def Let_def)

lemma skeleton_approval_id:
  "skeleton (to_str (safe_prop (event_payload e) ''approval_id'')) = [] \<Longrightarrow> skeleton (to_str (safe_prop e ''approval_id'')) = [] \<Longrightarrow>
   skeleton (approval_id e) = []"
  by (simp add: approval_id_def js_or_def)

section \<open>Properties\<close>

text \<open>C32. No markup from event data: the tags and attribute quotes of a timeline card are those of the card's
  template, whatever texts, tool arguments, outputs or diffs the event carries, provided that its
  sequence number is a number and its approval id (which the code inserts unescaped) has no markup characters.
  Escaping loses nothing: the browser shows exactly the escaped text.\<close>

theorem event_cards_keep_markup:
  assumes "get_prop e ''type'' \<noteq> None" and "numeric_seq e"
    and "card_kind e = 4 \<longrightarrow> skeleton (to_str (safe_prop (event_payload e) ''approval_id'')) = [] \<and>
           skeleton (to_str (safe_prop e ''approval_id'')) = []"
  shows "\<exists>h. renderEventCard e = Some h \<and> skeleton h = card_template (card_kind e) \<and>
    unescape (escapeHtml v) = str_of_or v []"
proof -
  have "skeleton (card_body e) = card_template (card_kind e)"
    using assms by (intro skeleton_card_body skeleton_card_seq skeleton_approval_id) auto
  moreover have "unescape (escapeHtml v) = str_of_or v []"
    by (simp add: escapeHtml_def unescape_escape_text)
  ultimately show ?thesis using assms(1) by (auto simp: renderEventCard_def)
qed

theorem event_cards_keep_markup_witness:
  "\<exists>h. renderEventCard (Obj [(''type'', Str ''tool_result''), (''sequence'', JInt 7), (''payload'', Obj [(''output'', Str ''<script>'')])]) = Some h \<and>
     skeleton h = card_template 3"
proof -
  let ?e = "Obj [(''type'', Str ''tool_result''), (''sequence'', JInt 7), (''payload'', Obj [(''output'', Str ''<script>'')])]"
  have k: "card_kind ?e = 3" by (simp add: card_kind_def event_type_def field_def js_or_def)
  have p: "get_prop ?e ''type'' \<noteq> None" "numeric_seq ?e"
    by (simp_all add: numeric_seq_def field_def)
  show ?thesis using event_cards_keep_markup [OF p, of Null] unfolding k by auto
qed

text \<open>C34. The sidebar: for session records as the gateway sends them the list never throws, and it shows exactly
  the sessions whose title (or id) contains the search text, ignoring case, and that belong to the current tab,
  in the order of the state, or the empty message if there are none. Only the container changes.\<close>

theorem sidebar_shows_visible:
  assumes "\<forall>x \<in> set (allSessions s). session_record x" and "page s cid = Some e"
    and "xs = filter (visible (search_query (page s)) (currentTab s)) (allSessions s)"
  shows "\<exists>s' h. renderSessionList ck loc cid s = Some s' \<and> page s' = (page s)(cid \<mapsto> e\<lparr>content := Html h\<rparr>) \<and>
    (xs \<noteq> [] \<longrightarrow> h = concat (map (\<lambda>x. the (session_item ck (activeSessionId s) x)) xs)) \<and>
    (xs = [] \<longrightarrow> includes_str h (i18n_t loc ''emptySessions''))"
proof -
  have f: "filter_throw (session_matches (search_query (page s)) (currentTab s)) (allSessions s) = Some xs"
    unfolding assms(3) by (rule filter_throw_total) (use assms(1) in \<open>simp add: session_matches_record\<close>)
  have m: "map_join (session_item ck (activeSessionId s)) xs = Some (concat (map (\<lambda>x. the (session_item ck (activeSessionId s) x)) xs))"
    by (rule map_join_total) (use assms(1,3) session_item_total in auto)
  obtain h where "session_list_html ck loc s = Some h"
    and "xs \<noteq> [] \<longrightarrow> h = concat (map (\<lambda>x. the (session_item ck (activeSessionId s) x)) xs)"
    and "xs = [] \<longrightarrow> includes_str h (i18n_t loc ''emptySessions'')"
    using f m by (cases xs) (auto simp: session_list_html_def intro: includes_append_mid)
  then show ?thesis using assms(2) by (auto simp: renderSessionList_def render_into_def upd_elem_def)
qed

definition no_clock :: clock where
  "no_clock = \<lparr>time_str = (\<lambda>_. []), date_time_str = (\<lambda>_. []), locale_str = to_str, now = JInt 0\<rparr>"

definition two_sessions :: agent_state where
  "two_sessions = (initial_state (key_browser ''apiKey'' ''k1''))\<lparr>page := [''list'' \<mapsto> blank, ''sidebar-search-input'' \<mapsto> blank\<lparr>val := ''FIX''\<rparr>],
     allSessions := [Obj [(''session_id'', Str ''s1''), (''title'', Str ''Write docs'')], Obj [(''session_id'', Str ''s2''), (''title'', Str ''Fix bug'')]]\<rparr>"

theorem sidebar_shows_visible_witness:
  "\<exists>s'. renderSessionList no_clock ''de'' ''list'' two_sessions = Some s' \<and>
     content (the (page s' ''list'')) = Html (the (session_item no_clock Null (Obj [(''session_id'', Str ''s2''), (''title'', Str ''Fix bug'')])))"
proof -
  have r: "\<forall>x \<in> set (allSessions two_sessions). session_record x"
    by (simp add: two_sessions_def session_record_def is_record_def text_or_missing_def field_def)
  have p: "page two_sessions ''list'' = Some blank" by (simp add: two_sessions_def)
  have v: "filter (visible (search_query (page two_sessions)) (currentTab two_sessions)) (allSessions two_sessions) =
      [Obj [(''session_id'', Str ''s2''), (''title'', Str ''Fix bug'')]]"
    by code_simp
  have a: "activeSessionId two_sessions = Null" by (simp add: two_sessions_def initial_state_def browser.defs)
  show ?thesis
    using sidebar_shows_visible [OF r p refl, of no_clock "''de''"] unfolding v a by auto
qed

end
