(* ===== verification/AgentApp.thy ===== *)
theory AgentApp
  imports AgentViews
begin

text \<open>
  \<^verbatim>\<open>src/portal/agent-workspace/composer.js\<close> and \<^verbatim>\<open>app.js\<close>: the composer's mode and send action, the start-up,
  the polling timer, the selection of a session and the approval buttons. The handlers are first given
  as the code runs them when nothing else interferes; the relation \<open>agent_step\<close> then interleaves them at their
  \<^verbatim>\<open>await\<close>s, with any number of event requests in flight. A handler returns its state and whether it ran to
  its end (\<^const>\<open>False\<close>: an exception stopped it).
\<close>

section \<open>Composer\<close>

record agent_app = agent_state +
  currentMode :: string
  ui_locale :: string

definition setMode :: "string \<Rightarrow> agent_app \<Rightarrow> agent_app" where
  "setMode mode s = (let m = (if mode = ''steer'' then ''steer'' else ''queue'');
       s1 = s\<lparr>currentMode := m, composerMode := m\<rparr>;
       s2 = on_elem ''mode-queue-btn'' (toggle_class ''active'' (m = ''queue'')) s1;
       s3 = on_elem ''mode-steer-btn'' (toggle_class ''active'' (m = ''steer'')) s2 in
     on_elem ''composer-hint'' (set_text (if m = ''queue'' then i18n_t (ui_locale s) ''hintQueue''
       else i18n_t (ui_locale s) ''hintSteer'')) s3)"

definition getMode :: "agent_app \<Rightarrow> string" where
  "getMode s = currentMode s"

definition composer_input :: "dom \<Rightarrow> string option" where
  "composer_input d = find (\<lambda>i. d i \<noteq> None) [''composer-textarea'', ''composer-text'', ''hero-prompt-text'']"

definition value_of :: "string \<Rightarrow> dom \<Rightarrow> string" where
  "value_of i d = (case d i of None \<Rightarrow> [] | Some e \<Rightarrow> val e)"

text \<open>A view update inside a handler.\<close>

definition show_timeline :: "agent_app \<Rightarrow> agent_app \<times> bool" where
  "show_timeline s = (case renderTimeline (ui_locale s) ''timeline-container'' s of None \<Rightarrow> (s, False) | Some s' \<Rightarrow> (s', True))"

definition handleSend :: "server \<Rightarrow> agent_app \<Rightarrow> agent_app \<times> bool" where
  "handleSend srv s = (case composer_input (page s) of None \<Rightarrow> (s, True)
     | Some i \<Rightarrow> (let prompt = trim (value_of i (page s)) in
         if prompt = [] then (s, True)
         else if \<not> truthy (activeSessionId s)
         then (alert (''Bitte w'' @ [CHR 0xC3, CHR 0xA4] @ ''hlen Sie zuerst eine Sitzung aus oder erstellen Sie eine neue Aufgabe.'') s, True)
         else let sid = activeSessionId s; s1 = on_elem i (\<lambda>e. e\<lparr>val := []\<rparr>) s;
                (s2, success) = submitTurn srv sid prompt (currentMode s) [] s1 in
           if \<not> success then (s2, True)
           else show_timeline (fst (loadEvents srv sid (eventCursor s2) s2))))"

section \<open>The application\<close>

text \<open>The body of the \<^verbatim>\<open>setInterval\<close> callback.\<close>

definition poll_tick :: "clock \<Rightarrow> server \<Rightarrow> agent_app \<Rightarrow> agent_app \<times> bool" where
  "poll_tick ck srv s = (if \<not> truthy (activeSessionId s) then (s, True)
     else let (s1, new) = loadEvents srv (activeSessionId s) (eventCursor s) s in
       if new = [] then (s1, True)
       else (case show_timeline s1 of (s2, False) \<Rightarrow> (s2, False)
         | (s2, True) \<Rightarrow> renderInspector ck (fst (loadArtifacts srv (activeSessionId s2) s2))))"

text \<open>What \<^verbatim>\<open>selectSession\<close> does before its first \<^verbatim>\<open>await\<close>.\<close>

definition begin_select :: "jsv \<Rightarrow> agent_app \<Rightarrow> agent_app" where
  "begin_select sid s = s\<lparr>activeSessionId := sid, events := [], eventCursor := Fin 0\<rparr>"

definition show_active_session :: "jsv \<Rightarrow> agent_app \<Rightarrow> agent_app \<times> bool" where
  "show_active_session sid s = (let v = activeSession s;
       s1 = (if truthy v then on_elem ''active-session-title'' (\<lambda>e. e\<lparr>val := to_str (js_or (safe_prop v ''title'') sid)\<rparr>) s else s) in
     if page s1 ''active-session-badge'' = None \<or> \<not> truthy v then (s1, True)
     else (case as_str (js_or (safe_prop v ''status'') (Str ''ready'')) of None \<Rightarrow> (s1, False)
       | Some st \<Rightarrow> (on_elem ''active-session-badge''
            (\<lambda>e. set_text (upper (lower st)) (e\<lparr>classes := [''status-badge'', ''status-'' @ lower st]\<rparr>)) s1, True)))"

definition show_sessions :: "clock \<Rightarrow> agent_app \<Rightarrow> agent_app \<times> bool" where
  "show_sessions ck s = (case renderSessionList ck (ui_locale s) ''session-list-container'' s of None \<Rightarrow> (s, False) | Some s' \<Rightarrow> (s', True))"

definition selectSession :: "clock \<Rightarrow> server \<Rightarrow> jsv \<Rightarrow> agent_app \<Rightarrow> agent_app \<times> bool" where
  "selectSession ck srv sid s = (if \<not> truthy sid then (s, True)
     else let s1 = begin_select sid s; s2 = fst (loadSessionDetails srv sid s1);
            s3 = fst (loadEvents srv sid (Fin 0) s2); s4 = fst (loadArtifacts srv sid s3) in
       and_then (and_then (and_then (show_active_session sid s4) (show_sessions ck)) show_timeline) (renderInspector ck))"

text \<open>\<^verbatim>\<open>init\<close> up to the installation of the timer.\<close>

definition init :: "clock \<Rightarrow> server \<Rightarrow> string option \<Rightarrow> agent_app \<Rightarrow> agent_app \<times> bool" where
  "init ck srv url_session s = (let (s1, sessions) = loadSessions srv s in
     and_then (show_sessions ck s1) (\<lambda>s2.
       case url_session of
         Some sid \<Rightarrow> if sid \<noteq> [] then selectSession ck srv (Str sid) s2
           else (case sessions of [] \<Rightarrow> (s2, True)
             | x # _ \<Rightarrow> (case get_prop x ''session_id'' of None \<Rightarrow> (s2, False) | Some v \<Rightarrow> selectSession ck srv v s2))
       | None \<Rightarrow> (case sessions of [] \<Rightarrow> (s2, True)
           | x # _ \<Rightarrow> (case get_prop x ''session_id'' of None \<Rightarrow> (s2, False) | Some v \<Rightarrow> selectSession ck srv v s2))))"

definition handleApproval :: "server \<Rightarrow> string \<Rightarrow> string \<Rightarrow> agent_app \<Rightarrow> agent_app \<times> bool" where
  "handleApproval srv aid decision s = (let (s1, ok1) = decideApproval srv (Str aid) decision s in
     if ok1 \<and> truthy (activeSessionId s1)
     then show_timeline (fst (loadEvents srv (activeSessionId s1) (eventCursor s1) s1)) else (s1, True))"

lemmas app_defs [js_defs] = setMode_def getMode_def composer_input_def value_of_def show_timeline_def handleSend_def
  poll_tick_def begin_select_def show_active_session_def show_sessions_def selectSession_def init_def
  handleApproval_def

section \<open>Interleaving\<close>

text \<open>The continuations of \<^verbatim>\<open>loadSessionDetails\<close> and \<^verbatim>\<open>loadArtifacts\<close> once the response is there.\<close>

definition details_resume :: "jsv \<Rightarrow> fetched \<Rightarrow> 'a agent_state_scheme \<Rightarrow> 'a agent_state_scheme" where
  "details_resume sid f s = (case f of Rejected _ \<Rightarrow> s
     | Resp r \<Rightarrow> (if ok r then (case rjson r of None \<Rightarrow> s | Some v \<Rightarrow> s\<lparr>activeSession := v, activeSessionId := sid\<rparr>) else s))"

definition artifacts_resume :: "fetched \<Rightarrow> 'a agent_state_scheme \<Rightarrow> 'a agent_state_scheme" where
  "artifacts_resume f s = (case f of Rejected _ \<Rightarrow> s
     | Resp r \<Rightarrow> (if ok r then (case rjson r of None \<Rightarrow> s | Some data \<Rightarrow> s\<lparr>artifacts := arr_or_empty (and_prop data ''artifacts'')\<rparr>) else s))"

text \<open>The requests in flight, each with the session it was issued for. A selection asks for the details of its session, then for its events, then for its artifacts; polls, sends and approvals ask for the
  events of the active session; artifacts are taken to be asked for after every reply with events. Any request can be answered next, by any outcome \<open>f\<close> the gateway may give (\<open>R f\<close>). The answer is applied to whatever
  session is then active: no continuation compares it with the session the request was issued for.\<close>

datatype awaiting = Details jsv | Events jsv | Artifacts jsv

fun agent_resume :: "awaiting \<Rightarrow> fetched \<Rightarrow> agent_app \<Rightarrow> agent_app \<times> awaiting list" where
  "agent_resume (Details sid) f s = (details_resume sid f s, [Events sid])"
| "agent_resume (Events sid) f s = (fst (loadEvents_resume f s), [Artifacts sid])"
| "agent_resume (Artifacts sid) f s = (artifacts_resume f s, [])"

inductive agent_step :: "(fetched \<Rightarrow> bool) \<Rightarrow> agent_app \<times> awaiting list \<Rightarrow> agent_app \<times> awaiting list \<Rightarrow> bool" for R where
  issue: "truthy (activeSessionId s) \<Longrightarrow> agent_step R (s, ps) (s, ps @ [Events (activeSessionId s)])"
| reply: "i < length ps \<Longrightarrow> R f \<Longrightarrow> agent_resume (ps ! i) f s = (s', qs) \<Longrightarrow> agent_step R (s, ps) (s', take i ps @ drop (Suc i) ps @ qs)"
| select: "truthy sid \<Longrightarrow> agent_step R (s, ps) (begin_select sid s, ps @ [Details sid])"

inductive_cases agent_stepE: "agent_step R (s, ps) t"

section \<open>Frames\<close>

lemma show_timeline_frame [simp]:
  "events (fst (show_timeline s)) = events s" "eventCursor (fst (show_timeline s)) = eventCursor s"
  "activeSessionId (fst (show_timeline s)) = activeSessionId s" "sent (fst (show_timeline s)) = sent s"
  by (auto simp: show_timeline_def renderTimeline_def render_into_def split: option.split)

lemma render_step_frame:
  fixes s :: agent_app
  assumes "render_step cid h (s, b) = (s', b')"
  shows "events s' = events s" "eventCursor s' = eventCursor s" "activeSessionId s' = activeSessionId s" "sent s' = sent s"
  using assms by (cases b; auto simp: render_step_def render_into_def split: option.splits if_splits)+

lemma renderInspector_frame [simp]:
  fixes s :: agent_app
  shows "events (fst (renderInspector ck s)) = events s" "eventCursor (fst (renderInspector ck s)) = eventCursor s"
    "activeSessionId (fst (renderInspector ck s)) = activeSessionId s" "sent (fst (renderInspector ck s)) = sent s"
proof -
  obtain s1 b1 where 1: "render_step ''inspector-plan-content'' (plan_html (activeSession s))
      (on_elem ''inspector-goal-content'' (set_text (goal_text (activeSession s))) s, True) = (s1, b1)" by fastforce
  obtain s2 b2 where 2: "render_step ''inspector-artifacts-content'' (artifacts_html (artifacts s)) (s1, b1) = (s2, b2)" by fastforce
  obtain s3 b3 where 3: "render_step ''inspector-metrics-content'' (metrics_html ck (activeSession s)) (s2, b2) = (s3, b3)" by fastforce
  note f = render_step_frame [OF 1] render_step_frame [OF 2] render_step_frame [OF 3]
  show "events (fst (renderInspector ck s)) = events s" "eventCursor (fst (renderInspector ck s)) = eventCursor s"
    "activeSessionId (fst (renderInspector ck s)) = activeSessionId s" "sent (fst (renderInspector ck s)) = sent s"
    using f by (simp_all add: renderInspector_def Let_def 1 2 3)
qed

lemma loadArtifacts_frame [simp]:
  "events (fst (loadArtifacts srv sid s)) = events s" "eventCursor (fst (loadArtifacts srv sid s)) = eventCursor s"
  "activeSessionId (fst (loadArtifacts srv sid s)) = activeSessionId s"
  by (auto simp: loadArtifacts_def fetchWithAuth_def do_fetch_def Let_def split: fetched.split option.split)

lemma poll_tick_frame:
  "events (fst (poll_tick ck srv s)) = events (fst (loadEvents srv (activeSessionId s) (eventCursor s) s)) \<and>
   eventCursor (fst (poll_tick ck srv s)) = eventCursor (fst (loadEvents srv (activeSessionId s) (eventCursor s) s)) \<and>
   activeSessionId (fst (poll_tick ck srv s)) = activeSessionId s"
proof (cases "truthy (activeSessionId s)")
  case False
  then show ?thesis by (simp add: poll_tick_def loadEvents_def)
next
  case True
  obtain s1 new where 1: "loadEvents srv (activeSessionId s) (eventCursor s) s = (s1, new)" by fastforce
  obtain s2 b where 2: "show_timeline s1 = (s2, b)" by fastforce
  have "activeSessionId s1 = activeSessionId s"
    using 1 True by (auto simp: loadEvents_def fetchWithAuth_def do_fetch_def dest!: arg_cong [where f = "\<lambda>r. activeSessionId (fst r)"])
  then show ?thesis
    using True 1 2 show_timeline_frame [of s1] by (cases b) (auto simp: poll_tick_def)
qed

section \<open>Polling a gateway that serves a log\<close>

definition seqn :: "jsv \<Rightarrow> jnum" where
  "seqn e = (case event_seq e of Some n \<Rightarrow> n | None \<Rightarrow> NaN)"

text \<open>A session's log: events numbered by increasing positive numbers.\<close>

definition log_ok :: "jsv list \<Rightarrow> bool" where
  "log_ok L = ((\<forall>e \<in> set L. event_seq e \<noteq> None \<and> is_finite (seqn e) \<and> num_less (Fin 0) (seqn e)) \<and>
     sorted_wrt (\<lambda>a b. num_less (seqn a) (seqn b)) L)"

text \<open>The gateway's documented reply to \<^verbatim>\<open>GET .../events?after_sequence=n&limit=200\<close>: the first 200 events of the log
  that are numbered above \<open>n\<close>.\<close>

definition page_after :: "jsv list \<Rightarrow> jnum \<Rightarrow> jsv list" where
  "page_after L n = take 200 (filter (\<lambda>e. num_less n (seqn e)) L)"

definition serves_log :: "server \<Rightarrow> jsv \<Rightarrow> jsv list \<Rightarrow> bool" where
  "serves_log srv sid L = (\<forall>hist rq. \<forall>n \<in> insert (Fin 0) (seqn ` set L). url rq = events_url sid n \<longrightarrow>
     (\<exists>r. srv hist rq = Resp r \<and> ok r \<and> rjson r = Some (Obj [(''events'', Arr (page_after L n))])))"

text \<open>The client has seen the first \<open>m\<close> events.\<close>

definition seen :: "jsv list \<Rightarrow> nat \<Rightarrow> 'a agent_state_scheme \<Rightarrow> bool" where
  "seen L m s = (m \<le> length L \<and> events s = take m L \<and>
     eventCursor s = (if m = 0 then Fin 0 else seqn (L ! (m - 1))))"

lemma log_after_cursor:
  assumes "log_ok L" and "m \<le> length L"
  shows "filter (\<lambda>e. num_less (if m = 0 then Fin 0 else seqn (L ! (m - 1))) (seqn e)) L = drop m L"
proof (cases m)
  case 0
  then show ?thesis using assms by (auto simp: log_ok_def filter_id_conv)
next
  case (Suc j)
  let ?c = "seqn (L ! j)"
  have j: "j < length L" using assms(2) Suc by simp
  have srt: "num_less (seqn (L ! a)) (seqn (L ! b))" if "a < b" "b < length L" for a b
    using assms(1) that by (auto simp: log_ok_def sorted_wrt_iff_nth_less)
  have "filter (\<lambda>e. num_less ?c (seqn e)) (take m L) = []"
  proof (rule filter_False, rule ballI)
    fix e assume "e \<in> set (take m L)"
    then obtain i where i: "i < m" "i < length L" "e = L ! i" by (auto simp: in_set_conv_nth)
    show "\<not> num_less ?c (seqn e)"
    proof (cases "i = j")
      case True
      then show ?thesis using i by simp
    next
      case False
      then have "num_less (seqn e) ?c" using srt [of i j] i j Suc by simp
      then show ?thesis using num_less_trans [of ?c "seqn e" ?c] by auto
    qed
  qed
  moreover have "filter (\<lambda>e. num_less ?c (seqn e)) (drop m L) = drop m L"
  proof (rule filter_True, rule ballI)
    fix e assume "e \<in> set (drop m L)"
    then obtain i where "i < length L - m" "e = L ! (m + i)" by (auto simp: in_set_conv_nth)
    then show "num_less ?c (seqn e)" using srt [of j "m + i"] Suc by simp
  qed
  ultimately have "filter (\<lambda>e. num_less ?c (seqn e)) (take m L @ drop m L) = drop m L"
    by (simp only: filter_append append_Nil)
  then show ?thesis using Suc by simp
qed

lemma max_seq_sorted:
  assumes "sorted_wrt num_less ns" and "ns \<noteq> []" and "\<forall>n \<in> set ns. is_finite n"
  shows "max_seq ns = last ns"
proof -
  have fin: "is_finite (max_seq ns)" "\<forall>n \<in> set ns. \<not> num_less (max_seq ns) n"
    using max_seq_finite [OF assms(3,2)] by auto
  have "max_seq ns = NInf \<or> max_seq ns \<in> set ns"
    using max_seq_upper [OF assms(3), of NInf] by (auto simp: max_seq_def Let_def)
  then have mem: "max_seq ns \<in> set ns" using fin(1) by (auto simp: is_finite_def)
  obtain xs where xs: "ns = xs @ [last ns]" using assms(2) by (metis append_butlast_last_id)
  then have "\<forall>n \<in> set xs. num_less n (last ns)" using assms(1) by (metis sorted_wrt_append list.set_intros(1))
  then show ?thesis using mem fin(2) xs by (metis Un_iff empty_iff last_in_set assms(2) list.set(1) list.set(2) insert_iff set_append)
qed

lemma map_throw_seqn: "\<forall>e \<in> set xs. event_seq e \<noteq> None \<Longrightarrow> map_throw event_seq xs = Some (map seqn xs)"
  by (induction xs) (auto simp: seqn_def)

lemma loadEvents_serves:
  assumes log: "log_ok L" and srv: "serves_log srv sid L" and sid: "truthy sid" and s: "seen L m s"
  shows "seen L (min (m + 200) (length L)) (fst (loadEvents srv sid (eventCursor s) s))"
proof -
  let ?c = "eventCursor s"
  have m: "m \<le> length L" and ev: "events s = take m L" and c: "?c = (if m = 0 then Fin 0 else seqn (L ! (m - 1)))"
    using s by (simp_all add: seen_def)
  have "?c \<in> insert (Fin 0) (seqn ` set L)" using c m by auto
  then obtain r where r: "srv (sent s) (auth_request (events_url sid ?c) no_options s) = Resp r" "ok r"
      "rjson r = Some (Obj [(''events'', Arr (page_after L ?c))])"
    using srv unfolding serves_log_def by (metis auth_request_simps(1))
  define new where "new = take 200 (drop m L)"
  have new: "page_after L ?c = new" unfolding page_after_def new_def c by (subst log_after_cursor [OF log m]) simp
  have pos: "\<forall>e \<in> set L. event_seq e \<noteq> None \<and> is_finite (seqn e) \<and> num_less (Fin 0) (seqn e)"
    using log by (simp add: log_ok_def)
  have sub: "set new \<subseteq> set L" unfolding new_def by (meson order_trans set_drop_subset set_take_subset)
  have seqs: "map_throw event_seq new = Some (map seqn new)"
    by (rule map_throw_seqn) (use pos sub in auto)
  let ?s = "s\<lparr>sent := sent s @ [auth_request (events_url sid ?c) no_options s]\<rparr>"
  have le: "loadEvents srv sid ?c s = loadEvents_resume (Resp r) ?s"
    using sid r(1) by (simp add: loadEvents_def fetchWithAuth_def do_fetch_def)
  show ?thesis
  proof (cases "new = []")
    case True
    then have "m = length L" using m by (simp add: new_def)
    then show ?thesis using True s le r new by (simp add: loadEvents_resume_def arr_or_empty_def and_prop_def field_def seen_def)
  next
    case False
    have "sorted_wrt (\<lambda>a b. num_less (seqn a) (seqn b)) new"
      using log unfolding new_def log_ok_def by (simp add: sorted_wrt_take sorted_wrt_drop)
    then have srt: "sorted_wrt num_less (map seqn new)" by (simp add: sorted_wrt_map)
    have mx: "max_seq (map seqn new) = seqn (last new)"
      using max_seq_sorted [OF srt] False pos sub by (auto simp: last_map)
    have lastL: "last new \<in> set new" using False by simp
    then have "last new \<in> set (filter (\<lambda>e. num_less ?c (seqn e)) L)"
      using new by (metis in_set_takeD page_after_def)
    then have up: "num_less ?c (seqn (last new))" by simp
    have len: "length new = min 200 (length L - m)" "0 < length new" using False by (auto simp: new_def)
    then have l: "min (m + 200) (length L) = m + length new" using m by simp
    have "last new = L ! (m + (length new - 1))"
      using False len by (simp add: last_conv_nth) (simp add: new_def)
    then have idx: "last new = L ! (min (m + 200) (length L) - 1)" "min (m + 200) (length L) \<noteq> 0"
      unfolding l using len(2) by simp_all
    have "events s @ new = take (min (m + 200) (length L)) L"
      by (simp add: ev new_def min_def flip: take_add)
    then show ?thesis
      using le r new False seqs mx up idx
      by (simp add: loadEvents_resume_def arr_or_empty_def and_prop_def field_def seen_def Let_def) (use idx(2) in blast)
  qed
qed

lemma poll_tick_seen:
  assumes "log_ok L" and "serves_log srv (activeSessionId s) L" and "truthy (activeSessionId s)" and "seen L m s"
  shows "seen L (min (m + 200) (length L)) (fst (poll_tick ck srv s))"
  using loadEvents_serves [OF assms] poll_tick_frame [of ck srv s] by (simp add: seen_def)

lemma polls_seen:
  assumes "log_ok L" and "serves_log srv (activeSessionId s) L" and "truthy (activeSessionId s)" and "seen L 0 s"
  shows "seen L (min (200 * k) (length L)) (((\<lambda>s. fst (poll_tick ck srv s)) ^^ k) s) \<and>
    activeSessionId (((\<lambda>s. fst (poll_tick ck srv s)) ^^ k) s) = activeSessionId s"
proof (induction k)
  case 0
  then show ?case using assms(4) by simp
next
  case (Suc k)
  let ?t = "((\<lambda>s. fst (poll_tick ck srv s)) ^^ k) s"
  have "seen L (min (min (200 * k) (length L) + 200) (length L)) (fst (poll_tick ck srv ?t))"
    using Suc assms(1-3) by (intro poll_tick_seen) auto
  moreover have "min (min (200 * k) (length L) + 200) (length L) = min (200 * Suc k) (length L)" by (simp add: min_def)
  moreover have "activeSessionId (fst (poll_tick ck srv ?t)) = activeSessionId s"
    using Suc poll_tick_frame [of ck srv ?t] by simp
  ultimately show ?case by simp
qed

section \<open>Invariants of every interleaving\<close>

lemma begin_select_covers: "cursor_covers (begin_select sid s)"
  by (simp add: begin_select_def cursor_covers_def is_finite_def)

lemma details_frame [simp]: "events (details_resume sid f s) = events s" "eventCursor (details_resume sid f s) = eventCursor s"
  by (auto simp: details_resume_def split: fetched.split option.split)

lemma artifacts_frame [simp]:
  "events (artifacts_resume f s) = events s" "eventCursor (artifacts_resume f s) = eventCursor s" "activeSessionId (artifacts_resume f s) = activeSessionId s"
  by (auto simp: artifacts_resume_def split: fetched.split option.split)

lemma loadEvents_session [simp]: "activeSession (fst (loadEvents_resume f s)) = activeSession s"
  by (cases rule: loadEvents_resume_cases [of f s]) simp_all

lemma details_active: "activeSessionId (details_resume sid f s) \<noteq> activeSessionId s \<Longrightarrow> activeSessionId (details_resume sid f s) = sid"
  by (auto simp: details_resume_def split: fetched.splits option.splits if_splits)

text \<open>The handlers of the previous section are these parts, one after the other.\<close>

lemma handlers_resume:
  assumes "truthy sid"
  shows "fetchWithAuth srv (session_path sid) no_options s = (f, s') \<Longrightarrow> fst (loadSessionDetails srv sid s) = details_resume sid f s'"
    "fetchWithAuth srv (events_url sid n) no_options s = (f, s') \<Longrightarrow> fst (loadEvents srv sid n s) = fst (loadEvents_resume f s')"
    "fetchWithAuth srv (session_path sid @ ''/artifacts'') no_options s = (f, s') \<Longrightarrow> fst (loadArtifacts srv sid s) = artifacts_resume f s'"
  using assms by (simp_all add: loadSessionDetails_def details_resume_def loadEvents_def loadArtifacts_def artifacts_resume_def Let_def split: fetched.split option.split)

lemma resume_covers:
  assumes "agent_resume p f s = (s', qs)" "\<And>e. e \<in> set (reply_events f) \<Longrightarrow> numbered e" "cursor_covers s"
  shows "cursor_covers s'"
  using assms loadEvents_resume_covers [of s f] by (cases p) (auto simp: reply_events cursor_covers_def)

lemma agent_step_covers:
  assumes "agent_step R c d" and "\<And>f e. R f \<Longrightarrow> e \<in> set (reply_events f) \<Longrightarrow> numbered e" and "cursor_covers (fst c)"
  shows "cursor_covers (fst d)"
  using assms(1)
proof (cases rule: agent_step.cases)
  case (reply i ps f s s' qs)
  then show ?thesis using assms(2) [of f] assms(3) resume_covers [of "ps ! i" f s s' qs] by auto
qed (use assms(3) in \<open>auto simp: begin_select_covers\<close>)

lemma agent_steps_covers:
  assumes "(agent_step R)\<^sup>*\<^sup>* c d" and "\<And>f e. R f \<Longrightarrow> e \<in> set (reply_events f) \<Longrightarrow> numbered e" and "cursor_covers (fst c)"
  shows "cursor_covers (fst d)"
  using assms(1,3) by (induction rule: rtranclp_induct) (auto intro: agent_step_covers [OF _ assms(2)])

text \<open>The log restarts with a selection and otherwise grows at its end. The active session changes by a selection, or by the late details of a session that was selected before.\<close>

lemma agent_step_log:
  assumes "agent_step R c d"
  shows "events (fst d) = [] \<and> eventCursor (fst d) = Fin 0 \<or> (\<exists>new. events (fst d) = events (fst c) @ new)"
  using assms
proof (cases rule: agent_step.cases)
  case (reply i ps f s s' qs)
  then show ?thesis
    by (cases "ps ! i") (auto simp: loadEvents_resume_appends)
qed (auto simp: begin_select_def)

lemma agent_step_session:
  assumes "agent_step R c d" "activeSessionId (fst d) \<noteq> activeSessionId (fst c)"
  shows "events (fst d) = [] \<and> eventCursor (fst d) = Fin 0 \<or>
    Details (activeSessionId (fst d)) \<in> set (snd c) \<and> events (fst d) = events (fst c) \<and> eventCursor (fst d) = eventCursor (fst c)"
  using assms(1)
proof (cases rule: agent_step.cases)
  case (reply i ps f s s' qs)
  then show ?thesis
    using assms(2) nth_mem [of i ps] by (cases "ps ! i") (auto dest: details_active)
qed (use assms(2) in \<open>auto simp: begin_select_def\<close>)

section \<open>Sending\<close>

lemma submitTurn_sends:
  "truthy sid \<Longrightarrow> prompt \<noteq> [] \<Longrightarrow> fst (submitTurn srv sid prompt mode opts s) =
     s\<lparr>sent := sent s @ [auth_request (session_path sid @ (if mode = ''steer'' then ''/steer'' else ''/turns''))
       (post_json (Obj (assign [(''prompt'', Str prompt), (''mode'', Str mode)] opts))) s]\<rparr>"
  by (simp add: submitTurn_def fetchWithAuth_state)

lemma loadEvents_page [simp]: "page (fst (loadEvents srv sid k s)) = page s"
  by (cases rule: loadEvents_resume_cases [of "fst (fetchWithAuth srv (events_url sid k) no_options s)" "snd (fetchWithAuth srv (events_url sid k) no_options s)"])
    (auto simp: loadEvents_def fetchWithAuth_def do_fetch_def)

lemma show_timeline_other: "i \<noteq> ''timeline-container'' \<Longrightarrow> page (fst (show_timeline s)) i = page s i"
  by (auto simp: show_timeline_def renderTimeline_def render_into_def split: option.split)

lemma composer_input_Some:
  assumes "composer_input d = Some i"
  shows "i \<noteq> ''timeline-container'' \<and> d i \<noteq> None"
proof -
  from assms have "i \<in> set [''composer-textarea'', ''composer-text'', ''hero-prompt-text''] \<and> d i \<noteq> None"
    unfolding composer_input_def by (rule find_in_set)
  then show ?thesis by auto
qed

section \<open>Properties\<close>


definition log_event :: "int \<Rightarrow> jsv" where
  "log_event n = Obj [(''sequence'', JInt n)]"

definition log_server :: server where
  "log_server hist rq = (if url rq = events_url (Str ''s1'') (Fin 0) then json_reply 200 (Obj [(''events'', Arr [log_event 1, log_event 2])])
     else if url rq = events_url (Str ''s1'') (Fin 1) then json_reply 200 (Obj [(''events'', Arr [log_event 2])])
     else if url rq = events_url (Str ''s1'') (Fin 2) then json_reply 200 (Obj [(''events'', Arr [])])
     else Rejected ''offline'')"

definition start_app :: agent_app where
  "start_app = agent_state.extend (initial_state (key_browser ''apiKey'' ''k1'')) \<lparr>currentMode = ''queue'', ui_locale = ''de''\<rparr>"

lemma rjson_json_reply:
  "json_parse (stringify v) = Some v \<Longrightarrow> \<exists>r. json_reply 200 v = Resp r \<and> ok r \<and> rjson r = Some v"
  by (simp add: json_reply_def ok_def rjson_def)

lemma log_server_urls:
  "events_url (Str ''s1'') (Fin 1) \<noteq> events_url (Str ''s1'') (Fin 0)" "events_url (Str ''s1'') (Fin 2) \<noteq> events_url (Str ''s1'') (Fin 0)"
  "events_url (Str ''s1'') (Fin 2) \<noteq> events_url (Str ''s1'') (Fin 1)"
  by code_simp+

lemma log_server_pages:
  "json_parse (stringify (Obj [(''events'', Arr [log_event 1, log_event 2])])) = Some (Obj [(''events'', Arr [log_event 1, log_event 2])])"
  "json_parse (stringify (Obj [(''events'', Arr [log_event 2])])) = Some (Obj [(''events'', Arr [log_event 2])])"
  "json_parse (stringify (Obj [(''events'', Arr [])])) = Some (Obj [(''events'', Arr [])])"
  by code_simp+

lemma log_server_serves: "log_ok [log_event 1, log_event 2]" "serves_log log_server (Str ''s1'') [log_event 1, log_event 2]"
proof -
  have q: "seqn (log_event 1) = Fin 1" "seqn (log_event 2) = Fin 2" "event_seq (log_event 1) \<noteq> None" "event_seq (log_event 2) \<noteq> None"
    by (simp_all add: seqn_def event_seq_def log_event_def field_def js_or_def)
  then show "log_ok [log_event 1, log_event 2]" by (simp add: log_ok_def is_finite_def)
  note p = rjson_json_reply [OF log_server_pages(1)] rjson_json_reply [OF log_server_pages(2)] rjson_json_reply [OF log_server_pages(3)]
  show "serves_log log_server (Str ''s1'') [log_event 1, log_event 2]"
    using p log_server_urls by (simp add: serves_log_def q page_after_def log_server_def)
qed




text \<open>A reply to an event request of one session that arrives after another session was selected is appended to the other session's timeline.\<close>

lemma stale_reply_shown:
  assumes "truthy (activeSessionId s)" and "truthy other" and "R f"
  shows "\<exists>s' ps. (agent_step R)\<^sup>*\<^sup>* (s, []) (s', ps) \<and> activeSessionId s' = other \<and> events s' = reply_events f \<and> Details other \<in> set ps"
proof -
  let ?a = "Events (activeSessionId s)" and ?s = "begin_select other s"
  let ?s' = "fst (loadEvents_resume f ?s)"
  have 1: "agent_step R (s, []) (s, [] @ [?a])" using assms(1) by (rule issue)
  have 2: "agent_step R (s, [?a]) (?s, [?a] @ [Details other])" using assms(2) by (rule select)
  have 3: "agent_step R (?s, [?a, Details other]) (?s', take 0 [?a, Details other] @ drop (Suc 0) [?a, Details other] @ [Artifacts (activeSessionId s)])"
    by (rule reply) (simp_all add: assms(3))
  have "(agent_step R)\<^sup>*\<^sup>* (s, []) (?s', [Details other, Artifacts (activeSessionId s)])" using 1 2 3 by (auto intro: rtranclp.rtrancl_into_rtrancl)
  moreover have "activeSessionId ?s' = other" "events ?s' = reply_events f"
    by (simp_all add: loadEvents_resume_appends reply_events begin_select_def)
  ultimately show ?thesis by fastforce
qed



text \<open>C33. Sending from the composer: a blank text sends nothing; without an active session nothing is sent and the user is
  told once; otherwise the trimmed text goes out in exactly one POST to the session's \<^verbatim>\<open>turns\<close> (or, in steer
  mode, \<^verbatim>\<open>steer\<close>) resource, followed by one event request only if the gateway accepted it. The input is
  cleared in both cases, so a refused turn loses the typed text.\<close>

theorem handleSend_sends_once:
  assumes "composer_input (page s) = Some i" and "prompt = trim (value_of i (page s))"
    and "rq = auth_request (session_path (activeSessionId s) @ (if currentMode s = ''steer'' then ''/steer'' else ''/turns''))
      (post_json (Obj [(''prompt'', Str prompt), (''mode'', Str (currentMode s))])) s"
    and "s' = fst (handleSend srv s)"
  shows "(prompt = [] \<longrightarrow> s' = s) \<and>
    (prompt \<noteq> [] \<and> \<not> truthy (activeSessionId s) \<longrightarrow> sent s' = sent s \<and> page s' = page s \<and> length (alerts s') = Suc (length (alerts s))) \<and>
    (prompt \<noteq> [] \<and> truthy (activeSessionId s) \<longrightarrow> value_of i (page s') = [] \<and> http_method rq = ''POST'' \<and>
       (if \<exists>r. srv (sent s) rq = Resp r \<and> ok r
        then \<exists>rq2. sent s' = sent s @ [rq, rq2] \<and> url rq2 = events_url (activeSessionId s) (eventCursor s)
        else sent s' = sent s @ [rq]))"
proof (cases "prompt = [] \<or> \<not> truthy (activeSessionId s)")
  case True
  then show ?thesis using assms by (auto simp: handleSend_def alert_def Let_def)
next
  case neg: False
  let ?sid = "activeSessionId s" and ?s1 = "on_elem i (\<lambda>e. e\<lparr>val := []\<rparr>) s"
  let ?s2 = "?s1\<lparr>sent := sent s @ [rq]\<rparr>"
  have req: "auth_request u o1 ?s1 = auth_request u o1 s" for u o1
    by (simp add: auth_request_def auth_headers_def resolveAuthToken_def Let_def)
  have sub: "fst (submitTurn srv ?sid prompt (currentMode s) [] ?s1) = ?s2"
    using neg submitTurn_sends [of ?sid prompt srv "currentMode s" "[]" ?s1] by (simp add: assms(3) req assign_def)
  have acc: "snd (submitTurn srv ?sid prompt (currentMode s) [] ?s1) \<longleftrightarrow> (\<exists>r. srv (sent s) rq = Resp r \<and> ok r)"
    using neg unfolding submitTurn_def fetched_ok_def fetchWithAuth_def do_fetch_def req
    by (simp add: assms(3) assign_def split: fetched.split)
  have hs: "handleSend srv s = (if \<exists>r. srv (sent s) rq = Resp r \<and> ok r
      then show_timeline (fst (loadEvents srv ?sid (eventCursor s) ?s2)) else (?s2, True))"
    using neg assms(1,2) sub acc by (cases "submitTurn srv ?sid prompt (currentMode s) [] ?s1") (auto simp: handleSend_def Let_def)
  have v: "value_of i (page ?s2) = []" using composer_input_Some [OF assms(1)] by (auto simp: value_of_def)
  have m: "http_method rq = ''POST''" by (simp add: assms(3) post_json_def)
  show ?thesis
  proof (cases "\<exists>r. srv (sent s) rq = Resp r \<and> ok r")
    case True
    let ?t = "fst (loadEvents srv ?sid (eventCursor s) ?s2)"
    have "page s' i = page ?s2 i" using hs True assms(4) composer_input_Some [OF assms(1)] by (simp add: show_timeline_other)
    then have "value_of i (page s') = []" using v by (simp add: value_of_def)
    moreover have "sent s' = sent s @ [rq, auth_request (events_url ?sid (eventCursor s)) no_options ?s2]"
      using hs True assms(4) neg by (simp add: loadEvents_sent)
    ultimately show ?thesis using True neg m by auto
  next
    case no: False
    have "s' = ?s2" unfolding assms(4) hs by (subst if_not_P [OF no]) simp
    then show ?thesis unfolding if_not_P [OF no] using neg v m by simp
  qed
qed

definition typed_app :: agent_app where
  "typed_app = (begin_select (Str ''s1'') start_app)\<lparr>page := [''composer-text'' \<mapsto> blank\<lparr>val := '' hi ''\<rparr>]\<rparr>"

theorem handleSend_sends_once_witness:
  "value_of ''composer-text'' (page (fst (handleSend (\<lambda>_ _. Rejected ''offline'') typed_app))) = [] \<and>
   length (sent (fst (handleSend (\<lambda>_ _. Rejected ''offline'') typed_app))) = 1"
proof -
  have i: "composer_input (page typed_app) = Some ''composer-text''" by (simp add: typed_app_def composer_input_def)
  have t: "trim (value_of ''composer-text'' (page typed_app)) = ''hi''" by code_simp
  have a: "activeSessionId typed_app = Str ''s1''" "sent typed_app = []"
    by (simp_all add: typed_app_def begin_select_def start_app_def initial_state_def key_browser_def agent_state.defs browser.defs)
  show ?thesis
    using handleSend_sends_once [OF i refl refl refl, of "\<lambda>_ _. Rejected ''offline''"] by (simp add: t a)
qed

end
