(* ===== verification/AgentStart.thy ===== *)
theory AgentStart
  imports AgentApp
begin

text \<open>
  How the Agent Workspace is opened: \<^verbatim>\<open>init\<close> of \<^verbatim>\<open>src/portal/agent-workspace/app.js\<close> reads the session to show from the address of the page. The query of an address is read as
  \<^verbatim>\<open>URLSearchParams\<close> does it: parts between ampersands, the first equals sign, plus signs for blanks, percent escapes. A malformed UTF-8 sequence is kept as it is.
\<close>

section \<open>Reading the query of an address\<close>

fun percent_decode :: "string \<Rightarrow> string" where
  "percent_decode (p # a # b # r) = (if p = CHR ''%''
     then (case (hex_val a, hex_val b) of (Some x, Some y) \<Rightarrow> char_of (16 * x + y) # percent_decode r | _ \<Rightarrow> p # percent_decode (a # b # r))
     else p # percent_decode (a # b # r))"
| "percent_decode s = s"

definition form_decode :: "string \<Rightarrow> string" where
  "form_decode s = percent_decode (map (\<lambda>c. if c = CHR ''+'' then CHR '' '' else c) s)"

text \<open>\<^verbatim>\<open>location.search\<close>: from the question mark to the fragment.\<close>

definition search_of :: "string \<Rightarrow> string" where
  "search_of u = dropWhile (\<lambda>c. c \<noteq> CHR ''?'') (takeWhile (\<lambda>c. c \<noteq> CHR ''#'') u)"

definition search_params :: "string \<Rightarrow> (string \<times> string) list" where
  "search_params q = map (\<lambda>p. (form_decode (takeWhile (\<lambda>c. c \<noteq> CHR ''='') p), form_decode (drop 1 (dropWhile (\<lambda>c. c \<noteq> CHR ''='') p))))
     (filter (\<lambda>p. p \<noteq> []) (split_on (CHR ''&'') (if starts_with q ''?'' then drop 1 q else q)))"

definition search_get :: "string \<Rightarrow> string \<Rightarrow> string option" where
  "search_get k q = map_of (search_params q) k"

section \<open>Opening the page\<close>

definition start_page :: "clock \<Rightarrow> server \<Rightarrow> string \<Rightarrow> agent_app \<Rightarrow> agent_app \<times> bool" where
  "start_page ck srv u s = init ck srv (search_get ''session_id'' (search_of u)) s"

section \<open>What was encoded is read back\<close>

lemma percent_decode_plain: "c \<noteq> CHR ''%'' \<Longrightarrow> percent_decode (c # s) = c # percent_decode s"
  by (cases s; cases "tl s") auto

lemma percent_decode_encode: "percent_decode (encodeURIComponent s) = s"
proof (induction s)
  case Nil
  then show ?case
    by (simp add: encodeURIComponent_def)
next
  case (Cons c s)
  have enc: "encodeURIComponent (c # s) = (if uri_unreserved c then [c] else [CHR ''%'', hex_digit (of_char c div 16), hex_digit (of_char c mod 16)]) @ encodeURIComponent s"
    by (simp add: encodeURIComponent_def Let_def)
  have bounds: "(of_char c :: nat) div 16 < 16" "(of_char c :: nat) mod 16 < 16"
    by (simp_all add: less_mult_imp_div_less)
  show ?case
  proof (cases "uri_unreserved c")
    case True
    then have "c \<noteq> CHR ''%''"
      by (auto simp: uri_unreserved_def char_defs)
    with True Cons show ?thesis
      by (simp add: enc percent_decode_plain)
  next
    case False
    with Cons bounds show ?thesis
      by (simp add: enc hex_val_digit)
  qed
qed

text \<open>The characters with a meaning in a query do not occur in encoded text.\<close>

lemma encode_no_meta: "c \<in> {CHR ''&'', CHR ''='', CHR ''#'', CHR ''?'', CHR ''+''} \<Longrightarrow> c \<notin> set (encodeURIComponent s)"
  using set_encodeURIComponent [of c s] by (auto simp: uri_unreserved_def char_defs)

lemma form_decode_encode: "form_decode (encodeURIComponent s) = s"
proof -
  have "map (\<lambda>c. if c = CHR ''+'' then CHR '' '' else c) (encodeURIComponent s) = encodeURIComponent s"
    using encode_no_meta [of "CHR ''+''" s] by (intro map_idI) auto
  then show ?thesis
    by (simp add: form_decode_def percent_decode_encode)
qed

text \<open>One part of a query: a plain key and an encoded value.\<close>

definition plain_key :: "string \<Rightarrow> bool" where
  "plain_key k = (k \<noteq> [] \<and> (\<forall>c \<in> set k. c \<notin> {CHR ''&'', CHR ''='', CHR ''+'', CHR ''%''}))"

definition query_part :: "string \<Rightarrow> string \<Rightarrow> string" where
  "query_part k v = k @ CHR ''='' # encodeURIComponent v"

definition read_part :: "string \<Rightarrow> string \<times> string" where
  "read_part p = (form_decode (takeWhile (\<lambda>c. c \<noteq> CHR ''='') p), form_decode (drop 1 (dropWhile (\<lambda>c. c \<noteq> CHR ''='') p)))"

lemma read_query_part:
  assumes "plain_key k"
  shows "read_part (query_part k v) = (k, v)"
proof -
  have "percent_decode k' = k'" if "CHR ''%'' \<notin> set k'" for k'
    using that by (induction k') (auto simp: percent_decode_plain)
  moreover have "map (\<lambda>c. if c = CHR ''+'' then CHR '' '' else c) k = k"
    using assms by (intro map_idI) (auto simp: plain_key_def)
  ultimately have "form_decode k = k"
    using assms by (auto simp: form_decode_def plain_key_def)
  moreover have "takeWhile (\<lambda>c. c \<noteq> CHR ''='') (query_part k v) = k" "dropWhile (\<lambda>c. c \<noteq> CHR ''='') (query_part k v) = CHR ''='' # encodeURIComponent v"
    using assms by (auto simp: query_part_def plain_key_def takeWhile_append2 dropWhile_append2)
  ultimately show ?thesis
    by (simp add: read_part_def form_decode_encode)
qed

lemma query_part_no_amp: "plain_key k \<Longrightarrow> CHR ''&'' \<notin> set (query_part k v)"
  using encode_no_meta [of "CHR ''&''" v] by (auto simp: query_part_def plain_key_def)

lemma search_params_parts:
  "plain_key k \<Longrightarrow> search_params (CHR ''?'' # query_part k v) = [(k, v)]"
  "plain_key k \<Longrightarrow> plain_key k' \<Longrightarrow> search_params (CHR ''?'' # query_part k v @ CHR ''&'' # query_part k' v') = [(k, v), (k', v')]"
proof -
  have ne: "query_part k v \<noteq> []" for k v
    by (simp add: query_part_def)
  show "plain_key k \<Longrightarrow> search_params (CHR ''?'' # query_part k v) = [(k, v)]"
    using ne read_query_part [of k v] by (simp add: search_params_def query_part_no_amp read_part_def)
  show "plain_key k \<Longrightarrow> plain_key k' \<Longrightarrow> search_params (CHR ''?'' # query_part k v @ CHR ''&'' # query_part k' v') = [(k, v), (k', v')]"
    using ne read_query_part [of k v] read_query_part [of k' v'] by (simp add: search_params_def split_on_sep query_part_no_amp read_part_def)
qed

lemma query_part_no_mark: "CHR ''#'' \<notin> set k \<Longrightarrow> CHR ''#'' \<notin> set (query_part k v)"
  using encode_no_meta [of "CHR ''#''" v] by (auto simp: query_part_def)

lemma search_of_address:
  assumes "CHR ''?'' \<notin> set base" "CHR ''#'' \<notin> set base" "CHR ''#'' \<notin> set q"
  shows "search_of (base @ CHR ''?'' # q) = CHR ''?'' # q"
proof -
  have "takeWhile (\<lambda>c. c \<noteq> CHR ''#'') (base @ CHR ''?'' # q) = base @ CHR ''?'' # q"
    using assms(2,3) by (intro takeWhile_eq_all_conv [THEN iffD2]) auto
  moreover have "dropWhile (\<lambda>c. c \<noteq> CHR ''?'') (base @ CHR ''?'' # q) = dropWhile (\<lambda>c. c \<noteq> CHR ''?'') (CHR ''?'' # q)"
    using assms(1) by (intro dropWhile_append2) auto
  ultimately show ?thesis
    by (simp only: search_of_def dropWhile.simps simp_thms if_False)
qed

section \<open>The session of the address is the one shown\<close>

lemma active_details: "activeSessionId s = sid \<Longrightarrow> activeSessionId (fst (loadSessionDetails srv sid s)) = sid"
  by (auto simp: loadSessionDetails_def fetchWithAuth_def do_fetch_def Let_def split: fetched.split option.split prod.split)

lemma active_events: "activeSessionId (fst (loadEvents srv sid n s)) = activeSessionId s"
  by (auto simp: loadEvents_def fetchWithAuth_def do_fetch_def)

lemma active_and_then:
  assumes "\<And>s. activeSessionId (fst (f s)) = activeSessionId s"
  shows "activeSessionId (fst (and_then r f)) = activeSessionId (fst r)"
  using assms by (auto simp: and_then_def split: prod.split bool.split)

lemma active_views [simp]:
  "activeSessionId (fst (show_active_session sid s)) = activeSessionId s" "activeSessionId (fst (show_sessions ck s)) = activeSessionId s"
  by (auto simp: show_active_session_def show_sessions_def renderSessionList_def render_into_def Let_def split: option.split)

lemma active_selectSession: "truthy sid \<Longrightarrow> activeSessionId (fst (selectSession ck srv sid s)) = sid"
  by (simp add: selectSession_def Let_def active_and_then active_events active_details begin_select_def)

lemma start_page_session:
  assumes "search_get ''session_id'' (search_of u) = Some sid" "sid \<noteq> []" "snd (show_sessions ck (fst (loadSessions srv s)))"
  shows "activeSessionId (fst (start_page ck srv u s)) = Str sid"
proof -
  obtain s2 where "show_sessions ck (fst (loadSessions srv s)) = (s2, True)"
    using assms(3) by (cases "show_sessions ck (fst (loadSessions srv s))") auto
  then have "start_page ck srv u s = selectSession ck srv (Str sid) s2"
    using assms(1,2) by (cases "loadSessions srv s") (simp add: start_page_def init_def and_then_def)
  then show ?thesis
    using assms(2) by (simp add: active_selectSession)
qed

end
