(* ===== verification/SelectorLabels.thy ===== *)
theory SelectorLabels
  imports LabelTables
begin

text \<open>
  The label tables of \<^verbatim>\<open>src/portal/webui/model-selector.js\<close> (lines 46 to 186): six tables in up to nine languages,
  the choice of the language from the page and the browser, the status names and the set of terminal
  statuses. \<open>languages\<close> is what the code reads from \<^verbatim>\<open>document.documentElement.lang\<close> and \<^verbatim>\<open>navigator.language\<close>, and the message of a
  \<^verbatim>\<open>TypeError\<close> the engine throws.
\<close>

record languages =
  document_lang :: string
  navigator_language :: string
  engine_error :: string

section \<open>Tables\<close>

definition agentPanelLabels :: "(string \<times> (string \<times> string) list) list" where
  "agentPanelLabels = [
    (''de'', [(''open'', ''Agenten''), (''close'', (''Agenten schlie'' @ [CHR 0xC3, CHR 0x9F] @ ''en'')), (''help'', (''Agenten erledigen l'' @ [CHR 0xC3, CHR 0xA4] @ ''ngere Aufgaben in mehreren Schritten. Hier kannst du Aufgaben starten, Fortschritt sehen und n'' @ [CHR 0xC3, CHR 0xB6] @ ''tige Freigaben erteilen.''))]),
    (''en'', [(''open'', ''Agents''), (''close'', ''Close agents''), (''help'', ''Agents handle longer, multi-step tasks. Start work here, follow progress and review required approvals.'')])]"

definition agentControlLabels :: "(string \<times> (string \<times> string) list) list" where
  "agentControlLabels = [
    (''de'', [(''pause'', ''Pausieren''), (''resume'', ''Fortsetzen''), (''cancel'', ''Abbrechen''), (''controlError'', ''Steuerung konnte nicht gespeichert werden''), (''controlQueued'', ''Steuerung angefordert'')]),
    (''en'', [(''pause'', ''Pause''), (''resume'', ''Resume''), (''cancel'', ''Cancel''), (''controlError'', ''Control request was not saved''), (''controlQueued'', ''Control request accepted'')]),
    (''fr'', [(''pause'', ''Pause''), (''resume'', ''Reprendre''), (''cancel'', ''Annuler''), (''controlError'', (''La commande n'' @ [CHR 0xE2, CHR 0x80, CHR 0x99] @ ''a pas '' @ [CHR 0xC3, CHR 0xA9] @ ''t'' @ [CHR 0xC3, CHR 0xA9] @ '' enregistr'' @ [CHR 0xC3, CHR 0xA9] @ ''e'')), (''controlQueued'', (''Commande accept'' @ [CHR 0xC3, CHR 0xA9] @ ''e''))]),
    (''es'', [(''pause'', ''Pausar''), (''resume'', ''Continuar''), (''cancel'', ''Cancelar''), (''controlError'', (''No se guard'' @ [CHR 0xC3, CHR 0xB3] @ '' el control'')), (''controlQueued'', ''Control aceptado'')]),
    (''it'', [(''pause'', ''Pausa''), (''resume'', ''Riprendi''), (''cancel'', ''Annulla''), (''controlError'', ''Controllo non salvato''), (''controlQueued'', ''Controllo accettato'')]),
    (''pt-BR'', [(''pause'', ''Pausar''), (''resume'', ''Retomar''), (''cancel'', ''Cancelar''), (''controlError'', (''O controle n'' @ [CHR 0xC3, CHR 0xA3] @ ''o foi salvo'')), (''controlQueued'', ''Controle aceito'')]),
    (''nl'', [(''pause'', ''Pauzeren''), (''resume'', ''Hervatten''), (''cancel'', ''Annuleren''), (''controlError'', ''Besturing niet opgeslagen''), (''controlQueued'', ''Besturing geaccepteerd'')]),
    (''pl'', [(''pause'', ''Wstrzymaj''), (''resume'', (''Wzn'' @ [CHR 0xC3, CHR 0xB3] @ ''w'')), (''cancel'', ''Anuluj''), (''controlError'', ''Nie zapisano sterowania''), (''controlQueued'', (''Sterowanie przyj'' @ [CHR 0xC4, CHR 0x99] @ ''te''))]),
    (''tr'', [(''pause'', ''Duraklat''), (''resume'', (''S'' @ [CHR 0xC3, CHR 0xBC] @ ''rd'' @ [CHR 0xC3, CHR 0xBC] @ ''r'')), (''cancel'', ([CHR 0xC4, CHR 0xB0] @ ''ptal'')), (''controlError'', ''Denetim kaydedilmedi''), (''controlQueued'', ''Denetim kabul edildi'')])]"

definition agentArtifactLabels :: "(string \<times> (string \<times> string) list) list" where
  "agentArtifactLabels = [
    (''de'', [(''title'', ''Artefakte''), (''empty'', ''Keine Artefakte''), (''download'', ''Herunterladen'')]),
    (''en'', [(''title'', ''Artifacts''), (''empty'', ''No artifacts''), (''download'', ''Download'')]),
    (''fr'', [(''title'', ''Artefacts''), (''empty'', ''Aucun artefact''), (''download'', (''T'' @ [CHR 0xC3, CHR 0xA9] @ ''l'' @ [CHR 0xC3, CHR 0xA9] @ ''charger''))]),
    (''es'', [(''title'', ''Artefactos''), (''empty'', ''No hay artefactos''), (''download'', ''Descargar'')]),
    (''it'', [(''title'', ''Artefatti''), (''empty'', ''Nessun artefatto''), (''download'', ''Scarica'')]),
    (''pt-BR'', [(''title'', ''Artefatos''), (''empty'', ''Nenhum artefato''), (''download'', ''Baixar'')]),
    (''nl'', [(''title'', ''Artefacten''), (''empty'', ''Geen artefacten''), (''download'', ''Downloaden'')]),
    (''pl'', [(''title'', ''Artefakty''), (''empty'', (''Brak artefakt'' @ [CHR 0xC3, CHR 0xB3] @ ''w'')), (''download'', ''Pobierz'')]),
    (''tr'', [(''title'', ''Yapay eserler''), (''empty'', ''Yapay eser yok''), (''download'', ([CHR 0xC4, CHR 0xB0] @ ''ndir''))])]"

definition executionStatusLabels :: "(string \<times> (string \<times> string) list) list" where
  "executionStatusLabels = [
    (''de'', [(''last'', (''Letzte Ausf'' @ [CHR 0xC3, CHR 0xBC] @ ''hrung'')), (''unknown'', ''unbekannt''), (''unspecified'', ''nicht angegeben''), (''evidence'', (''Ausf'' @ [CHR 0xC3, CHR 0xBC] @ ''hrungsnachweis des letzten Laufs'')), (''id'', (''Ausf'' @ [CHR 0xC3, CHR 0xBC] @ ''hrungs-ID''))]),
    (''en'', [(''last'', ''Last execution''), (''unknown'', ''unknown''), (''unspecified'', ''not specified''), (''evidence'', ''Execution evidence for the last run''), (''id'', ''Execution ID'')]),
    (''fr'', [(''last'', (''Derni'' @ [CHR 0xC3, CHR 0xA8] @ ''re ex'' @ [CHR 0xC3, CHR 0xA9] @ ''cution'')), (''unknown'', ''inconnu''), (''unspecified'', (''non indiqu'' @ [CHR 0xC3, CHR 0xA9])), (''evidence'', (''Preuve de la derni'' @ [CHR 0xC3, CHR 0xA8] @ ''re ex'' @ [CHR 0xC3, CHR 0xA9] @ ''cution'')), (''id'', (''ID d'' @ [CHR 0xE2, CHR 0x80, CHR 0x99] @ ''ex'' @ [CHR 0xC3, CHR 0xA9] @ ''cution''))]),
    (''es'', [(''last'', ([CHR 0xC3, CHR 0x9A] @ ''ltima ejecuci'' @ [CHR 0xC3, CHR 0xB3] @ ''n'')), (''unknown'', ''desconocido''), (''unspecified'', ''no indicado''), (''evidence'', (''Evidencia de la '' @ [CHR 0xC3, CHR 0xBA] @ ''ltima ejecuci'' @ [CHR 0xC3, CHR 0xB3] @ ''n'')), (''id'', (''ID de ejecuci'' @ [CHR 0xC3, CHR 0xB3] @ ''n''))]),
    (''it'', [(''last'', ''Ultima esecuzione''), (''unknown'', ''sconosciuto''), (''unspecified'', ''non indicato''), (''evidence'', (''Prova dell'' @ [CHR 0xE2, CHR 0x80, CHR 0x99] @ ''ultima esecuzione'')), (''id'', ''ID esecuzione'')]),
    (''pt-BR'', [(''last'', ([CHR 0xC3, CHR 0x9A] @ ''ltima execu'' @ [CHR 0xC3, CHR 0xA7, CHR 0xC3, CHR 0xA3] @ ''o'')), (''unknown'', ''desconhecido''), (''unspecified'', (''n'' @ [CHR 0xC3, CHR 0xA3] @ ''o especificado'')), (''evidence'', (''Evid'' @ [CHR 0xC3, CHR 0xAA] @ ''ncia da '' @ [CHR 0xC3, CHR 0xBA] @ ''ltima execu'' @ [CHR 0xC3, CHR 0xA7, CHR 0xC3, CHR 0xA3] @ ''o'')), (''id'', (''ID da execu'' @ [CHR 0xC3, CHR 0xA7, CHR 0xC3, CHR 0xA3] @ ''o''))]),
    (''nl'', [(''last'', ''Laatste uitvoering''), (''unknown'', ''onbekend''), (''unspecified'', ''niet opgegeven''), (''evidence'', ''Uitvoeringsbewijs van de laatste run''), (''id'', ''Uitvoerings-ID'')]),
    (''pl'', [(''last'', ''Ostatnie wykonanie''), (''unknown'', ''nieznane''), (''unspecified'', ''nie podano''), (''evidence'', (''Dow'' @ [CHR 0xC3, CHR 0xB3] @ ''d ostatniego wykonania'')), (''id'', ''Identyfikator wykonania'')]),
    (''tr'', [(''last'', (''Son '' @ [CHR 0xC3, CHR 0xA7] @ ''al'' @ [CHR 0xC4, CHR 0xB1, CHR 0xC5, CHR 0x9F] @ ''t'' @ [CHR 0xC4, CHR 0xB1] @ ''rma'')), (''unknown'', ''bilinmiyor''), (''unspecified'', ''belirtilmedi''), (''evidence'', (''Son '' @ [CHR 0xC3, CHR 0xA7] @ ''al'' @ [CHR 0xC4, CHR 0xB1, CHR 0xC5, CHR 0x9F] @ ''t'' @ [CHR 0xC4, CHR 0xB1] @ ''rman'' @ [CHR 0xC4, CHR 0xB1] @ ''n kan'' @ [CHR 0xC4, CHR 0xB1] @ ''t'' @ [CHR 0xC4, CHR 0xB1])), (''id'', ([CHR 0xC3, CHR 0x87] @ ''al'' @ [CHR 0xC4, CHR 0xB1, CHR 0xC5, CHR 0x9F] @ ''t'' @ [CHR 0xC4, CHR 0xB1] @ ''rma kimli'' @ [CHR 0xC4, CHR 0x9F] @ ''i''))])]"

definition agentSessionLabels :: "(string \<times> (string \<times> string) list) list" where
  "agentSessionLabels = [
    (''de'', [(''title'', ''Agent-Sitzungen''), (''select'', (''Agent-Sitzung ausw'' @ [CHR 0xC3, CHR 0xA4] @ ''hlen'')), (''prompt'', (''Aufgabe f'' @ [CHR 0xC3, CHR 0xBC] @ ''r den Agenten '' @ [CHR 0xE2, CHR 0x80, CHR 0xA6])), (''create'', ''Neue Aufgabe''), (''continueTask'', ''Fortsetzen''), (''taskCreated'', ''Aufgabe gestartet''), (''turnQueued'', (''N'' @ [CHR 0xC3, CHR 0xA4] @ ''chster Turn eingereiht'')), (''taskError'', ''Aufgabe konnte nicht gestartet werden''), (''noModel'', (''Kein Modell verf'' @ [CHR 0xC3, CHR 0xBC] @ ''gbar'')), (''waiting'', (''Warte auf Fortschritt '' @ [CHR 0xE2, CHR 0x80, CHR 0xA6])), (''unavailable'', ''Sitzung nicht erreichbar''), (''idle'', ''Bereit''), (''approvals'', ''Offene Freigaben''), (''approve'', ''Freigeben''), (''reject'', ''Ablehnen''), (''noApprovals'', ''Keine offenen Freigaben''), (''approvalError'', ''Freigabe nicht gespeichert'')]),
    (''en'', [(''title'', ''Agent sessions''), (''select'', ''Select agent session''), (''prompt'', (''Task for the agent '' @ [CHR 0xE2, CHR 0x80, CHR 0xA6])), (''create'', ''New task''), (''continueTask'', ''Continue''), (''taskCreated'', ''Task started''), (''turnQueued'', ''Next turn queued''), (''taskError'', ''Task could not be started''), (''noModel'', ''No model available''), (''waiting'', (''Waiting for progress '' @ [CHR 0xE2, CHR 0x80, CHR 0xA6])), (''unavailable'', ''Session unavailable''), (''idle'', ''Ready''), (''approvals'', ''Pending approvals''), (''approve'', ''Approve''), (''reject'', ''Reject''), (''noApprovals'', ''No pending approvals''), (''approvalError'', ''Approval was not saved'')]),
    (''fr'', [(''title'', ''Sessions agent''), (''select'', (''S'' @ [CHR 0xC3, CHR 0xA9] @ ''lectionner une session agent'')), (''prompt'', (''T'' @ [CHR 0xC3, CHR 0xA2] @ ''che pour l'' @ [CHR 0xE2, CHR 0x80, CHR 0x99] @ ''agent '' @ [CHR 0xE2, CHR 0x80, CHR 0xA6])), (''create'', (''Nouvelle t'' @ [CHR 0xC3, CHR 0xA2] @ ''che'')), (''continueTask'', ''Continuer''), (''taskCreated'', (''T'' @ [CHR 0xC3, CHR 0xA2] @ ''che d'' @ [CHR 0xC3, CHR 0xA9] @ ''marr'' @ [CHR 0xC3, CHR 0xA9] @ ''e'')), (''turnQueued'', ''Tour suivant en file''), (''taskError'', (''Impossible de d'' @ [CHR 0xC3, CHR 0xA9] @ ''marrer la t'' @ [CHR 0xC3, CHR 0xA2] @ ''che'')), (''noModel'', (''Aucun mod'' @ [CHR 0xC3, CHR 0xA8] @ ''le disponible'')), (''waiting'', (''En attente de progression '' @ [CHR 0xE2, CHR 0x80, CHR 0xA6])), (''unavailable'', ''Session indisponible''), (''idle'', (''Pr'' @ [CHR 0xC3, CHR 0xAA] @ ''te'')), (''approvals'', ''Approbations en attente''), (''approve'', ''Approuver''), (''reject'', ''Refuser''), (''noApprovals'', ''Aucune approbation en attente''), (''approvalError'', (''Approbation non enregistr'' @ [CHR 0xC3, CHR 0xA9] @ ''e''))]),
    (''es'', [(''title'', ''Sesiones de agente''), (''select'', (''Seleccionar sesi'' @ [CHR 0xC3, CHR 0xB3] @ ''n de agente'')), (''prompt'', (''Tarea para el agente '' @ [CHR 0xE2, CHR 0x80, CHR 0xA6])), (''create'', ''Nueva tarea''), (''continueTask'', ''Continuar''), (''taskCreated'', ''Tarea iniciada''), (''turnQueued'', ''Siguiente turno en cola''), (''taskError'', ''No se pudo iniciar la tarea''), (''noModel'', (''No hay ning'' @ [CHR 0xC3, CHR 0xBA] @ ''n modelo disponible'')), (''waiting'', (''Esperando progreso '' @ [CHR 0xE2, CHR 0x80, CHR 0xA6])), (''unavailable'', (''Sesi'' @ [CHR 0xC3, CHR 0xB3] @ ''n no disponible'')), (''idle'', ''Lista''), (''approvals'', ''Aprobaciones pendientes''), (''approve'', ''Aprobar''), (''reject'', ''Rechazar''), (''noApprovals'', ''No hay aprobaciones pendientes''), (''approvalError'', (''No se guard'' @ [CHR 0xC3, CHR 0xB3] @ '' la aprobaci'' @ [CHR 0xC3, CHR 0xB3] @ ''n''))]),
    (''it'', [(''title'', ''Sessioni agente''), (''select'', ''Seleziona sessione agente''), (''prompt'', (''Attivit'' @ [CHR 0xC3, CHR 0xA0] @ '' per l'' @ [CHR 0xE2, CHR 0x80, CHR 0x99] @ ''agente '' @ [CHR 0xE2, CHR 0x80, CHR 0xA6])), (''create'', (''Nuova attivit'' @ [CHR 0xC3, CHR 0xA0])), (''continueTask'', ''Continua''), (''taskCreated'', (''Attivit'' @ [CHR 0xC3, CHR 0xA0] @ '' avviata'')), (''turnQueued'', ''Turno successivo in coda''), (''taskError'', (''Impossibile avviare l'' @ [CHR 0xE2, CHR 0x80, CHR 0x99] @ ''attivit'' @ [CHR 0xC3, CHR 0xA0])), (''noModel'', ''Nessun modello disponibile''), (''waiting'', (''In attesa di progressi '' @ [CHR 0xE2, CHR 0x80, CHR 0xA6])), (''unavailable'', ''Sessione non disponibile''), (''idle'', ''Pronta''), (''approvals'', ''Approvazioni in sospeso''), (''approve'', ''Approva''), (''reject'', ''Rifiuta''), (''noApprovals'', ''Nessuna approvazione in sospeso''), (''approvalError'', ''Approvazione non salvata'')]),
    (''pt-BR'', [(''title'', (''Sess'' @ [CHR 0xC3, CHR 0xB5] @ ''es do agente'')), (''select'', (''Selecionar sess'' @ [CHR 0xC3, CHR 0xA3] @ ''o do agente'')), (''prompt'', (''Tarefa para o agente '' @ [CHR 0xE2, CHR 0x80, CHR 0xA6])), (''create'', ''Nova tarefa''), (''continueTask'', ''Continuar''), (''taskCreated'', ''Tarefa iniciada''), (''turnQueued'', (''Pr'' @ [CHR 0xC3, CHR 0xB3] @ ''ximo turno na fila'')), (''taskError'', (''N'' @ [CHR 0xC3, CHR 0xA3] @ ''o foi poss'' @ [CHR 0xC3, CHR 0xAD] @ ''vel iniciar a tarefa'')), (''noModel'', (''Nenhum modelo dispon'' @ [CHR 0xC3, CHR 0xAD] @ ''vel'')), (''waiting'', (''Aguardando progresso '' @ [CHR 0xE2, CHR 0x80, CHR 0xA6])), (''unavailable'', (''Sess'' @ [CHR 0xC3, CHR 0xA3] @ ''o indispon'' @ [CHR 0xC3, CHR 0xAD] @ ''vel'')), (''idle'', ''Pronta''), (''approvals'', (''Aprova'' @ [CHR 0xC3, CHR 0xA7, CHR 0xC3, CHR 0xB5] @ ''es pendentes'')), (''approve'', ''Aprovar''), (''reject'', ''Rejeitar''), (''noApprovals'', (''Nenhuma aprova'' @ [CHR 0xC3, CHR 0xA7, CHR 0xC3, CHR 0xA3] @ ''o pendente'')), (''approvalError'', (''A aprova'' @ [CHR 0xC3, CHR 0xA7, CHR 0xC3, CHR 0xA3] @ ''o n'' @ [CHR 0xC3, CHR 0xA3] @ ''o foi salva''))]),
    (''nl'', [(''title'', ''Agentsessies''), (''select'', ''Agentsessie selecteren''), (''prompt'', (''Taak voor de agent '' @ [CHR 0xE2, CHR 0x80, CHR 0xA6])), (''create'', ''Nieuwe taak''), (''continueTask'', ''Doorgaan''), (''taskCreated'', ''Taak gestart''), (''turnQueued'', ''Volgende beurt in wachtrij''), (''taskError'', ''Taak kon niet worden gestart''), (''noModel'', ''Geen model beschikbaar''), (''waiting'', (''Wachten op voortgang '' @ [CHR 0xE2, CHR 0x80, CHR 0xA6])), (''unavailable'', ''Sessie niet beschikbaar''), (''idle'', ''Gereed''), (''approvals'', ''Openstaande goedkeuringen''), (''approve'', ''Goedkeuren''), (''reject'', ''Afwijzen''), (''noApprovals'', ''Geen openstaande goedkeuringen''), (''approvalError'', ''Goedkeuring niet opgeslagen'')]),
    (''pl'', [(''title'', ''Sesje agenta''), (''select'', (''Wybierz sesj'' @ [CHR 0xC4, CHR 0x99] @ '' agenta'')), (''prompt'', (''Zadanie dla agenta '' @ [CHR 0xE2, CHR 0x80, CHR 0xA6])), (''create'', ''Nowe zadanie''), (''continueTask'', ''Kontynuuj''), (''taskCreated'', ''Zadanie uruchomione''), (''turnQueued'', (''Nast'' @ [CHR 0xC4, CHR 0x99] @ ''pna tura w kolejce'')), (''taskError'', (''Nie uda'' @ [CHR 0xC5, CHR 0x82] @ ''o si'' @ [CHR 0xC4, CHR 0x99] @ '' uruchomi'' @ [CHR 0xC4, CHR 0x87] @ '' zadania'')), (''noModel'', (''Brak dost'' @ [CHR 0xC4, CHR 0x99] @ ''pnego modelu'')), (''waiting'', (''Oczekiwanie na post'' @ [CHR 0xC4, CHR 0x99] @ ''p '' @ [CHR 0xE2, CHR 0x80, CHR 0xA6])), (''unavailable'', (''Sesja niedost'' @ [CHR 0xC4, CHR 0x99] @ ''pna'')), (''idle'', ''Gotowe''), (''approvals'', (''Oczekuj'' @ [CHR 0xC4, CHR 0x85] @ ''ce zgody'')), (''approve'', (''Zatwierd'' @ [CHR 0xC5, CHR 0xBA])), (''reject'', (''Odrzu'' @ [CHR 0xC4, CHR 0x87])), (''noApprovals'', (''Brak oczekuj'' @ [CHR 0xC4, CHR 0x85] @ ''cych zg'' @ [CHR 0xC3, CHR 0xB3] @ ''d'')), (''approvalError'', ''Nie zapisano decyzji'')]),
    (''tr'', [(''title'', (''Arac'' @ [CHR 0xC4, CHR 0xB1] @ '' oturumlar'' @ [CHR 0xC4, CHR 0xB1])), (''select'', (''Arac'' @ [CHR 0xC4, CHR 0xB1] @ '' oturumu se'' @ [CHR 0xC3, CHR 0xA7])), (''prompt'', (''Arac'' @ [CHR 0xC4, CHR 0xB1] @ '' i'' @ [CHR 0xC3, CHR 0xA7] @ ''in g'' @ [CHR 0xC3, CHR 0xB6] @ ''rev '' @ [CHR 0xE2, CHR 0x80, CHR 0xA6])), (''create'', (''Yeni g'' @ [CHR 0xC3, CHR 0xB6] @ ''rev'')), (''continueTask'', (''S'' @ [CHR 0xC3, CHR 0xBC] @ ''rd'' @ [CHR 0xC3, CHR 0xBC] @ ''r'')), (''taskCreated'', (''G'' @ [CHR 0xC3, CHR 0xB6] @ ''rev ba'' @ [CHR 0xC5, CHR 0x9F] @ ''lat'' @ [CHR 0xC4, CHR 0xB1] @ ''ld'' @ [CHR 0xC4, CHR 0xB1])), (''turnQueued'', (''Sonraki tur s'' @ [CHR 0xC4, CHR 0xB1] @ ''raya al'' @ [CHR 0xC4, CHR 0xB1] @ ''nd'' @ [CHR 0xC4, CHR 0xB1])), (''taskError'', (''G'' @ [CHR 0xC3, CHR 0xB6] @ ''rev ba'' @ [CHR 0xC5, CHR 0x9F] @ ''lat'' @ [CHR 0xC4, CHR 0xB1] @ ''lamad'' @ [CHR 0xC4, CHR 0xB1])), (''noModel'', (''Kullan'' @ [CHR 0xC4, CHR 0xB1] @ ''labilir model yok'')), (''waiting'', ([CHR 0xC4, CHR 0xB0] @ ''lerleme bekleniyor '' @ [CHR 0xE2, CHR 0x80, CHR 0xA6])), (''unavailable'', (''Oturum kullan'' @ [CHR 0xC4, CHR 0xB1] @ ''lam'' @ [CHR 0xC4, CHR 0xB1] @ ''yor'')), (''idle'', (''Haz'' @ [CHR 0xC4, CHR 0xB1] @ ''r'')), (''approvals'', ''Bekleyen onaylar''), (''approve'', ''Onayla''), (''reject'', ''Reddet''), (''noApprovals'', ''Bekleyen onay yok''), (''approvalError'', ''Onay kaydedilmedi'')])]"

definition agentSessionActivityLabels :: "(string \<times> (string \<times> string) list) list" where
  "agentSessionActivityLabels = [
    (''de'', [(''title'', (''Aktivit'' @ [CHR 0xC3, CHR 0xA4] @ ''t'')), (''empty'', (''Noch keine Aktivit'' @ [CHR 0xC3, CHR 0xA4] @ ''t''))]),
    (''en'', [(''title'', ''Activity''), (''empty'', ''No activity yet'')]),
    (''fr'', [(''title'', (''Activit'' @ [CHR 0xC3, CHR 0xA9])), (''empty'', (''Aucune activit'' @ [CHR 0xC3, CHR 0xA9]))]),
    (''es'', [(''title'', ''Actividad''), (''empty'', (''A'' @ [CHR 0xC3, CHR 0xBA] @ ''n no hay actividad''))]),
    (''it'', [(''title'', (''Attivit'' @ [CHR 0xC3, CHR 0xA0])), (''empty'', (''Nessuna attivit'' @ [CHR 0xC3, CHR 0xA0]))]),
    (''pt-BR'', [(''title'', ''Atividade''), (''empty'', (''Ainda n'' @ [CHR 0xC3, CHR 0xA3] @ ''o h'' @ [CHR 0xC3, CHR 0xA1] @ '' atividade''))]),
    (''nl'', [(''title'', ''Activiteit''), (''empty'', ''Nog geen activiteit'')]),
    (''pl'', [(''title'', (''Aktywno'' @ [CHR 0xC5, CHR 0x9B, CHR 0xC4, CHR 0x87])), (''empty'', (''Brak aktywno'' @ [CHR 0xC5, CHR 0x9B] @ ''ci''))]),
    (''tr'', [(''title'', ''Etkinlik''), (''empty'', (''Hen'' @ [CHR 0xC3, CHR 0xBC] @ ''z etkinlik yok''))])]"

text \<open>Status names by status and then by language.\<close>

definition agentSessionStatuses :: "(string \<times> (string \<times> string) list) list" where
  "agentSessionStatuses = [
    (''creating'', [(''de'', ''Wird erstellt''), (''en'', ''Creating''), (''fr'', (''Cr'' @ [CHR 0xC3, CHR 0xA9] @ ''ation'')), (''es'', ''Creando''), (''it'', ''Creazione''), (''pt-BR'', ''Criando''), (''nl'', ''Wordt gemaakt''), (''pl'', ''Tworzenie''), (''tr'', (''Olu'' @ [CHR 0xC5, CHR 0x9F] @ ''turuluyor''))]),
    (''ready'', [(''de'', ''Bereit''), (''en'', ''Ready''), (''fr'', (''Pr'' @ [CHR 0xC3, CHR 0xAA] @ ''te'')), (''es'', ''Lista''), (''it'', ''Pronta''), (''pt-BR'', ''Pronta''), (''nl'', ''Gereed''), (''pl'', ''Gotowe''), (''tr'', (''Haz'' @ [CHR 0xC4, CHR 0xB1] @ ''r''))]),
    (''running'', [(''de'', (''L'' @ [CHR 0xC3, CHR 0xA4] @ ''uft'')), (''en'', ''Running''), (''fr'', ''En cours''), (''es'', (''En ejecuci'' @ [CHR 0xC3, CHR 0xB3] @ ''n'')), (''it'', ''In esecuzione''), (''pt-BR'', (''Em execu'' @ [CHR 0xC3, CHR 0xA7, CHR 0xC3, CHR 0xA3] @ ''o'')), (''nl'', ''Actief''), (''pl'', ''W toku''), (''tr'', ([CHR 0xC3, CHR 0x87] @ ''al'' @ [CHR 0xC4, CHR 0xB1, CHR 0xC5, CHR 0x9F, CHR 0xC4, CHR 0xB1] @ ''yor''))]),
    (''waiting_for_tool'', [(''de'', ''Wartet auf Tool''), (''en'', ''Waiting for tool''), (''fr'', (''En attente d'' @ [CHR 0xE2, CHR 0x80, CHR 0x99] @ ''un outil'')), (''es'', ''Esperando una herramienta''), (''it'', ''In attesa di uno strumento''), (''pt-BR'', ''Aguardando uma ferramenta''), (''nl'', ''Wacht op tool''), (''pl'', (''Oczekiwanie na narz'' @ [CHR 0xC4, CHR 0x99] @ ''dzie'')), (''tr'', (''Ara'' @ [CHR 0xC3, CHR 0xA7] @ '' bekleniyor''))]),
    (''waiting_for_approval'', [(''de'', ''Wartet auf Freigabe''), (''en'', ''Waiting for approval''), (''fr'', (''En attente d'' @ [CHR 0xE2, CHR 0x80, CHR 0x99] @ ''approbation'')), (''es'', (''Esperando aprobaci'' @ [CHR 0xC3, CHR 0xB3] @ ''n'')), (''it'', ''In attesa di approvazione''), (''pt-BR'', (''Aguardando aprova'' @ [CHR 0xC3, CHR 0xA7, CHR 0xC3, CHR 0xA3] @ ''o'')), (''nl'', ''Wacht op goedkeuring''), (''pl'', (''Oczekiwanie na zgod'' @ [CHR 0xC4, CHR 0x99])), (''tr'', ''Onay bekleniyor'')]),
    (''waiting_for_subagents'', [(''de'', ''Wartet auf Subagenten''), (''en'', ''Waiting for subagents''), (''fr'', ''En attente de sous-agents''), (''es'', ''Esperando subagentes''), (''it'', ''In attesa dei subagenti''), (''pt-BR'', ''Aguardando subagentes''), (''nl'', ''Wacht op subagents''), (''pl'', (''Oczekiwanie na podagent'' @ [CHR 0xC3, CHR 0xB3] @ ''w'')), (''tr'', (''Alt arac'' @ [CHR 0xC4, CHR 0xB1] @ ''lar bekleniyor''))]),
    (''compacting'', [(''de'', ''Kontext wird verdichtet''), (''en'', ''Compacting context''), (''fr'', ''Condensation du contexte''), (''es'', ''Compactando contexto''), (''it'', ''Compattazione del contesto''), (''pt-BR'', ''Compactando contexto''), (''nl'', ''Context comprimeren''), (''pl'', ''Kompaktowanie kontekstu''), (''tr'', (''Ba'' @ [CHR 0xC4, CHR 0x9F] @ ''lam s'' @ [CHR 0xC4, CHR 0xB1] @ ''k'' @ [CHR 0xC4, CHR 0xB1, CHR 0xC5, CHR 0x9F] @ ''t'' @ [CHR 0xC4, CHR 0xB1] @ ''r'' @ [CHR 0xC4, CHR 0xB1] @ ''l'' @ [CHR 0xC4, CHR 0xB1] @ ''yor''))]),
    (''paused'', [(''de'', ''Pausiert''), (''en'', ''Paused''), (''fr'', ''En pause''), (''es'', ''En pausa''), (''it'', ''In pausa''), (''pt-BR'', ''Pausada''), (''nl'', ''Gepauzeerd''), (''pl'', ''Wstrzymana''), (''tr'', (''Duraklat'' @ [CHR 0xC4, CHR 0xB1] @ ''ld'' @ [CHR 0xC4, CHR 0xB1]))]),
    (''resuming'', [(''de'', ''Wird fortgesetzt''), (''en'', ''Resuming''), (''fr'', ''Reprise''), (''es'', ''Reanudando''), (''it'', ''Ripresa''), (''pt-BR'', ''Retomando''), (''nl'', ''Hervatten''), (''pl'', ''Wznawianie''), (''tr'', (''S'' @ [CHR 0xC3, CHR 0xBC] @ ''rd'' @ [CHR 0xC3, CHR 0xBC] @ ''r'' @ [CHR 0xC3, CHR 0xBC] @ ''l'' @ [CHR 0xC3, CHR 0xBC] @ ''yor''))]),
    (''completed'', [(''de'', ''Abgeschlossen''), (''en'', ''Completed''), (''fr'', (''Termin'' @ [CHR 0xC3, CHR 0xA9] @ ''e'')), (''es'', ''Completada''), (''it'', ''Completata''), (''pt-BR'', (''Conclu'' @ [CHR 0xC3, CHR 0xAD] @ ''da'')), (''nl'', ''Voltooid''), (''pl'', (''Uko'' @ [CHR 0xC5, CHR 0x84] @ ''czona'')), (''tr'', (''Tamamland'' @ [CHR 0xC4, CHR 0xB1]))]),
    (''failed'', [(''de'', ''Fehlgeschlagen''), (''en'', ''Failed''), (''fr'', ([CHR 0xC3, CHR 0x89] @ ''chec'')), (''es'', ''Fallida''), (''it'', ''Fallita''), (''pt-BR'', ''Falhou''), (''nl'', ''Mislukt''), (''pl'', ''Nieudana''), (''tr'', (''Ba'' @ [CHR 0xC5, CHR 0x9F] @ ''ar'' @ [CHR 0xC4, CHR 0xB1] @ ''s'' @ [CHR 0xC4, CHR 0xB1] @ ''z''))]),
    (''cancelled'', [(''de'', ''Abgebrochen''), (''en'', ''Cancelled''), (''fr'', (''Annul'' @ [CHR 0xC3, CHR 0xA9] @ ''e'')), (''es'', ''Cancelada''), (''it'', ''Annullata''), (''pt-BR'', ''Cancelada''), (''nl'', ''Geannuleerd''), (''pl'', ''Anulowana''), (''tr'', ([CHR 0xC4, CHR 0xB0] @ ''ptal edildi''))]),
    (''expired'', [(''de'', ''Abgelaufen''), (''en'', ''Expired''), (''fr'', (''Expir'' @ [CHR 0xC3, CHR 0xA9] @ ''e'')), (''es'', ''Expirada''), (''it'', ''Scaduta''), (''pt-BR'', ''Expirada''), (''nl'', ''Verlopen''), (''pl'', (''Wygas'' @ [CHR 0xC5, CHR 0x82] @ ''a'')), (''tr'', (''S'' @ [CHR 0xC3, CHR 0xBC] @ ''resi doldu''))])]"

section \<open>The language\<close>

definition raw_locale :: "languages \<Rightarrow> string" where
  "raw_locale g = replace_first ''_'' ''-'' (str_or (document_lang g) (str_or (navigator_language g) ''en''))"

definition base_locale :: "string \<Rightarrow> string" where
  "base_locale raw = hd (split_on (CHR ''-'') raw)"

definition has_own :: "string \<Rightarrow> (string \<times> 'v) list \<Rightarrow> bool" where
  "has_own k tab = (map_of tab k \<noteq> None)"

definition agentSessionLocale :: "languages \<Rightarrow> string" where
  "agentSessionLocale g = (let raw = raw_locale g in
     if has_own raw agentSessionLabels then raw
     else if has_own (base_locale raw) agentSessionLabels then base_locale raw else ''en'')"

section \<open>Texts\<close>

definition agentPanelText :: "languages \<Rightarrow> string \<Rightarrow> string" where
  "agentPanelText g k = label_of agentPanelLabels (agentSessionLocale g) k"

definition executionStatusText :: "languages \<Rightarrow> string \<Rightarrow> string" where
  "executionStatusText g k = (let raw = raw_locale g in
     label_of executionStatusLabels (if has_own raw executionStatusLabels then raw else base_locale raw) k)"

definition agentSessionActivityText :: "languages \<Rightarrow> string \<Rightarrow> string" where
  "agentSessionActivityText g k = label_of agentSessionActivityLabels (agentSessionLocale g) k"

definition agentSessionText :: "languages \<Rightarrow> string \<Rightarrow> string" where
  "agentSessionText g k = label_of agentSessionLabels (agentSessionLocale g) k"

definition agentControlText :: "languages \<Rightarrow> string \<Rightarrow> string" where
  "agentControlText g k = label_of agentControlLabels (agentSessionLocale g) k"

definition agentArtifactText :: "languages \<Rightarrow> string \<Rightarrow> string" where
  "agentArtifactText g k = label_of agentArtifactLabels (agentSessionLocale g) k"

text \<open>An entry that is a function inherited by every object has neither the locale nor \<^verbatim>\<open>en\<close>: the result is
  \<^verbatim>\<open>undefined\<close> then.\<close>

definition agentSessionStatusText :: "languages \<Rightarrow> jsv \<Rightarrow> jsv" where
  "agentSessionStatusText g sv = (let st = lower (str_of_or sv []) in
     case map_of agentSessionStatuses st of
       Some entry \<Rightarrow> Str (str_or (item_text (map_of entry (agentSessionLocale g))) (item_text (map_of entry ''en'')))
     | None \<Rightarrow> if st = ''constructor'' \<or> st = ''__proto__'' then Undef else Str (agentSessionText g ''idle''))"

definition terminal_statuses :: "string list" where
  "terminal_statuses = [''completed'', ''failed'', ''cancelled'', ''expired'']"

definition agentSessionTerminal :: "jsv \<Rightarrow> bool" where
  "agentSessionTerminal sv = (lower (str_of_or sv []) \<in> set terminal_statuses)"

lemmas selector_label_defs [js_defs] = agentPanelLabels_def agentControlLabels_def agentArtifactLabels_def
  executionStatusLabels_def agentSessionLabels_def agentSessionActivityLabels_def agentSessionStatuses_def
  raw_locale_def base_locale_def has_own_def agentSessionLocale_def agentPanelText_def executionStatusText_def
  agentSessionActivityText_def agentSessionText_def agentControlText_def agentArtifactText_def
  agentSessionStatusText_def terminal_statuses_def agentSessionTerminal_def

section \<open>The tables are complete\<close>

lemma tables_complete:
  "complete_tables agentPanelLabels" "complete_tables agentControlLabels" "complete_tables agentArtifactLabels"
  "complete_tables executionStatusLabels" "complete_tables agentSessionLabels" "complete_tables agentSessionActivityLabels"
  by code_simp+

interpretation panel_labels: label_tables agentPanelLabels "''en''" "label_of agentPanelLabels"
  by (rule complete_tables_contract) (rule tables_complete)

interpretation control_labels: label_tables agentControlLabels "''en''" "label_of agentControlLabels"
  by (rule complete_tables_contract) (rule tables_complete)

interpretation artifact_labels: label_tables agentArtifactLabels "''en''" "label_of agentArtifactLabels"
  by (rule complete_tables_contract) (rule tables_complete)

interpretation execution_labels: label_tables executionStatusLabels "''en''" "label_of executionStatusLabels"
  by (rule complete_tables_contract) (rule tables_complete)

interpretation session_labels: label_tables agentSessionLabels "''en''" "label_of agentSessionLabels"
  by (rule complete_tables_contract) (rule tables_complete)

interpretation activity_labels: label_tables agentSessionActivityLabels "''en''" "label_of agentSessionActivityLabels"
  by (rule complete_tables_contract) (rule tables_complete)

text \<open>The keys of a table are those of its English part.\<close>

definition label_keys :: "(string \<times> (string \<times> string) list) list \<Rightarrow> string list" where
  "label_keys tabs = (case map_of tabs ''en'' of Some en \<Rightarrow> map fst en | None \<Rightarrow> [])"

lemma label_of_total:
  assumes "complete_tables tabs" and "k \<in> set (label_keys tabs)"
  shows "label_of tabs l k \<noteq> []"
proof (cases "map_of tabs ''en''")
  case None
  then show ?thesis using assms(2) by (simp add: label_keys_def)
next
  case (Some en)
  then have "(''en'', en) \<in> set tabs" "k \<in> dom (map_of en)"
    using assms(2) by (auto simp: label_keys_def dom_map_of_conv_image_fst dest: map_of_SomeD)
  then show ?thesis by (rule label_tables.lookup_total [OF complete_tables_contract [OF assms(1)]])
qed

lemma status_names:
  "list_all (\<lambda>(st, names). map fst names = map fst agentSessionLabels \<and> list_all (\<lambda>(l, v). v \<noteq> []) names) agentSessionStatuses"
  by code_simp

lemma agentSessionLocale_known: "agentSessionLocale g \<in> set (map fst agentSessionLabels)"
proof -
  have "''en'' \<in> set (map fst agentSessionLabels)" by (simp add: agentSessionLabels_def)
  moreover have "l \<in> set (map fst agentSessionLabels)" if "has_own l agentSessionLabels" for l
    using that unfolding has_own_def by (metis list.set_map map_of_eq_None_iff)
  ultimately show ?thesis unfolding agentSessionLocale_def Let_def by presburger
qed

lemma status_text_known:
  assumes "map_of agentSessionStatuses st = Some names"
  shows "\<exists>v. map_of names (agentSessionLocale g) = Some v \<and> v \<noteq> []"
proof -
  have n: "map fst names = map fst agentSessionLabels" "\<forall>(l, v) \<in> set names. v \<noteq> []"
    using status_names map_of_SomeD [OF assms] unfolding list_all_iff by blast+
  have "agentSessionLocale g \<in> dom (map_of names)"
    using agentSessionLocale_known [of g] n(1) by (metis dom_map_of_conv_image_fst list.set_map)
  then obtain v where v: "map_of names (agentSessionLocale g) = Some v" by auto
  then show ?thesis using bspec [OF n(2) map_of_SomeD [OF v]] by simp
qed

section \<open>Properties\<close>

text \<open>Localisation of the selector: whatever the page's and the browser's language are, the chosen locale is one
  of the nine supported ones, every label key of the six tables has a non-empty text, every lifecycle
  status is shown by a non-empty name of the chosen language, and the terminal statuses are lifecycle
  statuses.\<close>

theorem selector_texts_total:
  "agentSessionLocale g \<in> set (map fst agentSessionLabels) \<and> length agentSessionLabels = 9 \<and>
   (\<forall>k \<in> set (label_keys agentPanelLabels). agentPanelText g k \<noteq> []) \<and>
   (\<forall>k \<in> set (label_keys agentControlLabels). agentControlText g k \<noteq> []) \<and>
   (\<forall>k \<in> set (label_keys agentArtifactLabels). agentArtifactText g k \<noteq> []) \<and>
   (\<forall>k \<in> set (label_keys executionStatusLabels). executionStatusText g k \<noteq> []) \<and>
   (\<forall>k \<in> set (label_keys agentSessionLabels). agentSessionText g k \<noteq> []) \<and>
   (\<forall>k \<in> set (label_keys agentSessionActivityLabels). agentSessionActivityText g k \<noteq> []) \<and>
   (\<forall>st names. map_of agentSessionStatuses st = Some names \<longrightarrow>
      (\<exists>v. v \<noteq> [] \<and> map_of names (agentSessionLocale g) = Some v \<and> (lower st = st \<longrightarrow> agentSessionStatusText g (Str st) = Str v))) \<and>
   set terminal_statuses \<subseteq> set (map fst agentSessionStatuses)"
proof -
  have st: "\<exists>v. v \<noteq> [] \<and> map_of names (agentSessionLocale g) = Some v \<and> (lower st = st \<longrightarrow> agentSessionStatusText g (Str st) = Str v)"
    if names: "map_of agentSessionStatuses st = Some names" for st names
  proof -
    obtain v where v: "map_of names (agentSessionLocale g) = Some v" "v \<noteq> []" using status_text_known [OF names, of g] by auto
    have ne: "st \<noteq> []" using names by (auto simp: agentSessionStatuses_def)
    have "agentSessionStatusText g (Str st) = Str v" if "lower st = st"
      using v ne names that
      by (simp add: agentSessionStatusText_def Let_def str_of_or_def item_text_def str_or_def)
    then show ?thesis using v by auto
  qed
  have ter: "set terminal_statuses \<subseteq> set (map fst agentSessionStatuses)" by code_simp
  have len: "length agentSessionLabels = 9" by (simp add: agentSessionLabels_def)
  show ?thesis
    using st ter len agentSessionLocale_known
    by (auto simp: agentPanelText_def agentControlText_def agentArtifactText_def executionStatusText_def agentSessionText_def
      agentSessionActivityText_def Let_def intro: label_of_total [OF tables_complete(1), THEN notE] label_of_total [OF tables_complete(2), THEN notE]
        label_of_total [OF tables_complete(3), THEN notE] label_of_total [OF tables_complete(4), THEN notE]
        label_of_total [OF tables_complete(5), THEN notE] label_of_total [OF tables_complete(6), THEN notE])
qed

theorem selector_texts_total_witness:
  "agentSessionText \<lparr>document_lang = ''pt_BR'', navigator_language = [], engine_error = []\<rparr> ''create'' \<noteq> [] \<and>
   agentSessionStatusText \<lparr>document_lang = ''fr-CA'', navigator_language = [], engine_error = []\<rparr> (Str ''failed'') \<noteq> Str []"
proof -
  let ?p = "\<lparr>document_lang = ''pt_BR'', navigator_language = [], engine_error = []\<rparr>" and ?f = "\<lparr>document_lang = ''fr-CA'', navigator_language = [], engine_error = []\<rparr>"
  have k: "''create'' \<in> set (label_keys agentSessionLabels)" by code_simp
  have l: "lower ''failed'' = ''failed''" by code_simp
  obtain names where n: "map_of agentSessionStatuses ''failed'' = Some names" by (simp add: agentSessionStatuses_def)
  have "agentSessionText ?p ''create'' \<noteq> []"
    using selector_texts_total [of ?p] k by simp
  moreover obtain v where "v \<noteq> []" "agentSessionStatusText ?f (Str ''failed'') = Str v"
    using selector_texts_total [of ?f] n l by blast
  ultimately show ?thesis by simp
qed

end
