(* ===== verification/SelectorState.thy ===== *)
theory SelectorState
  imports SelectorLabels
begin

text \<open>
  The module state of \<^verbatim>\<open>src/portal/webui/model-selector.js\<close> and its persistence (lines 188 to 252): the two-level storage
  with its fallback, the cached session list and the per-session event cursor. The storage operations
  satisfy the contract \<open>key_value\<close> whenever \<^verbatim>\<open>localStorage\<close> can be read and written; the round trips of the cursor are
  proved in that locale.
\<close>

section \<open>State\<close>

text \<open>An element the code keeps in a variable (\<^verbatim>\<open>agentSessionSelect\<close>, \<^verbatim>\<open>agentTaskPrompt\<close>, ...) is an element of the page under
  the variable's name. \<open>agentSessionPollTimer\<close> says whether a timeout is pending.\<close>

record selector = browser +
  langs :: languages
  has_body :: bool
  sel_models :: "jsv list"
  selectedModel :: jsv
  localNodeEndpoint :: string
  meshEndpoints :: "string list"
  localNodeChecked :: bool
  localNodeCheckingPromise :: bool
  lastExecution :: jsv
  agentSessions :: "jsv list"
  agentSessionId :: string
  agentSessionCursor :: jnum
  agentSessionPollTimer :: bool
  agentSessionPollInFlight :: bool
  agentSessionPollBlocked :: bool
  agentSessionPanelOpen :: bool
  agentSessionActivity :: "jsv list"
  agentTaskBusy :: bool
  agentArtifacts :: "jsv list"
  agentApprovals :: "jsv list"
  agentSessionLastEvent :: jsv

section \<open>Two-level storage\<close>

definition agentStorageGet :: "string \<Rightarrow> 'a browser_scheme \<Rightarrow> string option" where
  "agentStorageGet k b = (case get_item k (localStorage b) of Some (Some v) \<Rightarrow> Some v
     | _ \<Rightarrow> (case get_item k (sessionStorage b) of Some r \<Rightarrow> r | None \<Rightarrow> None))"

definition agentStorageSet :: "string \<Rightarrow> string \<Rightarrow> 'a browser_scheme \<Rightarrow> 'a browser_scheme" where
  "agentStorageSet k v b = (case set_item k v (localStorage b) of Some st \<Rightarrow> b\<lparr>localStorage := st\<rparr>
     | None \<Rightarrow> b\<lparr>sessionStorage := try_set_item k v (sessionStorage b)\<rparr>)"

definition agentStorageRemove :: "string \<Rightarrow> 'a browser_scheme \<Rightarrow> 'a browser_scheme" where
  "agentStorageRemove k b = b\<lparr>localStorage := try_remove_item k (localStorage b),
     sessionStorage := try_remove_item k (sessionStorage b)\<rparr>"

section \<open>Session cache\<close>

definition cache_key :: string where
  "cache_key = ''cm_agent_sessions_cache_v1''"

text \<open>\<^verbatim>\<open>Number(v || 0)\<close>.\<close>

definition num_or_zero :: "jsv \<Rightarrow> jnum" where
  "num_or_zero v = to_num (js_or v (JInt 0))"

definition cache_entry :: "jsv \<Rightarrow> jsv option" where
  "cache_entry session = (if get_prop session ''session_id'' = None then None
     else let str = (\<lambda>k. Str (str_of_or (safe_prop session k) [])); num = (\<lambda>k. Num (num_or_zero (safe_prop session k))) in
       Some (Obj [(''session_id'', str ''session_id''), (''agent_id'', str ''agent_id''),
         (''agent_version'', str ''agent_version''), (''status'', str ''status''),
         (''environment_type'', str ''environment_type''), (''version'', num ''version''),
         (''created_at'', num ''created_at''), (''updated_at'', num ''updated_at'')]))"

definition cacheable :: "jsv \<Rightarrow> bool" where
  "cacheable e = (truthy (safe_prop e ''session_id'') \<and> truthy (safe_prop e ''agent_id''))"

definition saveAgentSessionCache :: "'a selector_scheme \<Rightarrow> 'a selector_scheme" where
  "saveAgentSessionCache s = (case map_throw cache_entry (take 50 (agentSessions s)) of None \<Rightarrow> s
     | Some safe \<Rightarrow> agentStorageSet cache_key (stringify (Arr (filter cacheable safe))) s)"

definition cached_ok :: "jsv \<Rightarrow> bool" where
  "cached_ok e = (truthy e \<and> is_object e \<and> length (str_of_or (safe_prop e ''session_id'') []) \<le> 160 \<and>
     length (str_of_or (safe_prop e ''agent_id'') []) \<le> 160)"

definition restoreAgentSessionCache :: "'a browser_scheme \<Rightarrow> jsv list" where
  "restoreAgentSessionCache b = (let raw = item_text (agentStorageGet cache_key b) in
     if raw = [] then [] else (case json_parse raw of
       Some (Arr xs) \<Rightarrow> filter cached_ok (take 50 xs) | _ \<Rightarrow> []))"

section \<open>Event cursor\<close>

text \<open>The replacement of every character outside \<^verbatim>\<open>[a-zA-Z0-9_.-]\<close> by an underscore.\<close>

definition key_char :: "char \<Rightarrow> char" where
  "key_char c = (if is_digit c \<or> is_upper c \<or> is_lower c \<or> c \<in> set ''_.-'' then c else CHR ''_'')"

definition agentSessionStorageKey :: "string \<Rightarrow> string" where
  "agentSessionStorageKey i = ''cm_agent_session_cursor_'' @ map key_char i"

definition restoreAgentSessionCursor :: "string \<Rightarrow> 'a selector_scheme \<Rightarrow> 'a selector_scheme" where
  "restoreAgentSessionCursor i s =
     (let n = (let t = item_text (agentStorageGet (agentSessionStorageKey i) s) in if t = [] then Fin 0 else str_num t) in
      s\<lparr>agentSessionCursor := (if is_finite n \<and> \<not> num_less n (Fin 0) then num_floor n else Fin 0)\<rparr>)"

definition saveAgentSessionCursor :: "'a selector_scheme \<Rightarrow> 'a selector_scheme" where
  "saveAgentSessionCursor s = agentStorageSet (agentSessionStorageKey (agentSessionId s)) (num_str (agentSessionCursor s)) s"

lemmas selector_state_defs [js_defs] = agentStorageGet_def agentStorageSet_def agentStorageRemove_def cache_key_def
  num_or_zero_def cache_entry_def cacheable_def saveAgentSessionCache_def cached_ok_def restoreAgentSessionCache_def
  key_char_def agentSessionStorageKey_def restoreAgentSessionCursor_def saveAgentSessionCursor_def

section \<open>The storage contract\<close>

locale key_value =
  fixes get :: "string \<Rightarrow> 's \<Rightarrow> string option"
    and put :: "string \<Rightarrow> string \<Rightarrow> 's \<Rightarrow> 's"
    and del :: "string \<Rightarrow> 's \<Rightarrow> 's"
    and usable :: "'s \<Rightarrow> bool"
  assumes get_put: "usable s \<Longrightarrow> get k (put k v s) = Some v"
    and get_put_other: "k \<noteq> k' \<Longrightarrow> get k (put k' v s) = get k s"
    and get_del: "usable s \<Longrightarrow> get k (del k s) = None"
    and get_del_other: "k \<noteq> k' \<Longrightarrow> get k (del k' s) = get k s"
    and usable_put: "usable (put k v s) = usable s"
    and usable_del: "usable (del k s) = usable s"
begin

text \<open>A sequence of writes behaves like a map: the last write of a key wins.\<close>

lemma get_puts:
  "usable s \<Longrightarrow> get k (fold (\<lambda>(k, v). put k v) kvs s) = (case map_of (rev kvs) k of Some v \<Rightarrow> Some v | None \<Rightarrow> get k s)"
proof (induction kvs arbitrary: s)
  case Nil
  then show ?case by simp
next
  case (Cons p kvs)
  obtain k' v' where p: "p = (k', v')" by (cases p)
  show ?case
    using Cons.IH [of "put k' v' s"] Cons.prems get_put [of s k v'] get_put_other [of k k' v' s]
    by (cases "k = k'") (auto simp: p usable_put map_add_def split: option.splits)
qed

lemma del_put: "usable s \<Longrightarrow> get k (del k (put k v s)) = None"
  by (simp add: get_del usable_put)

end

definition local_usable :: "'a browser_scheme \<Rightarrow> bool" where
  "local_usable b = (can_read (localStorage b) \<and> can_write (localStorage b))"

interpretation agent_storage: key_value agentStorageGet agentStorageSet agentStorageRemove local_usable
proof
  fix s :: "'a browser_scheme" and k k' v :: string
  show "local_usable s \<Longrightarrow> agentStorageGet k (agentStorageSet k v s) = Some v"
    by (simp add: agentStorageGet_def agentStorageSet_def local_usable_def storage_defs)
  show "k \<noteq> k' \<Longrightarrow> agentStorageGet k (agentStorageSet k' v s) = agentStorageGet k s"
    by (auto simp: agentStorageGet_def agentStorageSet_def storage_defs split: option.split)
  show "local_usable s \<Longrightarrow> agentStorageGet k (agentStorageRemove k s) = None"
    by (simp add: agentStorageGet_def agentStorageRemove_def local_usable_def storage_defs)
  show "k \<noteq> k' \<Longrightarrow> agentStorageGet k (agentStorageRemove k' s) = agentStorageGet k s"
    by (auto simp: agentStorageGet_def agentStorageRemove_def storage_defs split: option.split)
  show "local_usable (agentStorageSet k v s) = local_usable s"
    by (auto simp: agentStorageSet_def local_usable_def storage_defs)
  show "local_usable (agentStorageRemove k s) = local_usable s"
    by (auto simp: agentStorageRemove_def local_usable_def storage_defs)
qed

section \<open>Lemmas\<close>

lemma agentStorageSet_frame [simp]:
  "agentSessionCursor (agentStorageSet k v s) = agentSessionCursor s" "agentSessionId (agentStorageSet k v s) = agentSessionId s"
  "agentSessions (agentStorageSet k v s) = agentSessions s" "sent (agentStorageSet k v s) = sent s"
  "page (agentStorageSet k v s) = page s"
  by (simp_all add: agentStorageSet_def split: option.split)

lemma agentStorageGet_cursor [simp]: "agentStorageGet k (s\<lparr>agentSessionCursor := c\<rparr>) = agentStorageGet k s"
  by (simp add: agentStorageGet_def cong: option.case_cong)

lemma restore_cursor_natural: "\<exists>n :: nat. agentSessionCursor (restoreAgentSessionCursor i s) = Fin (of_nat n)"
proof -
  let ?t = "item_text (agentStorageGet (agentSessionStorageKey i) s)"
  let ?n = "if ?t = [] then Fin 0 else str_num ?t"
  show ?thesis
  proof (cases "is_finite ?n \<and> \<not> num_less ?n (Fin 0)")
    case True
    then obtain q where q: "?n = Fin q" "0 \<le> q" by (cases ?n) (auto simp: is_finite_def)
    then have "agentSessionCursor (restoreAgentSessionCursor i s) = Fin (of_int \<lfloor>q\<rfloor>)"
      using True by (simp add: restoreAgentSessionCursor_def Let_def num_floor_def)
    moreover have "of_int \<lfloor>q\<rfloor> = (of_nat (nat \<lfloor>q\<rfloor>) :: rat)" using q(2) by simp
    ultimately show ?thesis by metis
  next
    case False
    then have "agentSessionCursor (restoreAgentSessionCursor i s) = Fin (of_nat 0)"
      unfolding restoreAgentSessionCursor_def Let_def by (subst if_not_P) simp_all
    then show ?thesis by blast
  qed
qed

lemma restore_after_write:
  assumes "agentStorageGet (agentSessionStorageKey i) s = Some (nat_str n)"
  shows "agentSessionCursor (restoreAgentSessionCursor i s) = Fin (of_nat n)"
  using assms by (simp add: restoreAgentSessionCursor_def item_text_def Let_def is_finite_def num_floor_def)

lemma restore_same_storage:
  "agentStorageGet (agentSessionStorageKey i) s = agentStorageGet (agentSessionStorageKey i) t \<Longrightarrow>
   agentSessionCursor (restoreAgentSessionCursor i s) = agentSessionCursor (restoreAgentSessionCursor i t)"
  by (simp add: restoreAgentSessionCursor_def Let_def)

text \<open>A session record with integer counters, as the gateway sends them.\<close>

definition integral :: "jnum \<Rightarrow> bool" where
  "integral n = (case n of Fin q \<Rightarrow> q = of_int \<lfloor>q\<rfloor> | _ \<Rightarrow> False)"

definition countable_session :: "jsv \<Rightarrow> bool" where
  "countable_session v = (is_record v \<and> (\<forall>k \<in> {''version'', ''created_at'', ''updated_at''}. integral (num_or_zero (safe_prop v k))))"

lemma cache_entry_json:
  assumes "countable_session v"
  shows "\<exists>e. cache_entry v = Some e \<and> json_ok e"
  using assms by (simp add: cache_entry_def countable_session_def get_prop_record integral_def Let_def)

lemma json_ok_filter: "list_all json_ok xs \<Longrightarrow> list_all json_ok (filter P xs)"
  by (induction xs) auto

lemma map_throw_json:
  assumes "\<forall>x \<in> set xs. \<exists>e. f x = Some e \<and> json_ok e"
  shows "map_throw f xs = Some (map (\<lambda>x. the (f x)) xs) \<and> list_all json_ok (map (\<lambda>x. the (f x)) xs)"
  using assms by (induction xs) auto

lemma stringify_Arr_nonempty: "stringify (Arr xs) \<noteq> []"
  by simp

section \<open>Properties\<close>

text \<open>Two-level storage: a written value is read back whenever \<^verbatim>\<open>localStorage\<close> works, and also when it refuses the write
  but holds no older value and \<^verbatim>\<open>sessionStorage\<close> works; but if \<^verbatim>\<open>localStorage\<close> refuses the write (full quota) while it
  still holds an older value, that older value keeps being read and the newer one is shadowed.\<close>

theorem storage_fallback:
  "(local_usable b \<longrightarrow> agentStorageGet k (agentStorageSet k v b) = Some v) \<and>
   (\<not> can_write (localStorage b) \<and> can_read (sessionStorage b) \<and> can_write (sessionStorage b) \<and>
      (can_read (localStorage b) \<longrightarrow> items (localStorage b) k = None) \<longrightarrow>
      agentStorageGet k (agentStorageSet k v b) = Some v) \<and>
   (\<not> can_write (localStorage b) \<and> can_read (localStorage b) \<and> items (localStorage b) k = Some old \<longrightarrow>
      agentStorageGet k (agentStorageSet k v b) = Some old) \<and>
   (k \<noteq> k' \<longrightarrow> agentStorageGet k (agentStorageSet k' v b) = agentStorageGet k b)"
  using agent_storage.get_put [of b k v] agent_storage.get_put_other [of k k' v b]
  by (auto simp: agentStorageGet_def agentStorageSet_def storage_defs)

definition full_browser :: browser where
  "full_browser = \<lparr>localStorage = \<lparr>items = [''c'' \<mapsto> ''3''], can_read = True, can_write = False\<rparr>,
     sessionStorage = \<lparr>items = Map.empty, can_read = True, can_write = True\<rparr>, cookie = [],
     page = Map.empty, sent = [], navs = [], alerts = []\<rparr>"

theorem storage_fallback_witness:
  "agentStorageGet ''c'' (agentStorageSet ''c'' ''9'' full_browser) = Some ''3'' \<and>
   agentStorageGet ''d'' (agentStorageSet ''d'' ''9'' full_browser) = Some ''9''"
  using storage_fallback [of full_browser "''c''" "''9''" "''3''" "''c''"] storage_fallback [of full_browser "''d''" "''9''" "''3''" "''c''"]
  by (simp add: full_browser_def)

text \<open>Event cursors persist: with a working \<^verbatim>\<open>localStorage\<close> a saved cursor is restored exactly, saving one session's
  cursor leaves the cursors of sessions with another storage key alone, and whatever text is stored,
  the restored cursor is a natural number.\<close>

theorem cursor_round_trip:
  fixes s :: "'a selector_scheme"
  assumes "local_usable s" and "agentSessionCursor s = Fin (of_nat n)"
  shows "agentSessionCursor (restoreAgentSessionCursor (agentSessionId s) (saveAgentSessionCursor s)) = Fin (of_nat n) \<and>
    (agentSessionStorageKey j \<noteq> agentSessionStorageKey (agentSessionId s) \<longrightarrow>
       agentSessionCursor (restoreAgentSessionCursor j (saveAgentSessionCursor s)) = agentSessionCursor (restoreAgentSessionCursor j s)) \<and>
    (\<exists>m :: nat. agentSessionCursor (restoreAgentSessionCursor j (s :: 'a selector_scheme)) = Fin (of_nat m))"
proof -
  have "agentStorageGet (agentSessionStorageKey (agentSessionId s)) (saveAgentSessionCursor s) = Some (nat_str n)"
    using assms by (simp add: saveAgentSessionCursor_def agent_storage.get_put)
  then show ?thesis
    using restore_cursor_natural [of j s]
    by (auto simp: restore_after_write saveAgentSessionCursor_def agent_storage.get_put_other intro: restore_same_storage)
qed

definition selector0 :: selector where
  "selector0 = browser.extend
     \<lparr>localStorage = \<lparr>items = Map.empty, can_read = True, can_write = True\<rparr>,
      sessionStorage = \<lparr>items = Map.empty, can_read = True, can_write = True\<rparr>, cookie = [],
      page = Map.empty, sent = [], navs = [], alerts = []\<rparr>
     \<lparr>langs = \<lparr>document_lang = ''en'', navigator_language = ''en'', engine_error = ''TypeError''\<rparr>, has_body = True, sel_models = [], selectedModel = Null,
      localNodeEndpoint = [], meshEndpoints = [], localNodeChecked = False, localNodeCheckingPromise = False, lastExecution = Null, agentSessions = [],
      agentSessionId = [], agentSessionCursor = Fin 0, agentSessionPollTimer = False, agentSessionPollInFlight = False,
      agentSessionPollBlocked = False, agentSessionPanelOpen = False, agentSessionActivity = [], agentTaskBusy = False,
      agentArtifacts = [], agentApprovals = [], agentSessionLastEvent = Str []\<rparr>"

theorem cursor_round_trip_witness:
  "let s = selector0\<lparr>agentSessionId := ''s1'', agentSessionCursor := Fin 42\<rparr> in
   agentSessionCursor (restoreAgentSessionCursor ''s1'' (saveAgentSessionCursor s)) = Fin 42"
proof -
  let ?s = "selector0\<lparr>agentSessionId := ''s1'', agentSessionCursor := Fin 42\<rparr>"
  have "local_usable ?s" "agentSessionCursor ?s = Fin (of_nat 42)"
    by (simp_all add: selector0_def browser.defs local_usable_def)
  from cursor_round_trip [OF this, of "[]"] show ?thesis by (simp add: Let_def)
qed



end
