(* ===== verification/SelectorDiscovery.thy ===== *)
theory SelectorDiscovery
  imports SelectorState
begin

text \<open>
  Discovery of mesh nodes in \<^verbatim>\<open>src/portal/webui/model-selector.js\<close> (lines 351 to 439): the endpoint list, the discovery request,
  the two fleet lists, the loopback probe, and the worker pool \<^verbatim>\<open>mapWithConcurrency\<close>. The URL parser of the
  browser is a parameter: \<^term>\<open>parser text base\<close> is \<^verbatim>\<open>new URL(text, base)\<close>, with \<^const>\<open>None\<close> for the exception and the empty
  base for the one-argument call.
\<close>

section \<open>Endpoints\<close>

record url_info =
  href :: string
  url_protocol :: string
  url_origin :: string
  url_pathname :: string

type_synonym url_parser = "string \<Rightarrow> string \<Rightarrow> url_info option"

definition strip_slash :: "string \<Rightarrow> string" where
  "strip_slash s = (if ends_with s ''/'' then butlast s else s)"

definition http_protocol :: "string \<Rightarrow> bool" where
  "http_protocol p = (lower p = ''http:'' \<or> lower p = ''https:'')"

definition is_endpoint :: "url_parser \<Rightarrow> string \<Rightarrow> bool" where
  "is_endpoint parser e = (case parser e [] of Some u \<Rightarrow> http_protocol (url_protocol u) | None \<Rightarrow> False)"

definition mesh_endpoint :: "url_parser \<Rightarrow> string \<Rightarrow> jsv \<Rightarrow> string option" where
  "mesh_endpoint parser base v = (if \<not> truthy v then None
     else (case parser (to_str v) base of None \<Rightarrow> None
       | Some u \<Rightarrow> let e = strip_slash (href u) in if is_endpoint parser e then Some e else None))"

definition addMeshEndpoint :: "url_parser \<Rightarrow> location \<Rightarrow> jsv \<Rightarrow> 'a selector_scheme \<Rightarrow> 'a selector_scheme" where
  "addMeshEndpoint parser loc v s = (case mesh_endpoint parser (origin loc) v of None \<Rightarrow> s
     | Some e \<Rightarrow> if e \<in> set (meshEndpoints s) then s else s\<lparr>meshEndpoints := meshEndpoints s @ [e]\<rparr>)"

section \<open>Fleet lists\<close>

definition discovery_request :: "string \<Rightarrow> string \<Rightarrow> request" where
  "discovery_request u cred = \<lparr>url = u, http_method = ''GET'', headers = [], body = None, credentials = cred\<rparr>"

text \<open>\<^const>\<open>None\<close>: the promise is rejected (network, the two-second timeout, malformed JSON).\<close>

definition fetchDiscoveryJson :: "server \<Rightarrow> string \<Rightarrow> string \<Rightarrow> 'a selector_scheme \<Rightarrow> jsv option \<times> 'a selector_scheme" where
  "fetchDiscoveryJson srv u cred s = (case do_fetch srv (discovery_request u cred) s of
     (Rejected m, s') \<Rightarrow> (None, s') | (Resp r, s') \<Rightarrow> (if ok r then rjson r else Some Null, s'))"

definition node_offline :: "jsv \<Rightarrow> bool" where
  "node_offline node = (\<not> truthy node \<or> safe_prop node ''is_online'' = Bool False \<or> safe_prop node ''status'' = Str ''offline'')"

definition node_endpoint :: "jsv \<Rightarrow> jsv" where
  "node_endpoint node = js_or (safe_prop node ''remote_url'') (js_or (safe_prop node ''endpoint'')
     (js_or (safe_prop node ''node_url'') (safe_prop node ''url'')))"

definition add_node :: "url_parser \<Rightarrow> location \<Rightarrow> jsv \<Rightarrow> 'a selector_scheme \<Rightarrow> 'a selector_scheme" where
  "add_node parser loc node s = (if node_offline node then s else addMeshEndpoint parser loc (node_endpoint node) s)"

definition fleet_paths :: "string list" where
  "fleet_paths = [''/api/v1/mesh/fleet'', ''/api/portal/fleet'']"

definition discover_path :: "server \<Rightarrow> url_parser \<Rightarrow> location \<Rightarrow> string \<Rightarrow> 'a selector_scheme \<Rightarrow> 'a selector_scheme" where
  "discover_path srv parser loc p s = (case fetchDiscoveryJson srv p ''include'' s of (None, s') \<Rightarrow> s'
     | (Some payload, s') \<Rightarrow> fold (add_node parser loc) (arr_or_empty (and_prop payload ''nodes'')) s')"

definition discoverFleetEndpoints :: "server \<Rightarrow> url_parser \<Rightarrow> location \<Rightarrow> 'a selector_scheme \<Rightarrow> 'a selector_scheme" where
  "discoverFleetEndpoints srv parser loc s = fold (discover_path srv parser loc) fleet_paths s"

section \<open>The local node\<close>

definition loopback_candidates :: "string list" where
  "loopback_candidates = [''http://127.0.0.1:8080'', ''http://localhost:8080'']"

definition probe_request :: "string \<Rightarrow> request" where
  "probe_request c = discovery_request (c @ ''/webui/props'') ''same-origin''"

fun probe_candidates :: "server \<Rightarrow> url_parser \<Rightarrow> location \<Rightarrow> string list \<Rightarrow> 'a selector_scheme \<Rightarrow> 'a selector_scheme" where
  "probe_candidates srv parser loc [] s = s"
| "probe_candidates srv parser loc (c # cs) s = (case do_fetch srv (probe_request c) s of
     (Resp r, s') \<Rightarrow> if ok r then addMeshEndpoint parser loc (Str c) (s'\<lparr>localNodeEndpoint := c\<rparr>)
                     else probe_candidates srv parser loc cs s'
   | (Rejected m, s') \<Rightarrow> probe_candidates srv parser loc cs s')"

definition is_local_host :: "location \<Rightarrow> bool" where
  "is_local_host loc = (hostname loc = ''127.0.0.1'' \<or> hostname loc = ''localhost'')"

text \<open>The state when the returned promise is settled; a call during a running probe gets the running promise and does
  nothing itself.\<close>

definition probeLocalNode :: "server \<Rightarrow> url_parser \<Rightarrow> location \<Rightarrow> 'a selector_scheme \<Rightarrow> 'a selector_scheme" where
  "probeLocalNode srv parser loc s =
     (if localNodeChecked s \<or> localNodeCheckingPromise s then s
      else let s0 = s\<lparr>localNodeCheckingPromise := True\<rparr> in
        if is_local_host loc
        then (addMeshEndpoint parser loc (Str (origin loc)) (s0\<lparr>localNodeEndpoint := origin loc\<rparr>))\<lparr>localNodeChecked := True\<rparr>
        else (discoverFleetEndpoints srv parser loc (probe_candidates srv parser loc loopback_candidates s0))\<lparr>localNodeChecked := True\<rparr>)"

lemmas discovery_defs [js_defs] = strip_slash_def http_protocol_def is_endpoint_def mesh_endpoint_def addMeshEndpoint_def
  discovery_request_def fetchDiscoveryJson_def node_offline_def node_endpoint_def add_node_def fleet_paths_def discover_path_def
  discoverFleetEndpoints_def loopback_candidates_def probe_request_def is_local_host_def probeLocalNode_def

section \<open>The endpoint registry\<close>

text \<open>An operation that at most appends one new valid entry: the list stays free of duplicates, keeps its entries in place
  and holds valid entries only, through any sequence of operations.\<close>

locale registry =
  fixes entries :: "'s \<Rightarrow> 'e list" and valid :: "'e \<Rightarrow> bool" and add :: "'v \<Rightarrow> 's \<Rightarrow> 's"
  assumes add_cases: "entries (add v s) = entries s \<or> (\<exists>e. e \<notin> set (entries s) \<and> valid e \<and> entries (add v s) = entries s @ [e])"
begin

definition grows :: "'s \<Rightarrow> 's \<Rightarrow> bool" where
  "grows s t = (\<exists>new. entries t = entries s @ new \<and> (distinct (entries s) \<longrightarrow> distinct (entries t)) \<and> (\<forall>e \<in> set new. valid e))"

lemma grows_refl: "entries t = entries s \<Longrightarrow> grows s t"
  by (auto simp: grows_def)

lemma grows_trans: "grows s t \<Longrightarrow> grows t u \<Longrightarrow> grows s u"
  unfolding grows_def by (elim exE conjE, rule_tac x = "new @ newa" in exI) auto

lemma grows_add: "grows s (add v s)"
  using add_cases [of v s] by (auto simp: grows_def)

lemma grows_fold: "grows s (fold add vs s)"
proof (induction vs arbitrary: s)
  case Nil
  show ?case by (simp add: grows_refl)
next
  case (Cons v vs)
  show ?case using grows_trans [OF grows_add [of s v] Cons.IH [of "add v s"]] by simp
qed

end

lemma mesh_endpoint_valid: "mesh_endpoint parser base v = Some e \<Longrightarrow> is_endpoint parser e"
  by (auto simp: mesh_endpoint_def Let_def split: if_splits option.splits)

lemma addMeshEndpoint_cases:
  "meshEndpoints (addMeshEndpoint parser loc v s) = meshEndpoints s \<or>
   (\<exists>e. e \<notin> set (meshEndpoints s) \<and> is_endpoint parser e \<and> meshEndpoints (addMeshEndpoint parser loc v s) = meshEndpoints s @ [e])"
  by (auto simp: addMeshEndpoint_def dest: mesh_endpoint_valid split: option.split)

interpretation mesh: registry meshEndpoints "is_endpoint parser" "addMeshEndpoint parser loc"
  by unfold_locales (rule addMeshEndpoint_cases)

interpretation fleet: registry meshEndpoints "is_endpoint parser" "add_node parser loc"
  by unfold_locales (simp add: add_node_def addMeshEndpoint_cases)

definition endpoints_grow :: "url_parser \<Rightarrow> 'a selector_scheme \<Rightarrow> 'a selector_scheme \<Rightarrow> bool" where
  "endpoints_grow parser s t = (\<exists>new. meshEndpoints t = meshEndpoints s @ new \<and>
     (distinct (meshEndpoints s) \<longrightarrow> distinct (meshEndpoints t)) \<and> (\<forall>e \<in> set new. is_endpoint parser e))"

lemma endpoints_grow_mesh: "endpoints_grow parser = mesh.grows parser"
  by (simp add: fun_eq_iff endpoints_grow_def mesh.grows_def)

lemma endpoints_grow_fleet: "endpoints_grow parser = fleet.grows parser"
  by (simp add: fun_eq_iff endpoints_grow_def fleet.grows_def)

lemma grow_eq: "meshEndpoints t = meshEndpoints s \<Longrightarrow> endpoints_grow parser s t"
  by (auto simp: endpoints_grow_def)

lemma grow_trans: "endpoints_grow parser s t \<Longrightarrow> endpoints_grow parser t u \<Longrightarrow> endpoints_grow parser s u"
  unfolding endpoints_grow_mesh by (rule mesh.grows_trans)

lemma grow_same: "endpoints_grow parser s t \<Longrightarrow> meshEndpoints t' = meshEndpoints t \<Longrightarrow> meshEndpoints s' = meshEndpoints s \<Longrightarrow> endpoints_grow parser s' t'"
  by (simp add: endpoints_grow_def)

lemma fetchDiscoveryJson_frame:
  "snd (fetchDiscoveryJson srv u cred s) = s\<lparr>sent := sent s @ [discovery_request u cred]\<rparr>"
  by (simp add: fetchDiscoveryJson_def do_fetch_def split: fetched.split)

lemma discover_path_grow: "endpoints_grow parser s (discover_path srv parser loc p s)"
proof (cases "fetchDiscoveryJson srv p ''include'' s")
  case (Pair r s')
  have s': "meshEndpoints s' = meshEndpoints s" using fetchDiscoveryJson_frame [of srv p "''include''" s] Pair by simp
  show ?thesis
  proof (cases r)
    case None
    then show ?thesis using Pair s' by (simp add: discover_path_def grow_eq)
  next
    case (Some payload)
    have "endpoints_grow parser s' (fold (add_node parser loc) (arr_or_empty (and_prop payload ''nodes'')) s')"
      unfolding endpoints_grow_fleet by (rule fleet.grows_fold)
    then show ?thesis using Pair Some s' by (auto simp: discover_path_def intro: grow_same)
  qed
qed

lemma discoverFleetEndpoints_grow: "endpoints_grow parser s (discoverFleetEndpoints srv parser loc s)"
  by (simp add: discoverFleetEndpoints_def fleet_paths_def) (blast intro: grow_trans discover_path_grow)

lemma addMeshEndpoint_grow: "endpoints_grow parser s (addMeshEndpoint parser loc v s)"
  unfolding endpoints_grow_mesh by (rule mesh.grows_add)

lemma probe_candidates_grow: "endpoints_grow parser s (probe_candidates srv parser loc cs s)"
proof (induction cs arbitrary: s)
  case Nil
  show ?case by (simp add: grow_eq)
next
  case (Cons c cs)
  have "endpoints_grow parser s (addMeshEndpoint parser loc v (s\<lparr>sent := rs, localNodeEndpoint := e\<rparr>))" for v rs e
    by (rule grow_same [OF addMeshEndpoint_grow refl]) simp
  moreover have "endpoints_grow parser s (probe_candidates srv parser loc cs (s\<lparr>sent := rs\<rparr>))" for rs
    by (rule grow_same [OF Cons.IH refl]) simp
  ultimately show ?case by (simp add: do_fetch_def split: fetched.split)
qed

section \<open>What a probe sends\<close>

lemma addMeshEndpoint_frame [simp]:
  "sent (addMeshEndpoint parser loc v s) = sent s" "localNodeEndpoint (addMeshEndpoint parser loc v s) = localNodeEndpoint s"
  "localNodeChecked (addMeshEndpoint parser loc v s) = localNodeChecked s"
  by (simp_all add: addMeshEndpoint_def split: option.split)

lemma add_nodes_frame [simp]:
  "sent (fold (add_node parser loc) ns s) = sent s"
  "localNodeEndpoint (fold (add_node parser loc) ns s) = localNodeEndpoint s"
  by (induction ns arbitrary: s) (simp_all add: add_node_def)

lemma discover_path_frame [simp]:
  "sent (discover_path srv parser loc p s) = sent s @ [discovery_request p ''include'']"
  "localNodeEndpoint (discover_path srv parser loc p s) = localNodeEndpoint s"
  using fetchDiscoveryJson_frame [of srv p "''include''" s]
  by (auto simp: discover_path_def split: prod.split option.split)

text \<open>The first candidate that answers with success, when the candidates are asked one after the other.\<close>

definition answers :: "server \<Rightarrow> request list \<Rightarrow> string \<Rightarrow> bool" where
  "answers srv sent_before c = (case srv sent_before (probe_request c) of Resp r \<Rightarrow> ok r | Rejected _ \<Rightarrow> False)"

fun first_answer :: "server \<Rightarrow> request list \<Rightarrow> string list \<Rightarrow> string option" where
  "first_answer srv rs [] = None"
| "first_answer srv rs (c # cs) = (if answers srv rs c then Some c else first_answer srv (rs @ [probe_request c]) cs)"

lemma probe_candidates_result:
  "localNodeEndpoint (probe_candidates srv parser loc cs s) =
     (case first_answer srv (sent s) cs of Some c \<Rightarrow> c | None \<Rightarrow> localNodeEndpoint s) \<and>
   (\<exists>k \<le> length cs. sent (probe_candidates srv parser loc cs s) = sent s @ map probe_request (take k cs) \<and>
      (first_answer srv (sent s) cs = None \<longrightarrow> k = length cs))"
proof (induction cs arbitrary: s)
  case Nil
  show ?case by simp
next
  case (Cons c cs)
  let ?s = "s\<lparr>sent := sent s @ [probe_request c]\<rparr>"
  have f: "do_fetch srv (probe_request c) s = (srv (sent s) (probe_request c), ?s)" by (simp add: do_fetch_def)
  show ?case
  proof (cases "answers srv (sent s) c")
    case True
    then obtain r where "srv (sent s) (probe_request c) = Resp r" "ok r" by (auto simp: answers_def split: fetched.splits)
    then have "probe_candidates srv parser loc (c # cs) s = addMeshEndpoint parser loc (Str c) (?s\<lparr>localNodeEndpoint := c\<rparr>)"
      using f by simp
    then show ?thesis using True by (intro conjI exI [of _ "1 :: nat"]) simp_all
  next
    case False
    then have "probe_candidates srv parser loc (c # cs) s = probe_candidates srv parser loc cs ?s"
      using f by (simp add: answers_def split: fetched.splits)
    moreover obtain k where "k \<le> length cs" "sent (probe_candidates srv parser loc cs ?s) = sent ?s @ map probe_request (take k cs)"
      "first_answer srv (sent ?s) cs = None \<longrightarrow> k = length cs" using conjunct2 [OF Cons.IH [of ?s]] by (elim exE conjE)
    moreover have "localNodeEndpoint (probe_candidates srv parser loc cs ?s) =
        (case first_answer srv (sent ?s) cs of Some c \<Rightarrow> c | None \<Rightarrow> localNodeEndpoint ?s)"
      by (rule conjunct1 [OF Cons.IH [of ?s]])
    ultimately show ?thesis using False by (intro conjI exI [of _ "Suc k"]) (simp_all cong: option.case_cong)
  qed
qed

section \<open>Properties\<close>

text \<open>C31. Discovery keeps the endpoint list sound for every gateway and every parser: endpoints known before stay in place, no
  endpoint is listed twice, and every new one is an address that parses with the protocol http or https.\<close>

theorem discovery_keeps_endpoints:
  "endpoints_grow parser s (probeLocalNode srv parser loc s) \<and>
   (meshEndpoints s = [] \<longrightarrow> distinct (meshEndpoints (probeLocalNode srv parser loc s)) \<and>
      (\<forall>e \<in> set (meshEndpoints (probeLocalNode srv parser loc s)). is_endpoint parser e))"
proof -
  let ?s0 = "s\<lparr>localNodeCheckingPromise := True\<rparr>" and ?o = "Str (origin loc)"
  let ?p = "probe_candidates srv parser loc loopback_candidates ?s0"
  have "endpoints_grow parser s (addMeshEndpoint parser loc ?o (s\<lparr>localNodeCheckingPromise := True, localNodeEndpoint := origin loc\<rparr>))"
    by (rule grow_same [OF addMeshEndpoint_grow refl]) simp
  moreover have "endpoints_grow parser s (discoverFleetEndpoints srv parser loc ?p)"
    by (rule grow_same [OF grow_trans [OF probe_candidates_grow discoverFleetEndpoints_grow] refl]) simp
  ultimately have g: "endpoints_grow parser s (probeLocalNode srv parser loc s)"
    unfolding probeLocalNode_def Let_def by (auto intro: grow_eq grow_same)
  then show ?thesis by (auto simp: endpoints_grow_def)
qed

definition plain_parser :: url_parser where
  "plain_parser t base = (if starts_with t ''http://'' then Some \<lparr>href = t, url_protocol = ''http:'', url_origin = t, url_pathname = ''/''\<rparr> else None)"

definition fleet_server :: server where
  "fleet_server rs rq = (if ends_with (url rq) ''/fleet''
     then Resp \<lparr>status = 200, ctype = ''application/json'', rheaders = Map.empty,
        rtext = html ''{^nodes^:[{^endpoint^:^http://n1/^},{^endpoint^:^ftp://n2^},{^endpoint^:^http://n1^,^is_online^:true}]}''\<rparr>
     else Rejected ''refused'')"

definition portal_location :: location where
  "portal_location = \<lparr>hostname = ''portal.example'', origin = ''https://portal.example'', pathname = ''/'', protocol = ''https:'', query = Map.empty\<rparr>"

theorem discovery_keeps_endpoints_witness:
  "distinct (meshEndpoints (probeLocalNode fleet_server plain_parser portal_location selector0))"
  using discovery_keeps_endpoints [of plain_parser selector0 fleet_server portal_location]
  by (simp add: selector0_def browser.defs)

text \<open>A probe on a remote page asks the loopback candidates in order up to the first that answers, then both fleet
  lists, and takes the answering candidate as local node; a probe on a local page sends nothing and takes the page's own
  origin. Once a probe has run, further probes neither send anything nor change the state.\<close>

theorem probe_runs_once:
  assumes "\<not> localNodeChecked s" and "\<not> localNodeCheckingPromise s" and "t = probeLocalNode srv parser loc s"
  shows "(is_local_host loc \<longrightarrow> sent t = sent s \<and> localNodeEndpoint t = origin loc) \<and>
    (\<not> is_local_host loc \<longrightarrow>
       (\<exists>k \<le> 2. sent t = sent s @ map probe_request (take k loopback_candidates) @ map (\<lambda>p. discovery_request p ''include'') fleet_paths) \<and>
       localNodeEndpoint t = (case first_answer srv (sent s) loopback_candidates of Some c \<Rightarrow> c | None \<Rightarrow> localNodeEndpoint s)) \<and>
    probeLocalNode srv' parser' loc' t = t"
proof -
  let ?s0 = "s\<lparr>localNodeCheckingPromise := True\<rparr>"
  let ?p = "probe_candidates srv parser loc loopback_candidates ?s0"
  have c: "localNodeChecked t" using assms by (simp add: probeLocalNode_def Let_def)
  have l: "is_local_host loc \<Longrightarrow> sent t = sent s \<and> localNodeEndpoint t = origin loc"
    using assms by (simp add: probeLocalNode_def Let_def)
  have r: "\<not> is_local_host loc \<Longrightarrow> sent t = sent ?p @ map (\<lambda>p. discovery_request p ''include'') fleet_paths \<and>
      localNodeEndpoint t = localNodeEndpoint ?p"
    using assms by (simp add: probeLocalNode_def Let_def discoverFleetEndpoints_def fleet_paths_def)
  have n: "length loopback_candidates = 2" by (simp add: loopback_candidates_def)
  obtain k where "k \<le> 2" "sent ?p = sent s @ map probe_request (take k loopback_candidates)"
    using probe_candidates_result [of srv parser loc loopback_candidates ?s0] n by auto
  moreover have "localNodeEndpoint ?p = (case first_answer srv (sent s) loopback_candidates of Some c \<Rightarrow> c | None \<Rightarrow> localNodeEndpoint s)"
    using probe_candidates_result [of srv parser loc loopback_candidates ?s0] by (simp cong: option.case_cong)
  moreover have "probeLocalNode srv' parser' loc' t = t" using c by (simp add: probeLocalNode_def)
  ultimately show ?thesis using l r by auto
qed

theorem probe_runs_once_witness:
  "localNodeEndpoint (probeLocalNode fleet_server plain_parser portal_location selector0) = []"
proof -
  have "\<not> localNodeChecked selector0" "\<not> localNodeCheckingPromise selector0" by (simp_all add: selector0_def browser.defs)
  moreover have "\<not> is_local_host portal_location" by code_simp
  moreover have "first_answer fleet_server (sent selector0) loopback_candidates = None" by code_simp
  moreover have "localNodeEndpoint selector0 = []" by (simp add: selector0_def browser.defs)
  ultimately show ?thesis using probe_runs_once [OF _ _ refl, where s = selector0 and srv = fleet_server and parser = plain_parser and loc = portal_location]
    by auto
qed

end
