(* ===== verification/SelectorModels.thy ===== *)
theory SelectorModels
  imports SelectorDiscovery "HOL-Library.Multiset"
begin

text \<open>
  The model catalogue of \<^verbatim>\<open>src/portal/webui/model-selector.js\<close>: modalities and parameter counts read off a model entry, the ranking
  \<^verbatim>\<open>compareModels\<close>, the merging of the catalogues of all endpoints and the choice of the model (lines 441 to 484 and
  1616 to 1668). \<^verbatim>\<open>String.prototype.localeCompare\<close> is a parameter with the contract \<open>collation\<close>: a consistent comparison,
  as the language standard requires. Regular expressions are written out as the matches they describe.
\<close>

section \<open>Modalities\<close>

text \<open>\<^verbatim>\<open>/(^|[-_./])(vl|vision)([-_./]|$)/\<close> asks whether one of the words between separators is \<^verbatim>\<open>vl\<close> or \<^verbatim>\<open>vision\<close>.\<close>

definition name_words :: "string \<Rightarrow> string list" where
  "name_words s = split_on (CHR ''-'') (map (\<lambda>c. if c \<in> set ''_./'' then CHR ''-'' else c) s)"

definition names_vision :: "string \<Rightarrow> bool" where
  "names_vision i = (''vl'' \<in> set (name_words i) \<or> ''vision'' \<in> set (name_words i) \<or> includes_str i ''llava'' \<or> includes_str i ''moondream'')"

definition names_audio :: "string \<Rightarrow> bool" where
  "names_audio i = (includes_str i ''audio'' \<or> includes_str i ''omni'' \<or> includes_str i ''whisper'')"

definition modalitiesFor :: "jsv \<Rightarrow> jsv list" where
  "modalitiesFor model = (case and_prop model ''modalities'' of Arr xs \<Rightarrow> xs
     | _ \<Rightarrow> let i = lower (str_of_or (and_prop model ''id'') []) in
         [Str ''text''] @ (if names_vision i then [Str ''vision''] else []) @ (if names_audio i then [Str ''audio''] else []) @
         (if includes_str i ''video'' then [Str ''video''] else []))"

definition applyCapabilities :: "jsv \<Rightarrow> 'a browser_scheme \<Rightarrow> jsv list \<times> 'a browser_scheme" where
  "applyCapabilities model b = (let ms = modalitiesFor model in
     (ms, on_elem ''documentElement'' (\<lambda>e. toggle_class ''cm-model-no-video'' (Str ''video'' \<notin> set ms)
        (toggle_class ''cm-model-no-audio'' (Str ''audio'' \<notin> set ms) (toggle_class ''cm-model-no-vision'' (Str ''vision'' \<notin> set ms) e))) b))"

section \<open>Parameter counts\<close>

text \<open>\<^verbatim>\<open>/(\d+(?:\.\d+)?)\s*b(?:illion)?\b/i\<close>. A shorter run of digits never helps, since the next character would be a digit.\<close>

definition word_char :: "char \<Rightarrow> bool" where
  "word_char c = (is_digit c \<or> is_upper c \<or> is_lower c \<or> c = CHR ''_'')"

definition word_ends :: "string \<Rightarrow> bool" where
  "word_ends r = (case r of [] \<Rightarrow> True | c # _ \<Rightarrow> \<not> word_char c)"

definition billion_unit :: "string \<Rightarrow> bool" where
  "billion_unit r = (case r of [] \<Rightarrow> False
     | c # t \<Rightarrow> lower_char c = CHR ''b'' \<and> (word_ends t \<or> starts_with (lower t) ''illion'' \<and> word_ends (drop 6 t)))"

definition number_prefix :: "string \<Rightarrow> string \<times> string" where
  "number_prefix s = (let ds = takeWhile is_digit s; r = dropWhile is_digit s in
     case r of [] \<Rightarrow> (ds, r)
     | c # t \<Rightarrow> if c = CHR ''.'' \<and> takeWhile is_digit t \<noteq> [] then (ds @ ''.'' @ takeWhile is_digit t, dropWhile is_digit t) else (ds, r))"

definition billions_at :: "string \<Rightarrow> string option" where
  "billions_at s = (case number_prefix s of (n, r) \<Rightarrow>
     if takeWhile is_digit s \<noteq> [] \<and> billion_unit (dropWhile is_ws r) then Some n else None)"

fun billions_match :: "string \<Rightarrow> string option" where
  "billions_match [] = None"
| "billions_match (c # s) = (case billions_at (c # s) of Some n \<Rightarrow> Some n | None \<Rightarrow> billions_match s)"

definition billions_of :: "jsv \<Rightarrow> rat" where
  "billions_of v = (case billions_match (str_of_or v []) of None \<Rightarrow> 0
     | Some n \<Rightarrow> (case str_num n of Fin q \<Rightarrow> q | _ \<Rightarrow> 0))"

definition modelParameterBillions :: "jsv \<Rightarrow> rat" where
  "modelParameterBillions model = fold (\<lambda>v best. max best (billions_of v))
     [and_prop model ''parameter_size'', and_prop (and_prop model ''details'') ''parameter_size'',
      and_prop (and_prop model ''meta'') ''parameter_size'', and_prop model ''id''] 0"

section \<open>Ranking\<close>

definition model_status :: "jsv \<Rightarrow> string" where
  "model_status model = (let st = and_prop model ''status'' in
     lower (str_of_or (js_or (js_and st (js_or (safe_prop st ''value'') st)) (and_prop model ''availability'')) []))"

definition model_score :: "jsv \<Rightarrow> rat" where
  "model_score model = modelParameterBillions model * 1000 +
     (if model_status model = ''loaded'' \<or> model_status model = ''available_warm'' then 100 else 0) +
     (let caps = arr_or_empty (and_prop model ''capabilities'') in
      if Str ''tools'' \<in> set caps \<or> Str ''tool_calling'' \<in> set caps then 10 else 0)"

type_synonym collator = "string \<Rightarrow> string \<Rightarrow> int"

definition model_id :: "jsv \<Rightarrow> jsv" where
  "model_id model = safe_prop model ''id''"

definition compareModels :: "collator \<Rightarrow> jsv \<Rightarrow> jsv \<Rightarrow> rat" where
  "compareModels coll l r = (let d = model_score r - model_score l in
     if d \<noteq> 0 then d else of_int (coll (to_str (model_id l)) (to_str (model_id r))))"

text \<open>\<^verbatim>\<open>xs.sort(cmp)\<close>: the stable sort; for a consistent comparator the language determines the result.\<close>

fun insert_by :: "('a \<Rightarrow> 'a \<Rightarrow> rat) \<Rightarrow> 'a \<Rightarrow> 'a list \<Rightarrow> 'a list" where
  "insert_by cmp x [] = [x]"
| "insert_by cmp x (y # ys) = (if cmp x y \<le> 0 then x # y # ys else y # insert_by cmp x ys)"

definition sort_by :: "('a \<Rightarrow> 'a \<Rightarrow> rat) \<Rightarrow> 'a list \<Rightarrow> 'a list" where
  "sort_by cmp xs = foldr (insert_by cmp) xs []"

section \<open>Catalogues\<close>

definition availabilities :: "jsv list" where
  "availabilities = map Str [''catalogued'', ''available'', ''available_cold'', ''available_warm'']"

definition selectable :: "jsv \<Rightarrow> bool" where
  "selectable model = (truthy model \<and> truthy (model_id model) \<and> safe_prop model ''available'' \<noteq> Bool False \<and>
     (\<not> truthy (safe_prop model ''availability'') \<or> safe_prop model ''availability'' \<in> set availabilities))"

text \<open>The mapper of the worker pool on one endpoint; it catches every rejection.\<close>

definition catalog_of :: "string \<Rightarrow> jsv option \<Rightarrow> jsv list" where
  "catalog_of endpoint reply = (case reply of None \<Rightarrow> []
     | Some result \<Rightarrow> map (with_field ''__sourceEndpoint'' (Str endpoint)) (filter selectable (arr_or_empty (and_prop result ''data''))))"

definition catalogEndpoints :: "location \<Rightarrow> 'a selector_scheme \<Rightarrow> string list" where
  "catalogEndpoints loc s = origin loc # filter (\<lambda>e. e \<noteq> origin loc) (meshEndpoints s)"

text \<open>The JavaScript \<^verbatim>\<open>Map\<close> keyed by model id: objects parsed from different replies are different keys.\<close>

fun map_get :: "jsv \<Rightarrow> (jsv \<times> jsv) list \<Rightarrow> jsv option" where
  "map_get k [] = None"
| "map_get k ((k', v) # m) = (if strict_eq k k' then Some v else map_get k m)"

fun map_put :: "jsv \<Rightarrow> jsv \<Rightarrow> (jsv \<times> jsv) list \<Rightarrow> (jsv \<times> jsv) list" where
  "map_put k v [] = [(k, v)]"
| "map_put k v ((k', v') # m) = (if strict_eq k k' then (k', v) # m else (k', v') # map_put k v m)"

definition merge_model :: "collator \<Rightarrow> jsv \<Rightarrow> (jsv \<times> jsv) list \<Rightarrow> (jsv \<times> jsv) list" where
  "merge_model coll model m = (case map_get (model_id model) m of None \<Rightarrow> map_put (model_id model) model m
     | Some existing \<Rightarrow> if compareModels coll model existing < 0 then map_put (model_id model) model m else m)"

definition merge_catalogs :: "collator \<Rightarrow> jsv list list \<Rightarrow> jsv list" where
  "merge_catalogs coll catalogs = sort_by (compareModels coll) (map snd (fold (merge_model coll) (concat catalogs) []))"

section \<open>Choosing a model\<close>

definition storage_key :: string where
  "storage_key = ''cm_selected_model_id''"

definition find_model :: "jsv \<Rightarrow> jsv list \<Rightarrow> jsv option" where
  "find_model i ms = find (\<lambda>m. strict_eq (model_id m) i) ms"

definition active_slot :: "jsv \<Rightarrow> jsv" where
  "active_slot slots = (case slots of Arr (x # _) \<Rightarrow> and_prop x ''model'' | Arr [] \<Rightarrow> Undef | _ \<Rightarrow> Bool False)"

definition choose_model :: "server \<Rightarrow> 'a selector_scheme \<Rightarrow> 'a selector_scheme" where
  "choose_model srv s = (let saved = item_text (case get_item storage_key (localStorage s) of Some r \<Rightarrow> r | None \<Rightarrow> None); ms = sel_models s in
     case find_model (Str saved) ms of Some m \<Rightarrow> s\<lparr>selectedModel := m\<rparr>
     | None \<Rightarrow> (case fetchDiscoveryJson srv ''/slots'' ''same-origin'' s of (reply, s1) \<Rightarrow>
         let m = (case reply of None \<Rightarrow> hd ms
             | Some slots \<Rightarrow> (case find_model (active_slot slots) ms of Some m \<Rightarrow> m | None \<Rightarrow> hd ms)) in
         s1\<lparr>selectedModel := m, localStorage := try_set_item storage_key (to_str (model_id m)) (localStorage s1)\<rparr>))"

definition source_endpoint :: "location \<Rightarrow> jsv \<Rightarrow> string" where
  "source_endpoint loc model = (let e = safe_prop model ''__sourceEndpoint'' in
     if truthy e \<and> e \<noteq> Str (origin loc) then to_str e else [])"

text \<open>\<^verbatim>\<open>initialize\<close> from the settled worker pool on: \<^const>\<open>False\<close> when there is no selectable model and the exception handler
  runs.\<close>

definition install_models :: "server \<Rightarrow> location \<Rightarrow> collator \<Rightarrow> jsv list list \<Rightarrow> 'a selector_scheme \<Rightarrow> bool \<times> 'a selector_scheme" where
  "install_models srv loc coll catalogs s = (let s1 = s\<lparr>sel_models := merge_catalogs coll catalogs\<rparr> in
     if sel_models s1 = [] then (False, snd (applyCapabilities Null s1))
     else let s2 = choose_model srv s1; s3 = s2\<lparr>localNodeEndpoint := source_endpoint loc (selectedModel s2)\<rparr> in
       (True, snd (applyCapabilities (selectedModel s3) s3)))"

text \<open>The change handler of the picker; \<^const>\<open>None\<close>: no such model, nothing but the selection changes.\<close>

definition pick_model :: "location \<Rightarrow> string \<Rightarrow> string \<Rightarrow> 'a selector_scheme \<Rightarrow> 'a selector_scheme" where
  "pick_model loc value draft s = (case find_model (Str value) (sel_models s) of None \<Rightarrow> s\<lparr>selectedModel := Null\<rparr>
     | Some m \<Rightarrow>
         let s1 = s\<lparr>selectedModel := m, localNodeEndpoint := source_endpoint loc m,
               localStorage := try_set_item storage_key (to_str (model_id m)) (localStorage s),
               sessionStorage := (if draft = [] then sessionStorage s else try_set_item ''cm_model_switch_draft'' draft (sessionStorage s))\<rparr> in
         navigate Reload (snd (applyCapabilities m s1)))"

lemmas model_defs [js_defs] = name_words_def names_vision_def names_audio_def modalitiesFor_def applyCapabilities_def
  word_char_def word_ends_def billion_unit_def number_prefix_def billions_at_def billions_of_def modelParameterBillions_def
  model_status_def model_score_def model_id_def compareModels_def sort_by_def availabilities_def selectable_def catalog_of_def
  catalogEndpoints_def merge_model_def merge_catalogs_def storage_key_def find_model_def active_slot_def choose_model_def
  source_endpoint_def install_models_def pick_model_def

section \<open>Consistent comparisons\<close>

text \<open>What \<^verbatim>\<open>sort\<close> needs of its comparator, and what the sorted list then satisfies.\<close>

locale comparator =
  fixes cmp :: "'a \<Rightarrow> 'a \<Rightarrow> rat"
  assumes swap: "cmp x y < 0 \<longleftrightarrow> 0 < cmp y x"
    and trans: "cmp x y \<le> 0 \<Longrightarrow> cmp y z \<le> 0 \<Longrightarrow> cmp x z \<le> 0"
begin

lemma total: "\<not> cmp x y < 0 \<Longrightarrow> cmp y x \<le> 0"
  using swap [of x y] by auto

lemma self: "cmp x x \<le> 0"
  using swap [of x x] by auto

lemma set_insert_by: "set (insert_by cmp x ys) = insert x (set ys)"
  by (induction ys) auto

lemma set_sort_by [simp]: "set (sort_by cmp xs) = set xs"
  unfolding sort_by_def by (induction xs) (simp_all add: set_insert_by)

lemma mset_insert_by: "mset (insert_by cmp x ys) = add_mset x (mset ys)"
  by (induction ys) auto

lemma mset_sort_by [simp]: "mset (sort_by cmp xs) = mset xs"
  unfolding sort_by_def by (induction xs) (simp_all add: mset_insert_by)

lemma sorted_insert_by: "sorted_wrt (\<lambda>a b. cmp a b \<le> 0) ys \<Longrightarrow> sorted_wrt (\<lambda>a b. cmp a b \<le> 0) (insert_by cmp x ys)"
proof (induction ys)
  case Nil
  show ?case by simp
next
  case (Cons y ys)
  have "cmp y x \<le> 0" if "\<not> cmp x y \<le> 0" using that swap [of y x] by simp
  then show ?case using Cons by (auto simp: set_insert_by intro: trans)
qed

lemma sorted_sort_by: "sorted_wrt (\<lambda>a b. cmp a b \<le> 0) (sort_by cmp xs)"
  unfolding sort_by_def by (induction xs) (simp_all add: sorted_insert_by)

lemma filter_insert_by: "filter P (insert_by cmp x ys) = (if P x then insert_by cmp x (filter P ys) else filter P ys)"
  if "sorted_wrt (\<lambda>a b. cmp a b \<le> 0) ys"
  using that
proof (induction ys)
  case Nil
  show ?case by simp
next
  case (Cons y ys)
  have "insert_by cmp x (filter P ys) = x # filter P ys" if "cmp x y \<le> 0"
    using that Cons.prems by (cases "filter P ys") (auto intro: trans dest!: filter_eq_ConsD)
  then show ?case using Cons by auto
qed

text \<open>Stability: elements that compare equal to a given one keep their order.\<close>

lemma stable_sort_by: "filter (\<lambda>a. cmp a z = 0 \<and> cmp z a = 0) (sort_by cmp xs) = filter (\<lambda>a. cmp a z = 0 \<and> cmp z a = 0) xs"
proof (induction xs)
  case Nil
  show ?case by (simp add: sort_by_def)
next
  case (Cons x xs)
  let ?P = "\<lambda>a. cmp a z = 0 \<and> cmp z a = 0"
  have "filter ?P (sort_by cmp (x # xs)) = (if ?P x then insert_by cmp x (filter ?P (sort_by cmp xs)) else filter ?P (sort_by cmp xs))"
    using filter_insert_by [OF sorted_sort_by, of ?P x xs] by (simp add: sort_by_def)
  moreover have "insert_by cmp x (filter ?P xs) = x # filter ?P xs" if "?P x"
  proof (cases "filter ?P xs")
    case Nil
    then show ?thesis by simp
  next
    case (Cons a as)
    then have "?P a" using filter_eq_ConsD [OF Cons] by blast
    then show ?thesis using that Cons trans [of x z a] by simp
  qed
  ultimately show ?case using Cons.IH by simp
qed

end

text \<open>The contract of \<^verbatim>\<open>localeCompare\<close>.\<close>

locale collation =
  fixes coll :: collator
  assumes coll_swap: "coll a b < 0 \<longleftrightarrow> 0 < coll b a"
    and coll_trans: "coll a b \<le> 0 \<Longrightarrow> coll b c \<le> 0 \<Longrightarrow> coll a c \<le> 0"

sublocale collation \<subseteq> ranking: comparator "compareModels coll"
proof unfold_locales
  fix x y z :: jsv
  show "compareModels coll x y < 0 \<longleftrightarrow> 0 < compareModels coll y x"
    using coll_swap [of "to_str (model_id x)" "to_str (model_id y)"] by (auto simp: compareModels_def Let_def)
  show "compareModels coll x y \<le> 0 \<Longrightarrow> compareModels coll y z \<le> 0 \<Longrightarrow> compareModels coll x z \<le> 0"
    using coll_trans [of "to_str (model_id x)" "to_str (model_id y)" "to_str (model_id z)"]
    by (auto simp: compareModels_def Let_def split: if_splits)
qed

text \<open>The order of the encoded bytes is a collation.\<close>

fun byte_compare :: collator where
  "byte_compare [] [] = 0"
| "byte_compare [] (b # bs) = - 1"
| "byte_compare (a # as) [] = 1"
| "byte_compare (a # as) (b # bs) =
     (if (of_char a :: nat) < of_char b then - 1 else if (of_char b :: nat) < of_char a then 1 else byte_compare as bs)"

lemma byte_compare_swap: "byte_compare a b < 0 \<longleftrightarrow> 0 < byte_compare b a"
  by (induction a b rule: byte_compare.induct) auto

lemma byte_compare_trans: "byte_compare a b \<le> 0 \<Longrightarrow> byte_compare b c \<le> 0 \<Longrightarrow> byte_compare a c \<le> 0"
proof (induction a b arbitrary: c rule: byte_compare.induct)
  case 1
  then show ?case by simp
next
  case (2 b bs)
  then show ?case by (cases c) auto
next
  case (3 a as)
  then show ?case by simp
next
  case (4 a as b bs)
  show ?case
  proof (cases c)
    case Nil
    then show ?thesis using "4.prems" by simp
  next
    case (Cons d ds)
    then show ?thesis using "4.prems" "4.IH" [of ds] by (auto split: if_split_asm)
  qed
qed

interpretation bytes: collation byte_compare
  by unfold_locales (rule byte_compare_swap, erule (1) byte_compare_trans)

section \<open>Merging\<close>

lemma strict_eqD: "strict_eq a b \<Longrightarrow> a = b"
  by (cases a; cases b) auto

lemma map_put_new: "map_get k m = None \<Longrightarrow> map_put k v m = m @ [(k, v)]"
  by (induction m) (auto split: if_splits)

lemma map_get_None: "map_get k m = None \<Longrightarrow> strict_eq k k \<Longrightarrow> k \<notin> fst ` set m"
  by (induction m) (force split: if_splits)+

lemma map_put_old:
  "map_get k m = Some e \<Longrightarrow> \<exists>m1 m2. m = m1 @ (k, e) # m2 \<and> map_put k v m = m1 @ (k, v) # m2"
proof (induction m)
  case Nil
  then show ?case by simp
next
  case (Cons p m)
  obtain k' v' where p: "p = (k', v')" by (cases p)
  show ?case
  proof (cases "strict_eq k k'")
    case True
    then have "k' = k" by (rule strict_eqD [symmetric])
    then show ?thesis using Cons.prems True p by (intro exI [of _ "[]"] exI [of _ m]) simp
  next
    case False
    then obtain m1 m2 where m: "m = m1 @ (k, e) # m2" and put: "map_put k v m = m1 @ (k, v) # m2" using Cons p by auto
    have "map_put k v (p # m) = (p # m1) @ (k, v) # m2" using False p put by simp
    moreover have "p # m = (p # m1) @ (k, e) # m2" using m by simp
    ultimately show ?thesis by blast
  qed
qed

definition merged :: "collator \<Rightarrow> jsv list \<Rightarrow> (jsv \<times> jsv) list \<Rightarrow> bool" where
  "merged coll xs m \<longleftrightarrow> (\<forall>k v. (k, v) \<in> set m \<longrightarrow> k = model_id v \<and> v \<in> set xs) \<and>
     distinct (filter (\<lambda>k. strict_eq k k) (map fst m)) \<and>
     (\<forall>x \<in> set xs. \<exists>v. (model_id x, v) \<in> set m \<and> compareModels coll v x \<le> 0)"

context collation
begin

lemma merged_step:
  assumes "merged coll xs m"
  shows "merged coll (xs @ [x]) (merge_model coll x m)"
proof (cases "map_get (model_id x) m")
  case None
  then have "strict_eq (model_id x) (model_id x) \<Longrightarrow> model_id x \<notin> fst ` set m" by (rule map_get_None)
  then show ?thesis
    using assms None ranking.self [of x] by (auto simp: merged_def merge_model_def map_put_new)
next
  case (Some e)
  obtain m1 m2 where m: "m = m1 @ (model_id x, e) # m2" "map_put (model_id x) x m = m1 @ (model_id x, x) # m2"
    using map_put_old [OF Some] by blast
  show ?thesis
  proof (cases "compareModels coll x e < 0")
    case True
    then have le: "compareModels coll e y \<le> 0 \<Longrightarrow> compareModels coll x y \<le> 0" for y
      using ranking.trans [of x e y] by simp
    have new: "merge_model coll x m = m1 @ (model_id x, x) # m2" using Some True m by (simp add: merge_model_def)
    have "\<exists>v. (model_id y, v) \<in> set (m1 @ (model_id x, x) # m2) \<and> compareModels coll v y \<le> 0" if "y \<in> set (xs @ [x])" for y
    proof (cases "y = x")
      case True
      then show ?thesis using ranking.self [of x] by auto
    next
      case False
      then have "y \<in> set xs" using that by simp
      then obtain v where "(model_id y, v) \<in> set m" "compareModels coll v y \<le> 0"
        using assms unfolding merged_def by blast
      then show ?thesis using m(1) le [of y] by auto
    qed
    moreover have "k = model_id v \<and> v \<in> set (xs @ [x])" if "(k, v) \<in> set (m1 @ (model_id x, x) # m2)" for k v
    proof (cases "(k, v) \<in> set m")
      case True
      then show ?thesis using assms unfolding merged_def by auto
    next
      case False
      then show ?thesis using that m(1) by auto
    qed
    moreover have "distinct (filter (\<lambda>k. strict_eq k k) (map fst (m1 @ (model_id x, x) # m2)))"
      using assms [unfolded merged_def] m(1) by simp
    ultimately show ?thesis unfolding new merged_def by blast
  next
    case False
    then have "compareModels coll e x \<le> 0" by (rule ranking.total)
    moreover have "merge_model coll x m = m" using Some False by (simp add: merge_model_def)
    ultimately show ?thesis using assms m(1) by (auto simp: merged_def)
  qed
qed

lemma merged_fold: "merged coll ys m \<Longrightarrow> merged coll (ys @ xs) (fold (merge_model coll) xs m)"
proof (induction xs arbitrary: ys m)
  case Nil
  then show ?case by simp
next
  case (Cons x xs)
  show ?case using Cons.IH [OF merged_step [OF Cons.prems, of x]] by simp
qed

lemma mset_merge_catalogs: "mset (merge_catalogs coll catalogs) = mset (map snd (fold (merge_model coll) (concat catalogs) []))"
  by (simp add: merge_catalogs_def)

lemma sorted_ranking: "sorted_wrt (\<lambda>a b. compareModels coll a b \<le> 0) (sort_by (compareModels coll) xs)"
  by (rule ranking.sorted_sort_by)

lemma merged_catalogs: "merged coll (concat catalogs) (fold (merge_model coll) (concat catalogs) [])"
  using merged_fold [of "[]" "[]" "concat catalogs"] by (simp add: merged_def)

end

section \<open>Properties\<close>

lemma merge_catalogs_set:
  assumes "collation coll"
  shows "set (merge_catalogs coll catalogs) \<subseteq> set (concat catalogs) \<and> (merge_catalogs coll catalogs = [] \<longleftrightarrow> concat catalogs = [])"
proof -
  define m where "m = fold (merge_model coll) (concat catalogs) []"
  have mg: "merged coll (concat catalogs) m" using collation.merged_catalogs [OF assms] by (simp add: m_def)
  have perm: "mset (merge_catalogs coll catalogs) = mset (map snd m)"
    using collation.mset_merge_catalogs [OF assms] by (simp add: m_def)
  then have "set (merge_catalogs coll catalogs) = snd ` set m" by (metis mset_eq_setD set_map)
  moreover have "merge_catalogs coll catalogs = [] \<longleftrightarrow> m = []" using arg_cong [OF perm, of size] by auto
  moreover have "m = [] \<Longrightarrow> concat catalogs = []" using mg unfolding merged_def by (cases "concat catalogs") auto
  moreover have "concat catalogs = [] \<Longrightarrow> m = []" unfolding m_def by (metis fold_simps(1))
  ultimately show ?thesis using mg unfolding merged_def by force
qed

text \<open>C12. The merged catalogue is the best of all catalogues: it is sorted by the ranking, holds only models that some
  endpoint offered, has one entry for every model id, and that entry ranks at least as high as every offer with the same id.\<close>

theorem catalog_merge_correct:
  assumes "collation coll"
  shows "sorted_wrt (\<lambda>a b. compareModels coll a b \<le> 0) (merge_catalogs coll catalogs) \<and>
    set (merge_catalogs coll catalogs) \<subseteq> set (concat catalogs) \<and>
    distinct (filter (\<lambda>k. strict_eq k k) (map model_id (merge_catalogs coll catalogs))) \<and>
    (\<forall>m \<in> set (concat catalogs). \<exists>b \<in> set (merge_catalogs coll catalogs). model_id b = model_id m \<and> compareModels coll b m \<le> 0)"
proof -
  define m where "m = fold (merge_model coll) (concat catalogs) []"
  have mg: "merged coll (concat catalogs) m" using collation.merged_catalogs [OF assms] by (simp add: m_def)
  have keys: "map model_id (map snd m) = map fst m" using mg by (auto simp: merged_def)
  have perm: "mset (merge_catalogs coll catalogs) = mset (map snd m)"
    using collation.mset_merge_catalogs [OF assms] by (simp add: m_def)
  have "mset (filter (\<lambda>k. strict_eq k k) (map model_id (merge_catalogs coll catalogs))) = mset (filter (\<lambda>k. strict_eq k k) (map fst m))"
    using perm keys by (metis mset_filter mset_map)
  then have "distinct (filter (\<lambda>k. strict_eq k k) (map model_id (merge_catalogs coll catalogs)))"
    using mg unfolding merged_def by (metis mset_eq_imp_distinct_iff)
  moreover have "set (merge_catalogs coll catalogs) \<subseteq> set (concat catalogs)"
    using merge_catalogs_set [OF assms] by (rule conjunct1)
  moreover have "sorted_wrt (\<lambda>a b. compareModels coll a b \<le> 0) (merge_catalogs coll catalogs)"
    unfolding merge_catalogs_def by (rule collation.sorted_ranking [OF assms])
  moreover have "\<exists>b \<in> set (merge_catalogs coll catalogs). model_id b = model_id x \<and> compareModels coll b x \<le> 0"
    if x: "x \<in> set (concat catalogs)" for x
  proof -
    obtain v where v: "(model_id x, v) \<in> set m" "compareModels coll v x \<le> 0" using mg x unfolding merged_def by blast
    have "v \<in> set (merge_catalogs coll catalogs)" using v(1) perm by (metis image_eqI mset_eq_setD set_map snd_conv)
    moreover have "model_id v = model_id x" using v(1) mg unfolding merged_def by metis
    ultimately show ?thesis using v(2) by blast
  qed
  ultimately show ?thesis by blast
qed

definition offer :: "string \<Rightarrow> string \<Rightarrow> jsv" where
  "offer i e = Obj [(''id'', Str i), (''__sourceEndpoint'', Str e)]"

theorem catalog_merge_correct_witness:
  "sorted_wrt (\<lambda>a b. compareModels byte_compare a b \<le> 0)
     (merge_catalogs byte_compare [[offer ''a-3b'' ''u''], [offer ''b-7b'' ''v'', offer ''a-3b'' ''v'']])"
  using catalog_merge_correct [OF bytes.collation_axioms] by blast

lemma find_model_in: "find_model i ms = Some m \<Longrightarrow> m \<in> set ms"
  by (auto simp: find_model_def find_Some_iff)

lemma choose_model_offered: "sel_models s \<noteq> [] \<Longrightarrow> selectedModel (choose_model srv s) \<in> set (sel_models s)"
  by (auto simp: choose_model_def Let_def dest: find_model_in split: option.split prod.split)

text \<open>Which model is used: a stored choice that is still offered is kept without asking anyone; otherwise the model of the
  first slot is taken if it is offered, else the best ranked one, after exactly one request, and the choice is stored. The
  selected model is always one of the list.\<close>

theorem model_choice:
  assumes "sel_models s \<noteq> []" and "can_read (localStorage s)" and "t = choose_model srv s"
  shows "selectedModel t \<in> set (sel_models s) \<and>
    (\<forall>m. find_model (Str (stored (localStorage s) storage_key)) (sel_models s) = Some m \<longrightarrow> selectedModel t = m \<and> sent t = sent s) \<and>
    (find_model (Str (stored (localStorage s) storage_key)) (sel_models s) = None \<longrightarrow>
       sent t = sent s @ [discovery_request ''/slots'' ''same-origin''] \<and>
       (can_write (localStorage s) \<longrightarrow> items (localStorage t) storage_key = Some (to_str (model_id (selectedModel t)))) \<and>
       ((\<forall>m. srv (sent s) (discovery_request ''/slots'' ''same-origin'') = Rejected m \<longrightarrow> selectedModel t = hd (sel_models s))))"
proof -
  obtain reply s1 where r: "fetchDiscoveryJson srv ''/slots'' ''same-origin'' s = (reply, s1)" by fastforce
  have s1: "s1 = s\<lparr>sent := sent s @ [discovery_request ''/slots'' ''same-origin'']\<rparr>"
    using fetchDiscoveryJson_frame [of srv "''/slots''" "''same-origin''" s] r by simp
  have rej: "srv (sent s) (discovery_request ''/slots'' ''same-origin'') = Rejected m \<Longrightarrow> reply = None" for m
    using r by (simp add: fetchDiscoveryJson_def do_fetch_def)
  have g: "(case get_item storage_key (localStorage s) of Some r \<Rightarrow> r | None \<Rightarrow> None) = items (localStorage s) storage_key"
    using assms(2) by (simp add: get_item_def)
  show ?thesis
  proof (cases "find_model (Str (stored (localStorage s) storage_key)) (sel_models s)")
    case (Some m)
    then show ?thesis using find_model_in [OF Some] assms(3) g by (simp add: choose_model_def stored_def)
  next
    case None
    define m where "m = (case reply of None \<Rightarrow> hd (sel_models s)
      | Some slots \<Rightarrow> (case find_model (active_slot slots) (sel_models s) of Some m \<Rightarrow> m | None \<Rightarrow> hd (sel_models s)))"
    have t: "t = s1\<lparr>selectedModel := m, localStorage := try_set_item storage_key (to_str (model_id m)) (localStorage s1)\<rparr>"
      using None assms(3) g r by (simp add: choose_model_def stored_def m_def Let_def)
    have "m \<in> set (sel_models s)" using choose_model_offered [OF assms(1), of srv] unfolding assms(3) [symmetric] t by simp
    then show ?thesis using None t s1 rej by (auto simp: items_try_set_item m_def)
  qed
qed

theorem model_choice_witness:
  "selectedModel (choose_model (\<lambda>rs rq. Rejected ''offline'') (selector0\<lparr>sel_models := [offer ''a-3b'' ''u'']\<rparr>)) = offer ''a-3b'' ''u''"
proof -
  have "sel_models (selector0\<lparr>sel_models := [offer ''a-3b'' ''u'']\<rparr>) \<noteq> []"
    "can_read (localStorage (selector0\<lparr>sel_models := [offer ''a-3b'' ''u'']\<rparr>))"
    by (simp_all add: selector0_def browser.defs)
  from model_choice [OF this refl, of "\<lambda>rs rq. Rejected ''offline''"] show ?thesis by simp
qed

lemma catalog_of_source: "m \<in> set (catalog_of e r) \<Longrightarrow> safe_prop m ''__sourceEndpoint'' = Str e"
  by (auto simp: catalog_of_def with_field_def field_set split: option.splits)

text \<open>C30. The model used and the node asked agree: with at least one offered model the page selects one of the offers and routes
  to the endpoint the offer came from, unless that is the page's own gateway; without any offer it reports no model and
  hides the image input.\<close>

theorem install_routes_to_source:
  assumes "collation coll" and "install_models srv loc coll (map (\<lambda>(e, r). catalog_of e r) replies) s = (found, t)"
  shows "(found \<longleftrightarrow> (\<exists>(e, r) \<in> set replies. catalog_of e r \<noteq> [])) \<and>
    (found \<longrightarrow> (\<exists>(e, r) \<in> set replies. selectedModel t \<in> set (catalog_of e r) \<and>
       localNodeEndpoint t = (if e = origin loc then [] else e))) \<and>
    (\<not> found \<longrightarrow> selectedModel t = selectedModel s \<and> (\<forall>e. page s ''documentElement'' = Some e \<longrightarrow>
       (\<exists>e'. page t ''documentElement'' = Some e' \<and> ''cm-model-no-vision'' \<in> set (classes e'))))"
proof -
  let ?cs = "map (\<lambda>(e, r). catalog_of e r) replies"
  let ?ms = "merge_catalogs coll ?cs"
  note c = merge_catalogs_set [OF assms(1), of ?cs]
  show ?thesis
  proof (cases "?ms = []")
    case True
    then have t: "found = False" "t = snd (applyCapabilities Null (s\<lparr>sel_models := ?ms\<rparr>))"
      using assms(2) by (simp_all add: install_models_def)
    have "Str ''vision'' \<notin> set (modalitiesFor Null)" by code_simp
    then have "selectedModel t = selectedModel s \<and> (\<forall>e. page s ''documentElement'' = Some e \<longrightarrow>
       (\<exists>e'. page t ''documentElement'' = Some e' \<and> ''cm-model-no-vision'' \<in> set (classes e')))"
      using t(2) by (auto simp: applyCapabilities_def Let_def toggle_class_def add_class_def remove_class_def)
    then show ?thesis using True c t(1) by auto
  next
    case False
    define u where "u = choose_model srv (s\<lparr>sel_models := ?ms\<rparr>)"
    have "selectedModel u \<in> set ?ms"
      using choose_model_offered [of "s\<lparr>sel_models := ?ms\<rparr>" srv] False by (simp add: u_def)
    then have "selectedModel u \<in> set (concat ?cs)" using c by blast
    then obtain e r where o: "(e, r) \<in> set replies" "selectedModel u \<in> set (catalog_of e r)" by auto
    have "found" "selectedModel t = selectedModel u" "localNodeEndpoint t = source_endpoint loc (selectedModel u)"
      using assms(2) False by (auto simp: install_models_def u_def Let_def applyCapabilities_def)
    moreover have "source_endpoint loc (selectedModel u) = (if e = origin loc then [] else e)"
      using catalog_of_source [OF o(2)] by (simp add: source_endpoint_def)
    ultimately show ?thesis using o by force
  qed
qed

theorem install_routes_to_source_witness:
  "let reply = Some (Obj [(''data'', Arr [Obj [(''id'', Str ''m-7b'')]])]) in
   localNodeEndpoint (snd (install_models (\<lambda>rs rq. Rejected ''offline'') portal_location byte_compare
     (map (\<lambda>(e, r). catalog_of e r) [(''http://n1'', reply)]) selector0)) = ''http://n1''"
proof -
  let ?o = "[(''http://n1'', Some (Obj [(''data'', Arr [Obj [(''id'', Str ''m-7b'')]])]))]"
  obtain found t where i: "install_models (\<lambda>rs rq. Rejected ''offline'') portal_location byte_compare (map (\<lambda>(e, r). catalog_of e r) ?o) selector0 = (found, t)"
    by fastforce
  moreover have "catalog_of ''http://n1'' (Some (Obj [(''data'', Arr [Obj [(''id'', Str ''m-7b'')]])])) \<noteq> []" by code_simp
  moreover have "origin portal_location \<noteq> ''http://n1''" by (simp add: portal_location_def)
  ultimately show ?thesis using install_routes_to_source [OF bytes.collation_axioms i] by (simp add: Let_def)
qed

end
