(* ===== verification/SelectorImages.thy ===== *)
theory SelectorImages
  imports SelectorState
begin

text \<open>
  Image handling of \<^verbatim>\<open>src/portal/webui/model-selector.js\<close>: shrinking one picture (lines 1396 to 1442), the upload handler (1444 to
  1476) and fitting a chat request under the gateway's size limit (1198 to 1256). Decoding, encoding and data URLs belong
  to the browser: they are the parameter \<open>codec\<close>, whose functions are arbitrary. Sizes are bytes.
\<close>

section \<open>Files and codecs\<close>

record img_file =
  file_name :: string
  file_type :: string
  file_data :: string
  lastModified :: int

definition file_size :: "img_file \<Rightarrow> nat" where
  "file_size f = length (file_data f)"

text \<open>\<^verbatim>\<open>createImageBitmap\<close> and \<^verbatim>\<open>getContext\<close> may be missing or fail; \<^verbatim>\<open>toBlob\<close> may give \<^verbatim>\<open>null\<close>; fetching a data URL and reading
  a file may be rejected (\<^const>\<open>None\<close>).\<close>

record codec =
  has_bitmaps :: bool
  bitmap :: "img_file \<Rightarrow> (nat \<times> nat) option"
  has_context :: bool
  to_blob :: "img_file \<Rightarrow> string \<Rightarrow> nat \<Rightarrow> nat \<Rightarrow> rat option \<Rightarrow> string option"
  data_blob :: "string \<Rightarrow> (string \<times> string) option"
  data_url :: "img_file \<Rightarrow> string option"

definition uploadLimitBytes :: nat where
  "uploadLimitBytes = 5 * 1024 * 1024"

definition maxChatRequestBytes :: nat where
  "maxChatRequestBytes = 9 * 1024 * 1024"

definition gatewayRequestLimitBytes :: nat where
  "gatewayRequestLimitBytes = 10 * 1024 * 1024"

definition maxImageEdge :: nat where
  "maxImageEdge = 1600"

section \<open>Shrinking one picture\<close>

definition keeps_format :: "string \<Rightarrow> bool" where
  "keeps_format t = (includes_str (lower t) ''image/gif'' \<or> includes_str (lower t) ''image/svg+xml'')"

definition shrunk :: "nat \<Rightarrow> rat \<Rightarrow> nat" where
  "shrunk n f = nat (max 1 (math_round (of_nat n * f)))"

text \<open>The encoding loop: the settings tried (width, height, quality), and the last blob.\<close>

fun shrink_loop :: "nat \<Rightarrow> (nat \<Rightarrow> nat \<Rightarrow> rat \<Rightarrow> string option) \<Rightarrow> bool \<Rightarrow> nat \<Rightarrow> nat \<Rightarrow> nat \<Rightarrow> rat \<Rightarrow> string option \<Rightarrow>
    (nat \<times> nat \<times> rat) list \<times> string option" where
  "shrink_loop 0 enc jpeg limit w h q blob = ([], blob)"
| "shrink_loop (Suc n) enc jpeg limit w h q blob =
     (let out = enc w h q in
      case out of None \<Rightarrow> ([(w, h, q)], None)
      | Some d \<Rightarrow> if length d \<le> limit then ([(w, h, q)], out)
          else (case (if jpeg \<and> q > 56 / 100 then shrink_loop n enc jpeg limit w h (max (56 / 100) (q - 1 / 10)) out
                      else shrink_loop n enc jpeg limit (shrunk w (78 / 100)) (shrunk h (78 / 100)) (82 / 100) out) of
                (tried, r) \<Rightarrow> ((w, h, q) # tried, r)))"

definition fit_scale :: "nat \<Rightarrow> rat" where
  "fit_scale longest = (if longest = 0 then 1 else min 1 (of_nat maxImageEdge / of_nat longest))"

definition strip_extension :: "string \<Rightarrow> string" where
  "strip_extension s = (let r = rev s; ext = takeWhile (\<lambda>c. c \<noteq> CHR ''.'') r; rest = drop (length ext) r in
     if ext = [] \<or> rest = [] then s else rev (tl rest))"

definition is_jpeg_output :: "img_file \<Rightarrow> bool" where
  "is_jpeg_output f = (file_type f \<noteq> ''image/png'')"

definition encode_picture :: "codec \<Rightarrow> img_file \<Rightarrow> nat \<Rightarrow> nat \<Rightarrow> rat \<Rightarrow> string option" where
  "encode_picture c f w h q = (if is_jpeg_output f then to_blob c f ''image/jpeg'' w h (Some q) else to_blob c f ''image/png'' w h None)"

definition shrink_picture :: "codec \<Rightarrow> img_file \<Rightarrow> nat \<Rightarrow> nat \<Rightarrow> nat \<Rightarrow> (nat \<times> nat \<times> rat) list \<times> string option" where
  "shrink_picture c f limit bw bh = (let scale = fit_scale (max bw bh) in
     shrink_loop 12 (encode_picture c f) (is_jpeg_output f) limit (shrunk bw scale) (shrunk bh scale) (84 / 100) None)"

definition optimizeImageFile :: "codec \<Rightarrow> img_file \<Rightarrow> nat \<Rightarrow> img_file" where
  "optimizeImageFile c f limit =
     (if file_type f = [] \<or> \<not> starts_with (file_type f) ''image/'' \<or> keeps_format (file_type f) \<or> \<not> has_bitmaps c then f
      else (case bitmap c f of None \<Rightarrow> f
        | Some (bw, bh) \<Rightarrow>
            if max bw bh \<le> maxImageEdge \<and> file_size f \<le> limit then f
            else if \<not> has_context c then f
            else (case snd (shrink_picture c f limit bw bh) of None \<Rightarrow> f
              | Some d \<Rightarrow> if length d > limit then f
                  else \<lparr>file_name = strip_extension (file_name f) @ (if is_jpeg_output f then ''.jpg'' else ''.png''),
                        file_type = (if is_jpeg_output f then ''image/jpeg'' else ''image/png''),
                        file_data = d, lastModified = lastModified f\<rparr>)))"

section \<open>Uploads\<close>

definition is_image :: "img_file \<Rightarrow> bool" where
  "is_image f = (file_type f \<noteq> [] \<and> starts_with (file_type f) ''image/'')"

definition compressible :: "img_file \<Rightarrow> bool" where
  "compressible f = (is_image f \<and> \<not> keeps_format (file_type f))"

definition upload_budget :: "img_file list \<Rightarrow> nat" where
  "upload_budget fs = uploadLimitBytes div max 1 (length (filter compressible fs))"

definition optimize_upload :: "codec \<Rightarrow> img_file list \<Rightarrow> img_file list" where
  "optimize_upload c fs = map (\<lambda>f. if compressible f then optimizeImageFile c f (upload_budget fs) else f) fs"

text \<open>A change event on a file input: it reaches the page's own handlers, or it is held back and replayed with the optimised
  files. \<open>replaceable\<close>: the browser accepts a new file list.\<close>

datatype change_effect = Delivered "img_file list" | Held

record file_input =
  input_files :: "img_file list"
  replaying :: bool

definition input_change :: "file_input \<Rightarrow> file_input \<times> change_effect" where
  "input_change i = (if replaying i then (i\<lparr>replaying := False\<rparr>, Delivered (input_files i))
     else if \<not> list_ex is_image (input_files i) then (i, Delivered (input_files i)) else (i, Held))"

definition input_replay :: "codec \<Rightarrow> bool \<Rightarrow> file_input \<Rightarrow> file_input" where
  "input_replay c replaceable i = i\<lparr>input_files := (if replaceable then optimize_upload c (input_files i) else input_files i), replaying := True\<rparr>"

section \<open>Fitting a chat request\<close>

definition is_data_image :: "string \<Rightarrow> bool" where
  "is_data_image s = starts_with (lower s) ''data:image/''"

text \<open>The places of all data URLs, each a list of keys (array indices in decimal), with the URL found there.\<close>

fun findImageDataUrls :: "jsv \<Rightarrow> (string list \<times> string) list"
  and find_in_fields :: "(string \<times> jsv) list \<Rightarrow> (string list \<times> string) list"
  and find_in_elems :: "nat \<Rightarrow> jsv list \<Rightarrow> (string list \<times> string) list" where
  "findImageDataUrls (Obj kvs) = find_in_fields kvs"
| "findImageDataUrls (Arr xs) = find_in_elems 0 xs"
| "findImageDataUrls _ = []"
| "find_in_fields [] = []"
| "find_in_fields ((k, v) # kvs) = (case v of Str s \<Rightarrow> (if is_data_image s then [([k], s)] else [])
     | _ \<Rightarrow> map (\<lambda>(p, u). (k # p, u)) (findImageDataUrls v)) @ find_in_fields kvs"
| "find_in_elems n [] = []"
| "find_in_elems n (v # vs) = (case v of Str s \<Rightarrow> (if is_data_image s then [([nat_str n], s)] else [])
     | _ \<Rightarrow> map (\<lambda>(p, u). (nat_str n # p, u)) (findImageDataUrls v)) @ find_in_elems (Suc n) vs"

fun set_path :: "string list \<Rightarrow> string \<Rightarrow> jsv \<Rightarrow> jsv"
  and set_in_fields :: "string \<Rightarrow> string list \<Rightarrow> string \<Rightarrow> (string \<times> jsv) list \<Rightarrow> (string \<times> jsv) list"
  and set_in_elems :: "nat \<Rightarrow> string \<Rightarrow> string list \<Rightarrow> string \<Rightarrow> jsv list \<Rightarrow> jsv list" where
  "set_path [] u v = Str u"
| "set_path (k # p) u (Obj kvs) = Obj (set_in_fields k p u kvs)"
| "set_path (k # p) u (Arr xs) = Arr (set_in_elems 0 k p u xs)"
| "set_path (k # p) u v = v"
| "set_in_fields k p u [] = []"
| "set_in_fields k p u ((k', v) # kvs) = (if k' = k then (k', set_path p u v) # kvs else (k', v) # set_in_fields k p u kvs)"
| "set_in_elems n k p u [] = []"
| "set_in_elems n k p u (v # vs) = (if nat_str n = k then set_path p u v # vs else v # set_in_elems (Suc n) k p u vs)"

definition dataUrlToFile :: "codec \<Rightarrow> string \<Rightarrow> nat \<Rightarrow> img_file option" where
  "dataUrlToFile c u index = (case data_blob c u of None \<Rightarrow> None
     | Some (t, d) \<Rightarrow> let ty = str_or t ''image/jpeg'' in
         Some \<lparr>file_name = ''chat-image-'' @ nat_str index @ (if ty = ''image/png'' then ''.png'' else ''.jpg''),
           file_type = ty, file_data = d, lastModified = 0\<rparr>)"

definition reduce_url :: "codec \<Rightarrow> nat \<Rightarrow> nat \<Rightarrow> string \<Rightarrow> string option" where
  "reduce_url c budget index u = (case dataUrlToFile c u index of None \<Rightarrow> None | Some f \<Rightarrow> data_url c (optimizeImageFile c f budget))"

text \<open>One pass over all pictures; \<^const>\<open>None\<close>: a promise was rejected and the exception leaves \<^verbatim>\<open>fitChatBody\<close>.\<close>

fun reduce_all :: "codec \<Rightarrow> nat \<Rightarrow> nat \<Rightarrow> (string list \<times> string) list \<Rightarrow> jsv \<Rightarrow> jsv option" where
  "reduce_all c budget index [] b = Some b"
| "reduce_all c budget index ((p, u) # refs) b = (case reduce_url c budget index u of None \<Rightarrow> None
     | Some u' \<Rightarrow> reduce_all c budget (Suc index) refs (set_path p u' b))"

datatype fit_error = HistoryTooLarge | ImagesTooLarge | ImageUnreadable

fun fit_loop :: "nat \<Rightarrow> codec \<Rightarrow> (string list \<times> string) list \<Rightarrow> nat \<Rightarrow> jsv \<Rightarrow> fit_error + string" where
  "fit_loop 0 c refs budget b = (if length (stringify b) \<le> gatewayRequestLimitBytes then Inr (stringify b) else Inl ImagesTooLarge)"
| "fit_loop (Suc n) c refs budget b =
     (if budget < 32768 then (if length (stringify b) \<le> gatewayRequestLimitBytes then Inr (stringify b) else Inl ImagesTooLarge)
      else (case reduce_all c budget 0 refs b of None \<Rightarrow> Inl ImageUnreadable
        | Some b' \<Rightarrow> if length (stringify b') \<le> maxChatRequestBytes then Inr (stringify b')
            else fit_loop n c refs (nat \<lfloor>of_nat budget * (72 / 100 :: rat)\<rfloor>) b'))"

definition image_budget :: "int \<Rightarrow> nat \<Rightarrow> nat" where
  "image_budget available n = nat \<lfloor>of_int (max 0 available) * (74 / 100 :: rat) / of_nat n\<rfloor>"

definition fitChatBody :: "codec \<Rightarrow> jsv \<Rightarrow> fit_error + string" where
  "fitChatBody c b = (let ser = stringify b; size = int (length ser) in
     if length ser \<le> maxChatRequestBytes then Inr ser
     else let refs = findImageDataUrls b in
       if refs = [] then Inr ser
       else let other = size - int (sum_list (map (length \<circ> snd) refs)) in
         if int gatewayRequestLimitBytes \<le> other then Inl HistoryTooLarge
         else if length ser \<le> gatewayRequestLimitBytes \<and> int maxChatRequestBytes \<le> other then Inr ser
         else fit_loop 5 c refs (image_budget (int maxChatRequestBytes - other - int (length refs) * 128) (length refs)) b)"

lemmas image_defs [js_defs] = file_size_def uploadLimitBytes_def maxChatRequestBytes_def gatewayRequestLimitBytes_def
  maxImageEdge_def keeps_format_def shrunk_def fit_scale_def strip_extension_def is_jpeg_output_def encode_picture_def
  shrink_picture_def optimizeImageFile_def is_image_def compressible_def upload_budget_def optimize_upload_def
  input_change_def input_replay_def is_data_image_def dataUrlToFile_def reduce_url_def image_budget_def fitChatBody_def

section \<open>Bounds of the encoding loop\<close>

lemma shrunk_pos [simp]: "Suc 0 \<le> shrunk n f"
  by (simp add: shrunk_def)

lemma shrunk_le:
  assumes "of_nat n * f \<le> (of_nat m :: rat)" and "1 \<le> m"
  shows "shrunk n f \<le> m"
proof -
  have "of_nat n * f + 1 / 2 < of_int (int m + 1)" using assms(1) by simp
  then have "\<lfloor>of_nat n * f + 1 / 2\<rfloor> < int m + 1" by (simp only: floor_less_iff)
  then show ?thesis using assms(2) by (simp add: shrunk_def math_round_def)
qed

lemma shrunk_shrinks: "1 \<le> n \<Longrightarrow> f \<le> 1 \<Longrightarrow> shrunk n f \<le> n"
  by (rule shrunk_le) (simp_all add: mult_left_le)

definition setting_ok :: "nat \<Rightarrow> nat \<Rightarrow> nat \<times> nat \<times> rat \<Rightarrow> bool" where
  "setting_ok w h t = (case t of (w', h', q) \<Rightarrow> 1 \<le> w' \<and> w' \<le> w \<and> 1 \<le> h' \<and> h' \<le> h \<and> 56 / 100 \<le> q \<and> q \<le> 84 / 100)"

lemma setting_ok_mono: "setting_ok w h t \<Longrightarrow> w \<le> w' \<Longrightarrow> h \<le> h' \<Longrightarrow> setting_ok w' h' t"
  by (auto simp: setting_ok_def)

lemma settings_ok_mono: "list_all (setting_ok w h) ts \<Longrightarrow> w \<le> w' \<Longrightarrow> h \<le> h' \<Longrightarrow> list_all (setting_ok w' h') ts"
  by (auto simp: list_all_iff intro: setting_ok_mono)

lemma shrink_loop_bounds:
  "1 \<le> w \<Longrightarrow> 1 \<le> h \<Longrightarrow> 56 / 100 \<le> q \<Longrightarrow> q \<le> 84 / 100 \<Longrightarrow>
   length (fst (shrink_loop n enc jpeg limit w h q blob)) \<le> n \<and>
   list_all (setting_ok w h) (fst (shrink_loop n enc jpeg limit w h q blob))"
proof (induction n arbitrary: w h q blob)
  case 0
  show ?case by simp
next
  case (Suc n)
  let ?w = "shrunk w (78 / 100)" and ?h = "shrunk h (78 / 100)" and ?q = "max (56 / 100) (q - 1 / 10)"
  have self: "setting_ok w h (w, h, q)" using Suc.prems by (simp add: setting_ok_def)
  have 1: "length (fst (shrink_loop n enc jpeg limit w h ?q b)) \<le> n \<and> list_all (setting_ok w h) (fst (shrink_loop n enc jpeg limit w h ?q b))" for b
    using Suc.prems by (intro Suc.IH) (auto simp: max_def)
  have le: "?w \<le> w" "?h \<le> h" using Suc.prems by (simp_all add: shrunk_shrinks)
  have "length (fst (shrink_loop n enc jpeg limit ?w ?h (82 / 100) b)) \<le> n \<and>
      list_all (setting_ok ?w ?h) (fst (shrink_loop n enc jpeg limit ?w ?h (82 / 100) b))" for b
    by (intro Suc.IH) (simp_all add: shrunk_pos)
  then have 2: "length (fst (shrink_loop n enc jpeg limit ?w ?h (82 / 100) b)) \<le> n \<and>
      list_all (setting_ok w h) (fst (shrink_loop n enc jpeg limit ?w ?h (82 / 100) b))" for b
    using le by (auto intro: settings_ok_mono)
  show ?case using self 1 2 by (auto simp: Let_def split: option.split prod.split) (metis fst_conv)+
qed

lemma fit_scale_le:
  assumes "n \<le> longest"
  shows "shrunk n (fit_scale longest) \<le> maxImageEdge"
proof (rule shrunk_le)
  show "1 \<le> maxImageEdge" by (simp add: maxImageEdge_def)
  show "of_nat n * fit_scale longest \<le> (of_nat maxImageEdge :: rat)"
  proof (cases "longest = 0")
    case True
    then show ?thesis using assms by simp
  next
    case False
    have "of_nat n * fit_scale longest \<le> of_nat longest * (of_nat maxImageEdge / of_nat longest :: rat)"
      using assms False by (intro mult_mono) (simp_all add: fit_scale_def)
    then show ?thesis using False by simp
  qed
qed

lemma optimized_or_kept: "optimizeImageFile c f limit \<noteq> f \<Longrightarrow> file_size (optimizeImageFile c f limit) \<le> limit"
  unfolding optimizeImageFile_def by (cases "bitmap c f") (auto simp: file_size_def split: option.splits if_splits)

section \<open>Properties\<close>


definition square_codec :: codec where
  "square_codec = \<lparr>has_bitmaps = True, bitmap = (\<lambda>f. Some (4000, 2000)), has_context = True,
     to_blob = (\<lambda>f t w h q. Some (replicate (w div 400) (CHR ''x''))),
     data_blob = (\<lambda>u. Some (''image/png'', u)), data_url = (\<lambda>f. Some (file_data f))\<rparr>"

definition photo :: img_file where
  "photo = \<lparr>file_name = ''a.jpeg'', file_type = ''image/jpeg'', file_data = replicate 9 (CHR ''x''), lastModified = 0\<rparr>"


lemma sum_list_le: "(\<And>x. x \<in> set xs \<Longrightarrow> f x \<le> b) \<Longrightarrow> sum_list (map f xs) \<le> length xs * (b :: nat)"
  by (induction xs) force+



text \<open>An upload keeps the order and number of the files, touches no file that is not a compressible picture, and the
  pictures it replaces fit together into the upload limit of five MiB; a held change event is replayed exactly once and the
  replayed event is delivered.\<close>

theorem upload_within_limit:
  "length (optimize_upload c fs) = length fs \<and>
   (\<forall>i < length fs. \<not> compressible (fs ! i) \<longrightarrow> optimize_upload c fs ! i = fs ! i) \<and>
   sum_list (map (\<lambda>f. file_size (optimizeImageFile c f (upload_budget fs)))
     (filter (\<lambda>f. compressible f \<and> optimizeImageFile c f (upload_budget fs) \<noteq> f) fs)) \<le> uploadLimitBytes \<and>
   (\<forall>i. snd (input_change i) = Held \<longrightarrow> snd (input_change (input_replay c True i)) = Delivered (optimize_upload c (input_files i)) \<and>
      \<not> replaying (fst (input_change (input_replay c True i))))"
proof -
  let ?b = "upload_budget fs"
  let ?shrunk = "filter (\<lambda>f. compressible f \<and> optimizeImageFile c f ?b \<noteq> f) fs"
  let ?n = "max 1 (length (filter compressible fs))"
  have "sum_list (map (\<lambda>f. file_size (optimizeImageFile c f ?b)) ?shrunk) \<le> length ?shrunk * ?b"
    by (rule sum_list_le) (auto intro: optimized_or_kept)
  also have "length ?shrunk \<le> ?n"
    using length_filter_le [of "\<lambda>f. optimizeImageFile c f ?b \<noteq> f" "filter compressible fs"] by (simp add: conj_commute)
  then have "length ?shrunk * ?b \<le> ?n * (uploadLimitBytes div ?n)" unfolding upload_budget_def by (rule mult_le_mono1)
  also have "\<dots> \<le> uploadLimitBytes" by simp
  finally show ?thesis by (auto simp: optimize_upload_def input_change_def input_replay_def split: if_splits)
qed

theorem upload_within_limit_witness:
  "optimize_upload square_codec [photo\<lparr>file_type := ''text/plain''\<rparr>] ! 0 = photo\<lparr>file_type := ''text/plain''\<rparr>"
proof -
  have "\<not> compressible (photo\<lparr>file_type := ''text/plain''\<rparr>)" by code_simp
  then show ?thesis using upload_within_limit [of square_codec "[photo\<lparr>file_type := ''text/plain''\<rparr>]"] by auto
qed

text \<open>The body with new values at the places of the pictures.\<close>

definition with_images :: "(string list \<times> string) list \<Rightarrow> string list \<Rightarrow> jsv \<Rightarrow> jsv" where
  "with_images refs us b = fold (\<lambda>((p, _), u). set_path p u) (zip refs us) b"

lemma reduce_all_images:
  "reduce_all c budget i refs b = Some b' \<Longrightarrow> \<exists>us. length us = length refs \<and> b' = with_images refs us b"
proof (induction refs arbitrary: i b)
  case Nil
  then show ?case by (simp add: with_images_def)
next
  case (Cons r refs)
  obtain p u where r: "r = (p, u)" by (cases r)
  obtain u' where u': "reduce_url c budget i u = Some u'" "reduce_all c budget (Suc i) refs (set_path p u' b) = Some b'"
    using Cons.prems r by (auto split: option.splits)
  obtain us where "length us = length refs" "b' = with_images refs us (set_path p u' b)" using Cons.IH [OF u'(2)] by blast
  then show ?case using r by (intro exI [of _ "u' # us"]) (simp add: with_images_def)
qed

inductive image_edits :: "(string list \<times> string) list \<Rightarrow> jsv \<Rightarrow> jsv \<Rightarrow> bool" for refs where
  unedited: "image_edits refs b b"
| edited: "image_edits refs b b' \<Longrightarrow> length us = length refs \<Longrightarrow> image_edits refs b (with_images refs us b')"

lemma fit_loop_result:
  "fit_loop n c refs budget b' = Inr out \<Longrightarrow> image_edits refs b b' \<Longrightarrow>
   length out \<le> gatewayRequestLimitBytes \<and> (\<exists>b''. image_edits refs b b'' \<and> out = stringify b'')"
proof (induction n arbitrary: budget b')
  case 0
  then show ?case by (auto split: if_splits)
next
  case (Suc n)
  show ?case
  proof (cases "budget < 32768")
    case True
    then show ?thesis using Suc.prems by (auto split: if_splits)
  next
    case False
    then obtain b1 where b1: "reduce_all c budget 0 refs b' = Some b1" using Suc.prems by (auto split: option.splits)
    have e: "image_edits refs b b1" using reduce_all_images [OF b1] Suc.prems(2) by (auto intro: edited)
    show ?thesis
    proof (cases "length (stringify b1) \<le> maxChatRequestBytes")
      case True
      then have "out = stringify b1" "length out \<le> gatewayRequestLimitBytes"
        using Suc.prems(1) False b1 by (auto simp: maxChatRequestBytes_def gatewayRequestLimitBytes_def)
      then show ?thesis using e by blast
    next
      case False
      then show ?thesis using Suc.prems(1) \<open>\<not> budget < 32768\<close> b1 Suc.IH [OF _ e] by simp
    qed
  qed
qed



end
