(* ===== verification/SelectorNotice.thy ===== *)
theory SelectorNotice
  imports SelectorState
begin

text \<open>
  Localised gateway notices of \<^verbatim>\<open>src/portal/webui/model-selector.js\<close> (lines 262 to 345): the notice texts, the rewriting of a
  response payload, of one line of an event stream, and the stream transformer that receives the body in
  arbitrary chunks. The decoder of the browser is the identity on the bytes (the body is UTF-8). The page language is not
  the name of a property every object inherits.
\<close>

definition localizedMeshNotices :: "(string \<times> string) list" where
  "localizedMeshNotices = [
    (''de'', (''LAN-Node erkannt, aber er verlangt eine manuelle Kopplung. '' @ [CHR 0xC3, CHR 0x96] @ ''ffne Setup und hinterlege den Owner-Key oder scanne den Einmal-QR-Code.'')),
    (''en'', ''LAN node detected, but it requires manual pairing. Open Setup and enter the owner key or scan the one-time QR code.''),
    (''fr'', (''N'' @ [CHR 0xC5, CHR 0x93] @ ''ud LAN d'' @ [CHR 0xC3, CHR 0xA9] @ ''tect'' @ [CHR 0xC3, CHR 0xA9] @ '', mais il n'' @ [CHR 0xC3, CHR 0xA9] @ ''cessite un appairage manuel. Ouvrez Setup et saisissez la cl'' @ [CHR 0xC3, CHR 0xA9] @ '' propri'' @ [CHR 0xC3, CHR 0xA9] @ ''taire ou scannez le QR code '' @ [CHR 0xC3, CHR 0xA0] @ '' usage unique.'')),
    (''es'', (''Nodo LAN detectado, pero requiere vinculaci'' @ [CHR 0xC3, CHR 0xB3] @ ''n manual. Abre Setup e introduce la clave del propietario o escanea el c'' @ [CHR 0xC3, CHR 0xB3] @ ''digo QR de un solo uso.'')),
    (''it'', ''Nodo LAN rilevato, ma richiede un abbinamento manuale. Apri Setup e inserisci la chiave del proprietario oppure scansiona il codice QR monouso.''),
    (''pt-BR'', (''N'' @ [CHR 0xC3, CHR 0xB3] @ '' LAN detectado, mas ele exige pareamento manual. Abra Setup e informe a chave do propriet'' @ [CHR 0xC3, CHR 0xA1] @ ''rio ou escaneie o c'' @ [CHR 0xC3, CHR 0xB3] @ ''digo QR de uso '' @ [CHR 0xC3, CHR 0xBA] @ ''nico.'')),
    (''nl'', ''LAN-node gevonden, maar handmatig koppelen is vereist. Open Setup en voer de eigenaarsleutel in of scan de eenmalige QR-code.''),
    (''pl'', (''Wykryto w'' @ [CHR 0xC4, CHR 0x99] @ ''ze'' @ [CHR 0xC5, CHR 0x82] @ '' LAN, ale wymaga on r'' @ [CHR 0xC4, CHR 0x99] @ ''cznego parowania. Otw'' @ [CHR 0xC3, CHR 0xB3] @ ''rz Setup i podaj klucz w'' @ [CHR 0xC5, CHR 0x82] @ ''a'' @ [CHR 0xC5, CHR 0x9B] @ ''ciciela albo zeskanuj jednorazowy kod QR.'')),
    (''tr'', (''LAN d'' @ [CHR 0xC3, CHR 0xBC, CHR 0xC4, CHR 0x9F, CHR 0xC3, CHR 0xBC] @ ''m'' @ [CHR 0xC3, CHR 0xBC] @ '' alg'' @ [CHR 0xC4, CHR 0xB1] @ ''land'' @ [CHR 0xC4, CHR 0xB1] @ '', ancak manuel e'' @ [CHR 0xC5, CHR 0x9F] @ ''le'' @ [CHR 0xC5, CHR 0x9F] @ ''tirme gerekiyor. Setup b'' @ [CHR 0xC3, CHR 0xB6] @ ''l'' @ [CHR 0xC3, CHR 0xBC] @ ''m'' @ [CHR 0xC3, CHR 0xBC] @ ''n'' @ [CHR 0xC3, CHR 0xBC] @ '' a'' @ [CHR 0xC3, CHR 0xA7, CHR 0xC4, CHR 0xB1] @ ''p sahip anahtar'' @ [CHR 0xC4, CHR 0xB1] @ ''n'' @ [CHR 0xC4, CHR 0xB1] @ '' girin veya tek kullan'' @ [CHR 0xC4, CHR 0xB1] @ ''ml'' @ [CHR 0xC4, CHR 0xB1] @ ''k QR kodunu taray'' @ [CHR 0xC4, CHR 0xB1] @ ''n.''))]"

definition localizedMeshNotice :: "languages \<Rightarrow> jsv \<Rightarrow> string" where
  "localizedMeshNotice g code = (if code \<noteq> Str ''local_node_auth_required'' then []
     else let raw = raw_locale g; exact = (if has_own raw localizedMeshNotices then raw else base_locale raw) in
       str_or (item_text (map_of localizedMeshNotices exact)) (item_text (map_of localizedMeshNotices ''en'')))"

section \<open>Payloads\<close>

definition set_if_truthy :: "string \<Rightarrow> (jsv \<Rightarrow> jsv) \<Rightarrow> (string \<times> jsv) list \<Rightarrow> (string \<times> jsv) list" where
  "set_if_truthy k f kvs = (if truthy (field kvs k) then set_field k (f (field kvs k)) kvs else kvs)"

definition rewrite_choice :: "string \<Rightarrow> jsv \<Rightarrow> jsv" where
  "rewrite_choice m choice = Obj (set_if_truthy ''message'' (with_field ''content'' (Str m))
     (set_if_truthy ''delta'' (with_field ''content'' (Str m)) (assign [] (obj_fields choice))))"

definition notice_of :: "jsv \<Rightarrow> jsv" where
  "notice_of p = js_or (safe_prop p ''compute_mesh_notice'') (and_prop (safe_prop p ''error'') ''compute_mesh_notice'')"

definition notice_message :: "languages \<Rightarrow> jsv \<Rightarrow> string" where
  "notice_message g p = localizedMeshNotice g (and_prop (notice_of p) ''code'')"

definition rewrite_error :: "string \<Rightarrow> (string \<times> jsv) list \<Rightarrow> (string \<times> jsv) list" where
  "rewrite_error m kvs = (if truthy (field kvs ''error'') \<and> is_object (field kvs ''error'')
     then set_field ''error'' (with_field ''message'' (Str m) (field kvs ''error'')) kvs else kvs)"

definition rewrite_choices :: "string \<Rightarrow> (string \<times> jsv) list \<Rightarrow> (string \<times> jsv) list" where
  "rewrite_choices m kvs = (case field kvs ''choices'' of
     Arr xs \<Rightarrow> set_field ''choices'' (Arr (map (rewrite_choice m) xs)) kvs | _ \<Rightarrow> kvs)"

text \<open>\<^const>\<open>None\<close>: the very payload is returned; \<^term>\<open>Some q\<close>: a rewritten copy.\<close>

definition rewriteMeshNoticePayload :: "languages \<Rightarrow> jsv \<Rightarrow> jsv option" where
  "rewriteMeshNoticePayload g p =
     (if \<not> truthy p \<or> \<not> is_object p \<or> notice_message g p = [] then None
      else let m = notice_message g p in Some (Obj (rewrite_choices m (rewrite_error m (assign [] (obj_fields p))))))"

section \<open>Event streams\<close>

definition rewriteMeshNoticeSseLine :: "languages \<Rightarrow> string \<Rightarrow> string" where
  "rewriteMeshNoticeSseLine g line =
     (if \<not> starts_with line ''data: '' then line
      else let raw = trim (drop 6 line) in
        if raw = [] \<or> raw = ''[DONE]'' then line
        else (case json_parse raw of None \<Rightarrow> line
          | Some p \<Rightarrow> (case rewriteMeshNoticePayload g p of None \<Rightarrow> line | Some q \<Rightarrow> ''data: '' @ stringify q)))"

definition newline :: string where
  "newline = [CHR 0x0A]"

text \<open>One call of \<^verbatim>\<open>pull\<close>: the carry and the chunk give the new carry and what is enqueued.\<close>

definition pull_chunk :: "languages \<Rightarrow> string \<Rightarrow> string \<Rightarrow> string \<times> string" where
  "pull_chunk g chunk carry = (let parts = split_on (CHR 0x0A) (carry @ chunk); lines = butlast parts in
     (last parts, join newline (map (rewriteMeshNoticeSseLine g) lines) @ (if lines = [] then [] else newline)))"

definition pull_done :: "languages \<Rightarrow> string \<Rightarrow> string" where
  "pull_done g carry = (if carry = [] then [] else rewriteMeshNoticeSseLine g carry)"

fun stream_parts :: "languages \<Rightarrow> string \<Rightarrow> string list \<Rightarrow> string list" where
  "stream_parts g carry [] = [pull_done g carry]"
| "stream_parts g carry (c # cs) = (case pull_chunk g c carry of (carry', out) \<Rightarrow> out # stream_parts g carry' cs)"

definition stream_out :: "languages \<Rightarrow> string \<Rightarrow> string list \<Rightarrow> string" where
  "stream_out g carry cs = concat (stream_parts g carry cs)"

lemma stream_out_simps [simp]:
  "stream_out g carry [] = pull_done g carry"
  "stream_out g carry (c # cs) = (case pull_chunk g c carry of (carry', out) \<Rightarrow> out @ stream_out g carry' cs)"
  by (simp_all add: stream_out_def split: prod.split)

text \<open>The response as the page sees it: the body arrives in \<open>chunks\<close>.\<close>

definition localizeMeshNoticeResponse :: "languages \<Rightarrow> response \<Rightarrow> string list \<Rightarrow> response" where
  "localizeMeshNoticeResponse g r chunks =
     (if includes_str (ctype r) ''application/json'' then
        (case rjson r of None \<Rightarrow> r
         | Some p \<Rightarrow> (case rewriteMeshNoticePayload g p of None \<Rightarrow> r
           | Some q \<Rightarrow> r\<lparr>rtext := stringify q, rheaders := (rheaders r)(''content-length'' := None, ''content-encoding'' := None,
               ''content-md5'' := None, ''etag'' := None)\<rparr>))
      else if includes_str (ctype r) ''text/event-stream'' then r\<lparr>rtext := stream_out g [] chunks\<rparr>
      else r)"

lemmas notice_defs [js_defs] = localizedMeshNotices_def localizedMeshNotice_def with_field_def set_if_truthy_def rewrite_choice_def
  notice_of_def notice_message_def rewrite_error_def rewrite_choices_def rewriteMeshNoticePayload_def
  rewriteMeshNoticeSseLine_def newline_def pull_chunk_def pull_done_def localizeMeshNoticeResponse_def

section \<open>Chunk boundaries\<close>

lemma rewrite_empty_line [simp]: "rewriteMeshNoticeSseLine g [] = []"
  by (simp add: rewriteMeshNoticeSseLine_def)

lemma map_butlast_last: "xs \<noteq> [] \<Longrightarrow> map f xs = map f (butlast xs) @ [f (last xs)]"
  by (metis append_butlast_last_id list.simps(8,9) map_append)

lemma join_append_last:
  "xs \<noteq> [] \<Longrightarrow> join sep (ys @ xs) = join sep ys @ (if ys = [] then [] else sep) @ join sep xs"
proof (induction ys)
  case Nil
  then show ?case by simp
next
  case (Cons y ys)
  then show ?case by (cases ys) (auto simp: join_cons)
qed

text \<open>The reference: the whole text rewritten line by line.\<close>

definition rewrite_text :: "languages \<Rightarrow> string \<Rightarrow> string" where
  "rewrite_text g s = join newline (map (rewriteMeshNoticeSseLine g) (split_on (CHR 0x0A) s))"

lemma split_on_last_no_sep: "c \<notin> set (last (split_on c xs))"
  using split_on_parts [of c xs] last_in_set [of "split_on c xs"] by auto

lemma rewrite_text_append:
  assumes "split_on (CHR 0x0A) s = ls @ [l]"
  shows "rewrite_text g (s @ u) = join newline (map (rewriteMeshNoticeSseLine g) ls) @ (if ls = [] then [] else newline) @ rewrite_text g (l @ u)"
proof -
  have "CHR 0x0A \<notin> set l" using split_on_last_no_sep [of "CHR 0x0A" s] assms by simp
  then have "split_on (CHR 0x0A) (l @ u) = (l @ hd (split_on (CHR 0x0A) u)) # tl (split_on (CHR 0x0A) u)"
    by (subst split_on_append) simp
  moreover have "split_on (CHR 0x0A) (s @ u) = ls @ (l @ hd (split_on (CHR 0x0A) u)) # tl (split_on (CHR 0x0A) u)"
    by (subst split_on_append) (simp add: assms)
  ultimately show ?thesis by (simp add: rewrite_text_def join_append_last)
qed

lemma stream_out_text: "CHR 0x0A \<notin> set carry \<Longrightarrow> stream_out g carry cs = rewrite_text g (carry @ concat cs)"
proof (induction cs arbitrary: carry)
  case Nil
  then show ?case by (simp add: pull_done_def rewrite_text_def)
next
  case (Cons c cs)
  let ?p = "split_on (CHR 0x0A) (carry @ c)"
  have p: "?p = butlast ?p @ [last ?p]" by simp
  have "CHR 0x0A \<notin> set (last ?p)" by (rule split_on_last_no_sep)
  then have "stream_out g (last ?p) cs = rewrite_text g (last ?p @ concat cs)" by (rule Cons.IH)
  then show ?case
    using rewrite_text_append [OF p, of g "concat cs"] by (simp add: pull_chunk_def Let_def)
qed

section \<open>Properties\<close>

text \<open>C14. Streaming does not depend on how the network cuts the body: for every split of an event stream into chunks the page
  receives the whole text rewritten line by line, and a stream none of whose data lines carries a known notice passes
  through unchanged.\<close>

theorem stream_rewrite_chunk_invariant:
  "stream_out g [] chunks = rewrite_text g (concat chunks) \<and>
   ((\<forall>line \<in> set (split_on (CHR 0x0A) (concat chunks)). rewriteMeshNoticeSseLine g line = line) \<longrightarrow> stream_out g [] chunks = concat chunks)"
proof -
  have s: "stream_out g [] chunks = rewrite_text g (concat chunks)" using stream_out_text [of "[]" g chunks] by simp
  have "rewrite_text g t = t" if "\<forall>line \<in> set (split_on (CHR 0x0A) t). rewriteMeshNoticeSseLine g line = line" for t
    using that map_idI [of "split_on (CHR 0x0A) t" "rewriteMeshNoticeSseLine g"] by (simp add: rewrite_text_def newline_def join_split_on)
  then show ?thesis using s by simp
qed

definition english :: languages where
  "english = \<lparr>document_lang = ''en'', navigator_language = ''en'', engine_error = []\<rparr>"

theorem stream_rewrite_chunk_invariant_witness:
  "stream_out english [] [html ''da'', html ''ta: [DONE]~~''] = html ''data: [DONE]~~''"
proof -
  have "\<forall>line \<in> set (split_on (CHR 0x0A) (concat [html ''da'', html ''ta: [DONE]~~''])). rewriteMeshNoticeSseLine english line = line"
    by code_simp
  moreover have "concat [html ''da'', html ''ta: [DONE]~~''] = html ''data: [DONE]~~''" by code_simp
  ultimately show ?thesis using stream_rewrite_chunk_invariant [of english "[html ''da'', html ''ta: [DONE]~~'']"]
    by metis
qed



lemma field_rewrite_error_other: "k \<noteq> ''error'' \<Longrightarrow> field (rewrite_error m kvs) k = field kvs k"
  by (simp add: rewrite_error_def field_set)

lemma field_rewrite_choices_other: "k \<noteq> ''choices'' \<Longrightarrow> field (rewrite_choices m kvs) k = field kvs k"
  by (simp add: rewrite_choices_def field_set split: jsv.split)

lemma notice_texts_non_empty:
  "localizedMeshNotice g code \<noteq> [] \<longleftrightarrow> code = Str ''local_node_auth_required''"
  by (simp add: localizedMeshNotice_def Let_def str_or_def item_text_def localizedMeshNotices_def)

lemma rewrite_choice_text:
  "field (obj_fields (rewrite_choice m (Obj kvs))) ''delta'' =
     (let d = field (assign [] kvs) ''delta'' in if truthy d then with_field ''content'' (Str m) d else d)"
  "field (obj_fields (rewrite_choice m (Obj kvs))) ''message'' =
     (let d = field (assign [] kvs) ''message'' in if truthy d then with_field ''content'' (Str m) d else d)"
  by (simp_all add: rewrite_choice_def set_if_truthy_def field_set Let_def)

text \<open>What a notice changes: the payload is rewritten exactly when it is an object that carries the code
  \<^verbatim>\<open>local_node_auth_required\<close> of a node that asks for pairing; then every choice of the answer is rewritten in place, an
  error object keeps its place and gets the localised message, and every other property of the payload keeps its value.\<close>

theorem notice_rewrites_only_notices:
  assumes "distinct (map fst kvs)"
  shows "(rewriteMeshNoticePayload g (Obj kvs) = None \<longleftrightarrow> and_prop (notice_of (Obj kvs)) ''code'' \<noteq> Str ''local_node_auth_required'') \<and>
    (\<forall>q. rewriteMeshNoticePayload g (Obj kvs) = Some q \<longrightarrow>
      (\<forall>k. k \<notin> {''error'', ''choices''} \<longrightarrow> field (obj_fields q) k = field kvs k) \<and>
      (\<forall>xs. field kvs ''choices'' = Arr xs \<longrightarrow>
         field (obj_fields q) ''choices'' = Arr (map (rewrite_choice (localizedMeshNotice g (Str ''local_node_auth_required''))) xs)) \<and>
      (\<forall>es. field kvs ''error'' = Obj es \<longrightarrow>
         field (obj_fields q) ''error'' = with_field ''message'' (Str (localizedMeshNotice g (Str ''local_node_auth_required''))) (Obj es)))"
proof (cases "and_prop (notice_of (Obj kvs)) ''code'' = Str ''local_node_auth_required''")
  case True
  define m where "m = localizedMeshNotice g (Str ''local_node_auth_required'')"
  have m: "notice_message g (Obj kvs) = m" "m \<noteq> []" by (simp_all add: notice_message_def m_def True notice_texts_non_empty)
  let ?q = "rewrite_choices m (rewrite_error m (assign [] kvs))"
  have q: "rewriteMeshNoticePayload g (Obj kvs) = Some (Obj ?q)"
    using m by (simp add: rewriteMeshNoticePayload_def is_object_def Let_def)
  have f: "field (assign [] kvs) k = field kvs k" for k by (rule field_assign_Nil [OF assms])
  have "field (rewrite_error m (assign [] kvs)) ''choices'' = field kvs ''choices''"
    by (simp add: field_rewrite_error_other f)
  then have c: "field kvs ''choices'' = Arr xs \<Longrightarrow> field ?q ''choices'' = Arr (map (rewrite_choice m) xs)" for xs
    by (simp add: rewrite_choices_def field_set)
  have e: "field kvs ''error'' = Obj es \<Longrightarrow> field ?q ''error'' = with_field ''message'' (Str m) (Obj es)" for es
    by (simp add: field_rewrite_choices_other rewrite_error_def f field_set is_object_def)
  have o: "k \<notin> {''error'', ''choices''} \<Longrightarrow> field ?q k = field kvs k" for k
    by (simp add: field_rewrite_choices_other field_rewrite_error_other f)
  show ?thesis using q c e o True unfolding m_def [symmetric] by simp
next
  case False
  then have "notice_message g (Obj kvs) = []"
    using notice_texts_non_empty [of g "and_prop (notice_of (Obj kvs)) ''code''"] by (simp add: notice_message_def)
  then have "rewriteMeshNoticePayload g (Obj kvs) = None" by (simp add: rewriteMeshNoticePayload_def)
  then show ?thesis using False by simp
qed

definition paired_notice :: "(string \<times> jsv) list" where
  "paired_notice = [(''id'', Str ''m7''), (''compute_mesh_notice'', Obj [(''code'', Str ''local_node_auth_required'')]), (''choices'', Arr [Obj [(''delta'', Obj [])]])]"

theorem notice_rewrites_only_notices_witness:
  "\<exists>q. rewriteMeshNoticePayload english (Obj paired_notice) = Some q \<and> field (obj_fields q) ''id'' = Str ''m7''"
proof -
  have "distinct (map fst paired_notice)" by (simp add: paired_notice_def)
  moreover have "and_prop (notice_of (Obj paired_notice)) ''code'' = Str ''local_node_auth_required''" by code_simp
  moreover have "field paired_notice ''id'' = Str ''m7''" by (simp add: paired_notice_def field_def)
  ultimately show ?thesis
    using notice_rewrites_only_notices [of paired_notice english]
    by (cases "rewriteMeshNoticePayload english (Obj paired_notice)") auto
qed

end
