(* ===== verification/SelectorPanel.thy ===== *)
theory SelectorPanel
  imports SelectorState
begin

text \<open>
  The agent panel of \<^verbatim>\<open>src/portal/webui/model-selector.js\<close> (lines 57 to 67 and 673 to 1054): its construction, the lists it shows
  and the state of its buttons. Styling (\<^verbatim>\<open>style.cssText\<close>, \<^verbatim>\<open>opacity\<close>) is not modelled. A renderer returns the
  new state and whether it ran to its end; an exception leaves the rows that were appended before it.
\<close>

section \<open>Elements\<close>

abbreviation new_elem :: "string \<Rightarrow> elem \<Rightarrow> 'a browser_scheme \<Rightarrow> 'a browser_scheme" where
  "new_elem i e b \<equiv> b\<lparr>page := (page b)(i \<mapsto> e)\<rparr>"

definition div_node :: "string \<Rightarrow> node" where
  "div_node txt_v = Node ''div'' [] [] txt_v []"

text \<open>\<^verbatim>\<open>xs.forEach(x => append(f(x)))\<close>: the nodes appended until a callback throws.\<close>

fun rows_until :: "('a \<Rightarrow> node option) \<Rightarrow> 'a list \<Rightarrow> node list \<times> bool" where
  "rows_until f [] = ([], True)"
| "rows_until f (x # xs) = (case f x of None \<Rightarrow> ([], False)
     | Some n \<Rightarrow> (case rows_until f xs of (ns, b) \<Rightarrow> (n # ns, b)))"

section \<open>Opening and closing\<close>

definition panel_open_key :: string where
  "panel_open_key = ''cm_agent_panel_open_v1''"

definition use_legacy :: "'a browser_scheme \<Rightarrow> bool" where
  "use_legacy b = (get_item ''cm_use_legacy_agent_popup'' (localStorage b) = Some (Some ''1''))"

definition setAgentSessionPanelOpen :: "bool \<Rightarrow> 'a selector_scheme \<Rightarrow> 'a selector_scheme" where
  "setAgentSessionPanelOpen op s =
     (let b = (use_legacy s \<and> op);
          s1 = put_local panel_open_key (if b then ''1'' else ''0'') (s\<lparr>agentSessionPanelOpen := b\<rparr>);
          s2 = on_elem ''cm-agent-session-panel'' (\<lambda>e. e\<lparr>hidden := \<not> b\<rparr>) s1 in
      on_elem ''cm-agent-toggle'' (\<lambda>e. set_attr ''aria-label'' (if b then agentPanelText (langs s) ''close'' else agentPanelText (langs s) ''open'')
        (set_attr ''aria-expanded'' (if b then ''true'' else ''false'') e)) s2)"

text \<open>The click handler of the toggle.\<close>

definition toggle_click :: "'a selector_scheme \<Rightarrow> 'a selector_scheme" where
  "toggle_click s =
     (if use_legacy s then setAgentSessionPanelOpen (\<not> agentSessionPanelOpen s) s
      else let u1 = ''/agent'' @ (if agentSessionId s = [] then [] else ''?session_id='' @ encodeURIComponent (agentSessionId s));
               u2 = u1 @ (if truthy (and_prop (selectedModel s) ''id'')
                 then (if agentSessionId s = [] then ''?'' else ''&'') @ ''model='' @ encodeURIComponent (to_str (safe_prop (selectedModel s) ''id''))
                 else []) in
        navigate (Assign u2) s)"

section \<open>Construction\<close>

definition button :: "string \<Rightarrow> elem" where
  "button l = blank\<lparr>content := Text l\<rparr>"

definition labelled :: "string \<Rightarrow> elem \<Rightarrow> elem" where
  "labelled l e = set_attr ''aria-label'' l e"

definition panel_header :: "languages \<Rightarrow> node" where
  "panel_header g = Node ''div'' ''cm-agent-header'' [] []
     [Node ''div'' ''cm-agent-heading'' [] [] [Node ''div'' [] [] (agentSessionText g ''title'') [], Node ''p'' [] [] (agentPanelText g ''help'') []],
      Node ''button'' ''cm-agent-close'' [(''aria-label'', agentPanelText g ''close'')] [CHR 0xC3, CHR 0x97] []]"

definition panel_elements :: "languages \<Rightarrow> (string \<times> elem) list" where
  "panel_elements g =
     [(''cm-agent-toggle'', button (([CHR 0xE2, CHR 0x9C, CHR 0xA6] @ '' '') @ agentPanelText g ''open'')),
      (''cm-agent-session-panel'', set_attr ''aria-live'' ''polite'' (blank\<lparr>content := Kids [panel_header g]\<rparr>)),
      (''agentSessionSelect'', labelled (agentSessionText g ''select'') blank),
      (''agentTaskPrompt'', set_attr ''placeholder'' (agentSessionText g ''prompt'') (labelled (agentSessionText g ''prompt'') blank)),
      (''agentTaskCreateButton'', button (''+ '' @ agentSessionText g ''create'')),
      (''agentTaskContinueButton'', button (([CHR 0xE2, CHR 0x86, CHR 0xBB] @ '' '') @ agentSessionText g ''continueTask'')),
      (''agentTaskPauseButton'', labelled (agentControlText g ''pause'') (button (([CHR 0xE2, CHR 0x8F, CHR 0xB8] @ '' '') @ agentControlText g ''pause''))),
      (''agentTaskResumeButton'', labelled (agentControlText g ''resume'') (button (([CHR 0xE2, CHR 0x96, CHR 0xB6] @ '' '') @ agentControlText g ''resume''))),
      (''agentTaskCancelButton'', labelled (agentControlText g ''cancel'') (button (([CHR 0xC3, CHR 0x97] @ '' '') @ agentControlText g ''cancel''))),
      (''agentTaskActionMessage'', set_style ''display'' ''none'' blank),
      (''agentSessionStatus'', blank), (''agentSessionActivityPanel'', blank), (''agentApprovalPanel'', blank),
      (''agentArtifactPanel'', blank)]"

definition ensureAgentSessionPanel :: "'a selector_scheme \<Rightarrow> 'a selector_scheme" where
  "ensureAgentSessionPanel s =
     (if page s ''cm-agent-session-panel'' \<noteq> None \<or> \<not> has_body s then s
      else let s1 = (if can_read (localStorage s)
                 then s\<lparr>agentSessionPanelOpen := (items (localStorage s) panel_open_key = Some ''1'')\<rparr> else s);
               s2 = fold (\<lambda>(i, e). new_elem i e) (panel_elements (langs s)) s1 in
        setAgentSessionPanelOpen (agentSessionPanelOpen s2) s2)"

section \<open>Lists\<close>

text \<open>A list with a heading: an empty notice, or one row for each entry.\<close>

definition list_panel :: "string \<Rightarrow> string \<Rightarrow> string \<Rightarrow> (jsv \<Rightarrow> node option) \<Rightarrow> jsv list \<Rightarrow> 'a selector_scheme \<Rightarrow> 'a selector_scheme \<times> bool" where
  "list_panel i heading none_text row xs s = (if page s i = None then (s, True)
     else if xs = [] then (on_elem i (\<lambda>e. e\<lparr>content := Kids [div_node heading, div_node none_text]\<rparr>) s, True)
     else (case rows_until row xs of (ns, b) \<Rightarrow> (on_elem i (\<lambda>e. e\<lparr>content := Kids (div_node heading # ns)\<rparr>) s, b)))"

definition artifact_row :: "languages \<Rightarrow> jsv \<Rightarrow> node option" where
  "artifact_row g a = (case get_prop a ''name'' of None \<Rightarrow> None
     | Some name \<Rightarrow> (let nm = str_of_or (js_or name (safe_prop a ''ref_id'')) ''artifact'' in
         Some (Node ''div'' [] [] [] [Node ''span'' [] [] nm [],
           Node ''a'' [] [(''href'', ''/v1/agents/artifacts/'' @ encodeURIComponent (str_of_or (safe_prop a ''ref_id'') [])),
             (''download'', str_of_or name ''artifact''), (''aria-label'', agentArtifactText g ''download'' @ '' '' @ nm)]
             (agentArtifactText g ''download'') []])))"

definition renderAgentArtifacts :: "'a selector_scheme \<Rightarrow> 'a selector_scheme \<times> bool" where
  "renderAgentArtifacts s = list_panel ''agentArtifactPanel'' (agentArtifactText (langs s) ''title'') (agentArtifactText (langs s) ''empty'')
     (artifact_row (langs s)) (agentArtifacts s) s"

definition renderAgentSessionActivity :: "'a selector_scheme \<Rightarrow> 'a selector_scheme \<times> bool" where
  "renderAgentSessionActivity s = list_panel ''agentSessionActivityPanel'' (agentSessionActivityText (langs s) ''title'')
     (agentSessionActivityText (langs s) ''empty'') (\<lambda>l. Some (div_node (if l = Undef then [] else to_str l))) (rev (agentSessionActivity s)) s"

definition approval_button :: "languages \<Rightarrow> jsv \<Rightarrow> string \<Rightarrow> node" where
  "approval_button g i decision = (let l = (if decision = ''approved'' then ([CHR 0xE2, CHR 0x9C, CHR 0x93] @ '' '') @ agentSessionText g ''approve'' else ([CHR 0xC3, CHR 0x97] @ '' '') @ agentSessionText g ''reject'') in
     Node ''button'' [] [(''aria-label'', l), (''approval'', to_str i), (''decision'', decision)] l [])"

definition approval_row :: "languages \<Rightarrow> jsv \<Rightarrow> node option" where
  "approval_row g a = (case get_prop a ''tool_id'' of None \<Rightarrow> None
     | Some t \<Rightarrow> Some (Node ''div'' [] [] []
         (Node ''span'' [] [] (str_of_or (js_or t (safe_prop a ''call_id'')) ''Tool'' @ ('' '' @ [CHR 0xC2, CHR 0xB7] @ '' '') @ str_of_or (safe_prop a ''status'') ''pending'') [] #
          (if to_str (safe_prop a ''status'') = ''pending'' then map (approval_button g (safe_prop a ''approval_id'')) [''approved'', ''rejected''] else []))))"

definition renderAgentApprovals :: "'a selector_scheme \<Rightarrow> 'a selector_scheme \<times> bool" where
  "renderAgentApprovals s = list_panel ''agentApprovalPanel'' (agentSessionText (langs s) ''approvals'') (agentSessionText (langs s) ''noApprovals'')
     (approval_row (langs s)) (agentApprovals s) s"

section \<open>Buttons\<close>

text \<open>\<^verbatim>\<open>agentSessions.find(session => String(session.session_id) === id)\<close>; \<^const>\<open>None\<close>: the callback throws.\<close>

fun find_session :: "string \<Rightarrow> jsv list \<Rightarrow> jsv option" where
  "find_session i [] = Some Undef"
| "find_session i (x # xs) = (case get_prop x ''session_id'' of None \<Rightarrow> None
     | Some v \<Rightarrow> if to_str v = i then Some x else find_session i xs)"

definition status_of :: "jsv \<Rightarrow> string" where
  "status_of sel = lower (str_of_or (and_prop sel ''status'') [])"

definition prompt_text :: "'a browser_scheme \<Rightarrow> string" where
  "prompt_text s = (case page s ''agentTaskPrompt'' of None \<Rightarrow> [] | Some e \<Rightarrow> trim (val e))"

definition pausable :: "string list" where
  "pausable = [''creating'', ''ready'', ''running'', ''waiting_for_tool'', ''waiting_for_approval'', ''waiting_for_subagents'', ''compacting'', ''resuming'']"

definition task_elements :: "string list" where
  "task_elements = [''agentTaskPrompt'', ''agentTaskCreateButton'', ''agentTaskContinueButton'', ''agentTaskPauseButton'', ''agentTaskResumeButton'', ''agentTaskCancelButton'']"

definition set_control :: "string \<Rightarrow> bool \<Rightarrow> bool \<Rightarrow> 'a selector_scheme \<Rightarrow> 'a selector_scheme" where
  "set_control i visible_v dis s = on_elem i (\<lambda>e. e\<lparr>hidden := \<not> visible_v, disabled := dis\<rparr>) s"

definition renderAgentTaskControls :: "'a selector_scheme \<Rightarrow> 'a selector_scheme \<times> bool" where
  "renderAgentTaskControls s =
     (if \<exists>i \<in> set task_elements. page s i = None then (s, True)
      else (case find_session (agentSessionId s) (agentSessions s) of None \<Rightarrow> (s, False)
        | Some sel \<Rightarrow>
           (let st = status_of sel; hasPrompt = (prompt_text s \<noteq> []); busy = agentTaskBusy s;
                s1 = on_elem ''agentTaskCreateButton'' (\<lambda>e. e\<lparr>disabled := busy \<or> \<not> hasPrompt \<or> \<not> truthy (selectedModel s)\<rparr>) s;
                s2 = on_elem ''agentTaskContinueButton'' (\<lambda>e. e\<lparr>disabled := busy \<or> \<not> hasPrompt \<or> \<not> (truthy sel \<and> st = ''ready'')\<rparr>) s1;
                s3 = set_control ''agentTaskPauseButton'' (truthy sel \<and> st \<in> set pausable) busy s2;
                s4 = set_control ''agentTaskResumeButton'' (truthy sel \<and> st \<in> {''paused'', ''failed''}) busy s3;
                s5 = set_control ''agentTaskCancelButton'' (truthy sel \<and> \<not> agentSessionTerminal (Str st) \<and> st \<noteq> ''paused'') busy s4 in
            (s5, True))))"

definition setAgentTaskMessage :: "string \<Rightarrow> bool \<Rightarrow> 'a selector_scheme \<Rightarrow> 'a selector_scheme" where
  "setAgentTaskMessage m is_error s = on_elem ''agentTaskActionMessage''
     (\<lambda>e. set_style ''color'' (if is_error then ''#fca5a5'' else ''#67e8f9'') (set_style ''display'' (if m = [] then ''none'' else ''block'') (set_text m e))) s"

section \<open>The panel\<close>

definition session_option :: "languages \<Rightarrow> jsv \<Rightarrow> node option" where
  "session_option g v = (case get_prop v ''session_id'' of None \<Rightarrow> None
     | Some i \<Rightarrow> Some (Node ''option'' [] [(''value'', str_of_or i [])]
         (str_of_or (js_or (safe_prop v ''agent_id'') i) ''Agent'' @ ('' '' @ [CHR 0xC2, CHR 0xB7] @ '' '') @ to_str (agentSessionStatusText g (safe_prop v ''status''))) []))"

definition option_value :: "node \<Rightarrow> string" where
  "option_value n = item_text (map_of (attrs n) ''value'')"

text \<open>Assigning \<^verbatim>\<open>select.value\<close> selects the option with that value, or none.\<close>

definition select_value :: "string \<Rightarrow> node list \<Rightarrow> string" where
  "select_value v opts = (if v \<in> set (map option_value opts) then v else [])"

definition show_empty_panel :: "'a selector_scheme \<Rightarrow> 'a selector_scheme \<times> bool" where
  "show_empty_panel s =
     (let s1 = on_elem ''agentSessionSelect'' (\<lambda>e. e\<lparr>hidden := True\<rparr>) s;
          s2 = on_elem ''agentSessionStatus'' (set_text (agentSessionText (langs s) ''idle'')) s1 in
      and_then (and_then (and_then (renderAgentSessionActivity s2) renderAgentApprovals)
        (\<lambda>s. renderAgentArtifacts (s\<lparr>agentArtifacts := []\<rparr>))) renderAgentTaskControls)"

text \<open>After the options were appended: keep the selection, or fall back to the first option.\<close>

definition keep_selection :: "node list \<Rightarrow> 'a selector_scheme \<Rightarrow> 'a selector_scheme" where
  "keep_selection opts s = (let v = select_value (agentSessionId s) opts;
       s1 = on_elem ''agentSessionSelect'' (\<lambda>e. e\<lparr>val := v\<rparr>) s in
     if v \<noteq> agentSessionId s \<and> opts \<noteq> []
     then restoreAgentSessionCursor (option_value (hd opts)) (s1\<lparr>agentSessionId := option_value (hd opts)\<rparr>) else s1)"

definition show_status :: "'a selector_scheme \<Rightarrow> 'a selector_scheme \<times> bool" where
  "show_status s = (case find_session (agentSessionId s) (agentSessions s) of None \<Rightarrow> (s, False)
     | Some sel \<Rightarrow> (let st = (if truthy sel then agentSessionStatusText (langs s) (safe_prop sel ''status'') else Str (agentSessionText (langs s) ''unavailable''));
           txt_v = (if truthy (agentSessionLastEvent s) then to_str st @ ('' '' @ [CHR 0xC2, CHR 0xB7] @ '' '') @ to_str (agentSessionLastEvent s)
             else if st = Undef then [] else to_str st) in
         (on_elem ''agentSessionStatus'' (set_text txt_v) s, True)))"

definition renderAgentSessionPanel :: "'a selector_scheme \<Rightarrow> 'a selector_scheme \<times> bool" where
  "renderAgentSessionPanel s0 =
     (let s = ensureAgentSessionPanel s0 in
      if page s ''cm-agent-session-panel'' = None \<or> page s ''agentSessionSelect'' = None \<or> page s ''agentSessionStatus'' = None then (s, True)
      else let s1 = on_elem ''agentSessionSelect'' (\<lambda>e. e\<lparr>content := Kids []\<rparr>)
             (on_elem ''cm-agent-session-panel'' (\<lambda>e. e\<lparr>hidden := \<not> agentSessionPanelOpen s\<rparr>) s) in
        if agentSessions s1 = [] then show_empty_panel s1
        else (case rows_until (session_option (langs s)) (agentSessions s1) of (opts, b) \<Rightarrow>
          (let s2 = on_elem ''agentSessionSelect'' (\<lambda>e. e\<lparr>hidden := False, content := Kids opts\<rparr>) s1 in
           if \<not> b then (s2, False)
           else and_then (and_then (and_then (and_then (show_status (keep_selection opts s2)) renderAgentSessionActivity)
             renderAgentApprovals) renderAgentArtifacts) renderAgentTaskControls)))"

section \<open>Execution status\<close>

text \<open>\<^verbatim>\<open>metadata.provider_node_ids.filter(Boolean)\<close>.\<close>

definition node_label :: "languages \<Rightarrow> jsv \<Rightarrow> string" where
  "node_label g m = (let ids = filter truthy (arr_or_empty (safe_prop m ''provider_node_ids'')) in
     if ids = [] then executionStatusText g ''unspecified'' else join '', '' (to_str_list ids))"

definition updateExecutionStatus :: "jsv \<Rightarrow> 'a selector_scheme \<Rightarrow> 'a selector_scheme" where
  "updateExecutionStatus m s =
     (if \<not> truthy m \<or> \<not> is_object m then s
      else let s1 = s\<lparr>lastExecution := m\<rparr>;
               s2 = (if page s1 ''cm-execution-status'' = None \<and> has_body s1
                 then new_elem ''cm-execution-status'' (set_attr ''aria-live'' ''polite'' blank) s1 else s1);
               model = trim (str_of_or (js_or (safe_prop m ''model_id'') (safe_prop m ''model'')) []);
               g = langs s in
        on_elem ''cm-execution-status'' (\<lambda>e. (set_attr ''title'' (if truthy (safe_prop m ''execution_id'')
            then executionStatusText g ''id'' @ '': '' @ to_str (safe_prop m ''execution_id'') else executionStatusText g ''evidence'')
          (set_text (executionStatusText g ''last'' @ '': '' @ str_or model (executionStatusText g ''unknown'') @ ('' '' @ [CHR 0xC2, CHR 0xB7] @ '' Node: '') @ node_label g m) e))
            \<lparr>hidden := False\<rparr>) s2)"

lemmas selector_panel_defs [js_defs] = div_node_def panel_open_key_def use_legacy_def setAgentSessionPanelOpen_def toggle_click_def
  button_def labelled_def panel_header_def panel_elements_def ensureAgentSessionPanel_def list_panel_def artifact_row_def
  renderAgentArtifacts_def renderAgentSessionActivity_def approval_button_def approval_row_def renderAgentApprovals_def
  status_of_def prompt_text_def pausable_def task_elements_def set_control_def renderAgentTaskControls_def
  setAgentTaskMessage_def session_option_def option_value_def select_value_def show_empty_panel_def keep_selection_def
  show_status_def renderAgentSessionPanel_def node_label_def updateExecutionStatus_def

section \<open>What rendering does not change\<close>

text \<open>The part of the state that decides about requests.\<close>

definition flow :: "'a selector_scheme \<Rightarrow> bool \<times> bool \<times> bool \<times> bool \<times> jsv list \<times> jsv \<times> request list" where
  "flow s = (agentSessionPollInFlight s, agentTaskBusy s, agentSessionPollBlocked s, agentSessionPollTimer s, agentSessions s,
     selectedModel s, sent s)"

lemma flow_page [simp]: "flow (s\<lparr>page := d\<rparr>) = flow s"
  by (simp add: flow_def)

lemma flow_put_local [simp]: "flow (put_local k v s) = flow s"
  by (simp add: flow_def put_local_def)

lemma flow_storage_set [simp]: "flow (agentStorageSet k v s) = flow s"
  by (simp add: flow_def agentStorageSet_def split: option.split)

lemma flow_storage_remove [simp]: "flow (agentStorageRemove k s) = flow s"
  by (simp add: flow_def agentStorageRemove_def)

lemma flow_restore_cursor [simp]: "flow (restoreAgentSessionCursor i s) = flow s"
  by (simp add: flow_def restoreAgentSessionCursor_def Let_def)

lemma flow_save_cursor [simp]: "flow (saveAgentSessionCursor s) = flow s"
  by (simp add: saveAgentSessionCursor_def)

lemma flow_fields [simp]:
  "flow (s\<lparr>agentSessionPanelOpen := b\<rparr>) = flow s" "flow (s\<lparr>agentSessionId := i\<rparr>) = flow s" "flow (s\<lparr>agentArtifacts := xs\<rparr>) = flow s"
  "flow (s\<lparr>agentApprovals := xs\<rparr>) = flow s" "flow (s\<lparr>agentSessionLastEvent := v\<rparr>) = flow s" "flow (s\<lparr>agentSessionActivity := xs\<rparr>) = flow s"
  "flow (s\<lparr>agentSessionCursor := c\<rparr>) = flow s" "flow (s\<lparr>lastExecution := v\<rparr>) = flow s"
  by (simp_all add: flow_def)

lemma flow_and_then: "(\<And>t. flow (fst (f t)) = flow t) \<Longrightarrow> flow (fst (and_then r f)) = flow (fst r)"
  by (cases r) (auto simp: and_then_def split: bool.split)

lemma flow_open [simp]: "flow (setAgentSessionPanelOpen b s) = flow s"
  by (simp add: setAgentSessionPanelOpen_def Let_def)

lemma flow_new_elems [simp]: "flow (fold (\<lambda>(i, e). new_elem i e) es s) = flow s"
  by (induction es arbitrary: s) auto

lemma flow_ensure [simp]: "flow (ensureAgentSessionPanel s) = flow s"
  by (simp add: ensureAgentSessionPanel_def Let_def)

lemma flow_list_panel [simp]: "flow (fst (list_panel i h n row xs s)) = flow s"
  by (simp add: list_panel_def split: prod.split)

lemma flow_lists [simp]:
  "flow (fst (renderAgentArtifacts s)) = flow s" "flow (fst (renderAgentSessionActivity s)) = flow s"
  "flow (fst (renderAgentApprovals s)) = flow s"
  by (simp_all add: renderAgentArtifacts_def renderAgentSessionActivity_def renderAgentApprovals_def)

lemma flow_controls [simp]: "flow (fst (renderAgentTaskControls s)) = flow s"
  by (simp add: renderAgentTaskControls_def set_control_def Let_def split: option.split)

lemma flow_message [simp]: "flow (setAgentTaskMessage m e s) = flow s"
  by (simp add: setAgentTaskMessage_def)

lemma flow_keep_selection [simp]: "flow (keep_selection opts s) = flow s"
  by (simp add: keep_selection_def Let_def)

lemma flow_show_status [simp]: "flow (fst (show_status s)) = flow s"
  by (simp add: show_status_def Let_def split: option.split)

lemma flow_show_empty [simp]: "flow (fst (show_empty_panel s)) = flow s"
  by (simp add: show_empty_panel_def Let_def flow_and_then)

lemma flow_panel [simp]: "flow (fst (renderAgentSessionPanel s)) = flow s"
  by (simp add: renderAgentSessionPanel_def Let_def flow_and_then split: prod.split)

lemma flow_execution [simp]: "flow (updateExecutionStatus m s) = flow s"
  by (simp add: updateExecutionStatus_def Let_def)

lemma flow_cache [simp]: "flow (saveAgentSessionCache s) = flow s"
  by (simp add: saveAgentSessionCache_def split: option.split)

lemma flow_eqD:
  assumes "flow s = flow t"
  shows "agentSessionPollInFlight s = agentSessionPollInFlight t" "agentTaskBusy s = agentTaskBusy t"
    "agentSessionPollBlocked s = agentSessionPollBlocked t" "agentSessionPollTimer s = agentSessionPollTimer t"
    "agentSessions s = agentSessions t" "selectedModel s = selectedModel t" "sent s = sent t"
  using assms by (simp_all add: flow_def)

end
