(* ===== verification/SelectorFetch.thy ===== *)
theory SelectorFetch
  imports SelectorModels SelectorImages SelectorNotice SelectorPanel
begin

text \<open>
  The replacement of \<^verbatim>\<open>window.fetch\<close> in \<^verbatim>\<open>src/portal/webui/model-selector.js\<close> (lines 490 to 509, 1176 to 1196 and 1258 to 1386): which
  requests are touched, how the selected model is written into a chat request, routing to the node that offers the
  model with the fallback to the gateway, and what happens to the reply. The catalogue is taken as loaded
  (\<^verbatim>\<open>modelSelectionReady\<close> settled). The observers of a reply run on a clone of it in later turns of the event loop; the model runs
  them when the reply is returned. An endpoint contains no dollar sign, so it is inserted literally by \<^verbatim>\<open>replace\<close>.
\<close>

section \<open>Requests the page makes\<close>

datatype fetch_input = InUrl string | InRequest request

record fetch_init =
  init_method :: "string option"
  init_headers :: "(string \<times> string) list option"
  init_body :: "string option"
  init_credentials :: "string option"

definition no_init :: fetch_init where
  "no_init = \<lparr>init_method = None, init_headers = None, init_body = None, init_credentials = None\<rparr>"

record fetch_env =
  env_server :: server
  env_parser :: url_parser
  env_location :: location
  env_href :: string
  env_codec :: codec
  env_chunks :: "response \<Rightarrow> string list"

definition input_url :: "fetch_input \<Rightarrow> string" where
  "input_url i = (case i of InUrl u \<Rightarrow> u | InRequest r \<Rightarrow> url r)"

text \<open>The request \<^verbatim>\<open>fetch(input, init)\<close> makes.\<close>

definition make_request :: "fetch_input \<Rightarrow> fetch_init \<Rightarrow> request" where
  "make_request i op = (let r = (case i of InUrl u \<Rightarrow> get_request u | InRequest r \<Rightarrow> r) in
     \<lparr>url = url r, http_method = case_option (http_method r) id (init_method op), headers = case_option (headers r) id (init_headers op),
      body = (if init_body op = None then body r else init_body op), credentials = case_option (credentials r) id (init_credentials op)\<rparr>)"

definition input_path :: "fetch_env \<Rightarrow> fetch_input \<Rightarrow> string option" where
  "input_path env i = (if input_url i = [] then None
     else map_option (strip_slash \<circ> url_pathname) (env_parser env (input_url i) (env_href env)))"

text \<open>\<^verbatim>\<open>/(?:^|\/)name$/\<close>.\<close>

definition path_ends :: "string \<Rightarrow> string \<Rightarrow> bool" where
  "path_ends p name = (p = name \<or> ends_with p (''/'' @ name))"

definition completion_paths :: "string list" where
  "completion_paths = [''chat/completions'', ''completions'', ''completion'', ''v1/chat/completions'', ''v1/completions'', ''v1/completion'']"

definition isCompletionUrl :: "fetch_env \<Rightarrow> fetch_input \<Rightarrow> bool" where
  "isCompletionUrl env i = (case input_path env i of None \<Rightarrow> False | Some p \<Rightarrow> list_ex (path_ends p) completion_paths)"

definition props_paths :: "string list" where
  "props_paths = [''props'', ''v1/props'', ''api/props'', ''api/v1/props'', ''webui/props'', ''webui/v1/props'', ''webui/api/props'', ''webui/api/v1/props'']"

definition isPropsUrl :: "fetch_env \<Rightarrow> fetch_input \<Rightarrow> bool" where
  "isPropsUrl env i = (case input_path env i of None \<Rightarrow> False | Some p \<Rightarrow> list_ex (path_ends p) props_paths)"

section \<open>The selected model in a request\<close>

definition withSelectedModel :: "codec \<Rightarrow> jsv \<Rightarrow> string \<Rightarrow> fit_error + string option" where
  "withSelectedModel c model text =
     (if \<not> truthy model \<or> text = [] then Inr None
      else (case json_parse text of
        Some (Obj kvs) \<Rightarrow>
          if (case field kvs ''messages'' of Arr _ \<Rightarrow> True | _ \<Rightarrow> False) \<or> (case field kvs ''prompt'' of Str _ \<Rightarrow> True | _ \<Rightarrow> False)
          then (case fitChatBody c (Obj (set_field ''model'' (model_id model) kvs)) of Inl e \<Rightarrow> Inl e | Inr t \<Rightarrow> Inr (Some t))
          else Inr None
      | _ \<Rightarrow> Inr None))"

definition fit_message :: "languages \<Rightarrow> fit_error \<Rightarrow> string" where
  "fit_message g e = (case e of
     HistoryTooLarge \<Rightarrow> ''The message and conversation history alone exceed the gateway size limit. Shorten the prompt or remove older messages.''
   | ImagesTooLarge \<Rightarrow> ''The images could not be reduced enough for this request. Remove an image or use a smaller photo.''
   | ImageUnreadable \<Rightarrow> engine_error g)"

text \<open>The options of the completion request; an empty rewritten text counts as none.\<close>

definition completion_options :: "codec \<Rightarrow> jsv \<Rightarrow> fetch_input \<Rightarrow> fetch_init \<Rightarrow> fit_error + fetch_init" where
  "completion_options c model i op = (case init_body op of
     Some t \<Rightarrow> (case withSelectedModel c model t of Inl e \<Rightarrow> Inl e
       | Inr (Some t') \<Rightarrow> Inr (if t' = [] then op else op\<lparr>init_body := Some t'\<rparr>) | Inr None \<Rightarrow> Inr op)
   | None \<Rightarrow> (case i of InUrl _ \<Rightarrow> Inr op
       | InRequest r \<Rightarrow> (case withSelectedModel c model (item_text (body r)) of Inl e \<Rightarrow> Inl e
           | Inr (Some t') \<Rightarrow> Inr (if t' = [] then op else op\<lparr>init_method := Some (http_method r),
               init_headers := Some (filter (\<lambda>(k, v). lower k \<noteq> ''content-length'') (headers r)), init_body := Some t'\<rparr>)
           | Inr None \<Rightarrow> Inr op)))"

section \<open>Model properties\<close>

definition displayName :: "jsv \<Rightarrow> string" where
  "displayName model = (let s = str_of_or (js_or (safe_prop model ''name'') (model_id model)) [];
       p = takeWhile (\<lambda>c. c \<noteq> CHR ''/'') s; r = drop (length p) s; t = (if p \<noteq> [] \<and> r \<noteq> [] then tl r else s) in
     map (\<lambda>c. if c = CHR ''-'' \<or> c = CHR ''_'' then CHR '' '' else c) t)"

definition drop_headers :: "string list \<Rightarrow> (string \<rightharpoonup> string) \<Rightarrow> string \<rightharpoonup> string" where
  "drop_headers ks h = (\<lambda>k. if k \<in> set ks then None else h k)"

definition entity_headers :: "string list" where
  "entity_headers = [''content-length'', ''content-encoding'', ''content-md5'', ''etag'']"

text \<open>In strict mode setting a property of a primitive value throws, and the untouched reply is returned.\<close>

definition settable :: "jsv \<Rightarrow> bool" where
  "settable v = (case v of Obj _ \<Rightarrow> True | Arr _ \<Rightarrow> True | _ \<Rightarrow> False)"

definition generation_settings :: "(string \<times> jsv) list \<Rightarrow> jsv" where
  "generation_settings kvs = js_or (field kvs ''default_generation_settings'') (Obj [])"

definition model_props :: "jsv \<Rightarrow> (string \<times> jsv) list \<Rightarrow> (string \<times> jsv) list" where
  "model_props model kvs = (let dgs = generation_settings kvs; ms = modalitiesFor model in
     assign (set_field ''default_generation_settings'' (case dgs of Obj d \<Rightarrow> Obj (set_field ''model'' (model_id model) d) | v \<Rightarrow> v) kvs)
       [(''model_path'', model_id model), (''model_alias'', Str (displayName model)),
        (''modalities'', Obj [(''vision'', Bool (Str ''vision'' \<in> set ms)), (''audio'', Bool (Str ''audio'' \<in> set ms)),
           (''video'', Bool (Str ''video'' \<in> set ms))])])"

definition rewrite_props :: "jsv \<Rightarrow> response \<Rightarrow> response" where
  "rewrite_props model r = (if \<not> ok r then r
     else (case rjson r of
       Some (Obj kvs) \<Rightarrow> if settable (generation_settings kvs)
         then r\<lparr>rtext := stringify (Obj (model_props model kvs)), rheaders := drop_headers entity_headers (rheaders r)\<rparr> else r
     | Some (Arr xs) \<Rightarrow> r\<lparr>rtext := stringify (Arr xs), rheaders := drop_headers entity_headers (rheaders r)\<rparr>
     | _ \<Rightarrow> r))"

section \<open>Generated pictures\<close>

text \<open>\<^verbatim>\<open>/\/generated\/image_[a-zA-Z0-9_-]+\.(?:png|jpg|jpeg|webp)/g\<close>: the length of a match at the start of a text. The name cannot
  contain the dot that ends it.\<close>

definition picture_char :: "char \<Rightarrow> bool" where
  "picture_char c = (word_char c \<or> c = CHR ''-'')"

definition picture_prefix :: string where
  "picture_prefix = ''/generated/image_''"

definition picture_exts :: "string list" where
  "picture_exts = [''.png'', ''.jpg'', ''.jpeg'', ''.webp'']"

definition picture_match :: "string \<Rightarrow> nat option" where
  "picture_match s = (if \<not> starts_with s picture_prefix then None
     else let r = drop (length picture_prefix) s; name = takeWhile picture_char r; rest = drop (length name) r in
       if name = [] then None
       else map_option (\<lambda>e. length picture_prefix + length name + length e) (find (starts_with rest) picture_exts))"

lemma picture_match_pos: "picture_match s = Some n \<Longrightarrow> 0 < n"
  by (auto simp: picture_match_def picture_prefix_def Let_def split: if_splits)

function rewrite_pictures :: "string \<Rightarrow> string \<Rightarrow> string" where
  "rewrite_pictures e s = (case s of [] \<Rightarrow> []
     | c # r \<Rightarrow> (case picture_match s of Some n \<Rightarrow> e @ take n s @ rewrite_pictures e (drop n s) | None \<Rightarrow> c # rewrite_pictures e r))"
  by auto
termination
  by (relation "measure (length \<circ> snd)") (auto dest: picture_match_pos)

declare rewrite_pictures.simps [simp del]

section \<open>Observing replies\<close>

definition observeExecutionPayload :: "jsv \<Rightarrow> 'a selector_scheme \<Rightarrow> 'a selector_scheme" where
  "observeExecutionPayload p s = (if truthy p \<and> is_object p \<and> truthy (safe_prop p ''compute_mesh_execution'')
     then updateExecutionStatus (safe_prop p ''compute_mesh_execution'') s else s)"

text \<open>\<^verbatim>\<open>text.split(/\r?\n/)\<close>.\<close>

definition split_lines :: "string \<Rightarrow> string list" where
  "split_lines t = (let ps = split_on (CHR 0x0A) t in
     map (\<lambda>l. if l \<noteq> [] \<and> last l = CHR 0x0D then butlast l else l) (butlast ps) @ [last ps])"

definition observe_line :: "string \<Rightarrow> 'a selector_scheme \<Rightarrow> 'a selector_scheme" where
  "observe_line l s = (if \<not> starts_with l ''data: '' \<or> l = ''data: [DONE]'' then s
     else (case json_parse (drop 6 l) of None \<Rightarrow> s | Some p \<Rightarrow> observeExecutionPayload p s))"

definition observeExecutionResponse :: "response \<Rightarrow> 'a selector_scheme \<Rightarrow> 'a selector_scheme" where
  "observeExecutionResponse r s = (if includes_str (ctype r) ''application/json''
     then (case rjson r of None \<Rightarrow> s | Some p \<Rightarrow> observeExecutionPayload p s)
     else if includes_str (ctype r) ''text/event-stream'' then fold observe_line (split_lines (rtext r)) s else s)"

section \<open>The replaced fetch\<close>

definition is_cross_routing :: "fetch_env \<Rightarrow> 'a selector_scheme \<Rightarrow> bool" where
  "is_cross_routing env s = (localNodeEndpoint s \<noteq> [] \<and> origin (env_location env) \<noteq> localNodeEndpoint s)"

text \<open>The reply of a node as the page sees it; \<^const>\<open>None\<close>: reading the body throws.\<close>

definition node_reply :: "fetch_env \<Rightarrow> response \<Rightarrow> response \<Rightarrow> 'a selector_scheme \<Rightarrow> (response \<times> 'a selector_scheme) option" where
  "node_reply env raw r s =
     (if \<not> ok r then Some (r, s)
      else if includes_str (ctype r) ''application/json'' then
        (case rjson r of None \<Rightarrow> None
         | Some v \<Rightarrow> Some (r\<lparr>rtext := rewrite_pictures (localNodeEndpoint s) (stringify v), rheaders := drop_headers [''content-length''] (rheaders r)\<rparr>,
             observeExecutionPayload v s))
      else if includes_str (ctype r) ''text/event-stream'' then
        Some (r\<lparr>rtext := concat (map (rewrite_pictures (localNodeEndpoint s)) (stream_parts (langs s) [] (env_chunks env raw)))\<rparr>, s)
      else Some (r, s))"

text \<open>The body of the \<^verbatim>\<open>try\<close> block.\<close>

definition try_completion :: "fetch_env \<Rightarrow> bool \<Rightarrow> request \<Rightarrow> 'a selector_scheme \<Rightarrow> fetched \<times> 'a selector_scheme" where
  "try_completion env cross rq s = (case do_fetch (env_server env) rq s of
     (Rejected m, s1) \<Rightarrow> (Rejected m, s1)
   | (Resp raw, s1) \<Rightarrow>
       let r = localizeMeshNoticeResponse (langs s1) raw (env_chunks env raw); s2 = observeExecutionResponse r s1 in
       if \<not> cross then (Resp r, s2)
       else (case node_reply env raw r s2 of None \<Rightarrow> (Rejected (engine_error (langs s2)), s2) | Some (r', s3) \<Rightarrow> (Resp r', s3)))"

definition gateway_model :: "fetch_env \<Rightarrow> 'a selector_scheme \<Rightarrow> jsv option" where
  "gateway_model env s = find (\<lambda>m. safe_prop m ''__sourceEndpoint'' = Str (origin (env_location env))) (sel_models s)"

definition fall_back :: "fetch_env \<Rightarrow> string \<Rightarrow> fetch_input \<Rightarrow> fetch_init \<Rightarrow> 'a selector_scheme \<Rightarrow> fetched \<times> 'a selector_scheme" where
  "fall_back env err i op s = (let s1 = s\<lparr>localNodeEndpoint := []\<rparr> in
     case gateway_model env s1 of None \<Rightarrow> (Rejected err, s1)
     | Some m \<Rightarrow>
         let s2 = snd (applyCapabilities m (s1\<lparr>selectedModel := m\<rparr>));
             s3 = s2\<lparr>localStorage := try_set_item storage_key (to_str (model_id m)) (localStorage s2)\<rparr> in
         (case withSelectedModel (env_codec env) m (item_text (init_body op)) of
            Inl e \<Rightarrow> (Rejected (fit_message (langs s3) e), s3)
          | Inr t \<Rightarrow> do_fetch (env_server env)
              (make_request i (case t of Some (c # cs) \<Rightarrow> op\<lparr>init_body := Some (c # cs)\<rparr> | _ \<Rightarrow> op)) s3))"

definition window_fetch :: "fetch_env \<Rightarrow> fetch_input \<Rightarrow> fetch_init option \<Rightarrow> 'a selector_scheme \<Rightarrow> fetched \<times> 'a selector_scheme" where
  "window_fetch env i init s = (let s0 = probeLocalNode (env_server env) (env_parser env) (env_location env) s;
       op = case_option no_init id init in
     if isPropsUrl env i \<and> truthy (selectedModel s0) then
       (case do_fetch (env_server env) (make_request i op) s0 of (Resp r, s1) \<Rightarrow> (Resp (rewrite_props (selectedModel s1) r), s1) | x \<Rightarrow> x)
     else if \<not> isCompletionUrl env i then do_fetch (env_server env) (make_request i op) s0
     else let cross = is_cross_routing env s0;
              target = (if cross then InUrl (localNodeEndpoint s0 @ ''/webui/chat/completions'') else i) in
       (case completion_options (env_codec env) (selectedModel s0) i op of
          Inl e \<Rightarrow> (Rejected (fit_message (langs s0) e), s0)
        | Inr o' \<Rightarrow> (case try_completion env cross (make_request target o') s0 of
            (Rejected err, s1) \<Rightarrow> if cross then fall_back env err i o' s1 else (Rejected err, s1)
          | x \<Rightarrow> x)))"

lemmas fetch_defs [js_defs] = no_init_def input_url_def make_request_def input_path_def path_ends_def completion_paths_def
  isCompletionUrl_def props_paths_def isPropsUrl_def withSelectedModel_def fit_message_def completion_options_def displayName_def
  drop_headers_def entity_headers_def settable_def generation_settings_def model_props_def rewrite_props_def picture_char_def picture_prefix_def picture_exts_def
  picture_match_def observeExecutionPayload_def split_lines_def observe_line_def observeExecutionResponse_def
  is_cross_routing_def node_reply_def try_completion_def gateway_model_def fall_back_def window_fetch_def

section \<open>Pictures and line ends\<close>

lemma starts_with_sep: "c \<notin> set p \<Longrightarrow> starts_with (a @ c # b) p = starts_with a p"
  by (induction a p rule: starts_with.induct) auto

lemma starts_with_length: "starts_with s p \<Longrightarrow> length p \<le> length s"
  by (auto elim: starts_withE)

lemma takeWhile_sep: "\<not> P c \<Longrightarrow> takeWhile P (a @ c # b) = takeWhile P a"
  by (induction a) auto

lemma picture_match_line:
  "picture_match (a @ CHR 0x0A # b) = picture_match a"
proof (cases "starts_with a picture_prefix")
  case True
  let ?k = "length picture_prefix" and ?n = "length (takeWhile picture_char (drop (length picture_prefix) a))"
  have k: "?k \<le> length a" by (rule starts_with_length [OF True])
  then have d: "drop ?k (a @ CHR 0x0A # b) = drop ?k a @ CHR 0x0A # b" by simp
  have t: "takeWhile picture_char (drop ?k (a @ CHR 0x0A # b)) = takeWhile picture_char (drop ?k a)"
    unfolding d by (rule takeWhile_sep) (simp add: picture_char_def word_char_def char_defs)
  have "?n \<le> length (drop ?k a)" by (rule length_takeWhile_le)
  then have r: "drop ?n (drop ?k (a @ CHR 0x0A # b)) = drop ?n (drop ?k a) @ CHR 0x0A # b" unfolding d by simp
  have e: "find (starts_with (x @ CHR 0x0A # b)) picture_exts = find (starts_with x) picture_exts" for x
    by (simp add: picture_exts_def starts_with_sep)
  have "starts_with (a @ CHR 0x0A # b) picture_prefix" using True by (simp add: starts_with_sep picture_prefix_def)
  then show ?thesis using True unfolding picture_match_def Let_def t r e by simp
next
  case False
  then have "\<not> starts_with (a @ CHR 0x0A # b) picture_prefix" by (simp add: starts_with_sep picture_prefix_def)
  then show ?thesis using False by (simp add: picture_match_def)
qed

lemma picture_match_length:
  assumes "picture_match a = Some n"
  shows "n \<le> length a"
proof -
  let ?r = "drop (length picture_prefix) a"
  let ?name = "takeWhile picture_char ?r"
  obtain e where e: "find (starts_with (drop (length ?name) ?r)) picture_exts = Some e" "n = length picture_prefix + length ?name + length e"
    and p: "starts_with a picture_prefix"
    using assms by (auto simp: picture_match_def Let_def split: if_splits)
  have "starts_with (drop (length ?name) ?r) e" using e(1) by (metis find_Some_iff)
  then have "length e \<le> length a - length picture_prefix - length ?name" using starts_with_length by fastforce
  moreover have "length ?name \<le> length a - length picture_prefix" using length_takeWhile_le [of picture_char ?r] by simp
  moreover have "length picture_prefix \<le> length a" by (rule starts_with_length [OF p])
  ultimately show ?thesis using e(2) by simp
qed

lemma rewrite_pictures_line:
  "rewrite_pictures e (a @ CHR 0x0A # b) = rewrite_pictures e a @ CHR 0x0A # rewrite_pictures e b"
proof (induction a rule: length_induct)
  case (1 a)
  show ?case
  proof (cases a)
    case Nil
    have "picture_match (CHR 0x0A # b) = None" using picture_match_line [of "[]" b] by (simp add: picture_match_def picture_prefix_def)
    then show ?thesis using Nil by (simp add: rewrite_pictures.simps [of e "CHR 0x0A # b"] rewrite_pictures.simps [of e "[]"])
  next
    case (Cons c r)
    show ?thesis
    proof (cases "picture_match a")
      case None
      then have "rewrite_pictures e (a @ CHR 0x0A # b) = c # rewrite_pictures e (r @ CHR 0x0A # b)"
        using picture_match_line [of a b] Cons by (simp add: rewrite_pictures.simps [of e "c # r @ CHR 0x0A # b"])
      moreover have "rewrite_pictures e a = c # rewrite_pictures e r"
        using None Cons by (simp add: rewrite_pictures.simps [of e "c # r"])
      ultimately show ?thesis using 1 Cons by simp
    next
      case (Some n)
      note n = picture_match_length [OF Some] picture_match_pos [OF Some]
      have "take n (a @ CHR 0x0A # b) = take n a" "drop n (a @ CHR 0x0A # b) = drop n a @ CHR 0x0A # b" using n by simp_all
      moreover have "rewrite_pictures e (a @ CHR 0x0A # b) = e @ take n (a @ CHR 0x0A # b) @ rewrite_pictures e (drop n (a @ CHR 0x0A # b))"
        using picture_match_line [of a b] Some Cons by (simp add: rewrite_pictures.simps [of e "c # r @ CHR 0x0A # b"])
      ultimately have "rewrite_pictures e (a @ CHR 0x0A # b) = e @ take n a @ rewrite_pictures e (drop n a @ CHR 0x0A # b)"
        by simp
      moreover have "rewrite_pictures e a = e @ take n a @ rewrite_pictures e (drop n a)"
        using Some Cons by (simp add: rewrite_pictures.simps [of e "c # r"])
      moreover have "length (drop n a) < length a" using n Cons by simp
      ultimately show ?thesis using 1 by simp
    qed
  qed
qed

lemma rewrite_pictures_empty [simp]: "rewrite_pictures e [] = []"
  by (simp add: rewrite_pictures.simps)

lemma rewrite_pictures_lines:
  "x = [] \<or> last x = CHR 0x0A \<Longrightarrow> rewrite_pictures e (x @ y) = rewrite_pictures e x @ rewrite_pictures e y"
  using rewrite_pictures_line [of e _ y] rewrite_pictures_line [of e _ "[]"]
  by (cases x rule: rev_cases) auto

lemma pull_chunk_line: "pull_chunk g c carry = (carry', out) \<Longrightarrow> out = [] \<or> last out = CHR 0x0A"
  by (auto simp: pull_chunk_def Let_def newline_def split: if_splits)

lemma rewrite_parts:
  "concat (map (rewrite_pictures e) (stream_parts g carry chunks)) = rewrite_pictures e (concat (stream_parts g carry chunks))"
proof (induction chunks arbitrary: carry)
  case Nil
  show ?case by simp
next
  case (Cons c cs)
  obtain carry' out where p: "pull_chunk g c carry = (carry', out)" by fastforce
  show ?case using rewrite_pictures_lines [OF pull_chunk_line [OF p], of e] Cons.IH [of carry'] p by simp
qed

text \<open>The addresses of generated pictures in a streamed answer are rewritten independently of how the network cuts the
  stream: the notice filter hands on whole lines only and an address never spans a line end, so the page receives the whole
  localised text with every address rewritten.\<close>

theorem picture_rewrite_chunk_invariant:
  "concat (map (rewrite_pictures e) (stream_parts g [] chunks)) = rewrite_pictures e (rewrite_text g (concat chunks))"
  using rewrite_parts [of e g "[]" chunks] stream_out_text [of "[]" g chunks] by (simp add: stream_out_def)

section \<open>Routing\<close>

lemma updateExecutionStatus_frame [simp]:
  "sent (updateExecutionStatus m s) = sent s" "sel_models (updateExecutionStatus m s) = sel_models s"
  by (simp_all add: updateExecutionStatus_def Let_def)

lemma observeExecutionPayload_frame [simp]:
  "sent (observeExecutionPayload p s) = sent s" "sel_models (observeExecutionPayload p s) = sel_models s"
  by (simp_all add: observeExecutionPayload_def)

lemma observe_lines_frame [simp]:
  "sent (fold observe_line ls s) = sent s" "sel_models (fold observe_line ls s) = sel_models s"
  by (induction ls arbitrary: s) (simp_all add: observe_line_def split: option.split)

lemma observeExecutionResponse_frame [simp]:
  "sent (observeExecutionResponse r s) = sent s" "sel_models (observeExecutionResponse r s) = sel_models s"
  by (simp_all add: observeExecutionResponse_def split: option.split)

lemma applyCapabilities_frame [simp]:
  "sent (snd (applyCapabilities m s)) = sent s" "localStorage (snd (applyCapabilities m s)) = localStorage s"
  by (simp_all add: applyCapabilities_def Let_def)

lemma try_completion_sent: "sent (snd (try_completion env cross rq s)) = sent s @ [rq]"
  by (simp add: try_completion_def do_fetch_def node_reply_def Let_def split: fetched.split option.split)

lemma try_completion_models: "sel_models (snd (try_completion env cross rq s)) = sel_models s"
  by (simp add: try_completion_def do_fetch_def node_reply_def Let_def split: fetched.split option.split)

lemma fall_back_sent: "\<exists>rest. sent (snd (fall_back env err i op s)) = sent s @ rest \<and> length rest \<le> 1"
  by (auto simp: fall_back_def do_fetch_def Let_def split: option.split sum.split)

lemma probe_checked: "localNodeChecked s \<Longrightarrow> probeLocalNode srv parser loc s = s"
  by (simp add: probeLocalNode_def)

text \<open>A JSON chat request, and what it becomes.\<close>

definition chat_fields :: "string \<Rightarrow> (string \<times> jsv) list \<Rightarrow> bool" where
  "chat_fields text kvs = (json_parse text = Some (Obj kvs) \<and> text \<noteq> [] \<and> (\<exists>ms. field kvs ''messages'' = Arr ms))"

definition chat_text :: "jsv \<Rightarrow> (string \<times> jsv) list \<Rightarrow> string" where
  "chat_text model kvs = stringify (Obj (set_field ''model'' (model_id model) kvs))"

lemma chat_text_nonempty: "chat_text model kvs \<noteq> []"
  by (simp add: chat_text_def)

lemma withSelectedModel_chat:
  assumes "chat_fields text kvs" and "truthy model" and "length (chat_text model kvs) \<le> maxChatRequestBytes"
  shows "withSelectedModel c model text = Inr (Some (chat_text model kvs))"
  using assms by (auto simp: withSelectedModel_def chat_fields_def chat_text_def fitChatBody_def)

text \<open>The first request of a completion.\<close>

definition first_request :: "fetch_env \<Rightarrow> fetch_input \<Rightarrow> fetch_init \<Rightarrow> (string \<times> jsv) list \<Rightarrow> 'a selector_scheme \<Rightarrow> request" where
  "first_request env i op kvs s = make_request
     (if is_cross_routing env s then InUrl (localNodeEndpoint s @ ''/webui/chat/completions'') else i)
     (op\<lparr>init_body := Some (chat_text (selectedModel s) kvs)\<rparr>)"

lemma window_fetch_chat:
  assumes "localNodeChecked s" and "isCompletionUrl env i" and "\<not> isPropsUrl env i"
    and "init_body op = Some text" and "chat_fields text kvs" and "truthy (selectedModel s)"
    and "length (chat_text (selectedModel s) kvs) \<le> maxChatRequestBytes"
  shows "window_fetch env i (Some op) s = (case try_completion env (is_cross_routing env s) (first_request env i op kvs s) s of
      (Rejected err, s1) \<Rightarrow> if is_cross_routing env s
         then fall_back env err i (op\<lparr>init_body := Some (chat_text (selectedModel s) kvs)\<rparr>) s1 else (Rejected err, s1)
    | x \<Rightarrow> x)"
  using assms withSelectedModel_chat [OF assms(5-7), of "env_codec env"]
  by (simp add: window_fetch_def probe_checked completion_options_def first_request_def Let_def chat_text_nonempty)

section \<open>Properties\<close>

definition path_parser :: url_parser where
  "path_parser t base = Some \<lparr>href = t, url_protocol = ''https:'', url_origin = base, url_pathname = t\<rparr>"

definition dead_env :: fetch_env where
  "dead_env = \<lparr>env_server = (\<lambda>rs rq. Rejected ''offline''), env_parser = path_parser, env_location = portal_location,
     env_href = ''https://portal.example/'', env_codec = square_codec, env_chunks = (\<lambda>r. [rtext r])\<rparr>"

definition routed_selector :: selector where
  "routed_selector = selector0\<lparr>localNodeChecked := True, selectedModel := offer ''m'' ''http://n1'',
     sel_models := [offer ''g'' ''https://portal.example''], localNodeEndpoint := ''http://n1''\<rparr>"

definition chat_input :: fetch_input where
  "chat_input = InUrl ''/v1/chat/completions''"

definition chat_body :: string where
  "chat_body = html ''{^messages^:[]}''"

definition chat_init :: fetch_init where
  "chat_init = no_init\<lparr>init_body := Some chat_body\<rparr>"

lemma chat_example:
  "localNodeChecked routed_selector" "isCompletionUrl dead_env chat_input" "\<not> isPropsUrl dead_env chat_input"
  "init_body chat_init = Some chat_body" "chat_fields chat_body [(''messages'', Arr [])]" "truthy (selectedModel routed_selector)"
  "length (chat_text (selectedModel routed_selector) [(''messages'', Arr [])]) \<le> maxChatRequestBytes" "is_cross_routing dead_env routed_selector"
proof -
  show "localNodeChecked routed_selector" "truthy (selectedModel routed_selector)" by (simp_all add: routed_selector_def offer_def)
  show "isCompletionUrl dead_env chat_input" "\<not> isPropsUrl dead_env chat_input" by code_simp+
  show "init_body chat_init = Some chat_body" by (simp add: chat_init_def)
  have "json_parse chat_body = Some (Obj [(''messages'', Arr [])])" "chat_body \<noteq> []" by code_simp+
  then show "chat_fields chat_body [(''messages'', Arr [])]" by (simp add: chat_fields_def field_def)
  show "length (chat_text (selectedModel routed_selector) [(''messages'', Arr [])]) \<le> maxChatRequestBytes"
    by (simp add: chat_text_def routed_selector_def offer_def model_id_def field_def maxChatRequestBytes_def json_quote_def json_char_def)
  show "is_cross_routing dead_env routed_selector" by (simp add: is_cross_routing_def routed_selector_def dead_env_def portal_location_def)
qed



text \<open>C13. When the node that offers the model fails, the same message is sent once more to the gateway with a model the gateway
  itself offers; that model becomes the selected one, is stored, and later requests are no longer routed to the node. Without
  such a model the failure is reported and nothing more is sent.\<close>

theorem node_failure_falls_back:
  assumes "localNodeChecked s" and "isCompletionUrl env i" and "\<not> isPropsUrl env i"
    and "init_body op = Some text" and "chat_fields text kvs" and "truthy (selectedModel s)"
    and "length (chat_text (selectedModel s) kvs) \<le> maxChatRequestBytes" and "window_fetch env i (Some op) s = (res, t)"
    and "is_cross_routing env s" and "env_server env (sent s) (first_request env i op kvs s) = Rejected err"
  shows "localNodeEndpoint t = [] \<and>
    (gateway_model env s = None \<longrightarrow> res = Rejected err \<and> sent t = sent s @ [first_request env i op kvs s]) \<and>
    (\<forall>m. gateway_model env s = Some m \<longrightarrow> selectedModel t = m \<and>
       safe_prop m ''__sourceEndpoint'' = Str (origin (env_location env)) \<and>
       (can_write (localStorage s) \<longrightarrow> items (localStorage t) storage_key = Some (to_str (model_id m))) \<and>
       (\<forall>kvs'. chat_fields (chat_text (selectedModel s) kvs) kvs' \<longrightarrow> truthy m \<longrightarrow> length (chat_text m kvs') \<le> maxChatRequestBytes \<longrightarrow>
          sent t = sent s @ [first_request env i op kvs s, make_request i (op\<lparr>init_body := Some (chat_text m kvs')\<rparr>)]))"
proof -
  let ?rq = "first_request env i op kvs s" and ?op = "op\<lparr>init_body := Some (chat_text (selectedModel s) kvs)\<rparr>"
  let ?s1 = "s\<lparr>sent := sent s @ [?rq]\<rparr>"
  have tc: "try_completion env True ?rq s = (Rejected err, ?s1)" using assms(10) by (simp add: try_completion_def do_fetch_def)
  have w: "(res, t) = fall_back env err i ?op ?s1"
    using window_fetch_chat [OF assms(1-7)] assms(8,9) tc by simp
  have g: "gateway_model env (?s1\<lparr>localNodeEndpoint := []\<rparr>) = gateway_model env s" by (simp add: gateway_model_def)
  show ?thesis
  proof (cases "gateway_model env s")
    case None
    then show ?thesis using w g by (simp add: fall_back_def Let_def)
  next
    case (Some m)
    have src: "safe_prop m ''__sourceEndpoint'' = Str (origin (env_location env))"
      using Some unfolding gateway_model_def by (auto simp: find_Some_iff)
    define s3 where "s3 = (let s2 = snd (applyCapabilities m (s\<lparr>sent := sent s @ [?rq], localNodeEndpoint := [], selectedModel := m\<rparr>)) in
      s2\<lparr>localStorage := try_set_item storage_key (to_str (model_id m)) (localStorage s2)\<rparr>)"
    have fb: "fall_back env err i ?op ?s1 = (case withSelectedModel (env_codec env) m (chat_text (selectedModel s) kvs) of
        Inl e \<Rightarrow> (Rejected (fit_message (langs s3) e), s3)
      | Inr u \<Rightarrow> do_fetch (env_server env) (make_request i (case u of Some (c # cs) \<Rightarrow> ?op\<lparr>init_body := Some (c # cs)\<rparr> | _ \<Rightarrow> ?op)) s3)"
      using Some g by (simp add: fall_back_def s3_def Let_def item_text_def split: sum.split)
    have s3: "localNodeEndpoint s3 = []" "selectedModel s3 = m" "sent s3 = sent s @ [?rq]"
      "localStorage s3 = try_set_item storage_key (to_str (model_id m)) (localStorage s)"
      by (simp_all add: s3_def Let_def applyCapabilities_def)
    have t: "localNodeEndpoint t = localNodeEndpoint s3 \<and> selectedModel t = selectedModel s3 \<and> localStorage t = localStorage s3"
      using w fb by (auto simp: do_fetch_def split: sum.splits)
    have "sent t = sent s @ [?rq, make_request i (op\<lparr>init_body := Some (chat_text m kvs')\<rparr>)]"
      if "chat_fields (chat_text (selectedModel s) kvs) kvs'" "truthy m" "length (chat_text m kvs') \<le> maxChatRequestBytes" for kvs'
    proof -
      obtain c cs where cs: "chat_text m kvs' = c # cs" using chat_text_nonempty [of m kvs'] by (cases "chat_text m kvs'") auto
      then show ?thesis using w fb withSelectedModel_chat [OF that, of "env_codec env"] s3 by (simp add: do_fetch_def)
    qed
    then show ?thesis using Some src t s3 by (simp add: items_try_set_item)
  qed
qed

theorem node_failure_falls_back_witness:
  "selectedModel (snd (window_fetch dead_env chat_input (Some chat_init) routed_selector)) = offer ''g'' ''https://portal.example''"
proof -
  obtain res t where w: "window_fetch dead_env chat_input (Some chat_init) routed_selector = (res, t)" by fastforce
  have r: "env_server dead_env (sent routed_selector) (first_request dead_env chat_input chat_init [(''messages'', Arr [])] routed_selector) = Rejected ''offline''"
    by (simp add: dead_env_def)
  have "gateway_model dead_env routed_selector = Some (offer ''g'' ''https://portal.example'')"
    by (simp add: gateway_model_def routed_selector_def dead_env_def portal_location_def offer_def field_def)
  then show ?thesis using node_failure_falls_back [OF chat_example(1-7) w chat_example(8) r] w by simp
qed

text \<open>The replaced \<^verbatim>\<open>fetch\<close> is transparent for everything else: a request that is neither a completion nor a properties request
  is sent exactly once, unchanged, and its outcome is returned unchanged, whatever model is selected.\<close>

theorem other_requests_untouched:
  assumes "localNodeChecked s" and "\<not> isCompletionUrl env i" and "\<not> isPropsUrl env i \<or> \<not> truthy (selectedModel s)"
  shows "window_fetch env i init s =
    (env_server env (sent s) (make_request i (case_option no_init id init)), s\<lparr>sent := sent s @ [make_request i (case_option no_init id init)]\<rparr>)"
  using assms by (auto simp: window_fetch_def probe_checked do_fetch_def Let_def)

theorem other_requests_untouched_witness:
  "fst (window_fetch dead_env (InUrl ''/v1/models'') None routed_selector) = Rejected ''offline''"
proof -
  have "\<not> isCompletionUrl dead_env (InUrl ''/v1/models'')" "\<not> isPropsUrl dead_env (InUrl ''/v1/models'')" by code_simp+
  then show ?thesis using other_requests_untouched [OF chat_example(1), of dead_env "InUrl ''/v1/models''" None] by (simp add: dead_env_def)
qed

end
