(* ===== verification/SelectorSessions.thy ===== *)
theory SelectorSessions
  imports SelectorPanel
begin

text \<open>
  The agent sessions of \<^verbatim>\<open>src/portal/webui/model-selector.js\<close> (lines 838 to 1174): polling, task submission, session control,
  approvals and start-up, as an event loop. Every \<^verbatim>\<open>async\<close> function is split at its \<^verbatim>\<open>await\<close>s: the part before the
  first request returns the state and the requests it left in flight, and \<open>resume\<close> continues a request in
  flight with its outcome. The relation \<open>sel_step\<close> lets the user act and replies arrive in any order.
\<close>

section \<open>Requests\<close>

definition plain_get :: "string \<Rightarrow> request" where
  "plain_get u = \<lparr>url = u, http_method = ''GET'', headers = [], body = None, credentials = ''include''\<rparr>"

definition plain_post :: "string \<Rightarrow> jsv \<Rightarrow> request" where
  "plain_post u v = \<lparr>url = u, http_method = ''POST'', headers = [(''Content-Type'', ''application/json'')], body = Some (stringify v),
     credentials = ''include''\<rparr>"

definition sessions_url :: "string \<Rightarrow> string" where
  "sessions_url i = ''/v1/agents/sessions/'' @ encodeURIComponent i"

text \<open>A request in flight, by the \<^verbatim>\<open>await\<close> that waits for it. \<open>SessionsReply True\<close> is the session list awaited by a task or
  control action.\<close>

datatype pending = PollReply | PollApprovals | PollArtifacts | ApprovalsReply | ArtifactsReply | SessionsReply bool
  | TaskReply string | ControlReply | DecisionReply | DecisionApprovals

section \<open>Approvals and artifacts\<close>

definition approvals_request :: request where
  "approvals_request = plain_get ''/v1/agents/approvals?status=pending&limit=20''"

text \<open>\<^verbatim>\<open>refreshAgentApprovals\<close> and \<^verbatim>\<open>refreshAgentArtifacts\<close> after their response; every failure is swallowed.\<close>

definition reply_json :: "fetched \<Rightarrow> jsv option" where
  "reply_json f = (case f of Rejected _ \<Rightarrow> None | Resp r \<Rightarrow> if ok r then rjson r else None)"

definition store_approvals :: "fetched \<Rightarrow> selector \<Rightarrow> selector" where
  "store_approvals f s = (case reply_json f of None \<Rightarrow> s
     | Some v \<Rightarrow> fst (renderAgentSessionPanel (s\<lparr>agentApprovals := arr_or_empty (and_prop v ''approvals'')\<rparr>)))"

definition store_artifacts :: "fetched \<Rightarrow> selector \<Rightarrow> selector" where
  "store_artifacts f s = (case reply_json f of None \<Rightarrow> s
     | Some v \<Rightarrow> fst (renderAgentArtifacts (s\<lparr>agentArtifacts := arr_or_empty (and_prop v ''artifacts'')\<rparr>)))"

definition refreshAgentArtifacts :: "selector \<Rightarrow> selector \<times> pending list" where
  "refreshAgentArtifacts s = (if agentSessionId s = [] then (s, [])
     else (issue (plain_get (sessions_url (agentSessionId s) @ ''/artifacts'')) s, [ArtifactsReply]))"

definition refreshAgentApprovals :: "selector \<Rightarrow> selector \<times> pending list" where
  "refreshAgentApprovals s = (issue approvals_request s, [ApprovalsReply])"

section \<open>Polling\<close>

definition describeAgentSessionEvent :: "languages \<Rightarrow> jsv \<Rightarrow> jsv" where
  "describeAgentSessionEvent g event =
     (let type = lower (str_of_or (and_prop event ''event_type'') []);
          p = and_prop event ''payload''; payload = (if truthy p \<and> is_object p then p else Obj []) in
      if type = ''session.status_changed'' \<and> truthy (safe_prop payload ''to'') then agentSessionStatusText g (safe_prop payload ''to'')
      else if type = ''approval.required'' then agentSessionStatusText g (Str ''waiting_for_approval'')
      else if includes_str type ''tool.started'' \<or> includes_str type ''inference.started'' then agentSessionStatusText g (Str ''running'')
      else if includes_str type ''completed'' then agentSessionStatusText g (Str ''completed'')
      else if includes_str type ''failed'' then agentSessionStatusText g (Str ''failed'')
      else Str (agentSessionText g ''waiting''))"

definition poll_request :: "selector \<Rightarrow> request" where
  "poll_request s = plain_get (sessions_url (agentSessionId s) @ ''/events?after_sequence='' @
     encodeURIComponent (num_str (agentSessionCursor s)) @ ''&limit=100&wait_seconds=5'')"

definition session_terminal :: "jsv \<Rightarrow> bool" where
  "session_terminal sel = agentSessionTerminal (safe_prop sel ''status'')"

definition pollAgentSessionEvents :: "selector \<Rightarrow> selector \<times> pending list" where
  "pollAgentSessionEvents s =
     (if agentSessionId s = [] \<or> agentSessionPollInFlight s \<or> agentSessionPollBlocked s then (s, [])
      else (case find_session (agentSessionId s) (agentSessions s) of None \<Rightarrow> (s, [])
        | Some sel \<Rightarrow> if truthy sel \<and> session_terminal sel \<and> truthy (agentSessionLastEvent s) then (s, [])
            else (issue (poll_request s) (s\<lparr>agentSessionPollInFlight := True\<rparr>), [PollReply])))"

text \<open>The \<^verbatim>\<open>finally\<close> and \<^verbatim>\<open>catch\<close> blocks.\<close>

definition poll_finally :: "selector \<Rightarrow> selector" where
  "poll_finally s = (let s1 = s\<lparr>agentSessionPollInFlight := False\<rparr> in
     case find_session (agentSessionId s1) (agentSessions s1) of None \<Rightarrow> s1
     | Some sel \<Rightarrow> if agentSessionId s1 \<noteq> [] \<and> (\<not> truthy sel \<or> \<not> session_terminal sel) then s1\<lparr>agentSessionPollTimer := True\<rparr> else s1)"

definition poll_catch :: "selector \<Rightarrow> selector" where
  "poll_catch s = fst (renderAgentSessionPanel (s\<lparr>agentSessionLastEvent := Str (agentSessionText (langs s) ''unavailable'')\<rparr>))"

text \<open>\<^verbatim>\<open>agentSessions[index] = Object.assign({}, agentSessions[index], payload.session)\<close> for the entry with the current id.\<close>

fun merge_session :: "string \<Rightarrow> jsv \<Rightarrow> jsv list \<Rightarrow> jsv list option" where
  "merge_session i v [] = Some []"
| "merge_session i v (x # xs) = (case get_prop x ''session_id'' of None \<Rightarrow> None
     | Some w \<Rightarrow> if to_str w = i then Some (Obj (assign (obj_fields x) (obj_fields v)) # xs) else map_option ((#) x) (merge_session i v xs))"

definition poll_merge :: "jsv \<Rightarrow> selector \<Rightarrow> selector option" where
  "poll_merge payload s = (let v = and_prop payload ''session'' in
     if \<not> truthy payload \<or> \<not> truthy v then Some s
     else (case merge_session (agentSessionId s) v (agentSessions s) of None \<Rightarrow> None
       | Some xs \<Rightarrow> Some (saveAgentSessionCache (s\<lparr>agentSessions := xs\<rparr>))))"

definition poll_activity :: "jsv list \<Rightarrow> selector \<Rightarrow> selector" where
  "poll_activity evs s = (if evs = [] then s
     else let labels = map (describeAgentSessionEvent (langs s)) evs; all = agentSessionActivity s @ labels in
       s\<lparr>agentSessionLastEvent := last labels, agentSessionActivity := drop (length all - 12) all\<rparr>)"

definition poll_advance :: "jsv \<Rightarrow> selector \<Rightarrow> selector" where
  "poll_advance payload s = (let n = to_num (safe_prop payload ''next_sequence'') in
     if truthy payload \<and> is_finite n
     then saveAgentSessionCursor (s\<lparr>agentSessionCursor := num_max (agentSessionCursor s) n\<rparr>) else s)"

definition poll_end :: "selector \<Rightarrow> selector" where
  "poll_end s = (case renderAgentSessionPanel s of (s1, b) \<Rightarrow> poll_finally (if b then s1 else poll_catch s1))"

definition poll_refused :: "response \<Rightarrow> selector \<Rightarrow> selector" where
  "poll_refused r s = poll_finally
     (if status r \<in> {401, 403, 404}
      then (case renderAgentSessionPanel (s\<lparr>agentSessionPollBlocked := True, agentSessionLastEvent := Str (agentSessionText (langs s) ''unavailable'')\<rparr>) of
          (s1, b) \<Rightarrow> if b then s1 else poll_catch s1)
      else s)"

definition poll_payload :: "jsv \<Rightarrow> selector \<Rightarrow> selector \<times> pending list" where
  "poll_payload payload s = (case poll_merge payload s of None \<Rightarrow> (poll_finally (poll_catch s), [])
     | Some s1 \<Rightarrow> (issue approvals_request (poll_advance payload (poll_activity (arr_or_empty (and_prop payload ''events'')) s1)), [PollApprovals]))"

definition poll_reply :: "fetched \<Rightarrow> selector \<Rightarrow> selector \<times> pending list" where
  "poll_reply f s = (case f of Rejected _ \<Rightarrow> (poll_finally (poll_catch s), [])
     | Resp r \<Rightarrow> if \<not> ok r then (poll_refused r s, [])
         else (case rjson r of None \<Rightarrow> (poll_finally (poll_catch s), []) | Some payload \<Rightarrow> poll_payload payload s))"

section \<open>Start-up\<close>

text \<open>The preferred session: the stored one, else the first that is not terminal, else the first.\<close>

definition preferred_session :: "string \<Rightarrow> jsv list \<Rightarrow> jsv option" where
  "preferred_session i xs = (case find_session i xs of None \<Rightarrow> None
     | Some v \<Rightarrow> if truthy v then Some v
         else (case find (\<lambda>x. \<not> session_terminal x) xs of Some x \<Rightarrow> Some x | None \<Rightarrow> Some (hd xs)))"

definition stored_session_id :: "selector \<Rightarrow> string" where
  "stored_session_id s = item_text (agentStorageGet ''cm_agent_session_id'' s)"

definition choose_session :: "jsv \<Rightarrow> selector \<Rightarrow> selector" where
  "choose_session v s = (let i = str_of_or (safe_prop v ''session_id'') [] in restoreAgentSessionCursor i (s\<lparr>agentSessionId := i\<rparr>))"

text \<open>The part of \<^verbatim>\<open>initializeAgentSessions\<close> before its \<^verbatim>\<open>await\<close>; the flag says whether it got there.\<close>

definition use_cache :: "selector \<Rightarrow> (selector \<times> bool) \<times> pending list" where
  "use_cache s = (let cached = restoreAgentSessionCache s in
     if agentSessions s \<noteq> [] \<or> cached = [] then ((s, True), [])
     else (case preferred_session (stored_session_id s) cached of None \<Rightarrow> ((s\<lparr>agentSessions := cached\<rparr>, False), [])
       | Some v \<Rightarrow> (case renderAgentSessionPanel (choose_session v (s\<lparr>agentSessions := cached\<rparr>)) of
           (s1, False) \<Rightarrow> ((s1, False), [])
         | (s1, True) \<Rightarrow> (case pollAgentSessionEvents s1 of (s2, ps) \<Rightarrow> ((s2, True), ps)))))"

definition initializeAgentSessions :: "bool \<Rightarrow> selector \<Rightarrow> (selector \<times> bool) \<times> pending list" where
  "initializeAgentSessions awaited s = (case use_cache (ensureAgentSessionPanel s) of
     ((s1, False), ps) \<Rightarrow> ((s1, False), ps)
   | ((s1, True), ps) \<Rightarrow> (case renderAgentSessionPanel s1 of
       (s2, False) \<Rightarrow> ((s2, False), ps)
     | (s2, True) \<Rightarrow> ((issue (plain_get ''/v1/agents/sessions?limit=50'') s2, True), ps @ [SessionsReply awaited])))"

definition sessions_refused :: "response \<Rightarrow> selector \<Rightarrow> selector" where
  "sessions_refused r s = (if status r \<in> {401, 403}
     then fst (renderAgentSessionPanel (agentStorageRemove cache_key (s\<lparr>agentSessions := [], agentSessionId := []\<rparr>))) else s)"

definition sessions_loaded :: "jsv list \<Rightarrow> selector \<Rightarrow> selector \<times> pending list" where
  "sessions_loaded xs s =
     (let s1 = (saveAgentSessionCache (s\<lparr>agentSessions := xs\<rparr>))\<lparr>agentSessionPollBlocked := False\<rparr> in
      case preferred_session (stored_session_id s1) xs of None \<Rightarrow> (s1, [])
      | Some v \<Rightarrow> (let i = str_of_or (safe_prop v ''session_id'') [];
            s2 = restoreAgentSessionCursor i (agentStorageSet ''cm_agent_session_id'' i (s1\<lparr>agentSessionId := i\<rparr>)) in
          case renderAgentSessionPanel s2 of (s3, False) \<Rightarrow> (s3, [])
          | (s3, True) \<Rightarrow> (case pollAgentSessionEvents (issue approvals_request s3) of (s4, ps) \<Rightarrow> (s4, ApprovalsReply # ps))))"

definition sessions_reply :: "fetched \<Rightarrow> selector \<Rightarrow> selector \<times> pending list" where
  "sessions_reply f s = (case f of Rejected _ \<Rightarrow> (s, [])
     | Resp r \<Rightarrow> if \<not> ok r then (sessions_refused r s, [])
         else (case rjson r of None \<Rightarrow> (s, [])
           | Some payload \<Rightarrow> (let xs = arr_or_empty (and_prop payload ''sessions'') in
               if xs = [] then (fst (renderAgentSessionPanel (agentStorageRemove cache_key (s\<lparr>agentSessions := []\<rparr>))), [])
               else sessions_loaded xs s)))"

section \<open>Tasks and control\<close>

definition task_finally :: "selector \<Rightarrow> selector" where
  "task_finally s = fst (renderAgentTaskControls (s\<lparr>agentTaskBusy := False\<rparr>))"

definition task_begin :: "selector \<Rightarrow> selector \<times> bool" where
  "task_begin s = renderAgentTaskControls (setAgentTaskMessage [] False (s\<lparr>agentTaskBusy := True\<rparr>))"

definition task_request :: "string \<Rightarrow> string \<Rightarrow> selector \<Rightarrow> request" where
  "task_request mode prompt s = (if mode = ''continue'' then plain_post (sessions_url (agentSessionId s) @ ''/turns'') (Obj [(''input'', Str prompt)])
     else plain_post ''/v1/agents/sessions'' (Obj [(''agent_id'', Str ''computemesh.agent''), (''agent_version'', Str ''1''),
       (''model'', Str (to_str (safe_prop (selectedModel s) ''id''))), (''input'', Str prompt), (''environment_type'', Str ''mesh'')]))"

definition submitAgentTask :: "string \<Rightarrow> selector \<Rightarrow> selector \<times> pending list" where
  "submitAgentTask mode s =
     (if agentTaskBusy s \<or> page s ''agentTaskPrompt'' = None \<or> \<not> truthy (selectedModel s) \<or> prompt_text s = [] then (s, [])
      else (case find_session (agentSessionId s) (agentSessions s) of None \<Rightarrow> (s, [])
        | Some sel \<Rightarrow> if mode = ''continue'' \<and> (\<not> truthy sel \<or> status_of sel \<noteq> ''ready'') then (s, [])
            else (case task_begin s of (s1, b) \<Rightarrow>
              if b then (issue (task_request mode (prompt_text s) s) s1, [TaskReply mode]) else (s1, []))))"

text \<open>The message of the error thrown for a refused request: \<^verbatim>\<open>(payload.error && payload.error.message) || text\<close>.\<close>

definition refusal_text :: "jsv \<Rightarrow> string \<Rightarrow> languages \<Rightarrow> string" where
  "refusal_text payload d g = (case get_prop payload ''error'' of None \<Rightarrow> engine_error g
     | Some e \<Rightarrow> to_str (js_or (and_prop e ''message'') (Str d)))"

definition task_fail :: "string \<Rightarrow> string \<Rightarrow> selector \<Rightarrow> selector" where
  "task_fail m d s = task_finally (setAgentTaskMessage (str_or m d) True s)"

text \<open>\<^verbatim>\<open>payload = {}; try { payload = await response.json(); } catch (_) {}\<close>.\<close>

definition payload_of :: "response \<Rightarrow> jsv" where
  "payload_of r = (case rjson r of Some v \<Rightarrow> v | None \<Rightarrow> Obj [])"

definition await_sessions :: "string \<Rightarrow> selector \<Rightarrow> selector \<times> pending list" where
  "await_sessions d s = (case initializeAgentSessions True s of
     ((s1, True), ps) \<Rightarrow> (s1, ps)
   | ((s1, False), ps) \<Rightarrow> (task_fail (engine_error (langs s1)) d s1, ps))"

definition task_accepted :: "string \<Rightarrow> jsv \<Rightarrow> selector \<Rightarrow> selector" where
  "task_accepted mode payload s = (let v = and_prop payload ''session'' in
     if mode = ''create'' \<and> truthy v \<and> truthy (safe_prop v ''session_id'')
     then (let i = to_str (safe_prop v ''session_id'') in
       restoreAgentSessionCursor i (agentStorageSet ''cm_agent_session_id'' i (s\<lparr>agentSessionId := i\<rparr>))) else s)"

definition task_reply :: "string \<Rightarrow> fetched \<Rightarrow> selector \<Rightarrow> selector \<times> pending list" where
  "task_reply mode f s = (let d = agentSessionText (langs s) ''taskError'' in
     case f of Rejected m \<Rightarrow> (task_fail m d s, [])
     | Resp r \<Rightarrow> (let payload = payload_of r in
         if \<not> ok r then (task_fail (refusal_text payload d (langs s)) d s, [])
         else if mode = ''create'' \<and> get_prop payload ''session'' = None then (task_fail (engine_error (langs s)) d s, [])
         else await_sessions d (setAgentTaskMessage (agentSessionText (langs s) (if mode = ''create'' then ''taskCreated'' else ''turnQueued'')) False
           (on_elem ''agentTaskPrompt'' (\<lambda>e. e\<lparr>val := []\<rparr>) (task_accepted mode payload s)))))"

definition controlAgentSession :: "string \<Rightarrow> selector \<Rightarrow> selector \<times> pending list" where
  "controlAgentSession action s = (if agentTaskBusy s \<or> agentSessionId s = [] then (s, [])
     else (case task_begin s of (s1, b) \<Rightarrow>
       if b then (issue (plain_post (sessions_url (agentSessionId s) @ ''/control'') (Obj [(''action'', Str action)])) s1, [ControlReply]) else (s1, [])))"

definition control_reply :: "fetched \<Rightarrow> selector \<Rightarrow> selector \<times> pending list" where
  "control_reply f s = (let d = agentControlText (langs s) ''controlError'' in
     case f of Rejected m \<Rightarrow> (task_fail m d s, [])
     | Resp r \<Rightarrow> if \<not> ok r then (task_fail (refusal_text (payload_of r) d (langs s)) d s, [])
         else await_sessions d (setAgentTaskMessage (agentControlText (langs s) ''controlQueued'') False s))"

section \<open>Approvals\<close>

definition resolveAgentApproval :: "jsv \<Rightarrow> string \<Rightarrow> selector \<Rightarrow> selector \<times> pending list" where
  "resolveAgentApproval i decision s =
     (issue (plain_post (''/v1/agents/approvals/'' @ encodeURIComponent (to_str i)) (Obj [(''decision'', Str decision)])) s, [DecisionReply])"

definition decision_reply :: "fetched \<Rightarrow> selector \<Rightarrow> selector \<times> pending list" where
  "decision_reply f s = (if (case f of Rejected _ \<Rightarrow> False | Resp r \<Rightarrow> ok r) then (issue approvals_request s, [DecisionApprovals])
     else (fst (renderAgentSessionPanel (s\<lparr>agentSessionLastEvent := Str (agentSessionText (langs s) ''approvalError'')\<rparr>)), []))"

section \<open>The event loop\<close>

text \<open>The change handler of the session list.\<close>

definition select_change :: "string \<Rightarrow> selector \<Rightarrow> selector \<times> pending list" where
  "select_change i s =
     (let s1 = (restoreAgentSessionCursor i (s\<lparr>agentSessionId := i, agentSessionPollBlocked := False\<rparr>))
            \<lparr>agentSessionLastEvent := Str [], agentSessionActivity := [], agentArtifacts := []\<rparr> in
      case renderAgentSessionPanel s1 of (s2, False) \<Rightarrow> (s2, [])
      | (s2, True) \<Rightarrow> (case refreshAgentArtifacts s2 of (s3, ps) \<Rightarrow> (case pollAgentSessionEvents s3 of (s4, qs) \<Rightarrow> (s4, ps @ qs))))"

datatype action = Create | Continue | Control string | Decide jsv string | Select string | Timer | Start

fun act :: "action \<Rightarrow> selector \<Rightarrow> selector \<times> pending list" where
  "act Create s = submitAgentTask ''create'' s"
| "act Continue s = submitAgentTask ''continue'' s"
| "act (Control a) s = controlAgentSession a s"
| "act (Decide i d) s = resolveAgentApproval i d s"
| "act (Select i) s = select_change i s"
| "act Timer s = (if agentSessionPollTimer s then pollAgentSessionEvents (s\<lparr>agentSessionPollTimer := False\<rparr>) else (s, []))"
| "act Start s = (case initializeAgentSessions False s of ((s1, _), ps) \<Rightarrow> (s1, ps))"

definition poll_next :: "selector \<Rightarrow> selector \<times> pending list" where
  "poll_next s = (if agentSessionId s = [] then (poll_end s, [])
     else (issue (plain_get (sessions_url (agentSessionId s) @ ''/artifacts'')) s, [PollArtifacts]))"

fun resume :: "pending \<Rightarrow> fetched \<Rightarrow> selector \<Rightarrow> selector \<times> pending list" where
  "resume PollReply f s = poll_reply f s"
| "resume PollApprovals f s = poll_next (store_approvals f s)"
| "resume PollArtifacts f s = (poll_end (store_artifacts f s), [])"
| "resume ApprovalsReply f s = (store_approvals f s, [])"
| "resume ArtifactsReply f s = (store_artifacts f s, [])"
| "resume (SessionsReply awaited) f s = (case sessions_reply f s of (s1, ps) \<Rightarrow> (if awaited then task_finally s1 else s1, ps))"
| "resume (TaskReply mode) f s = task_reply mode f s"
| "resume ControlReply f s = control_reply f s"
| "resume DecisionReply f s = decision_reply f s"
| "resume DecisionApprovals f s = (store_approvals f s, [])"

inductive sel_step :: "selector \<times> pending list \<Rightarrow> selector \<times> pending list \<Rightarrow> bool" where
  user: "act a s = (s', qs) \<Longrightarrow> sel_step (s, ps) (s', ps @ qs)"
| arrive: "i < length ps \<Longrightarrow> resume (ps ! i) f s = (s', qs) \<Longrightarrow> sel_step (s, ps) (s', take i ps @ drop (Suc i) ps @ qs)"

inductive_cases sel_stepE: "sel_step (s, ps) t"

lemmas selector_session_defs [js_defs] = plain_get_def plain_post_def issue_def sessions_url_def approvals_request_def reply_json_def
  store_approvals_def store_artifacts_def refreshAgentArtifacts_def refreshAgentApprovals_def describeAgentSessionEvent_def
  poll_request_def session_terminal_def pollAgentSessionEvents_def poll_finally_def poll_catch_def poll_merge_def
  poll_activity_def poll_advance_def poll_end_def poll_refused_def poll_payload_def poll_reply_def preferred_session_def
  stored_session_id_def choose_session_def use_cache_def initializeAgentSessions_def sessions_refused_def sessions_loaded_def
  sessions_reply_def task_finally_def task_begin_def task_request_def submitAgentTask_def refusal_text_def task_fail_def
  payload_of_def await_sessions_def task_accepted_def task_reply_def controlAgentSession_def control_reply_def
  resolveAgentApproval_def decision_reply_def select_change_def poll_next_def

section \<open>The flags\<close>

definition flags :: "selector \<Rightarrow> bool \<times> bool" where
  "flags s = (agentSessionPollInFlight s, agentTaskBusy s)"

lemma flags_flow: "flow s = flow t \<Longrightarrow> flags s = flags t"
  by (simp add: flags_def flow_def)

lemma flags_renderers [simp]:
  "flags (fst (renderAgentSessionPanel s)) = flags s" "flags (fst (renderAgentArtifacts s)) = flags s"
  "flags (fst (renderAgentTaskControls s)) = flags s" "flags (setAgentTaskMessage m e s) = flags s"
  "flags (ensureAgentSessionPanel s) = flags s" "flags (agentStorageSet k v s) = flags s" "flags (agentStorageRemove k s) = flags s"
  "flags (restoreAgentSessionCursor i s) = flags s" "flags (saveAgentSessionCursor s) = flags s" "flags (saveAgentSessionCache s) = flags s"
  by (rule flags_flow, simp)+

lemma flags_fields [simp]:
  "flags (s\<lparr>page := d\<rparr>) = flags s" "flags (s\<lparr>sent := rs\<rparr>) = flags s" "flags (s\<lparr>agentSessions := xs\<rparr>) = flags s"
  "flags (s\<lparr>agentSessionId := i\<rparr>) = flags s" "flags (s\<lparr>agentSessionPollBlocked := b\<rparr>) = flags s" "flags (s\<lparr>agentSessionPollTimer := b\<rparr>) = flags s"
  "flags (s\<lparr>agentSessionLastEvent := v\<rparr>) = flags s" "flags (s\<lparr>agentSessionActivity := xs\<rparr>) = flags s" "flags (s\<lparr>agentArtifacts := xs\<rparr>) = flags s"
  "flags (s\<lparr>agentApprovals := xs\<rparr>) = flags s" "flags (s\<lparr>agentSessionCursor := c\<rparr>) = flags s"
  "flags (s\<lparr>agentSessionPollInFlight := b\<rparr>) = (b, snd (flags s))" "flags (s\<lparr>agentTaskBusy := b\<rparr>) = (fst (flags s), b)"
  by (simp_all add: flags_def)

lemma flags_issue [simp]: "flags (issue rq s) = flags s"
  by (simp add: issue_def)

lemma flags_steps [simp]:
  "flags (store_approvals f s) = flags s" "flags (store_artifacts f s) = flags s" "flags (poll_catch s) = flags s"
  "flags (poll_finally s) = (False, snd (flags s))" "flags (poll_activity evs s) = flags s" "flags (poll_advance p s) = flags s"
  "flags (choose_session v s) = flags s" "flags (sessions_refused r s) = flags s" "flags (task_finally s) = (fst (flags s), False)"
  "flags (task_fail m d s) = (fst (flags s), False)" "flags (task_accepted mode p s) = flags s" "flags (fst (task_begin s)) = (fst (flags s), True)"
  by (auto simp: store_approvals_def store_artifacts_def poll_catch_def poll_finally_def poll_activity_def poll_advance_def
    choose_session_def sessions_refused_def task_finally_def task_fail_def task_accepted_def task_begin_def Let_def split: option.split)

lemma flags_render_eq: "renderAgentSessionPanel s = (t, b) \<Longrightarrow> flags t = flags s"
  using flags_renderers(1) [of s] by simp

lemma flags_poll_merge: "poll_merge p s = Some t \<Longrightarrow> flags t = flags s"
  by (auto simp: poll_merge_def Let_def split: if_splits option.splits)

lemma flags_poll_end [simp]: "flags (poll_end s) = (False, snd (flags s))"
  by (auto simp: poll_end_def dest: flags_render_eq split: prod.split)

lemma flags_poll_refused [simp]: "flags (poll_refused r s) = (False, snd (flags s))"
  by (auto simp: poll_refused_def dest: flags_render_eq split: prod.split)

section \<open>Chains in flight\<close>

fun is_poll :: "pending \<Rightarrow> bool" where
  "is_poll PollReply = True"
| "is_poll PollApprovals = True"
| "is_poll PollArtifacts = True"
| "is_poll _ = False"

fun is_task :: "pending \<Rightarrow> bool" where
  "is_task (SessionsReply b) = b"
| "is_task (TaskReply _) = True"
| "is_task ControlReply = True"
| "is_task _ = False"

definition polls :: "pending list \<Rightarrow> nat" where
  "polls ps = length (filter is_poll ps)"

definition tasks :: "pending list \<Rightarrow> nat" where
  "tasks ps = length (filter is_task ps)"

lemma chain_simps [simp]:
  "polls [] = 0" "polls (p # ps) = of_bool (is_poll p) + polls ps" "polls (ps @ qs) = polls ps + polls qs"
  "tasks [] = 0" "tasks (p # ps) = of_bool (is_task p) + tasks ps" "tasks (ps @ qs) = tasks ps + tasks qs"
  by (simp_all add: polls_def tasks_def)

text \<open>How a handler changes the flags: \<open>fresh r s\<close> for a handler that only opens a poll chain.\<close>

definition opens :: "selector \<Rightarrow> selector \<times> pending list \<Rightarrow> bool" where
  "opens s r = (case r of (t, qs) \<Rightarrow> of_bool (fst (flags t)) = of_bool (fst (flags s)) + polls qs \<and> snd (flags t) = snd (flags s) \<and> tasks qs = 0)"

lemma opens_poll: "opens s (pollAgentSessionEvents s)"
  by (simp add: opens_def pollAgentSessionEvents_def flags_def issue_def split: option.split)

lemma opens_flags: "flags s = flags t \<Longrightarrow> opens s r = opens t r"
  by (simp add: opens_def)

lemma opens_poll_flags: "flags s = flags t \<Longrightarrow> opens s (pollAgentSessionEvents t)"
  using opens_poll [of t] opens_flags [of s t] by blast

lemma opens_append: "opens s (t, qs) \<Longrightarrow> opens t (u, rs) \<Longrightarrow> opens s (u, qs @ rs)"
  by (simp add: opens_def)

lemma opens_quiet: "flags t = flags s \<Longrightarrow> polls qs = 0 \<Longrightarrow> tasks qs = 0 \<Longrightarrow> opens s (t, qs)"
  by (simp add: opens_def)

lemma opens_use_cache: "use_cache s = ((t, b), qs) \<Longrightarrow> opens s (t, qs)"
proof -
  assume u: "use_cache s = ((t, b), qs)"
  let ?c = "restoreAgentSessionCache s"
  show ?thesis
  proof (cases "agentSessions s \<noteq> [] \<or> ?c = []")
    case True
    have "use_cache s = ((s, True), [])" unfolding use_cache_def Let_def by (simp only: if_P [OF True])
    then show ?thesis using u by (simp add: opens_quiet)
  next
    case False
    show ?thesis
    proof (cases "preferred_session (stored_session_id s) ?c")
      case None
      then have "use_cache s = ((s\<lparr>agentSessions := ?c\<rparr>, False), [])" using False by (simp add: use_cache_def Let_def)
      then have "t = s\<lparr>agentSessions := ?c\<rparr>" "qs = []" using u by simp_all
      then show ?thesis by (simp add: opens_quiet)
    next
    case v: (Some v)
    obtain s1 b1 where r: "renderAgentSessionPanel (choose_session v (s\<lparr>agentSessions := ?c\<rparr>)) = (s1, b1)" by fastforce
    then have f: "flags s1 = flags s" using flags_render_eq by fastforce
    obtain s2 ps where p: "pollAgentSessionEvents s1 = (s2, ps)" by fastforce
    have "use_cache s = (if b1 then ((s2, True), ps) else ((s1, False), []))"
      using False v r p by (simp add: use_cache_def Let_def)
    then show ?thesis
      using u p f opens_poll_flags [of s s1] by (cases b1) (simp_all add: opens_quiet)
    qed
  qed
qed

lemma opens_initialize:
  assumes "initializeAgentSessions w s = ((t, b), qs)"
  shows "\<exists>ps. opens s (t, ps) \<and> qs = ps @ (if b then [SessionsReply w] else [])"
proof -
  obtain s1 b1 ps where u: "use_cache (ensureAgentSessionPanel s) = ((s1, b1), ps)" by (metis prod.exhaust)
  have o: "opens s (s1, ps)" using opens_use_cache [OF u] opens_flags [of "ensureAgentSessionPanel s" s] by simp
  obtain s2 b2 where r: "renderAgentSessionPanel s1 = (s2, b2)" by fastforce
  have f: "flags s2 = flags s1" using r by (rule flags_render_eq)
  have "opens s (s2, ps)" "opens s (issue (plain_get ''/v1/agents/sessions?limit=50'') s2, ps)"
    using o f by (simp_all add: opens_def)
  then show ?thesis
    using assms u r o by (cases b1; cases b2) (auto simp: initializeAgentSessions_def)
qed

lemma opens_sessions_reply: "opens s (sessions_reply f s)"
proof -
  have loaded: "opens s (sessions_loaded xs s)" for xs
  proof -
    let ?s1 = "(saveAgentSessionCache (s\<lparr>agentSessions := xs\<rparr>))\<lparr>agentSessionPollBlocked := False\<rparr>"
    show ?thesis
    proof (cases "preferred_session (stored_session_id ?s1) xs")
      case None
      then show ?thesis by (simp add: sessions_loaded_def Let_def opens_quiet)
    next
      case (Some v)
      let ?i = "str_of_or (safe_prop v ''session_id'') []"
      let ?s2 = "restoreAgentSessionCursor ?i (agentStorageSet ''cm_agent_session_id'' ?i (?s1\<lparr>agentSessionId := ?i\<rparr>))"
      obtain s3 b where r: "renderAgentSessionPanel ?s2 = (s3, b)" by fastforce
      have f: "flags s3 = flags s" using flags_render_eq [OF r] by simp
      obtain s4 ps where p: "pollAgentSessionEvents (issue approvals_request s3) = (s4, ps)" by fastforce
      have "opens s (s4, ps)" using opens_poll_flags [of s "issue approvals_request s3"] f p by simp
      then show ?thesis using Some r p f by (cases b) (auto simp: sessions_loaded_def Let_def opens_def)
    qed
  qed
  then show ?thesis
    by (auto simp: sessions_reply_def Let_def intro: opens_quiet split: fetched.split option.split)
qed

lemma opens_select: "opens s (select_change i s)"
proof -
  let ?s1 = "(restoreAgentSessionCursor i (s\<lparr>agentSessionId := i, agentSessionPollBlocked := False\<rparr>))
            \<lparr>agentSessionLastEvent := Str [], agentSessionActivity := [], agentArtifacts := []\<rparr>"
  obtain s2 b where r: "renderAgentSessionPanel ?s1 = (s2, b)" by fastforce
  have f: "flags s2 = flags s" using flags_render_eq [OF r] by simp
  obtain s3 ps where a: "refreshAgentArtifacts s2 = (s3, ps)" by fastforce
  have o: "opens s (s3, ps)" using a f by (auto simp: refreshAgentArtifacts_def opens_def split: if_splits)
  obtain s4 qs where p: "pollAgentSessionEvents s3 = (s4, qs)" by fastforce
  have "opens s3 (s4, qs)" using opens_poll [of s3] p by simp
  then have "opens s (s4, ps @ qs)" by (rule opens_append [OF o])
  then show ?thesis using r f a p by (cases b) (auto simp: select_change_def Let_def opens_quiet)
qed

text \<open>Opening and closing a task chain.\<close>

definition balanced :: "bool \<Rightarrow> bool \<Rightarrow> selector \<Rightarrow> selector \<times> pending list \<Rightarrow> bool" where
  "balanced p t s r = (case r of (s', qs) \<Rightarrow>
     of_bool (fst (flags s')) + of_bool p = of_bool (fst (flags s)) + polls qs \<and>
     (if \<not> t then (tasks qs = 0 \<and> snd (flags s') = snd (flags s)) \<or> (\<not> snd (flags s) \<and> snd (flags s') \<and> tasks qs \<le> 1)
      else tasks qs = 0 \<or> (tasks qs = 1 \<and> (snd (flags s) \<longrightarrow> snd (flags s')))))"

lemma balanced_opens: "opens s r \<Longrightarrow> balanced False False s r"
  by (auto simp: opens_def balanced_def split: prod.splits)

lemma balanced_submit: "balanced False False s (submitAgentTask m s)"
proof (cases "agentTaskBusy s \<or> page s ''agentTaskPrompt'' = None \<or> \<not> truthy (selectedModel s) \<or> prompt_text s = []")
  case True
  then show ?thesis by (auto simp: submitAgentTask_def balanced_def)
next
  case False
  obtain s1 b where t: "task_begin s = (s1, b)" by fastforce
  have "flags s1 = (fst (flags s), True)" using flags_steps(12) [of s] t by simp
  moreover have "\<not> snd (flags s)" using False by (simp add: flags_def)
  ultimately show ?thesis using False t by (auto simp: submitAgentTask_def balanced_def split: option.split)
qed

lemma balanced_control: "balanced False False s (controlAgentSession a s)"
proof (cases "agentTaskBusy s \<or> agentSessionId s = []")
  case True
  then show ?thesis by (auto simp: controlAgentSession_def balanced_def)
next
  case False
  obtain s1 b where t: "task_begin s = (s1, b)" by fastforce
  have "flags s1 = (fst (flags s), True)" using flags_steps(12) [of s] t by simp
  moreover have "\<not> snd (flags s)" using False by (simp add: flags_def)
  ultimately show ?thesis using False t by (auto simp: controlAgentSession_def balanced_def)
qed

lemma balanced_await: "flags t = flags s \<Longrightarrow> balanced False True s (await_sessions d t)"
proof -
  assume f: "flags t = flags s"
  obtain u b qs where i: "initializeAgentSessions True t = ((u, b), qs)" by (metis prod.exhaust)
  obtain ps where "opens t (u, ps)" "qs = ps @ (if b then [SessionsReply True] else [])" using opens_initialize [OF i] by blast
  then show ?thesis using i f by (cases b) (auto simp: await_sessions_def opens_def balanced_def)
qed

lemma balanced_task_reply: "balanced False True s (task_reply m f s)"
  unfolding task_reply_def Let_def
  by (cases f) (auto intro!: balanced_await simp: balanced_def [of _ _ _ "(_, [])"])

lemma balanced_control_reply: "balanced False True s (control_reply f s)"
  unfolding control_reply_def Let_def
  by (cases f) (auto intro!: balanced_await simp: balanced_def [of _ _ _ "(_, [])"])

lemma balanced_poll_reply: "fst (flags s) \<Longrightarrow> balanced True False s (poll_reply f s)"
  by (auto simp: poll_reply_def poll_payload_def balanced_def dest: flags_poll_merge split: fetched.split option.split)

lemma balanced_act: "balanced False False s (act a s)"
proof (cases a)
  case Timer
  have "opens s (pollAgentSessionEvents (s\<lparr>agentSessionPollTimer := False\<rparr>))" by (rule opens_poll_flags) simp
  then show ?thesis using Timer by (auto simp: balanced_opens opens_quiet)
next
  case Start
  obtain u b qs where i: "initializeAgentSessions False s = ((u, b), qs)" by (metis prod.exhaust)
  obtain ps where "opens s (u, ps)" "qs = ps @ (if b then [SessionsReply False] else [])" using opens_initialize [OF i] by blast
  then show ?thesis using Start i by (auto simp: opens_def balanced_def)
qed (auto simp: balanced_submit balanced_control resolveAgentApproval_def intro!: balanced_opens opens_select opens_quiet)

lemma balanced_poll_next: "fst (flags s) \<Longrightarrow> flags t = flags s \<Longrightarrow> balanced True False s (poll_next t)"
  by (simp add: balanced_def poll_next_def)

lemma balanced_decision: "balanced False False s (decision_reply f s)"
  by (simp add: balanced_def decision_reply_def)

lemma balanced_resume:
  assumes "is_poll p \<Longrightarrow> fst (flags s)"
  shows "balanced (is_poll p) (is_task p) s (resume p f s)"
proof (cases p)
  case (SessionsReply w)
  then show ?thesis using opens_sessions_reply [of s f] by (auto simp: opens_def balanced_def split: prod.splits)
next
  case PollArtifacts
  then show ?thesis using assms by (simp add: balanced_def)
next
  case PollApprovals
  then show ?thesis using assms balanced_poll_next [of s] by simp
qed (use assms in \<open>auto simp: balanced_task_reply balanced_control_reply balanced_poll_reply balanced_decision intro!: balanced_opens opens_quiet\<close>)

section \<open>Mutual exclusion\<close>

text \<open>The invariant: at most one poll chain is in flight and the flag says so; at most one task chain, and only while the
  busy flag is set.\<close>

definition exclusive :: "selector \<times> pending list \<Rightarrow> bool" where
  "exclusive c = (case c of (s, ps) \<Rightarrow> polls ps = of_bool (agentSessionPollInFlight s) \<and> tasks ps \<le> of_bool (agentTaskBusy s))"

lemma exclusive_flags: "exclusive (s, ps) \<longleftrightarrow> polls ps = of_bool (fst (flags s)) \<and> tasks ps \<le> of_bool (snd (flags s))"
  by (simp add: exclusive_def flags_def)

lemma polls_remove: "i < length ps \<Longrightarrow> polls ps = of_bool (is_poll (ps ! i)) + polls (take i ps @ drop (Suc i) ps)"
  by (subst id_take_nth_drop [of i ps]) auto

lemma tasks_remove: "i < length ps \<Longrightarrow> tasks ps = of_bool (is_task (ps ! i)) + tasks (take i ps @ drop (Suc i) ps)"
  by (subst id_take_nth_drop [of i ps]) auto

lemma exclusive_step:
  assumes "sel_step c d" and "exclusive c"
  shows "exclusive d"
  using assms(1)
proof cases
  case (user a s s' qs ps)
  have "balanced False False s (s', qs)" using balanced_act [of s a] user(3) by simp
  then show ?thesis using assms(2) user by (auto simp: exclusive_flags balanced_def split: if_splits)
next
  case (arrive i ps f s s' qs)
  let ?p = "ps ! i" and ?r = "take i ps @ drop (Suc i) ps"
  have e: "polls ps = of_bool (fst (flags s))" "tasks ps \<le> of_bool (snd (flags s))"
    using assms(2) arrive(1) by (simp_all add: exclusive_flags)
  have r: "polls ps = of_bool (is_poll ?p) + polls ?r" "tasks ps = of_bool (is_task ?p) + tasks ?r"
    using arrive(3) by (rule polls_remove, rule tasks_remove)
  have f: "is_poll ?p \<Longrightarrow> fst (flags s)" using e(1) r(1) by (cases "fst (flags s)") auto
  have "balanced (is_poll ?p) (is_task ?p) s (s', qs)" using balanced_resume [of "ps ! i" s f] f arrive(4) by simp
  then have "polls (?r @ qs) = of_bool (fst (flags s'))" "tasks (?r @ qs) \<le> of_bool (snd (flags s'))"
    using e r by (auto simp: balanced_def of_bool_def split: if_splits)
  then show ?thesis using arrive(2) by (simp add: exclusive_flags)
qed

lemma exclusive_steps: "sel_step\<^sup>*\<^sup>* c d \<Longrightarrow> exclusive c \<Longrightarrow> exclusive d"
  by (induction rule: rtranclp_induct) (auto intro: exclusive_step)

section \<open>Rendering and storage\<close>

definition stores :: "'a browser_scheme \<Rightarrow> storage \<times> storage" where
  "stores s = (localStorage s, sessionStorage s)"

lemma stores_get: "stores s = stores t \<Longrightarrow> agentStorageGet k s = agentStorageGet k t"
  by (simp add: stores_def agentStorageGet_def cong: option.case_cong)

lemma stores_fields [simp]:
  fixes s :: "'a selector_scheme"
  shows "stores (s\<lparr>page := d\<rparr>) = stores s" "stores (s\<lparr>agentArtifacts := xs\<rparr>) = stores s" "stores (s\<lparr>agentSessionId := i\<rparr>) = stores s"
    "stores (s\<lparr>agentSessionCursor := c\<rparr>) = stores s" "stores (s\<lparr>agentSessions := xs\<rparr>) = stores s" "stores (s\<lparr>agentSessionPanelOpen := b\<rparr>) = stores s"
  by (simp_all add: stores_def)

lemma stores_and_then: "(\<And>t. stores (fst (f t)) = stores t) \<Longrightarrow> stores (fst (and_then r f)) = stores (fst r)"
  by (cases r) (auto simp: and_then_def split: bool.split)

lemma stores_list_panel [simp]: "stores (fst (list_panel i h n row xs s)) = stores s"
  by (simp add: list_panel_def split: prod.split)

lemma stores_renderers [simp]:
  "stores (fst (renderAgentArtifacts s)) = stores s" "stores (fst (renderAgentSessionActivity s)) = stores s"
  "stores (fst (renderAgentApprovals s)) = stores s" "stores (fst (renderAgentTaskControls s)) = stores s"
  "stores (fst (show_status s)) = stores s" "stores (keep_selection opts s) = stores s"
  by (simp_all add: renderAgentArtifacts_def renderAgentSessionActivity_def renderAgentApprovals_def renderAgentTaskControls_def
    set_control_def show_status_def keep_selection_def restoreAgentSessionCursor_def Let_def split: option.split)

lemma stores_show_empty [simp]: "stores (fst (show_empty_panel s)) = stores s"
  by (simp add: show_empty_panel_def Let_def stores_and_then)

lemma stores_new_elems [simp]:
  fixes s :: "'a selector_scheme"
  shows "stores (fold (\<lambda>(i, e). new_elem i e) es s) = stores s"
  by (induction es arbitrary: s) auto

lemma get_ensure:
  assumes "k \<noteq> panel_open_key"
  shows "agentStorageGet k (ensureAgentSessionPanel s) = agentStorageGet k s"
proof -
  have op: "agentStorageGet k (setAgentSessionPanelOpen b t) = agentStorageGet k t" for b and t :: "'a selector_scheme"
    using assms by (auto simp: setAgentSessionPanelOpen_def Let_def put_local_def agentStorageGet_def storage_defs split: option.split)
  show ?thesis
    unfolding ensureAgentSessionPanel_def Let_def by (auto simp: op intro: stores_get)
qed

lemma get_panel:
  assumes "k \<noteq> panel_open_key"
  shows "agentStorageGet k (fst (renderAgentSessionPanel s)) = agentStorageGet k s"
proof -
  have "stores (fst (renderAgentSessionPanel s)) = stores (ensureAgentSessionPanel s)"
    by (simp add: renderAgentSessionPanel_def Let_def stores_and_then split: prod.split)
  then show ?thesis using get_ensure [OF assms] by (metis stores_get)
qed

lemma cache_not_panel: "cache_key \<noteq> panel_open_key"
  by (simp add: cache_key_def panel_open_key_def)

section \<open>The selected id\<close>

lemma id_and_then:
  "(\<And>t. agentSessionId (fst (f t)) = agentSessionId t) \<Longrightarrow> agentSessionId (fst (and_then r f)) = agentSessionId (fst r)"
  by (cases r) (auto simp: and_then_def split: bool.split)

lemma id_list_panel [simp]: "agentSessionId (fst (list_panel i h n row xs s)) = agentSessionId s"
  by (simp add: list_panel_def split: prod.split)

lemma id_renderers [simp]:
  "agentSessionId (fst (renderAgentArtifacts s)) = agentSessionId s" "agentSessionId (fst (renderAgentSessionActivity s)) = agentSessionId s"
  "agentSessionId (fst (renderAgentApprovals s)) = agentSessionId s" "agentSessionId (fst (renderAgentTaskControls s)) = agentSessionId s"
  by (simp_all add: renderAgentArtifacts_def renderAgentSessionActivity_def renderAgentApprovals_def renderAgentTaskControls_def
    set_control_def Let_def split: option.split)

lemma id_new_elems [simp]:
  fixes s :: "'a selector_scheme"
  shows "agentSessionId (fold (\<lambda>(i, e). new_elem i e) es s) = agentSessionId s"
  by (induction es arbitrary: s) auto

lemma id_ensure [simp]: "agentSessionId (ensureAgentSessionPanel s) = agentSessionId s"
  by (simp add: ensureAgentSessionPanel_def setAgentSessionPanelOpen_def put_local_def Let_def)

lemma sessions_ensure [simp]: "agentSessions (ensureAgentSessionPanel s) = agentSessions s"
  by (rule flow_eqD(5)) simp

lemma id_panel_empty: "agentSessions s = [] \<Longrightarrow> agentSessionId (fst (renderAgentSessionPanel s)) = agentSessionId s"
  by (simp add: renderAgentSessionPanel_def show_empty_panel_def Let_def id_and_then)

section \<open>Properties\<close>

text \<open>C8. Mutual exclusion: in every interleaving of clicks, session switches, timers and replies that starts with nothing in
  flight, at most one poll chain is in flight, exactly when the in-flight flag is set, and at most one task or
  control action is in flight, and only while the busy flag is set.\<close>

theorem polls_and_tasks_exclusive:
  assumes "sel_step\<^sup>*\<^sup>* (s, []) (s', ps)" and "\<not> agentSessionPollInFlight s"
  shows "polls ps \<le> 1 \<and> (polls ps = 1 \<longleftrightarrow> agentSessionPollInFlight s') \<and> tasks ps \<le> 1 \<and> (tasks ps = 1 \<longrightarrow> agentTaskBusy s')"
proof -
  have "exclusive (s, [])" using assms(2) by (simp add: exclusive_def)
  then have "exclusive (s', ps)" by (rule exclusive_steps [OF assms(1)])
  then show ?thesis by (auto simp: exclusive_def of_bool_def split: if_splits)
qed

definition polling :: selector where
  "polling = selector0\<lparr>has_body := False, agentSessionId := ''a'', agentSessionPollTimer := True,
     agentSessions := [Obj [(''session_id'', Str ''a''), (''status'', Str ''running'')], Obj [(''session_id'', Str ''b''), (''status'', Str ''running'')]]\<rparr>"

lemma polling_timer: "\<exists>s. act Timer polling = (s, [PollReply]) \<and> agentSessionPollInFlight s"
  by (simp add: polling_def selector0_def browser.defs pollAgentSessionEvents_def issue_def field_def)

theorem polls_and_tasks_exclusive_witness:
  "\<exists>s'. sel_step\<^sup>*\<^sup>* (polling, []) (s', [PollReply]) \<and> agentSessionPollInFlight s'"
proof -
  obtain s1 where s1: "act Timer polling = (s1, [PollReply])" using polling_timer by blast
  then have st: "sel_step\<^sup>*\<^sup>* (polling, []) (s1, [PollReply])" using sel_step.user [OF s1, of "[]"] by simp
  have "\<not> agentSessionPollInFlight polling" by (simp add: polling_def selector0_def browser.defs)
  with polls_and_tasks_exclusive [OF st] have "agentSessionPollInFlight s1" by simp
  then show ?thesis using st by blast
qed

text \<open>C23. A refused session list: when the gateway answers the session list with 401 or 403, the client forgets the sessions,
  the selected id and, with working storage, the cached list, so nothing of the former user is restored.\<close>

theorem unauthorised_forgets_sessions:
  assumes "status r \<in> {401, 403}" and "local_usable s"
  shows "case sessions_reply (Resp r) s of (s', ps) \<Rightarrow>
    agentSessions s' = [] \<and> agentSessionId s' = [] \<and> restoreAgentSessionCache s' = [] \<and> ps = []"
proof -
  let ?t = "agentStorageRemove cache_key (s\<lparr>agentSessions := [], agentSessionId := []\<rparr>)"
  have "\<not> ok r" using assms(1) by (auto simp: ok_def)
  then have r: "sessions_reply (Resp r) s = (fst (renderAgentSessionPanel ?t), [])"
    using assms(1) by (simp add: sessions_reply_def sessions_refused_def)
  have "local_usable (s\<lparr>agentSessions := [], agentSessionId := []\<rparr>)" using assms(2) by (simp add: local_usable_def)
  then have "agentStorageGet cache_key ?t = None" by (rule agent_storage.get_del)
  then have g: "agentStorageGet cache_key (fst (renderAgentSessionPanel ?t)) = None" by (simp add: get_panel cache_not_panel)
  have a: "agentSessions ?t = []" "agentSessionId ?t = []" by (simp_all add: agentStorageRemove_def)
  have "agentSessions (fst (renderAgentSessionPanel ?t)) = agentSessions ?t" by (rule flow_eqD(5)) simp
  moreover have "agentSessionId (fst (renderAgentSessionPanel ?t)) = []" using id_panel_empty [OF a(1)] a(2) by simp
  ultimately show ?thesis using r g a by (simp add: restoreAgentSessionCache_def item_text_def)
qed

theorem unauthorised_forgets_sessions_witness:
  "let r = \<lparr>status = 401, ctype = [], rheaders = Map.empty, rtext = []\<rparr> in agentSessions (fst (sessions_reply (Resp r) polling)) = []"
proof -
  let ?r = "\<lparr>status = 401, ctype = [], rheaders = Map.empty, rtext = []\<rparr>"
  have "local_usable polling" by (simp add: polling_def selector0_def browser.defs local_usable_def)
  then show ?thesis
    using unauthorised_forgets_sessions [of ?r polling] by (simp add: Let_def split: prod.splits)
qed

lemma get_issue [simp]: "agentStorageGet k (issue rq s) = agentStorageGet k s"
  by (rule stores_get) (simp add: issue_def stores_def)

lemma of_bool_SucD: "of_bool b = Suc n \<Longrightarrow> b"
  by (cases b) auto

lemma poll_activity_frame [simp]:
  "agentSessionId (poll_activity evs s) = agentSessionId s" "agentSessionCursor (poll_activity evs s) = agentSessionCursor s"
  "local_usable (poll_activity evs s) = local_usable s"
  by (simp_all add: poll_activity_def local_usable_def Let_def)

text \<open>The stale-poll race of the selector: a poll issued for one session whose reply arrives after the user switched to
  session \<open>b\<close> raises \<open>b\<close>'s cursor to the other session's sequence number and stores it under \<open>b\<close>'s key: the events of \<open>b\<close> up to
  that number are skipped, also after a reload.\<close>

theorem stale_poll_moves_cursor:
  assumes "agentSessionPollInFlight s0" and "s = fst (select_change b s0)" and "agentSessionId s = b" and "local_usable s"
    and "ok r" and "rjson r = Some (Obj kvs)" and "\<not> truthy (field kvs ''session'')"
    and "field kvs ''next_sequence'' = Num (Fin (of_nat n))" and "agentSessionCursor s = Fin (of_nat m)" and "m < n"
    and "s' = fst (resume PollReply (Resp r) s)"
  shows "agentSessionPollInFlight s \<and> agentSessionId s' = b \<and> agentSessionCursor s' = Fin (of_nat n) \<and>
    agentSessionCursor (restoreAgentSessionCursor b s') = Fin (of_nat n)"
proof -
  have fl: "agentSessionPollInFlight s"
    using opens_select [of s0 b] assms(1,2) by (cases "select_change b s0") (auto simp: opens_def flags_def dest: of_bool_SucD)
  let ?t = "poll_activity (arr_or_empty (and_prop (Obj kvs) ''events'')) s"
  let ?u = "?t\<lparr>agentSessionCursor := Fin (of_nat n)\<rparr>"
  have mx: "num_max (Fin (of_nat m)) (Fin (of_nat n)) = Fin (of_nat n)" using assms(10) by (simp add: num_max_def)
  have s': "s' = issue approvals_request (saveAgentSessionCursor ?u)"
    using assms(5-9,11) mx by (simp add: poll_reply_def poll_payload_def poll_merge_def poll_advance_def and_prop_def is_finite_def Let_def)
  have g: "agentStorageGet (agentSessionStorageKey b) s' = Some (nat_str n)"
  proof -
    have u: "local_usable ?u" using assms(4) poll_activity_frame(3) [of "arr_or_empty (and_prop (Obj kvs) ''events'')" s] by (simp add: local_usable_def)
    have "agentStorageGet (agentSessionStorageKey b) (saveAgentSessionCursor ?u) = Some (nat_str n)"
      unfolding saveAgentSessionCursor_def using agent_storage.get_put [OF u] assms(3) by simp
    then show ?thesis by (simp add: s')
  qed
  have "agentSessionId s' = b" "agentSessionCursor s' = Fin (of_nat n)"
    using assms(3) by (simp_all add: s' issue_def saveAgentSessionCursor_def)
  then show ?thesis using fl restore_after_write [OF g] by simp
qed

definition seq_reply :: "nat \<Rightarrow> response" where
  "seq_reply n = \<lparr>status = 200, ctype = ''application/json'', rheaders = Map.empty, rtext = stringify (Obj [(''next_sequence'', Num (Fin (of_nat n)))])\<rparr>"

theorem stale_poll_moves_cursor_witness:
  "let s = fst (select_change ''b'' (fst (act Timer polling))) in
   agentSessionCursor s = Fin 0 \<and> agentSessionCursor (fst (resume PollReply (Resp (seq_reply 7)) s)) = Fin 7"
proof -
  let ?before = "fst (act Timer polling)"
  let ?after = "fst (select_change ''b'' ?before)"
  have q: "agentSessionId polling = ''a''" "\<not> agentSessionPollInFlight polling" "\<not> agentSessionPollBlocked polling"
    "agentSessionLastEvent polling = Str []" "agentSessionPollTimer polling"
    "find_session ''a'' (agentSessions polling) = Some (Obj [(''session_id'', Str ''a''), (''status'', Str ''running'')])"
    by (simp_all add: polling_def selector0_def browser.defs field_def)
  then obtain rq where s0: "?before = polling\<lparr>agentSessionPollTimer := False, agentSessionPollInFlight := True, sent := sent polling @ [rq]\<rparr>"
    by (simp add: pollAgentSessionEvents_def issue_def)
  have p: "page ?before = Map.empty" "\<not> has_body ?before" "agentSessionPollInFlight ?before" "local_usable ?before"
    "items (localStorage ?before) = Map.empty" "items (sessionStorage ?before) = Map.empty"
    unfolding s0 by (simp_all add: polling_def selector0_def browser.defs local_usable_def)
  have c: "agentStorageGet (agentSessionStorageKey ''b'') (?before\<lparr>agentSessionId := ''b'', agentSessionPollBlocked := False\<rparr>) = None"
    using p by (simp add: agentStorageGet_def storage_defs)
  have "agentSessionId ?after = ''b'' \<and> agentSessionCursor ?after = Fin 0 \<and> localStorage ?after = localStorage ?before"
    using p c by (simp add: select_change_def renderAgentSessionPanel_def ensureAgentSessionPanel_def refreshAgentArtifacts_def issue_def
      pollAgentSessionEvents_def restoreAgentSessionCursor_def item_text_def is_finite_def num_floor_def Let_def)
  moreover have "rjson (seq_reply 7) = Some (Obj [(''next_sequence'', Num (Fin (of_nat 7)))])" "ok (seq_reply 7)"
    using json_round_trip [of "Obj [(''next_sequence'', Num (Fin (of_nat 7)))]"] by (simp_all add: rjson_def seq_reply_def ok_def)
  ultimately show ?thesis
    using stale_poll_moves_cursor [OF p(3) refl, of "''b''" "seq_reply 7" "[(''next_sequence'', Num (Fin (of_nat 7)))]" 7 0] p(4)
    by (simp add: field_def local_usable_def Let_def)
qed

text \<open>Buttons agree with actions: after the controls were rendered, the create button is enabled exactly when a click sends a
  request; the continue button is enabled exactly when a click would send one given a selected model. Without a selected
  model an enabled continue button does nothing.\<close>

theorem task_buttons_agree:
  assumes "renderAgentTaskControls s = (s', True)" and "\<forall>i \<in> set task_elements. page s i \<noteq> None"
  shows "(\<not> disabled (the (page s' ''agentTaskCreateButton'')) \<longleftrightarrow> snd (submitAgentTask ''create'' s') = [TaskReply ''create'']) \<and>
    (\<not> disabled (the (page s' ''agentTaskContinueButton'')) \<and> truthy (selectedModel s') \<longleftrightarrow>
       snd (submitAgentTask ''continue'' s') = [TaskReply ''continue'']) \<and>
    (\<not> truthy (selectedModel s') \<longrightarrow> submitAgentTask ''continue'' s' = (s', []))"
proof -
  obtain sel where sel: "find_session (agentSessionId s) (agentSessions s) = Some sel"
    using assms by (cases "find_session (agentSessionId s) (agentSessions s)") (auto simp: renderAgentTaskControls_def)
  have f: "flow s' = flow s" using flow_controls [of s] assms(1) by simp
  have i: "agentSessionId s' = agentSessionId s" using id_renderers(4) [of s] assms(1) by simp
  note fl = flow_eqD [OF f]
  have p: "\<forall>i \<in> set task_elements. page s' i \<noteq> None" "page s' ''agentTaskPrompt'' = page s ''agentTaskPrompt''"
    using assms sel by (auto simp: renderAgentTaskControls_def set_control_def task_elements_def Let_def upd_elem_def split: option.splits)
  have b: "snd (task_begin s')"
    using p(1) sel i fl by (auto simp: task_begin_def renderAgentTaskControls_def setAgentTaskMessage_def task_elements_def Let_def
      split: option.splits)
  have d: "disabled (the (page s' ''agentTaskCreateButton'')) \<longleftrightarrow> agentTaskBusy s \<or> prompt_text s = [] \<or> \<not> truthy (selectedModel s)"
    "disabled (the (page s' ''agentTaskContinueButton'')) \<longleftrightarrow> agentTaskBusy s \<or> prompt_text s = [] \<or> \<not> (truthy sel \<and> status_of sel = ''ready'')"
    using assms sel by (auto simp: renderAgentTaskControls_def set_control_def task_elements_def Let_def)
  have pr: "prompt_text s' = prompt_text s" using p(2) by (simp add: prompt_text_def)
  obtain s1 where s1: "task_begin s' = (s1, True)" using b by (cases "task_begin s'") simp
  have pp: "page s' ''agentTaskPrompt'' \<noteq> None" using p(1) by (simp add: task_elements_def)
  have sub: "submitAgentTask m s' = (if agentTaskBusy s \<or> \<not> truthy (selectedModel s) \<or> prompt_text s = [] then (s', [])
      else if m = ''continue'' \<and> \<not> (truthy sel \<and> status_of sel = ''ready'') then (s', [])
      else (issue (task_request m (prompt_text s) s') s1, [TaskReply m]))" for m
    using pp s1 sel by (auto simp: submitAgentTask_def fl i pr)
  show ?thesis unfolding sub d fl(6) by auto
qed

definition ready_panel :: selector where
  "ready_panel = selector0\<lparr>agentSessionId := ''a'', agentSessions := [Obj [(''session_id'', Str ''a''), (''status'', Str ''ready'')]],
     page := map_of ((''agentTaskPrompt'', blank\<lparr>val := ''do it''\<rparr>) # map (\<lambda>i. (i, blank)) task_elements)\<rparr>"

theorem task_buttons_agree_witness:
  "\<exists>s'. renderAgentTaskControls ready_panel = (s', True) \<and> submitAgentTask ''continue'' s' = (s', [])"
proof -
  let ?v = "Obj [(''session_id'', Str ''a''), (''status'', Str ''ready'')]"
  have e: "\<forall>i \<in> set task_elements. page ready_panel i \<noteq> None" by (simp add: ready_panel_def task_elements_def)
  have "find_session (agentSessionId ready_panel) (agentSessions ready_panel) = Some ?v"
    by (simp add: ready_panel_def field_def)
  then obtain s' where r: "renderAgentTaskControls ready_panel = (s', True)"
    using e by (auto simp: renderAgentTaskControls_def Let_def)
  have "flow s' = flow ready_panel" using flow_controls [of ready_panel] unfolding r by simp
  then have "selectedModel s' = selectedModel ready_panel" by (rule flow_eqD(6))
  also have "\<dots> = Null" by (simp add: ready_panel_def selector0_def browser.defs)
  finally show ?thesis using task_buttons_agree [OF r e] r by simp
qed

end
