(* ===== verification/SelectorPool.thy ===== *)
theory SelectorPool
  imports JsPrelude
begin

text \<open>
  The worker pool \<^verbatim>\<open>mapWithConcurrency(items, limit, mapper)\<close> of \<^verbatim>\<open>src/portal/webui/model-selector.js\<close> (lines 385 to 397). Every
  worker runs up to its first \<^verbatim>\<open>await\<close> when it is created; afterwards the mapper's promises settle in any order. A state
  records the shared index, the result array (holes are \<^const>\<open>None\<close>), the items whose mapper is under way, and whether
  some mapper was rejected. The relation \<open>R\<close> says which outcomes the mapper can have on an item; \<^const>\<open>None\<close> is a rejection.
\<close>

record 'b pool =
  nextIndex :: nat
  results :: "'b option list"
  running :: "nat list"
  rejected :: bool

definition workerCount :: "nat \<Rightarrow> nat \<Rightarrow> nat" where
  "workerCount limit n = min (max 1 limit) n"

definition pool_start :: "nat \<Rightarrow> nat \<Rightarrow> 'b pool" where
  "pool_start limit n = \<lparr>nextIndex = workerCount limit n, results = replicate n None, running = [0..<workerCount limit n], rejected = False\<rparr>"

text \<open>A worker whose mapper call for item \<open>i\<close> settles: it stores the result and takes the next item, or it ends.\<close>

definition worker :: "nat \<Rightarrow> 'b option \<Rightarrow> 'b pool \<Rightarrow> 'b pool" where
  "worker i out p = (case out of
     None \<Rightarrow> p\<lparr>running := remove1 i (running p), rejected := True\<rparr>
   | Some r \<Rightarrow> let q = p\<lparr>results := (results p)[i := Some r], running := remove1 i (running p)\<rparr> in
       if nextIndex p < length (results p) then q\<lparr>running := running q @ [nextIndex p], nextIndex := Suc (nextIndex p)\<rparr> else q)"

inductive pool_step :: "(nat \<Rightarrow> 'b option \<Rightarrow> bool) \<Rightarrow> 'b pool \<Rightarrow> 'b pool \<Rightarrow> bool" for R where
  settle: "i \<in> set (running p) \<Longrightarrow> R i out \<Longrightarrow> pool_step R p (worker i out p)"

text \<open>The awaited \<^verbatim>\<open>Promise.all\<close>: fulfilled when every worker has ended, rejected as soon as one is.\<close>

definition pool_done :: "'b pool \<Rightarrow> bool" where
  "pool_done p = (running p = [] \<and> \<not> rejected p)"

inductive_cases pool_stepE: "pool_step R p q"

section \<open>Invariant\<close>

definition pool_inv :: "(nat \<Rightarrow> 'b option \<Rightarrow> bool) \<Rightarrow> nat \<Rightarrow> nat \<Rightarrow> 'b pool \<Rightarrow> bool" where
  "pool_inv R limit n p \<longleftrightarrow> length (results p) = n \<and> nextIndex p \<le> n \<and> distinct (running p) \<and>
     set (running p) \<subseteq> {..<nextIndex p} \<and> length (running p) \<le> workerCount limit n \<and>
     (\<forall>i < n. \<forall>r. results p ! i = Some r \<longrightarrow> R i (Some r)) \<and>
     (\<not> rejected p \<longrightarrow> (\<forall>i < nextIndex p. i \<notin> set (running p) \<longrightarrow> results p ! i \<noteq> None)) \<and>
     (\<not> rejected p \<longrightarrow> nextIndex p < n \<longrightarrow> length (running p) = workerCount limit n)"

lemma pool_inv_start: "pool_inv R limit n (pool_start limit n)"
  by (auto simp: pool_inv_def pool_start_def workerCount_def)

lemma length_remove1_Suc: "x \<in> set xs \<Longrightarrow> Suc (length (remove1 x xs)) = length xs"
  by (simp add: length_remove1) (metis Suc_pred length_pos_if_in_set)

lemma pool_inv_worker:
  assumes inv: "pool_inv R limit n p" and i: "i \<in> set (running p)" and R: "R i out"
  shows "pool_inv R limit n (worker i out p)"
proof -
  note p = inv [unfolded pool_inv_def]
  have in_range: "i < length (results p)" "i < nextIndex p" using p i by auto
  have len: "Suc (length (remove1 i (running p))) = length (running p)" using i by (rule length_remove1_Suc)
  have set: "set (remove1 i (running p)) = set (running p) - {i}" using p by (simp add: set_remove1_eq)
  show ?thesis
  proof (cases out)
    case None
    then show ?thesis using p len set by (auto simp: worker_def pool_inv_def)
  next
    case (Some r)
    have fresh: "nextIndex p \<notin> set (running p)" using p by auto
    have old: "j < n \<Longrightarrow> (results p)[i := Some r] ! j = Some r' \<Longrightarrow> R j (Some r')" for j r'
      using p R Some in_range by (cases "j = i") auto
    show ?thesis
    proof (cases "nextIndex p < length (results p)")
      case True
      then show ?thesis using p Some len set fresh old in_range
        by (auto simp: worker_def pool_inv_def Let_def nth_list_update less_Suc_eq)
    next
      case False
      then show ?thesis using p Some len set old in_range
        by (auto simp: worker_def pool_inv_def Let_def nth_list_update)
    qed
  qed
qed

lemma pool_inv_reachable: "(pool_step R)\<^sup>*\<^sup>* p q \<Longrightarrow> pool_inv R limit n p \<Longrightarrow> pool_inv R limit n q"
  by (induction rule: rtranclp_induct) (auto elim!: pool_stepE intro: pool_inv_worker)

lemma pool_inv_run: "(pool_step R ^^ m) (pool_start limit n) p \<Longrightarrow> pool_inv R limit n p"
  by (rule pool_inv_reachable [OF relpowp_imp_rtranclp pool_inv_start])

text \<open>Each step settles one call: calls settled and calls under way are the items handed out.\<close>

lemma pool_count:
  assumes "(pool_step R ^^ m) (pool_start limit n) p"
  shows "m + length (running p) = nextIndex p"
  using assms
proof (induction m arbitrary: p)
  case 0
  then show ?case by (auto simp: pool_start_def)
next
  case (Suc m)
  then obtain q where q: "(pool_step R ^^ m) (pool_start limit n) q" "pool_step R q p" by auto
  have "pool_inv R limit n q" by (rule pool_inv_run [OF q(1)])
  moreover from q(2) obtain i out where "i \<in> set (running q)" "p = worker i out q" by (auto elim: pool_stepE)
  moreover have "Suc (length (remove1 i (running q))) = length (running q)"
    using \<open>i \<in> set (running q)\<close> by (rule length_remove1_Suc)
  ultimately show ?case
    using Suc.IH [OF q(1)] by (auto simp: worker_def Let_def split: option.split)
qed

section \<open>Properties\<close>

text \<open>C3. The worker pool implements the sequential map with bounded concurrency: in every interleaving of settling calls at
  most \<open>max(1, limit)\<close> calls are under way, no item is under way twice, and when the pool is done every position of the
  result array holds a value the mapper returned for that very item; exactly one call per item was made.\<close>

theorem pool_implements_map:
  assumes "(pool_step R ^^ m) (pool_start limit n) p"
  shows "length (running p) \<le> max 1 limit \<and> distinct (running p) \<and>
    (pool_done p \<longrightarrow> m = n \<and> length (results p) = n \<and> (\<forall>i < n. \<exists>r. results p ! i = Some r \<and> R i (Some r)))"
proof -
  have inv: "pool_inv R limit n p" by (rule pool_inv_run [OF assms])
  have "nextIndex p = n" if "pool_done p"
    using inv that by (auto simp: pool_inv_def pool_done_def workerCount_def)
  then show ?thesis using inv pool_count [OF assms] by (auto simp: pool_inv_def pool_done_def workerCount_def)
qed

definition doubled :: "nat \<Rightarrow> nat option \<Rightarrow> bool" where
  "doubled i out = (out = Some (2 * i))"

theorem pool_implements_map_witness:
  "\<exists>p. (pool_step doubled ^^ 3) (pool_start 2 3) p \<and> pool_done p \<and> results p = map Some [0, 2, 4]"
proof -
  define p where "p = worker 0 (Some (0 :: nat)) (worker 2 (Some 4) (worker 1 (Some 2) (pool_start 2 3)))"
  have s1: "pool_step doubled (pool_start 2 3) (worker 1 (Some 2) (pool_start 2 3))"
    by (intro settle) (simp_all add: doubled_def pool_start_def workerCount_def)
  have s2: "pool_step doubled (worker 1 (Some 2) (pool_start 2 3)) (worker 2 (Some 4) (worker 1 (Some 2) (pool_start 2 3)))"
    by (intro settle) (simp_all add: doubled_def pool_start_def workerCount_def worker_def Let_def)
  have s3: "pool_step doubled (worker 2 (Some 4) (worker 1 (Some 2) (pool_start 2 3))) p"
    unfolding p_def by (intro settle) (simp_all add: doubled_def pool_start_def workerCount_def worker_def Let_def)
  have run: "(pool_step doubled ^^ 3) (pool_start 2 3) p" using s1 s2 s3 by (auto simp: numeral_3_eq_3)
  moreover have d: "pool_done p" by (simp add: p_def pool_done_def pool_start_def workerCount_def worker_def Let_def upt_rec)
  moreover have "results p = map Some [0, 2, 4]"
  proof (rule nth_equalityI)
    show "length (results p) = length (map Some [0, 2, 4 :: nat])" using pool_implements_map [OF run] d by simp
  next
    fix i assume "i < length (results p)"
    then have "i < 3" and "results p ! i = Some (2 * i)" using pool_implements_map [OF run] d by (auto simp: doubled_def)
    then show "results p ! i = map Some [0, 2, 4] ! i" by (auto simp: less_Suc_eq numeral_3_eq_3)
  qed
  ultimately show ?thesis by blast
qed

text \<open>C21. The worker pool terminates and never stalls: no run from its start is longer than the number of items, and a run that
  has calls under way can always continue by settling any one of them.\<close>

theorem pool_terminates:
  assumes "(pool_step R ^^ m) (pool_start limit n) p"
  shows "m \<le> n \<and> (\<forall>i \<in> set (running p). \<forall>out. R i out \<longrightarrow> (\<exists>q. (pool_step R ^^ Suc m) (pool_start limit n) q)) \<and>
    (running p = [] \<longrightarrow> rejected p \<or> m = n)"
proof -
  have inv: "pool_inv R limit n p" by (rule pool_inv_run [OF assms])
  have "m \<le> n" using pool_count [OF assms] inv by (simp add: pool_inv_def)
  moreover have "\<exists>q. (pool_step R ^^ Suc m) (pool_start limit n) q" if "i \<in> set (running p)" "R i out" for i out
    using assms settle [OF that(1), of R out, OF that(2)] by (auto intro!: exI relcomppI)
  moreover have "rejected p \<or> m = n" if "running p = []"
    using pool_count [OF assms] inv that by (auto simp: pool_inv_def workerCount_def)
  ultimately show ?thesis by blast
qed

theorem pool_terminates_witness:
  "\<exists>q. (pool_step doubled ^^ Suc 0) (pool_start 8 1) q"
proof -
  have "(pool_step doubled ^^ 0) (pool_start 8 1) (pool_start 8 1)" by simp
  from pool_terminates [OF this] show ?thesis
    by (auto simp: pool_start_def workerCount_def doubled_def)
qed

end
