(* ===== verification/SelectorInfo.thy ===== *)
theory SelectorInfo
  imports SelectorFetch SelectorSessions SelectorPool "HOL-Library.Multiset"
begin

text \<open>
  The remaining parts of \<^verbatim>\<open>src/portal/webui/model-selector.js\<close>: the model information rows (lines 511 to 671 without the style
  repairs of the host page's dialog), the model options and the saved draft (1388 to 1390, 1478 to 1488, 1589 to 1598),
  the mesh status variables (1672 to 1774) and the start-up \<^verbatim>\<open>initialize\<close> (1616 to 1668) composed of the other theories.
\<close>

section \<open>Model information\<close>

definition modelInfoLabels :: "(string \<times> (string \<times> string) list) list" where
  "modelInfoLabels = [
    (''de'', [(''model'', ''Modell''), (''path'', ''Dateipfad''), (''context'', ''Kontextgroesse''), (''training'', ''Trainingskontext''), (''size'', ''Modellgroesse''), (''parameters'', ''Parameter''), (''embedding'', ''Embedding-Groesse''), (''vocabulary'', ''Vokabulargroesse''), (''vocabType'', ''Vokabulartyp''), (''slots'', ''Parallele Slots''), (''modalities'', ''Modalitaeten''), (''build'', ''Build-Info'')]),
    (''en'', [(''model'', ''Model''), (''path'', ''File path''), (''context'', ''Context size''), (''training'', ''Training context''), (''size'', ''Model size''), (''parameters'', ''Parameters''), (''embedding'', ''Embedding size''), (''vocabulary'', ''Vocabulary size''), (''vocabType'', ''Vocabulary type''), (''slots'', ''Parallel slots''), (''modalities'', ''Modalities''), (''build'', ''Build info'')]),
    (''fr'', [(''model'', (''Mod'' @ [CHR 0xC3, CHR 0xA8] @ ''le'')), (''path'', ''Chemin du fichier''), (''context'', ''Taille du contexte''), (''training'', (html ''Contexte d`entra'' @ [CHR 0xC3, CHR 0xAE] @ ''nement'')), (''size'', (''Taille du mod'' @ [CHR 0xC3, CHR 0xA8] @ ''le'')), (''parameters'', (''Param'' @ [CHR 0xC3, CHR 0xA8] @ ''tres'')), (''embedding'', (html ''Taille de l`embedding'')), (''vocabulary'', ''Taille du vocabulaire''), (''vocabType'', ''Type de vocabulaire''), (''slots'', (''Emplacements parall'' @ [CHR 0xC3, CHR 0xA8] @ ''les'')), (''modalities'', (''Modalit'' @ [CHR 0xC3, CHR 0xA9] @ ''s'')), (''build'', ''Informations de build'')]),
    (''es'', [(''model'', ''Modelo''), (''path'', ''Ruta del archivo''), (''context'', (''Tama'' @ [CHR 0xC3, CHR 0xB1] @ ''o del contexto'')), (''training'', ''Contexto de entrenamiento''), (''size'', (''Tama'' @ [CHR 0xC3, CHR 0xB1] @ ''o del modelo'')), (''parameters'', (''Par'' @ [CHR 0xC3, CHR 0xA1] @ ''metros'')), (''embedding'', (''Tama'' @ [CHR 0xC3, CHR 0xB1] @ ''o del embedding'')), (''vocabulary'', (''Tama'' @ [CHR 0xC3, CHR 0xB1] @ ''o del vocabulario'')), (''vocabType'', ''Tipo de vocabulario''), (''slots'', ''Slots paralelos''), (''modalities'', ''Modalidades''), (''build'', (''Informaci'' @ [CHR 0xC3, CHR 0xB3] @ ''n de compilaci'' @ [CHR 0xC3, CHR 0xB3] @ ''n''))]),
    (''it'', [(''model'', ''Modello''), (''path'', ''Percorso file''), (''context'', ''Dimensione contesto''), (''training'', ''Contesto di addestramento''), (''size'', ''Dimensione modello''), (''parameters'', ''Parametri''), (''embedding'', ''Dimensione embedding''), (''vocabulary'', ''Dimensione vocabolario''), (''vocabType'', ''Tipo di vocabolario''), (''slots'', ''Slot paralleli''), (''modalities'', (''Modalit'' @ [CHR 0xC3, CHR 0xA0])), (''build'', ''Informazioni build'')]),
    (''pt-BR'', [(''model'', ''Modelo''), (''path'', ''Caminho do arquivo''), (''context'', ''Tamanho do contexto''), (''training'', ''Contexto de treinamento''), (''size'', ''Tamanho do modelo''), (''parameters'', (''Par'' @ [CHR 0xC3, CHR 0xA2] @ ''metros'')), (''embedding'', ''Tamanho do embedding''), (''vocabulary'', (''Tamanho do vocabul'' @ [CHR 0xC3, CHR 0xA1] @ ''rio'')), (''vocabType'', (''Tipo de vocabul'' @ [CHR 0xC3, CHR 0xA1] @ ''rio'')), (''slots'', ''Slots paralelos''), (''modalities'', ''Modalidades''), (''build'', (''Informa'' @ [CHR 0xC3, CHR 0xA7, CHR 0xC3, CHR 0xB5] @ ''es da compila'' @ [CHR 0xC3, CHR 0xA7, CHR 0xC3, CHR 0xA3] @ ''o''))]),
    (''nl'', [(''model'', ''Model''), (''path'', ''Bestandspad''), (''context'', ''Contextgrootte''), (''training'', ''Trainingscontext''), (''size'', ''Modelgrootte''), (''parameters'', ''Parameters''), (''embedding'', ''Embeddinggrootte''), (''vocabulary'', (''Woorden'' @ [CHR 0xC2, CHR 0xAD] @ ''schatgrootte'')), (''vocabType'', (''Woorden'' @ [CHR 0xC2, CHR 0xAD] @ ''schattype'')), (''slots'', ''Parallelle slots''), (''modalities'', ''Modaliteiten''), (''build'', ''Buildinformatie'')]),
    (''pl'', [(''model'', ''Model''), (''path'', ''Sciezka pliku''), (''context'', ''Rozmiar kontekstu''), (''training'', ''Kontekst treningowy''), (''size'', ''Rozmiar modelu''), (''parameters'', ''Parametry''), (''embedding'', ''Rozmiar embeddingu''), (''vocabulary'', ''Rozmiar slownika''), (''vocabType'', ''Typ slownika''), (''slots'', (''Sloty r'' @ [CHR 0xC3, CHR 0xB3] @ ''wnolegle'')), (''modalities'', ''Modalnosci''), (''build'', ''Informacje o kompilacji'')]),
    (''tr'', [(''model'', ''Model''), (''path'', ''Dosya yolu''), (''context'', ''Baglam boyutu''), (''training'', ''Egitim baglami''), (''size'', ''Model boyutu''), (''parameters'', ''Parametreler''), (''embedding'', ''Embedding boyutu''), (''vocabulary'', ''Kelime dagarcigi boyutu''), (''vocabType'', (''Kelime dagarcigi t'' @ [CHR 0xC3, CHR 0xBC] @ ''r'' @ [CHR 0xC3, CHR 0xBC])), (''slots'', ''Paralel yuvalar''), (''modalities'', ''Modaliteler''), (''build'', ''Derleme bilgisi'')])]"

definition modelInfoLocale :: "languages \<Rightarrow> (string \<times> string) list" where
  "modelInfoLocale g = (let raw = raw_locale g in
     case map_of modelInfoLabels raw of Some d \<Rightarrow> d
     | None \<Rightarrow> (case map_of modelInfoLabels (base_locale raw) of Some d \<Rightarrow> d
         | None \<Rightarrow> (case map_of modelInfoLabels ''en'' of Some d \<Rightarrow> d | None \<Rightarrow> [])))"

definition modelInfoModel :: "'a selector_scheme \<Rightarrow> jsv" where
  "modelInfoModel s = (if truthy (selectedModel s) then selectedModel s
     else if sel_models s \<noteq> [] then hd (sel_models s)
     else let i = str_or (item_text (case get_item storage_key (localStorage s) of Some r \<Rightarrow> r | None \<Rightarrow> None)) ''qwen2.5:3b'' in
       Obj [(''id'', Str i), (''name'', Str i)])"

definition modelInfoValue :: "jsv \<Rightarrow> string \<Rightarrow> jsv" where
  "modelInfoValue props k = (if truthy props \<and> safe_prop props k \<noteq> Undef \<and> safe_prop props k \<noteq> Null \<and> trim (to_str (safe_prop props k)) \<noteq> []
     then safe_prop props k else Str [])"

text \<open>The loop over the units: the scaled value and the unit reached.\<close>

fun scale_units :: "rat \<Rightarrow> nat \<Rightarrow> nat \<Rightarrow> rat \<times> nat" where
  "scale_units b 0 u = (b, u)"
| "scale_units b (Suc n) u = (if 1024 \<le> b then scale_units (b / 1024) n (Suc u) else (b, u))"

definition byte_units :: "string list" where
  "byte_units = [''B'', ''KB'', ''MB'', ''GB'', ''TB'']"

definition formatModelBytes :: "jsv \<Rightarrow> string" where
  "formatModelBytes v = (case to_num v of
     Fin b \<Rightarrow> if b \<le> 0 then [] else (case scale_units b (length byte_units - 1) 0 of (x, u) \<Rightarrow>
         (if u = 0 then int_str (math_round x) else to_fixed 1 x) @ '' '' @ byte_units ! u)
   | _ \<Rightarrow> [])"

definition formatModelParameters :: "jsv \<Rightarrow> string" where
  "formatModelParameters v = (case to_num v of
     Fin p \<Rightarrow> if p \<le> 0 then []
       else if 1000000000 \<le> p then replace_first ''.0'' [] (to_fixed (if 10000000000 \<le> p then 0 else 1) (p / 1000000000)) @ ''B''
       else if 1000000 \<le> p then replace_first ''.0'' [] (to_fixed 1 (p / 1000000)) @ ''M''
       else num_str (Fin p)
   | _ \<Rightarrow> [])"

definition info_row :: "(string \<times> string) list \<Rightarrow> string \<Rightarrow> jsv \<Rightarrow> (string \<times> string) list" where
  "info_row labels k v = (if v = Str [] \<or> v = Null \<or> v = Undef then [] else [(item_text (map_of labels k), to_str v)])"

definition tokens_text :: "jsv \<Rightarrow> string \<Rightarrow> jsv" where
  "tokens_text props k = (if truthy (modelInfoValue props k) then Str (to_str (safe_prop props k) @ '' tokens'') else Str [])"

text \<open>\<^verbatim>\<open>Object.keys(v).filter(key => v[key])\<close>: for an array the keys are its indices.\<close>

definition truthy_keys :: "jsv \<Rightarrow> string list" where
  "truthy_keys v = map fst (filter (\<lambda>(k, x). truthy x) (obj_fields v))"

definition info_rows :: "(string \<times> string) list \<Rightarrow> jsv \<Rightarrow> string \<Rightarrow> jsv \<Rightarrow> (string \<times> string) list option" where
  "info_rows labels model modelId props = (if props = Null \<or> props = Undef then None
     else let row = info_row labels; val = modelInfoValue props; mods = js_or (safe_prop props ''modalities'') (safe_prop model ''modalities'') in
       Some (concat [row ''model'' (js_or (safe_prop props ''model_alias'') (js_or (safe_prop model ''name'') (Str modelId))),
         row ''path'' (js_or (val ''model_path'') (Str modelId)),
         row ''context'' (tokens_text (safe_prop props ''default_generation_settings'') ''n_ctx''),
         row ''training'' (tokens_text props ''n_ctx_train''),
         row ''size'' (Str (formatModelBytes (safe_prop props ''size''))),
         row ''parameters'' (js_or (Str (formatModelParameters (safe_prop props ''n_params'')))
           (js_or (and_prop (safe_prop model ''meta'') ''parameter_size'') (Str []))),
         row ''embedding'' (val ''n_embd''), row ''vocabulary'' (tokens_text props ''n_vocab''),
         row ''vocabType'' (val ''vocab_type''), row ''slots'' (val ''total_slots''),
         (if truthy mods \<and> is_object mods then row ''modalities'' (Str (join '', '' (truthy_keys mods))) else []),
         row ''build'' (val ''build_info'')]))"

text \<open>The request for the properties of a model and the rows its reply gives; \<^const>\<open>None\<close>: nothing is added to the dialog.\<close>

definition info_request :: "location \<Rightarrow> jsv \<Rightarrow> request" where
  "info_request loc model = (let modelId = trim (str_of_or (model_id model) []); e = safe_prop model ''__sourceEndpoint'';
       endpoint = (if truthy e \<and> e \<noteq> Str (origin loc) then to_str e else origin loc) in
     discovery_request (endpoint @ ''/props?model='' @ encodeURIComponent modelId) ''include'')"

definition info_reply :: "languages \<Rightarrow> jsv \<Rightarrow> fetched \<Rightarrow> (string \<times> string) list option" where
  "info_reply g model f = (case f of Rejected _ \<Rightarrow> None
     | Resp r \<Rightarrow> if \<not> ok r then None else (case rjson r of None \<Rightarrow> None
         | Some props \<Rightarrow> info_rows (modelInfoLocale g) model (trim (str_of_or (model_id model) [])) props))"

section \<open>Options and draft\<close>

definition model_option :: "jsv \<Rightarrow> node" where
  "model_option m = Node ''option'' [] [(''value'', to_str (model_id m))]
     (displayName m @ (if Str ''vision'' \<in> set (modalitiesFor m) then ('' '' @ [CHR 0xC2, CHR 0xB7] @ '' Bilder'') else ('' '' @ [CHR 0xC2, CHR 0xB7] @ '' Text''))) []"

definition renderOptions :: "'a selector_scheme \<Rightarrow> node list \<times> string" where
  "renderOptions s = (map model_option (sel_models s), if truthy (selectedModel s) then to_str (model_id (selectedModel s)) else [])"

definition draft_key :: string where
  "draft_key = ''cm_model_switch_draft''"

text \<open>The text area is an element of the page; \<open>area\<close> is its name, if there is one. Without a text area the exception is
  swallowed after the draft was removed.\<close>

definition restoreDraft :: "string option \<Rightarrow> 'a selector_scheme \<Rightarrow> 'a selector_scheme" where
  "restoreDraft area s = (case get_item draft_key (sessionStorage s) of
     Some (Some d) \<Rightarrow> (let s1 = s\<lparr>sessionStorage := try_remove_item draft_key (sessionStorage s)\<rparr> in
        case area of None \<Rightarrow> s1 | Some i \<Rightarrow> on_elem i (\<lambda>e. e\<lparr>val := d\<rparr>) s1)
   | _ \<Rightarrow> s)"

section \<open>Mesh status\<close>

text \<open>The six status requests: address, field of the reply, variable.\<close>

definition mesh_queries :: "(string \<times> string \<times> string) list" where
  "mesh_queries = [(''/api/v1/mesh/sharding/plan'', ''sharding_plan'', ''cmMeshShardingPlan''),
     (''/api/v1/mesh/cache/status'', ''distributed_model_cache'', ''cmMeshCacheStatus''),
     (''/api/v1/mesh/stream/status'', ''p2p_stream_federation'', ''cmMeshStreamStatus''),
     (''/api/v1/mesh/federation/clusters'', ''multi_cluster_federation'', ''cmMultiClusterFederation''),
     (''/api/v1/mesh/zero_trust/status'', ''zero_trust_worker_communication'', ''cmZeroTrustStatus''),
     (''/api/v1/mesh/video/compression/status'', ''adaptive_video_stream_compression'', ''cmAdaptiveVideoCompression'')]"

definition mesh_reply :: "(string \<times> string \<times> string) \<times> fetched \<Rightarrow> (string \<rightharpoonup> jsv) \<Rightarrow> string \<rightharpoonup> jsv" where
  "mesh_reply qf vars = (case qf of ((u, k, v), f) \<Rightarrow> (case f of Rejected _ \<Rightarrow> vars
     | Resp r \<Rightarrow> (case rjson r of None \<Rightarrow> vars
         | Some d \<Rightarrow> if truthy d \<and> truthy (safe_prop d k) then vars(v \<mapsto> safe_prop d k) else vars)))"

definition json_post :: "string \<Rightarrow> jsv \<Rightarrow> request" where
  "json_post u v = \<lparr>url = u, http_method = ''POST'', headers = [(''Content-Type'', ''application/json'')], body = Some (stringify v), credentials = ''same-origin''\<rparr>"

definition calculatePlan :: "jsv \<Rightarrow> jsv \<Rightarrow> jsv \<Rightarrow> jsv \<Rightarrow> request" where
  "calculatePlan modelId totalLayers modelVramBytes enableTp = json_post ''/api/v1/mesh/sharding/calculate''
     (Obj [(''model_id'', js_or modelId (Str ''Qwen/Qwen2.5-72B-Instruct-GGUF'')), (''total_layers'', js_or totalLayers (JInt 80)),
       (''model_vram_bytes'', js_or modelVramBytes (JInt (42 * 1024 * 1024 * 1024))), (''enable_tensor_parallel'', Bool (truthy enableTp))])"

definition clearCache :: request where
  "clearCache = (get_request ''/api/v1/mesh/cache/clear'')\<lparr>http_method := ''POST''\<rparr>"

definition verifyCache :: "jsv \<Rightarrow> request" where
  "verifyCache modelId = json_post ''/api/v1/mesh/cache/verify'' (Obj [(''model_id'', modelId)])"

definition syncFederatedClusters :: "jsv \<Rightarrow> request" where
  "syncFederatedClusters clusters = json_post ''/api/v1/mesh/federation/sync'' (Obj [(''clusters'', js_or clusters (Arr []))])"

definition tuneVideoCompression :: "jsv \<Rightarrow> request" where
  "tuneVideoCompression params = json_post ''/api/v1/mesh/video/compression/tune'' (js_or params (Obj []))"

section \<open>Start-up\<close>

text \<open>\<^verbatim>\<open>initialize\<close>: the probe, the catalogues of all endpoints (the results of the worker pool), the selection, then the agent
  sessions, whose requests in flight are returned.\<close>

definition catalog_results :: "string list \<Rightarrow> jsv option list \<Rightarrow> jsv list list" where
  "catalog_results endpoints replies = map2 catalog_of endpoints replies"

definition initialize_selector :: "server \<Rightarrow> url_parser \<Rightarrow> location \<Rightarrow> collator \<Rightarrow> jsv option list \<Rightarrow> selector \<Rightarrow> (selector \<times> bool) \<times> pending list" where
  "initialize_selector srv parser loc coll replies s = (let s0 = probeLocalNode srv parser loc s;
       eps = catalogEndpoints loc s0;
       s1 = s0\<lparr>sent := sent s0 @ map (\<lambda>e. discovery_request (e @ ''/v1/models'') ''include'') eps\<rparr>;
       s2 = snd (install_models srv loc coll (catalog_results eps replies) s1) in
     initializeAgentSessions False s2)"

lemmas info_defs [js_defs] = modelInfoLabels_def modelInfoLocale_def modelInfoModel_def modelInfoValue_def byte_units_def
  formatModelBytes_def formatModelParameters_def info_row_def tokens_text_def truthy_keys_def info_rows_def info_request_def
  info_reply_def model_option_def renderOptions_def draft_key_def restoreDraft_def mesh_queries_def mesh_reply_def json_post_def
  calculatePlan_def clearCache_def verifyCache_def syncFederatedClusters_def tuneVideoCompression_def catalog_results_def
  initialize_selector_def

section \<open>Labels\<close>

lemma info_labels_complete: "complete_tables modelInfoLabels"
  by code_simp

interpretation info_labels: label_tables modelInfoLabels "''en''" "label_of modelInfoLabels"
  by (rule complete_tables_contract) (rule info_labels_complete)

section \<open>Units\<close>

lemma scale_units_spec:
  assumes "scale_units b n u = (x, w)"
  shows "u \<le> w \<and> w \<le> u + n \<and> b = x * 1024 ^ (w - u) \<and> (u < w \<longrightarrow> 1 \<le> x) \<and> (w < u + n \<longrightarrow> x < 1024)"
  using assms
proof (induction b n u rule: scale_units.induct)
  case (1 b u)
  then show ?case by simp
next
  case (2 b n u)
  show ?case
  proof (cases "1024 \<le> b")
    case True
    then have "scale_units (b / 1024) n (Suc u) = (x, w)" using "2.prems" by simp
    note ih = "2.IH" [OF True this]
    have "w - u = Suc (w - Suc u)" using ih by linarith
    then have "b = x * 1024 ^ (w - u)" using ih by simp
    moreover have "1 \<le> x" using ih True by (cases "w = Suc u") auto
    ultimately show ?thesis using ih by simp
  next
    case False
    then show ?thesis using "2.prems" by simp
  qed
qed

section \<open>Properties\<close>

text \<open>File sizes are shown in the right unit: for every positive size the loop ends at a unit in which the value is the size
  exactly, is below 1024 unless the unit is already terabytes, and is at least one unless the unit is bytes.\<close>

theorem byte_format_scale:
  assumes "to_num v = Fin b" and "0 < b"
  shows "\<exists>x u. formatModelBytes v = (if u = 0 then int_str (math_round x) else to_fixed 1 x) @ '' '' @ byte_units ! u \<and>
    u < 5 \<and> b = x * 1024 ^ u \<and> (u < 4 \<longrightarrow> x < 1024) \<and> (0 < u \<longrightarrow> 1 \<le> x)"
proof -
  obtain x u where u: "scale_units b 4 0 = (x, u)" by fastforce
  have n: "length byte_units - 1 = 4" by (simp add: byte_units_def)
  have "formatModelBytes v = (if u = 0 then int_str (math_round x) else to_fixed 1 x) @ '' '' @ byte_units ! u"
    unfolding formatModelBytes_def assms(1) n using u assms(2) by simp
  moreover have "u < 5 \<and> b = x * 1024 ^ u \<and> (u < 4 \<longrightarrow> x < 1024) \<and> (0 < u \<longrightarrow> 1 \<le> x)"
    using scale_units_spec [OF u] by auto
  ultimately show ?thesis by (intro exI [of _ x] exI [of _ u]) (rule conjI)
qed

theorem byte_format_scale_witness:
  "\<exists>x u. formatModelBytes (JInt 5242880) = (if u = 0 then int_str (math_round x) else to_fixed 1 x) @ '' '' @ byte_units ! u \<and> u < 5"
proof -
  have "to_num (JInt 5242880) = Fin 5242880" "(0 :: rat) < 5242880" by simp_all
  from byte_format_scale [OF this] show ?thesis by blast
qed

text \<open>The information dialog lists a model's modalities by the keys of the object the node reports; when the node reports none
  and the catalogue gives them as a list, as the rest of the code expects it, the row shows the positions of the list instead
  of the modalities.\<close>

theorem modality_row_shows_positions:
  "info_rows [(''modalities'', ''Modalities'')] (Obj [(''id'', Str ''m''), (''modalities'', Arr [Str ''text'', Str ''vision''])]) ''m''
     (Obj [(''modalities'', Obj [(''text'', Bool True), (''vision'', Bool True)])]) =
   Some [([], ''m''), ([], ''m''), (''Modalities'', ''text, vision'')] \<and>
   info_rows [(''modalities'', ''Modalities'')] (Obj [(''id'', Str ''m''), (''modalities'', Arr [Str ''text'', Str ''vision''])]) ''m'' (Obj []) =
   Some [([], ''m''), ([], ''m''), (''Modalities'', ''0, 1'')]"
  by (intro conjI) code_simp+

lemma restoreDraft_none: "get_item draft_key (sessionStorage u) = Some None \<Longrightarrow> restoreDraft area u = u"
  by (simp add: restoreDraft_def)

text \<open>Switching the model does not lose the text the user has typed: the draft stored when a model is picked is put back into
  the text area after the reload and removed from the storage, so it is restored once only.\<close>

theorem draft_round_trip:
  fixes s :: "'a selector_scheme"
  assumes "find_model (Str value) (sel_models s) = Some m" and "draft \<noteq> []"
    and "can_read (sessionStorage s)" and "can_write (sessionStorage s)" and "t = pick_model loc value draft s"
  shows "navs t = navs s @ [Reload] \<and> selectedModel t = m \<and>
    (\<forall>(u :: 'a selector_scheme) area e. sessionStorage u = sessionStorage t \<longrightarrow> page u area = Some e \<longrightarrow>
       page (restoreDraft (Some area) u) area = Some (e\<lparr>val := draft\<rparr>) \<and>
       restoreDraft (Some area) (restoreDraft (Some area) u) = restoreDraft (Some area) u)"
proof -
  have t: "sessionStorage t = try_set_item draft_key draft (sessionStorage s)" "navs t = navs s @ [Reload]" "selectedModel t = m"
    using assms by (simp_all add: pick_model_def navigate_def applyCapabilities_def draft_key_def Let_def)
  have "get_item draft_key (sessionStorage t) = Some (Some draft)" "can_read (sessionStorage t)"
    using assms t(1) by (simp_all add: storage_defs)
  then have once: "restoreDraft (Some area) u = on_elem area (\<lambda>e. e\<lparr>val := draft\<rparr>) (u\<lparr>sessionStorage := try_remove_item draft_key (sessionStorage u)\<rparr>)"
    if "sessionStorage u = sessionStorage t" for u :: "'a selector_scheme" and area
    using that by (simp add: restoreDraft_def Let_def)
  have "get_item draft_key (try_remove_item draft_key (sessionStorage t)) = Some None"
    using \<open>can_read (sessionStorage t)\<close> by (simp add: storage_defs)
  then have "restoreDraft (Some area) (restoreDraft (Some area) u) = restoreDraft (Some area) u"
    if "sessionStorage u = sessionStorage t" for u :: "'a selector_scheme" and area
    using that by (intro restoreDraft_none) (simp add: once)
  moreover have "page (restoreDraft (Some area) u) area = Some (e\<lparr>val := draft\<rparr>)"
    if "sessionStorage u = sessionStorage t" "page u area = Some e" for u :: "'a selector_scheme" and area e
    using that by (simp add: once)
  ultimately show ?thesis using t by blast
qed

theorem draft_round_trip_witness:
  "selectedModel (pick_model portal_location ''m-7b'' ''hello'' (selector0\<lparr>sel_models := [offer ''m-7b'' ''http://n1'']\<rparr>)) = offer ''m-7b'' ''http://n1''"
proof -
  let ?s = "selector0\<lparr>sel_models := [offer ''m-7b'' ''http://n1'']\<rparr>"
  have "find_model (Str ''m-7b'') (sel_models ?s) = Some (offer ''m-7b'' ''http://n1'')" by code_simp
  moreover have "can_read (sessionStorage ?s)" "can_write (sessionStorage ?s)" by (simp_all add: selector0_def browser.defs)
  ultimately show ?thesis using draft_round_trip [where draft = "''hello''", OF _ _ _ _ refl] by blast
qed

lemma mesh_reply_commute:
  assumes "snd (snd (fst a)) \<noteq> snd (snd (fst b))"
  shows "mesh_reply a (mesh_reply b vars) = mesh_reply b (mesh_reply a vars)"
  using assms by (cases a; cases b) (auto simp: mesh_reply_def fun_upd_twist split: fetched.splits option.splits prod.splits)

text \<open>The mesh status does not depend on the order in which the six replies arrive: for every outcome of the requests and every
  order of arrival the page's variables end up the same.\<close>

theorem mesh_status_order_free:
  assumes "length fs = length mesh_queries" and "mset arrivals = mset (zip mesh_queries fs)"
  shows "fold mesh_reply arrivals vars = fold mesh_reply (zip mesh_queries fs) vars"
proof -
  have d: "distinct (map (snd \<circ> snd \<circ> fst) (zip mesh_queries fs))"
  proof -
    have "map (snd \<circ> snd \<circ> fst) (zip mesh_queries fs) = map (snd \<circ> snd) mesh_queries"
      using assms(1) by (metis map_fst_zip map_map comp_assoc)
    then show ?thesis by (simp add: mesh_queries_def)
  qed
  have "mesh_reply a \<circ> mesh_reply b = mesh_reply b \<circ> mesh_reply a"
    if "a \<in> set (zip mesh_queries fs)" "b \<in> set (zip mesh_queries fs)" for a b
  proof (cases "a = b")
    case False
    then have "snd (snd (fst a)) \<noteq> snd (snd (fst b))" using d that by (auto simp: distinct_map inj_on_def)
    then show ?thesis by (simp add: fun_eq_iff mesh_reply_commute)
  qed simp
  then show ?thesis using fold_multiset_equiv [of "zip mesh_queries fs" mesh_reply arrivals] assms(2)
    by (simp add: fun_eq_iff)
qed

theorem mesh_status_order_free_witness:
  "fold mesh_reply (rev (zip mesh_queries (replicate 6 (Rejected ''offline'')))) Map.empty =
   fold mesh_reply (zip mesh_queries (replicate 6 (Rejected ''offline''))) Map.empty"
  by (rule mesh_status_order_free) (simp_all add: mesh_queries_def)

end
