(* ===== verification/PageTree.thy ===== *)
theory PageTree
  imports JsWeb
begin

text \<open>
  Pages as trees of elements and text nodes, for the functions that search or walk a page instead of addressing elements by their id. An element has a tag, attributes,
  a value (of a form field) and children. A style property \<open>k\<close> is the attribute \<open>style:k\<close>. An element of a page is named by its path, the positions of the children
  that lead to it.
\<close>

datatype dnode = TextNode string | Element (d_tag: string) (d_attrs: "(string \<times> string) list") (d_val: string) (d_kids: "dnode list")

type_synonym path = "nat list"

fun textContent :: "dnode \<Rightarrow> string" where
  "textContent (TextNode s) = s"
| "textContent (Element t as v ks) = concat (map textContent ks)"

definition is_element :: "dnode \<Rightarrow> bool" where
  "is_element x = (case x of TextNode _ \<Rightarrow> False | Element _ _ _ _ \<Rightarrow> True)"

text \<open>\<^verbatim>\<open>node.children.length === 0\<close>.\<close>

definition is_leaf :: "dnode \<Rightarrow> bool" where
  "is_leaf x = (case x of TextNode _ \<Rightarrow> False | Element _ _ _ ks \<Rightarrow> \<not> list_ex is_element ks)"

definition get_attr :: "string \<Rightarrow> dnode \<Rightarrow> string option" where
  "get_attr a x = (case x of TextNode _ \<Rightarrow> None | Element _ as _ _ \<Rightarrow> map_of as a)"

definition has_tag :: "string list \<Rightarrow> dnode \<Rightarrow> bool" where
  "has_tag ts x = (case x of TextNode _ \<Rightarrow> False | Element t _ _ _ \<Rightarrow> t \<in> set ts)"

definition put_attrs :: "(string \<times> string) list \<Rightarrow> dnode \<Rightarrow> dnode" where
  "put_attrs bs x = (case x of TextNode s \<Rightarrow> TextNode s | Element t as v ks \<Rightarrow> Element t (assign as bs) v ks)"

definition put_kids :: "(dnode list \<Rightarrow> dnode list) \<Rightarrow> dnode \<Rightarrow> dnode" where
  "put_kids f x = (case x of TextNode s \<Rightarrow> TextNode s | Element t as v ks \<Rightarrow> Element t as v (f ks))"

text \<open>The elements of a tree in document order, the root first.\<close>

fun elem_paths :: "dnode \<Rightarrow> path list" and kid_paths :: "nat \<Rightarrow> dnode list \<Rightarrow> path list" where
  "elem_paths (TextNode s) = []"
| "elem_paths (Element t as v ks) = [] # kid_paths 0 ks"
| "kid_paths i [] = []"
| "kid_paths i (k # ks) = map ((#) i) (elem_paths k) @ kid_paths (Suc i) ks"

fun node_at :: "dnode \<Rightarrow> path \<Rightarrow> dnode option" where
  "node_at x [] = Some x"
| "node_at (TextNode s) (i # p) = None"
| "node_at (Element t as v ks) (i # p) = (if i < length ks then node_at (ks ! i) p else None)"

fun upd_at :: "path \<Rightarrow> (dnode \<Rightarrow> dnode) \<Rightarrow> dnode \<Rightarrow> dnode" where
  "upd_at [] f x = f x"
| "upd_at (i # p) f (TextNode s) = TextNode s"
| "upd_at (i # p) f (Element t as v ks) = Element t as v (if i < length ks then ks[i := upd_at p f (ks ! i)] else ks)"

text \<open>A test of the element at a path, false where there is none.\<close>

definition holds_at :: "(dnode \<Rightarrow> bool) \<Rightarrow> dnode \<Rightarrow> path \<Rightarrow> bool" where
  "holds_at P x p = (case node_at x p of None \<Rightarrow> False | Some y \<Rightarrow> P y)"

text \<open>\<^verbatim>\<open>closest\<close>: the element itself or its nearest ancestor with a property.\<close>

fun closest_rev :: "(dnode \<Rightarrow> bool) \<Rightarrow> dnode \<Rightarrow> path \<Rightarrow> path option" where
  "closest_rev P x [] = (if P x then Some [] else None)"
| "closest_rev P x (i # q) = (if holds_at P x (rev (i # q)) then Some (rev (i # q)) else closest_rev P x q)"

definition closest :: "(dnode \<Rightarrow> bool) \<Rightarrow> dnode \<Rightarrow> path \<Rightarrow> path option" where
  "closest P x p = closest_rev P x (rev p)"

definition parent_of :: "path \<Rightarrow> path option" where
  "parent_of p = (if p = [] then None else Some (butlast p))"

text \<open>A change of every element with a property.\<close>

fun map_elements :: "(dnode \<Rightarrow> bool) \<Rightarrow> (dnode \<Rightarrow> dnode) \<Rightarrow> dnode \<Rightarrow> dnode" where
  "map_elements P f (TextNode s) = TextNode s"
| "map_elements P f (Element t as v ks) = (let y = Element t as v (map (map_elements P f) ks) in if P (Element t as v ks) then f y else y)"

section \<open>Lemmas\<close>

lemma node_at_elem_paths:
  shows "p \<in> set (elem_paths x) \<Longrightarrow> \<exists>y. node_at x p = Some y \<and> is_element y"
    and "p \<in> set (kid_paths n ks) \<Longrightarrow> \<exists>i q y. p = (n + i) # q \<and> i < length ks \<and> node_at (ks ! i) q = Some y \<and> is_element y"
proof (induction x and n ks arbitrary: p and p rule: elem_paths_kid_paths.induct)
  case (2 t as v ks)
  then show ?case
    by (auto simp: is_element_def) fastforce
next
  case (4 i k ks)
  then consider q where "p = i # q" "q \<in> set (elem_paths k)" | "p \<in> set (kid_paths (Suc i) ks)"
    by auto
  then show ?case
  proof cases
    case 1
    then show ?thesis
      using 4(1) by (intro exI [of _ 0]) auto
  next
    case 2
    then obtain j q y where "p = (Suc i + j) # q" "j < length ks" "node_at (ks ! j) q = Some y" "is_element y"
      using 4(2) by blast
    then show ?thesis
      by (intro exI [of _ "Suc j"]) auto
  qed
qed auto

lemma textContent_put_attrs [simp]: "textContent (put_attrs bs x) = textContent x"
  by (cases x) (simp_all add: put_attrs_def)

lemma textContent_map_elements:
  assumes "\<And>y. textContent (f y) = textContent y"
  shows "textContent (map_elements P f x) = textContent x"
proof (induction x rule: textContent.induct)
  case (2 t as v ks)
  then have "concat (map (textContent \<circ> map_elements P f) ks) = concat (map textContent ks)"
    by (intro arg_cong [where f = concat] map_cong) auto
  then show ?case
    by (simp add: assms Let_def)
qed simp

lemma textContent_upd_at:
  assumes "\<And>y. textContent (f y) = textContent y"
  shows "textContent (upd_at p f x) = textContent x"
proof (induction p arbitrary: x)
  case (Cons i p)
  show ?case
  proof (cases x)
    case (Element t as v ks)
    have "map textContent (ks[i := upd_at p f (ks ! i)]) = map textContent ks" if "i < length ks"
      using that Cons by (simp add: map_update list_update_same_conv)
    then show ?thesis
      using Element by simp
  qed simp
qed (simp add: assms)

lemma node_at_upd_at: "node_at x p = Some y \<Longrightarrow> node_at (upd_at p f x) p = Some (f y)"
  by (induction x p rule: node_at.induct) (auto split: if_splits)

end
