(* ===== verification/SelectorPicker.thy ===== *)
theory SelectorPicker
  imports SelectorInfo PageTree
begin

text \<open>
  The parts of \<^verbatim>\<open>src/portal/webui/model-selector.js\<close> that attach themselves to the dialog of the chat application: the search for the dialog, the repair of its layout
  and the fallback information (lines 528 to 671), the search for the cell of the model name and the model list mounted there (1490 to 1587). The page of the chat
  application is a tree whose root is the document element; what the application does to it is not part of the repository, so the tree may be any. The
  fallback is split at its \<^verbatim>\<open>await\<close>.
\<close>

section \<open>State\<close>

text \<open>\<open>picker\<close>: the model list as it was created, if it was; on the page it is the element of class \<open>cm-model-picker\<close>.\<close>

record picker_page = selector +
  doc :: dnode
  innerHeight :: int
  modelInfoFallbackModelId :: string
  modelInfoFallbackPromise :: bool
  picker :: "dnode option"

section \<open>The dialog\<close>

definition heading_tags :: "string list" where
  "heading_tags = [''h1'', ''h2'', ''h3'', ''h4'', ''h5'', ''h6'']"

definition has_role :: "string \<Rightarrow> dnode \<Rightarrow> bool" where
  "has_role r x = (get_attr ''role'' x = Some r)"

definition under_body :: "dnode \<Rightarrow> path \<Rightarrow> bool" where
  "under_body x p = list_ex (\<lambda>n. holds_at (has_tag [''body'']) x (take n p)) [0..<length p]"

definition dialog_title :: "dnode \<Rightarrow> bool" where
  "dialog_title x = (is_leaf x \<and> lower (trim (textContent x)) \<in> {''current model details and capabilities'', ''model information''})"

definition findModelInfoDialog :: "dnode \<Rightarrow> path option" where
  "findModelInfoDialog x =
     (case List.find (\<lambda>p. (holds_at (has_tag heading_tags) x p \<or> holds_at (has_role ''heading'') x p \<or> under_body x p) \<and> holds_at dialog_title x p) (elem_paths x) of
       None \<Rightarrow> None
     | Some p \<Rightarrow> (case closest (has_role ''dialog'') x p of Some q \<Rightarrow> Some q
         | None \<Rightarrow> if 3 \<le> length p then Some (take (length p - 3) p) else parent_of p))"

definition styles :: "(string \<times> string) list \<Rightarrow> (string \<times> string) list" where
  "styles ps = map (\<lambda>(k, v). (''style:'' @ k, v)) ps"

definition dialog_styles :: "int \<Rightarrow> (string \<times> string) list" where
  "dialog_styles h = styles [(''max-height'', int_str (max 240 ((if h = 0 then 660 else h) - 24)) @ ''px''), (''height'', ''auto''), (''overflow-y'', ''auto''),
     (''overflow-x'', ''hidden''), (''min-width'', ''0''), (''box-sizing'', ''border-box'')]"

definition table_styles :: "(string \<times> string) list" where
  "table_styles = styles [(''table-layout'', ''fixed''), (''width'', ''100%''), (''max-width'', ''100%'')]"

definition cell_styles :: "(string \<times> string) list" where
  "cell_styles = styles [(''min-width'', ''0''), (''max-width'', ''100%''), (''white-space'', ''normal''), (''overflow-wrap'', ''anywhere''), (''word-break'', ''break-word'')]"

definition code_styles :: "(string \<times> string) list" where
  "code_styles = styles [(''display'', ''block''), (''width'', ''100%''), (''max-width'', ''100%''), (''max-height'', ''220px''), (''box-sizing'', ''border-box''),
     (''white-space'', ''pre-wrap''), (''overflow-wrap'', ''anywhere''), (''overflow-x'', ''auto''), (''font-size'', ''11px'')]"

text \<open>The widths of the first and the second cell among the children of an element.\<close>

fun column_widths :: "nat \<Rightarrow> dnode list \<Rightarrow> dnode list" where
  "column_widths n [] = []"
| "column_widths n (k # ks) = (if is_element k
     then (if has_tag [''th'', ''td''] k \<and> n < 2 then put_attrs (styles [(''width'', if n = 0 then ''42%'' else ''58%'')]) k else k) # column_widths (Suc n) ks
     else k # column_widths n ks)"

definition repair_inside :: "dnode \<Rightarrow> dnode" where
  "repair_inside x = map_elements (has_tag [''pre'', ''code'']) (put_attrs code_styles)
     (map_elements (\<lambda>_. True) (put_kids (column_widths 0))
       (map_elements (has_tag [''th'', ''td'']) (put_attrs cell_styles) (map_elements (has_tag [''table'']) (put_attrs table_styles) x)))"

definition repairModelInfoDialogLayout :: "int \<Rightarrow> dnode \<Rightarrow> dnode" where
  "repairModelInfoDialogLayout h d = (let d1 = put_attrs (dialog_styles h) d;
       d2 = (if get_attr ''data-cm-initial-scroll-reset'' d1 = None then put_attrs [(''data-cm-initial-scroll-reset'', ''true''), (''scrollTop'', ''0'')] d1 else d1) in
     put_kids (column_widths 0) (put_kids (map repair_inside) d2))"

definition fallback_id :: string where
  "fallback_id = ''cm-model-info-fallback''"

definition has_fallback :: "dnode \<Rightarrow> bool" where
  "has_fallback d = list_ex (\<lambda>p. p \<noteq> [] \<and> holds_at (\<lambda>x. get_attr ''id'' x = Some fallback_id) d p) (elem_paths d)"

definition shows_details :: "dnode \<Rightarrow> bool" where
  "shows_details d = list_ex (includes_str (lower (textContent d))) [''file path'', ''context size'', ''dateipfad'', ''kontextgroesse'']"

text \<open>Up to the request; the result names the dialog and the model of the request that was sent.\<close>

definition renderModelInfoFallback :: "location \<Rightarrow> 'a picker_page_scheme \<Rightarrow> 'a picker_page_scheme \<times> (path \<times> jsv) option" where
  "renderModelInfoFallback loc s = (case findModelInfoDialog (doc s) of None \<Rightarrow> (s, None)
     | Some q \<Rightarrow> (let s1 = s\<lparr>doc := upd_at q (repairModelInfoDialogLayout (innerHeight s)) (doc s)\<rparr>; model = modelInfoModel s; modelId = trim (str_of_or (model_id model) []) in
         if holds_at has_fallback (doc s1) q \<or> holds_at shows_details (doc s1) q \<or> modelId = [] \<or> modelInfoFallbackPromise s \<and> modelInfoFallbackModelId s = modelId then (s1, None)
         else (issue (info_request loc model) (s1\<lparr>modelInfoFallbackModelId := modelId, modelInfoFallbackPromise := True\<rparr>), Some (q, model))))"

definition row_node :: "string \<times> string \<Rightarrow> dnode" where
  "row_node r = Element ''div'' [(''style'', ''display:flex;gap:16px;justify-content:space-between;align-items:flex-start;padding:8px 0;border-bottom:1px solid rgba(148,163,184,.14);font-size:13px;line-height:1.35;'')] []
     [Element ''span'' [(''style'', ''font-weight:600;color:rgba(226,232,240,.78);flex:0 0 42%;'')] [] [TextNode (fst r)],
      Element ''span'' [(''style'', ''color:rgba(241,245,249,.96);text-align:right;overflow-wrap:anywhere;'')] [] [TextNode (snd r)]]"

definition fallback_node :: "(string \<times> string) list \<Rightarrow> dnode" where
  "fallback_node rows = Element ''div'' [(''id'', fallback_id), (''style'', ''margin-top:12px;max-height:58vh;overflow:auto;padding:4px 16px 12px;background:rgba(15,23,42,.42);border-radius:8px;'')] []
     (map row_node rows)"

text \<open>The rest: \<open>q\<close> is the place the dialog of the request has on the page now, \<^const>\<open>None\<close> when it was removed.\<close>

definition fallback_reply :: "jsv \<Rightarrow> path option \<Rightarrow> fetched \<Rightarrow> 'a picker_page_scheme \<Rightarrow> 'a picker_page_scheme" where
  "fallback_reply model q f s = (let s1 = s\<lparr>modelInfoFallbackPromise := False\<rparr> in
     case (info_reply (langs s) model f, q) of
       (Some rows, Some p) \<Rightarrow> if holds_at has_fallback (doc s) p then s1 else s1\<lparr>doc := upd_at p (put_kids (\<lambda>ks. ks @ [fallback_node rows])) (doc s)\<rparr>
     | _ \<Rightarrow> s1)"

section \<open>The model list\<close>

definition names_file_path :: "dnode \<Rightarrow> bool" where
  "names_file_path x = includes_str (lower (textContent x)) ''file path''"

text \<open>The loop upwards from the title, at most nine steps.\<close>

fun find_panel :: "nat \<Rightarrow> dnode \<Rightarrow> path \<Rightarrow> path option" where
  "find_panel 0 x p = (if holds_at names_file_path x p then Some p else None)"
| "find_panel (Suc n) x p = (if holds_at names_file_path x p then Some p else if p = [] then None else find_panel n x (butlast p))"

definition info_heading :: "dnode \<Rightarrow> bool" where
  "info_heading x = ((has_tag [''h1'', ''h2'', ''h3''] x \<or> has_role ''heading'' x) \<and> includes_str (lower (textContent x)) ''model information'')"

definition model_label :: "dnode \<Rightarrow> bool" where
  "model_label x = (is_leaf x \<and> trim (textContent x) = ''Model'')"

definition kid_count :: "dnode \<Rightarrow> nat" where
  "kid_count x = (case x of TextNode _ \<Rightarrow> 0 | Element _ _ _ ks \<Rightarrow> length ks)"

text \<open>The elements beside the one at \<open>p\<close> that show something.\<close>

definition shown_siblings :: "dnode \<Rightarrow> path \<Rightarrow> path list" where
  "shown_siblings x p = (case node_at x (butlast p) of None \<Rightarrow> []
     | Some y \<Rightarrow> filter (\<lambda>q. q \<noteq> p \<and> holds_at (\<lambda>z. is_element z \<and> trim (textContent z) \<noteq> []) x q) (map (\<lambda>i. butlast p @ [i]) [0..<kid_count y]))"

fun find_cell :: "nat \<Rightarrow> dnode \<Rightarrow> path \<Rightarrow> path option" where
  "find_cell 0 x p = None"
| "find_cell (Suc n) x p = (if p = [] then None
     else case shown_siblings x p of q # _ \<Rightarrow> Some q | [] \<Rightarrow> find_cell n x (butlast p))"

definition findModelInfoValueCell :: "dnode \<Rightarrow> path option" where
  "findModelInfoValueCell x = (case List.find (holds_at info_heading x) (elem_paths x) of None \<Rightarrow> None
     | Some p \<Rightarrow> (case find_panel 9 x p of None \<Rightarrow> None
       | Some q \<Rightarrow> (case List.find (\<lambda>r. r \<noteq> [] \<and> holds_at model_label x (q @ r)) (case node_at x q of None \<Rightarrow> [] | Some y \<Rightarrow> elem_paths y) of None \<Rightarrow> None
         | Some r \<Rightarrow> (case find_cell 5 x (q @ r) of Some c \<Rightarrow> Some c | None \<Rightarrow> parent_of (q @ r)))))"

definition is_picker :: "dnode \<Rightarrow> bool" where
  "is_picker x = (get_attr ''class'' x = Some ''cm-model-picker'')"

definition badge_node :: "bool \<Rightarrow> dnode" where
  "badge_node onNode = (if onNode
     then Element ''div'' [(''id'', ''cm-node-status-badge''), (''style'', ''width:100%;max-width:100%;box-sizing:border-box;margin-top:0;font-size:11px;line-height:1.25;padding:4px 8px;border-radius:6px;display:block;overflow:hidden;white-space:nowrap;text-overflow:ellipsis;font-weight:500;background:rgba(16, 185, 129, 0.15);color:#10b981;border:1px solid rgba(16, 185, 129, 0.3)''),
         (''title'', ''Inferenz und Bildgenerierung laufen direkt ueber deine lokale GPU-Node ohne Router-Konfiguration.'')] []
         [Element ''span'' [] [] [TextNode [CHR 0xF0, CHR 0x9F, CHR 0x9F, CHR 0xA2]], TextNode '' '', Element ''span'' [] [] [TextNode (''Lokale GPU-Node aktiv (P2P '' @ [CHR 0xC2, CHR 0xB7] @ '' Zero-Config)'')]]
     else Element ''div'' [(''id'', ''cm-node-status-badge''), (''style'', ''width:100%;max-width:100%;box-sizing:border-box;margin-top:0;font-size:11px;line-height:1.25;padding:4px 8px;border-radius:6px;display:block;overflow:hidden;white-space:nowrap;text-overflow:ellipsis;font-weight:500;background:rgba(99, 102, 241, 0.12);color:#818cf8;border:1px solid rgba(99, 102, 241, 0.25)''),
         (''title'', ''Verbindung zum dezentralen ComputeMesh Netzwerk.'')] []
         [Element ''span'' [] [] [TextNode [CHR 0xE2, CHR 0x98, CHR 0x81, CHR 0xEF, CHR 0xB8, CHR 0x8F]], TextNode '' '', Element ''span'' [] [] [TextNode ''ComputeMesh Cloud-Gateway'']])"

definition picker_node :: "dnode list \<Rightarrow> string \<Rightarrow> bool \<Rightarrow> dnode" where
  "picker_node options v onNode = Element ''div'' [(''class'', ''cm-model-picker''), (''style'', ''display:flex;flex-direction:column;gap:6px;width:100%;min-width:0;max-width:100%;box-sizing:border-box;'')] []
     [Element ''select'' [(''id'', ''cm-model-select''), (''aria-label'', ''Model''), (''style'', ''display:block;width:100%;min-width:0;max-width:100%;height:40px;box-sizing:border-box;padding:0 34px 0 12px;border:1px solid rgba(56,189,248,.55);border-radius:8px;background:#111827;color:#f8fafc;font-size:14px;line-height:1.2;white-space:nowrap;text-overflow:ellipsis;overflow:hidden;'')] v options,
      badge_node onNode, Element ''div'' [(''id'', ''cm-execution-status''), (''hidden'', []), (''style'', ''position: static; margin-top: 5px; font-size: 11px; color: #a1a1aa; max-width: 320px; overflow-wrap: anywhere; pointer-events: none;'')] [] []]"

definition option_element :: "node \<Rightarrow> dnode" where
  "option_element n = Element ''option'' (attrs n) [] [TextNode (label n)]"

text \<open>The options of the select element in the model list.\<close>

definition with_options :: "dnode list \<Rightarrow> string \<Rightarrow> dnode \<Rightarrow> dnode" where
  "with_options options v pk = put_kids (\<lambda>ks. case ks of sel # rest \<Rightarrow> (case sel of Element t as _ _ \<Rightarrow> Element t as v options # rest | _ \<Rightarrow> ks) | [] \<Rightarrow> []) pk"

text \<open>A page without its model list, except inside the element at a path.\<close>

fun drop_picker :: "path option \<Rightarrow> dnode \<Rightarrow> dnode" and drop_pickers :: "path option \<Rightarrow> nat \<Rightarrow> dnode list \<Rightarrow> dnode list" where
  "drop_picker q (TextNode s) = TextNode s"
| "drop_picker q (Element t as v ks) = Element t as v (if q = Some [] then ks else drop_pickers q 0 ks)"
| "drop_pickers q i [] = []"
| "drop_pickers q i (k # ks) = (if is_picker k then drop_pickers q (Suc i) ks
     else drop_picker (case q of Some (j # p) \<Rightarrow> if i = j then Some p else None | _ \<Rightarrow> None) k # drop_pickers q (Suc i) ks)"

definition create_picker :: "'a picker_page_scheme \<Rightarrow> 'a picker_page_scheme" where
  "create_picker s = (case picker s of Some _ \<Rightarrow> s | None \<Rightarrow> s\<lparr>picker := Some (picker_node [] [] (localNodeEndpoint s \<noteq> []))\<rparr>)"

definition place_picker :: "path \<Rightarrow> dnode \<Rightarrow> dnode \<Rightarrow> dnode" where
  "place_picker c pk x = drop_picker (Some c) (upd_at c (\<lambda>e. put_attrs (styles [(''min-width'', ''0''), (''width'', ''58%''), (''max-width'', ''100%''), (''box-sizing'', ''border-box'')])
     (put_kids (\<lambda>_. [pk]) e)) x)"

text \<open>\<open>area\<close>: the text area of the page, if it has one; the request of the fallback, if one was sent, is returned.\<close>

definition mountPicker :: "location \<Rightarrow> string option \<Rightarrow> 'a picker_page_scheme \<Rightarrow> 'a picker_page_scheme \<times> (path \<times> jsv) option" where
  "mountPicker loc area s = (case renderModelInfoFallback loc s of (s0, req) \<Rightarrow>
     if sel_models s0 = [] then (s0, req)
     else (case findModelInfoValueCell (doc s0) of
       None \<Rightarrow> (if picker s0 = None then s0 else s0\<lparr>doc := drop_picker None (doc s0)\<rparr>, req)
     | Some c \<Rightarrow> (let s1 = create_picker s0; s2 = updateExecutionStatus (lastExecution s1) s1 in
         if holds_at (\<lambda>x. case x of Element _ _ _ ks \<Rightarrow> list_ex is_picker ks | _ \<Rightarrow> False) (doc s2) c then (s2, req)
         else (case renderOptions s2 of (opts, v) \<Rightarrow> let pk = with_options (map option_element opts) v (the (picker s2)) in
           (restoreDraft area (s2\<lparr>doc := place_picker c pk (doc s2), picker := Some pk\<rparr>), req)))))"

section \<open>Pictures of the chosen node\<close>

text \<open>The observer installed by \<^verbatim>\<open>installImageTagRewriter\<close>, called after a change of the page.\<close>

definition generated_picture :: "dnode \<Rightarrow> bool" where
  "generated_picture x = (has_tag [''img''] x \<and> (case get_attr ''src'' x of None \<Rightarrow> False | Some u \<Rightarrow> starts_with u ''/generated/''))"

definition rewriteImageTags :: "location \<Rightarrow> 'a picker_page_scheme \<Rightarrow> 'a picker_page_scheme" where
  "rewriteImageTags loc s = (if localNodeEndpoint s = [] \<or> origin loc = localNodeEndpoint s then s
     else s\<lparr>doc := map_elements generated_picture (\<lambda>x. put_attrs [(''src'', localNodeEndpoint s @ item_text (get_attr ''src'' x))] x) (doc s)\<rparr>)"

lemmas picker_defs [js_defs] = heading_tags_def has_role_def under_body_def dialog_title_def findModelInfoDialog_def styles_def dialog_styles_def table_styles_def
  cell_styles_def code_styles_def repair_inside_def repairModelInfoDialogLayout_def fallback_id_def has_fallback_def shows_details_def renderModelInfoFallback_def
  row_node_def fallback_node_def fallback_reply_def names_file_path_def info_heading_def model_label_def kid_count_def shown_siblings_def findModelInfoValueCell_def
  is_picker_def badge_node_def picker_node_def option_element_def with_options_def create_picker_def place_picker_def mountPicker_def generated_picture_def rewriteImageTags_def

section \<open>How often the model list is on the page\<close>

fun pickers :: "dnode \<Rightarrow> nat" where
  "pickers (TextNode s) = 0"
| "pickers (Element t as v ks) = (if map_of as ''class'' = Some ''cm-model-picker'' then 1 else 0) + (\<Sum>k\<leftarrow>ks. pickers k)"

definition inner_pickers :: "dnode \<Rightarrow> nat" where
  "inner_pickers x = (case x of TextNode _ \<Rightarrow> 0 | Element _ _ _ ks \<Rightarrow> (\<Sum>k\<leftarrow>ks. pickers k))"

lemma pickers_inner: "pickers x = (if is_picker x then 1 else 0) + inner_pickers x"
  by (cases x) (simp_all add: is_picker_def get_attr_def inner_pickers_def)

lemma is_picker_drop [simp]: "is_picker (drop_picker q x) = is_picker x"
  by (cases x) (simp_all add: is_picker_def get_attr_def)

lemma drop_all:
  shows "q = None \<Longrightarrow> inner_pickers (drop_picker q x) = 0"
    and "q = None \<Longrightarrow> (\<Sum>k\<leftarrow>drop_pickers q i ks. pickers k) = 0"
proof (induction q x and q i ks rule: drop_picker_drop_pickers.induct)
  case (4 q i k ks)
  then show ?case
    using pickers_inner [of "drop_picker None k"] by simp
qed (simp_all add: inner_pickers_def)

lemma pickers_dropped: "\<not> is_picker k \<Longrightarrow> pickers (drop_picker None k) = 0"
  using pickers_inner [of "drop_picker None k"] drop_all(1) [of None k] by simp

definition pickers_at :: "dnode \<Rightarrow> path \<Rightarrow> nat" where
  "pickers_at x c = (case node_at x c of None \<Rightarrow> 0 | Some y \<Rightarrow> inner_pickers y)"

lemma drop_pickers_past: "j < i \<Longrightarrow> (\<Sum>k\<leftarrow>drop_pickers (Some (j # c)) i ks. pickers k) = 0"
  by (induction ks arbitrary: i) (simp_all add: pickers_dropped del: sum_list_eq_0_iff)

lemma drop_pickers_at:
  assumes "\<And>k. inner_pickers (drop_picker (Some c) k) \<le> pickers_at k c" and "i \<le> j"
  shows "(\<Sum>k\<leftarrow>drop_pickers (Some (j # c)) i ks. pickers k) \<le> (if j - i < length ks then pickers_at (ks ! (j - i)) c else 0)"
  using assms(2)
proof (induction ks arbitrary: i)
  case (Cons k ks)
  show ?case
  proof (cases "i = j")
    case True
    then show ?thesis
      using assms(1) [of k] pickers_inner [of "drop_picker (Some c) k"] drop_pickers_past [of j "Suc j" c ks] by (simp del: sum_list_eq_0_iff)
  next
    case False
    then have "Suc i \<le> j" "j - i = Suc (j - Suc i)"
      using Cons.prems by simp_all
    then show ?thesis
      using Cons.IH [of "Suc i"] False by (simp add: pickers_dropped del: sum_list_eq_0_iff split: if_splits)
  qed
qed simp

lemma drop_others: "inner_pickers (drop_picker (Some c) x) \<le> pickers_at x c"
proof (induction c arbitrary: x)
  case (Cons j c)
  show ?case
  proof (cases x)
    case (Element t as v ks)
    then show ?thesis
      using drop_pickers_at [OF Cons.IH, of 0 j ks] by (simp add: inner_pickers_def pickers_at_def split: if_splits)
  qed (simp add: inner_pickers_def)
next
  case Nil
  show ?case
    by (cases x) (simp_all add: inner_pickers_def pickers_at_def)
qed

lemma pickers_at_upd:
  assumes "\<And>y. inner_pickers (f y) \<le> n"
  shows "pickers_at (upd_at c f x) c \<le> n"
proof (induction c arbitrary: x)
  case (Cons i c)
  show ?case
    using Cons by (cases x) (auto simp: pickers_at_def)
qed (simp add: pickers_at_def assms)

text \<open>Changes of style do not touch the model list.\<close>

lemma class_styles: "map_of (assign as (styles ps)) ''class'' = map_of as ''class''"
proof -
  have "map_of (rev (styles ps)) ''class'' = None"
    by (auto simp: styles_def map_of_eq_None_iff)
  then show ?thesis
    by (simp add: map_of_assign)
qed

lemma pickers_styles [simp]: "pickers (put_attrs (styles ps) x) = pickers x" "inner_pickers (put_attrs (styles ps) x) = inner_pickers x"
  "is_picker (put_attrs (styles ps) x) = is_picker x"
  by (cases x; simp add: put_attrs_def class_styles inner_pickers_def is_picker_def get_attr_def)+

lemma pickers_map_elements:
  assumes "\<And>y. pickers (f y) = pickers y"
  shows "pickers (map_elements P f x) = pickers x"
proof (induction x rule: textContent.induct)
  case (2 t as v ks)
  then have "(\<Sum>k\<leftarrow>ks. pickers (map_elements P f k)) = (\<Sum>k\<leftarrow>ks. pickers k)"
    by (intro arg_cong [where f = sum_list] map_cong) auto
  then show ?case
    by (simp add: assms Let_def comp_def)
qed simp

lemma pickers_column_widths: "map pickers (column_widths n ks) = map pickers ks"
  by (induction n ks rule: column_widths.induct) auto

lemma pickers_put_kids: "(\<And>ks. map pickers (f ks) = map pickers ks) \<Longrightarrow> pickers (put_kids f x) = pickers x"
  by (cases x) (simp_all add: put_kids_def)

lemma pickers_repair_inside [simp]: "pickers (repair_inside x) = pickers x"
  unfolding repair_inside_def code_styles_def cell_styles_def table_styles_def
  by (simp add: pickers_map_elements pickers_put_kids pickers_column_widths)

lemma pickers_scroll: "pickers (put_attrs [(''data-cm-initial-scroll-reset'', v), (''scrollTop'', w)] x) = pickers x"
  by (cases x) (simp_all add: put_attrs_def map_of_assign)

lemma pickers_repair [simp]: "pickers (repairModelInfoDialogLayout h d) = pickers d"
proof -
  have "map pickers (map repair_inside ks) = map pickers ks" for ks
    by simp
  then show ?thesis
    unfolding repairModelInfoDialogLayout_def dialog_styles_def Let_def
    by (simp add: pickers_put_kids pickers_column_widths pickers_scroll)
qed

lemma pickers_upd_at: "(\<And>y. pickers (f y) = pickers y) \<Longrightarrow> pickers (upd_at p f x) = pickers x"
proof (induction p arbitrary: x)
  case (Cons i p)
  show ?case
  proof (cases x)
    case (Element t as v ks)
    have "map pickers (ks[i := upd_at p f (ks ! i)]) = map pickers ks" if "i < length ks"
      using that Cons by (simp add: map_update list_update_same_conv)
    then show ?thesis
      using Element by simp
  qed simp
qed simp

lemma is_picker_upd_at: "(\<And>y. is_picker (f y) = is_picker y) \<Longrightarrow> is_picker (upd_at p f x) = is_picker x"
  by (cases p; cases x) (simp_all add: is_picker_def get_attr_def)

lemma is_picker_put_kids [simp]: "is_picker (put_kids f x) = is_picker x"
  by (cases x) (simp_all add: is_picker_def get_attr_def put_kids_def)

lemma is_picker_scroll: "is_picker (put_attrs [(''data-cm-initial-scroll-reset'', v), (''scrollTop'', w)] x) = is_picker x"
  by (cases x) (simp_all add: put_attrs_def map_of_assign is_picker_def get_attr_def)

lemma is_picker_repair [simp]: "is_picker (repairModelInfoDialogLayout h d) = is_picker d"
  unfolding repairModelInfoDialogLayout_def dialog_styles_def Let_def by (simp add: is_picker_scroll)

lemma pickers_placed:
  assumes "\<not> is_picker x" "pickers pk = 1"
  shows "pickers (place_picker c pk x) \<le> 1" "\<not> is_picker (place_picker c pk x)"
proof -
  let ?f = "\<lambda>e. put_attrs (styles [(''min-width'', ''0''), (''width'', ''58%''), (''max-width'', ''100%''), (''box-sizing'', ''border-box'')]) (put_kids (\<lambda>_. [pk]) e)"
  have "inner_pickers (put_kids (\<lambda>_. [pk]) y) \<le> 1" for y
    using assms(2) by (cases y) (simp_all add: put_kids_def inner_pickers_def)
  then have inner: "inner_pickers (?f y) \<le> 1" for y
    by simp
  have outer: "\<not> is_picker (upd_at c ?f x)"
    using assms(1) is_picker_upd_at [of ?f c x] by simp
  then show "\<not> is_picker (place_picker c pk x)"
    by (simp add: place_picker_def)
  show "pickers (place_picker c pk x) \<le> 1"
    using outer pickers_inner [of "drop_picker (Some c) (upd_at c ?f x)"] drop_others [of c "upd_at c ?f x"] pickers_at_upd [of ?f 1 c x, OF inner]
    by (simp add: place_picker_def)
qed

text \<open>The model list as the code builds it.\<close>

definition own_picker :: "'a picker_page_scheme \<Rightarrow> bool" where
  "own_picker s = (\<forall>pk. picker s = Some pk \<longrightarrow> (\<exists>opts v b. pk = picker_node opts v b))"

lemma pickers_option: "pickers (option_element (model_option m)) = 0"
  by (simp add: option_element_def model_option_def)

lemma pickers_list: "(\<forall>e \<in> set opts. pickers e = 0) \<Longrightarrow> pickers (picker_node opts v b) = 1"
  by (simp add: picker_node_def badge_node_def)

lemma with_options_picker: "with_options opts v (picker_node opts' v' b) = picker_node opts v b"
  by (simp add: with_options_def picker_node_def put_kids_def)

lemma fallback_frame:
  assumes "renderModelInfoFallback loc s = (s', req)"
  shows "pickers (doc s') = pickers (doc s)" "is_picker (doc s') = is_picker (doc s)" "picker s' = picker s"
  using assms by (auto simp: renderModelInfoFallback_def issue_def Let_def pickers_upd_at is_picker_upd_at split: option.splits if_splits)

lemma execution_picker_frame [simp]:
  "doc (updateExecutionStatus m s) = doc s" "picker (updateExecutionStatus m s) = picker s"
  by (simp_all add: updateExecutionStatus_def Let_def)

lemma restoreDraft_picker_frame [simp]: "doc (restoreDraft area s) = doc s" "picker (restoreDraft area s) = picker s"
  by (simp_all add: restoreDraft_def Let_def split: option.split)


definition info_page :: dnode where
  "info_page = Element ''html'' [] [] [Element ''body'' [] [] [Element ''div'' [(''role'', ''dialog'')] []
     [Element ''h2'' [] [] [TextNode ''Model Information''],
      Element ''table'' [] [] [Element ''tr'' [] [] [Element ''td'' [] [] [TextNode ''Model''], Element ''td'' [] [] [TextNode ''m1'']],
        Element ''tr'' [] [] [Element ''td'' [] [] [TextNode ''File path''], Element ''td'' [] [] [TextNode ''/m1'']]]]]]"

definition picker0 :: picker_page where
  "picker0 = selector.extend (selector0\<lparr>sel_models := [Obj [(''id'', Str ''m1'')]]\<rparr>)
     \<lparr>doc = info_page, innerHeight = 800, modelInfoFallbackModelId = [], modelInfoFallbackPromise = False, picker = None\<rparr>"


end
