(* ===== verification/PortalAuth.thy ===== *)
theory PortalAuth
  imports AgentAuth
begin

text \<open>
  Sessions of the public portal, \<^verbatim>\<open>src/portal/portal-core.js\<close> (lines 1527 to 1556 and 1642 to 1989): the stored keys and the session cookie,
  signing in through a link to the AI subdomain, signing out, the choice of the language and the public price table.
  The translation tables are a parameter: \<open>tr lang key\<close> is \<^verbatim>\<open>translations[lang][key]\<close>, \<^const>\<open>None\<close> for \<^verbatim>\<open>undefined\<close>. The cookie jar
  keeps host-only cookies and cookies for the whole domain apart, as browsers do.
\<close>

type_synonym translations_table = "string \<Rightarrow> string \<Rightarrow> string option"

text \<open>An entry of the products menu that leads to the chat, with its icon, title and subtitle.\<close>

record menu_item =
  mi_link :: elem
  mi_icon :: "elem option"
  mi_title :: "elem option"
  mi_sub :: "elem option"

text \<open>\<open>chat_links\<close> are the links of the header to the playground or the chat outside the products menu, \<open>menu_items\<close> those inside;
  \<open>docLang\<close> is the language of the document, \<open>clipboard\<close> the texts put there.\<close>

record portal = browser +
  isLoggedIn :: "bool option"
  currentLang :: string
  docLang :: string
  jar :: "(string \<times> bool \<times> string) list"
  address :: string
  chat_links :: "elem list"
  menu_items :: "menu_item list"
  clipboard :: "string list"

section \<open>Cookies\<close>

definition document_cookie :: "'a portal_scheme \<Rightarrow> string" where
  "document_cookie p = join ''; '' (map (\<lambda>(n, d, v). n @ ''='' @ v) (jar p))"

definition del_cookie :: "string \<Rightarrow> bool \<Rightarrow> (string \<times> bool \<times> string) list \<Rightarrow> (string \<times> bool \<times> string) list" where
  "del_cookie n d j = filter (\<lambda>(n', d', v). \<not> (n' = n \<and> d' = d)) j"

definition put_cookie :: "string \<Rightarrow> bool \<Rightarrow> string \<Rightarrow> (string \<times> bool \<times> string) list \<Rightarrow> (string \<times> bool \<times> string) list" where
  "put_cookie n d v j = del_cookie n d j @ [(n, d, v)]"

section \<open>Stored keys\<close>

definition portal_keys :: "string list" where
  "portal_keys = [''cm_fleet_owner_key'', ''cm_owner_key'', ''cm_api_key'', ''cm_token'', ''apiKey'']"

text \<open>\<^verbatim>\<open>s.split(/[\r\n]/)[0]\<close>.\<close>

definition first_line :: "string \<Rightarrow> string" where
  "first_line s = takeWhile (\<lambda>c. c \<noteq> CHR 0x0D \<and> c \<noteq> CHR 0x0A) s"

definition clean_key :: "string \<Rightarrow> string" where
  "clean_key raw = trim (first_line (strip_bearer (strip_quotes (trim raw))))"

definition getActiveComputeMeshApiKey :: "'a browser_scheme \<Rightarrow> string" where
  "getActiveComputeMeshApiKey b = (if \<not> can_read (localStorage b) then []
     else let raw = first_stored (localStorage b) portal_keys in if raw = [] then [] else clean_key raw)"

definition session_items :: "string list" where
  "session_items = portal_keys @ [''cm_fleet_email'']"

definition hasActiveSession :: "'a portal_scheme \<Rightarrow> bool" where
  "hasActiveSession p = (isLoggedIn p = Some True \<or> includes_str (document_cookie p) ''cm_session='' \<or>
     (can_read (localStorage p) \<and> list_ex (\<lambda>k. stored (localStorage p) k \<noteq> []) session_items))"

section \<open>Signing in by a link\<close>

text \<open>A sequence of storage writes; \<^const>\<open>None\<close>: one of them throws.\<close>

fun set_items :: "string list \<Rightarrow> string \<Rightarrow> storage \<Rightarrow> storage option" where
  "set_items [] v st = Some st"
| "set_items (k # ks) v st = (case set_item k v st of None \<Rightarrow> None | Some st' \<Rightarrow> set_items ks v st')"

definition config_keys :: "string list" where
  "config_keys = [''LlamaUi.config'', ''LlamaCppWebui.config'', ''LlamacppWebui.config'', ''settings'', ''config'']"

text \<open>\<^verbatim>\<open>cfg.apiKey = key\<close> followed by \<^verbatim>\<open>JSON.stringify(cfg)\<close> (sloppy mode): a property of an array or a primitive value is not
  serialised, and \<^verbatim>\<open>null\<close> throws.\<close>

definition write_config :: "string \<Rightarrow> string \<Rightarrow> storage \<Rightarrow> storage" where
  "write_config q k st = (if \<not> can_read st then st
     else (case json_parse (str_or (stored st k) ''{}'') of None \<Rightarrow> st
       | Some (Obj kvs) \<Rightarrow> try_set_item k (stringify (Obj (set_field ''apiKey'' (Str q) kvs))) st
       | Some Null \<Rightarrow> st
       | Some v \<Rightarrow> try_set_item k (stringify v) st))"

definition overrides_key :: string where
  "overrides_key = ''LlamaUi.userOverrides''"

definition write_overrides :: "storage \<Rightarrow> storage" where
  "write_overrides st = (if \<not> can_read st then st
     else (case json_parse (str_or (stored st overrides_key) ''[]'') of None \<Rightarrow> st
       | Some v \<Rightarrow> let ov = arr_or_empty v in
           try_set_item overrides_key (stringify (Arr (if Str ''apiKey'' \<in> set ov then ov else ov @ [Str ''apiKey'']))) st))"

definition link_key :: "location \<Rightarrow> string" where
  "link_key loc = (let q = (\<lambda>k. item_text (query loc k)); raw = str_or (q ''key'') (str_or (q ''api_key'') (q ''token'')) in
     if raw = [] then [] else clean_key raw)"

definition ai_host :: string where
  "ai_host = ''ai.inetconnector.com''"

definition sign_in :: "string \<Rightarrow> 'a portal_scheme \<Rightarrow> 'a portal_scheme" where
  "sign_in q p = (case set_items portal_keys q (localStorage p) of None \<Rightarrow> p
     | Some st \<Rightarrow> navigate (Replace ''/webui/'') (p\<lparr>localStorage := write_overrides (fold (write_config q) config_keys st),
         jar := put_cookie ''cm_session'' True (encodeURIComponent q) (jar p), address := ''/webui/''\<rparr>))"

definition handleAiSubdomainRouting :: "location \<Rightarrow> 'a portal_scheme \<Rightarrow> 'a portal_scheme" where
  "handleAiSubdomainRouting loc p =
     (if hostname loc \<noteq> ai_host then p
      else if link_key loc \<noteq> [] then sign_in (link_key loc) p
      else if pathname loc \<in> {''/'', ''/index.html'', []}
        then navigate (Replace (if hasActiveSession p then ''/webui/'' else ''/ai-auth.html'')) p
      else p)"

section \<open>The header\<close>

definition lookup_or :: "translations_table \<Rightarrow> string \<Rightarrow> string \<Rightarrow> string \<Rightarrow> string" where
  "lookup_or tr lang k d = str_or (item_text (tr lang k)) d"

definition banner_html :: "translations_table \<Rightarrow> string \<Rightarrow> string" where
  "banner_html tr lang = (html ''~        <div class=^pg-auth-banner-content^>~          <div class=^pg-auth-banner-icon^>'' @ [CHR 0xF0, CHR 0x9F, CHR 0x9A, CHR 0x80] @ html ''</div>~          <div class=^pg-auth-banner-text^>~            <h4 data-i18n=^pg_auth_banner_title^>'') @ lookup_or tr lang ''pg_auth_banner_title'' (if lang = ''de'' then (''Angemeldet: Vollwertiges WebUI Studio verf'' @ [CHR 0xC3, CHR 0xBC] @ ''gbar'') else ''Signed In: Full WebUI Studio Workspace Available'') @ (html ''</h4>~            <p data-i18n=^pg_auth_banner_desc^>'') @ lookup_or tr lang ''pg_auth_banner_desc'' (if lang = ''de'' then ''Nutze die integrierte llama-server WebUI mit Multi-Modellen, PDF/Bilder-Upload, Branching und unbegrenzter Chat-Historie.'' else ''Use the built-in llama-server WebUI with multi-model switching, PDF/image uploads, branching, and local chat history.'') @ (html ''</p>~          </div>~        </div>~        <a href=^'') @ ''https://ai.inetconnector.com/'' @ (html ''^ target=^_blank^ rel=^noopener noreferrer^ class=^btn btn-primary btn-sm pg-auth-banner-btn^ onclick=^openWebUI(event)^ data-i18n=^pg_auth_banner_btn^>~          '') @ lookup_or tr lang ''pg_auth_banner_btn'' (if lang = ''de'' then ([CHR 0xF0, CHR 0x9F, CHR 0x9A, CHR 0x80] @ '' WebUI Studio '' @ [CHR 0xC3, CHR 0xB6] @ ''ffnen '' @ [CHR 0xE2, CHR 0x86, CHR 0x97]) else ([CHR 0xF0, CHR 0x9F, CHR 0x9A, CHR 0x80] @ '' Open WebUI Studio '' @ [CHR 0xE2, CHR 0x86, CHR 0x97])) @ (html ''~        </a>~      '')"

definition auth_button :: "translations_table \<Rightarrow> string \<Rightarrow> bool \<Rightarrow> 'a portal_scheme \<Rightarrow> 'a portal_scheme" where
  "auth_button tr lang auth p = (let key = (if auth then ''fleet_btn_logout'' else ''fleet_btn_login_nav'');
       name = lookup_or tr lang key (if auth then (if lang = ''de'' then ''Abmelden'' else ''Sign out'') else (if lang = ''de'' then ''Anmelden'' else ''Sign in'')) in
     if page p ''auth-nav-btn'' = None then p
     else on_elem ''auth-nav-btn-text'' (\<lambda>e. set_attr ''data-i18n'' key (set_text name e))
       (on_elem ''auth-nav-btn-icon'' (set_text (if auth then [CHR 0xF0, CHR 0x9F, CHR 0x9A, CHR 0xAA] else [CHR 0xF0, CHR 0x9F, CHR 0x94, CHR 0x91])) p))"

definition open_in_tab :: "elem \<Rightarrow> elem" where
  "open_in_tab e = set_attr ''rel'' ''noopener noreferrer'' (set_attr ''target'' ''_blank'' (set_attr ''href'' ''https://ai.inetconnector.com/'' e))"

definition chat_link :: "translations_table \<Rightarrow> string \<Rightarrow> elem \<Rightarrow> elem" where
  "chat_link tr lang e = set_attr ''title'' (if lang = ''de'' then (''ComputeMesh AI-Chat in neuem Fenster '' @ [CHR 0xC3, CHR 0xB6] @ ''ffnen'') else ''Open ComputeMesh AI-Chat in a new window'')
     (set_attr ''data-i18n'' ''nav_aichat'' (set_text (lookup_or tr lang ''nav_aichat'' ([CHR 0xF0, CHR 0x9F, CHR 0x92, CHR 0xAC] @ '' AI-Chat '' @ [CHR 0xE2, CHR 0x86, CHR 0x97])) (open_in_tab e)))"

definition menu_entry :: "translations_table \<Rightarrow> string \<Rightarrow> bool \<Rightarrow> menu_item \<Rightarrow> menu_item" where
  "menu_entry tr lang auth m = (let tk = (if auth then ''nav_prod_inference_auth'' else ''nav_prod_inference'');
       sk = (if auth then ''nav_prod_inference_sub_auth'' else ''nav_prod_inference_sub'') in
     \<lparr>mi_link = open_in_tab (mi_link m), mi_icon = map_option (set_text [CHR 0xF0, CHR 0x9F, CHR 0x92, CHR 0xAC]) (mi_icon m),
      mi_title = map_option (\<lambda>e. set_attr ''data-i18n'' tk (set_text (lookup_or tr lang tk (if auth then ([CHR 0xF0, CHR 0x9F, CHR 0x92, CHR 0xAC] @ '' WebUI Studio '' @ [CHR 0xE2, CHR 0x86, CHR 0x97]) else (''WebUI Studio '' @ [CHR 0xE2, CHR 0x86, CHR 0x97]))) e)) (mi_title m),
      mi_sub = map_option (\<lambda>e. set_attr ''data-i18n'' sk (set_text (lookup_or tr lang sk ''Vollwertige Chat-UI mit Multi-Modell, PDF/Bilder & Branching'') e)) (mi_sub m)\<rparr>)"

text \<open>The element \<open>playground-studio\<close> is the first of that class.\<close>

definition auth_banner :: "translations_table \<Rightarrow> string \<Rightarrow> bool \<Rightarrow> 'a portal_scheme \<Rightarrow> 'a portal_scheme" where
  "auth_banner tr lang auth p =
     (if page p ''playground-studio'' = None then p
     else if auth then (let p2 = (if page p ''pg-auth-banner'' = None
              then p\<lparr>page := (page p)(''pg-auth-banner'' \<mapsto> blank\<lparr>classes := [''pg-auth-banner'']\<rparr>)\<rparr> else p) in
        on_elem ''pg-auth-banner'' (\<lambda>e. set_html (banner_html tr lang) (set_style ''display'' ''flex'' e)) p2)
     else on_elem ''pg-auth-banner'' (set_style ''display'' ''none'') p)"

definition updateAuthStateUI :: "translations_table \<Rightarrow> 'a portal_scheme \<Rightarrow> 'a portal_scheme" where
  "updateAuthStateUI tr p = (let lang = str_or (currentLang p) ''de''; auth = hasActiveSession p; p1 = auth_button tr lang auth p in
     auth_banner tr lang auth (p1\<lparr>chat_links := map (chat_link tr lang) (chat_links p1), menu_items := map (menu_entry tr lang auth) (menu_items p1)\<rparr>))"

section \<open>Signing out\<close>

definition logout_items :: "string list" where
  "logout_items = [''cm_owner_key'', ''cm_api_key'', ''cm_fleet_email'']"

definition sign_out :: "'a portal_scheme \<Rightarrow> 'a portal_scheme" where
  "sign_out p = (if \<not> can_read (localStorage p) then p
     else p\<lparr>localStorage := fold try_remove_item logout_items (localStorage p), jar := del_cookie ''cm_session'' False (jar p)\<rparr>)"

text \<open>\<open>doLogout\<close> is the logout function of the fleet page, if that page defines one.\<close>

definition handleAuthNavClick :: "('a portal_scheme \<Rightarrow> 'a portal_scheme) option \<Rightarrow> translations_table \<Rightarrow> location \<Rightarrow> 'a portal_scheme \<Rightarrow> 'a portal_scheme" where
  "handleAuthNavClick doLogout tr loc p = (case (doLogout, isLoggedIn p) of
     (Some f, Some True) \<Rightarrow> f p
   | _ \<Rightarrow>
     if hasActiveSession p then
       (let p1 = sign_out p; p2 = updateAuthStateUI tr (p1\<lparr>isLoggedIn := (if isLoggedIn p1 = None then None else Some False)\<rparr>) in
        if starts_with (pathname loc) ''/fleet'' then navigate Reload p2 else p2)
     else if starts_with (pathname loc) ''/fleet'' then on_elem ''auth-section'' (\<lambda>e. e\<lparr>hidden := False\<rparr>) p
     else navigate (Assign ''/fleet'') p)"

text \<open>The active entry of the navigation: \<open>None\<close> for a link without an address.\<close>

definition clean_path :: "string \<Rightarrow> string" where
  "clean_path s = str_or (if ends_with s ''/'' then butlast s else s) ''/''"

definition nav_active :: "string \<Rightarrow> string \<Rightarrow> bool option" where
  "nav_active path h = (if h = [] then None else
     let cur = clean_path path; c = clean_path (takeWhile (\<lambda>x. x \<noteq> CHR ''#'') h) in
     Some (c = cur \<and> cur \<noteq> ''/'' \<or> c = ''/'' \<and> cur = ''/'' \<and> CHR ''#'' \<notin> set h))"

section \<open>Language\<close>

definition lang_key :: string where
  "lang_key = ''cm_portal_lang''"

text \<open>What the browser reports about its languages and its time zone.\<close>

record browser_locale =
  browser_langs :: "string list"
  time_zone :: string

definition detectInitialLanguage :: "location \<Rightarrow> browser_locale \<Rightarrow> 'a portal_scheme \<Rightarrow> string \<times> 'a portal_scheme" where
  "detectInitialLanguage loc bl p = (let u = query loc ''lang''; fallback =
       (if list_ex (\<lambda>l. starts_with (lower l) ''de'') (filter (\<lambda>l. l \<noteq> []) (browser_langs bl)) \<or> time_zone bl = ''Europe/Berlin'' \<or> ends_with (hostname loc) ''.de''
        then ''de'' else ''de'') in
     if u = Some ''de'' \<or> u = Some ''en'' then (case set_item lang_key (the u) (localStorage p) of
         Some st \<Rightarrow> (the u, p\<lparr>localStorage := st\<rparr>) | None \<Rightarrow> (fallback, p))
     else (case get_item lang_key (localStorage p) of
         Some (Some l) \<Rightarrow> (if l = ''de'' \<or> l = ''en'' then l else fallback, p) | _ \<Rightarrow> (fallback, p)))"

text \<open>An element with a translation key, as \<^verbatim>\<open>switchLanguage\<close> treats it.\<close>

record i18n_elem =
  i_tag :: string
  i_key :: "string option"
  i_ph_key :: "string option"
  i_title_key :: "string option"
  i_elem :: elem

definition show_translation :: "string \<Rightarrow> string \<Rightarrow> elem \<Rightarrow> elem" where
  "show_translation tg t e =
     (if tg = ''INPUT'' \<or> tg = ''TEXTAREA'' then (if item_text (attr e ''placeholder'') \<noteq> [] then set_attr ''placeholder'' t e else e\<lparr>val := t\<rparr>)
      else if tg = ''OPTION'' then set_text t e else set_html t e)"

definition translate_text :: "translations_table \<Rightarrow> string \<Rightarrow> i18n_elem \<Rightarrow> i18n_elem" where
  "translate_text tr lang x = (case i_key x of None \<Rightarrow> x
     | Some k \<Rightarrow> (case tr lang k of None \<Rightarrow> x | Some t \<Rightarrow> x\<lparr>i_elem := show_translation (i_tag x) t (i_elem x)\<rparr>))"

definition translate_attr :: "translations_table \<Rightarrow> string \<Rightarrow> string \<Rightarrow> string option \<Rightarrow> i18n_elem \<Rightarrow> i18n_elem" where
  "translate_attr tr lang a k x = (case k of None \<Rightarrow> x
     | Some k' \<Rightarrow> (case tr lang k' of None \<Rightarrow> x | Some t \<Rightarrow> x\<lparr>i_elem := set_attr a t (i_elem x)\<rparr>))"

definition translate_elem :: "translations_table \<Rightarrow> string \<Rightarrow> i18n_elem \<Rightarrow> i18n_elem" where
  "translate_elem tr lang x = (let x1 = translate_text tr lang x; x2 = translate_attr tr lang ''placeholder'' (i_ph_key x) x1 in
     translate_attr tr lang ''title'' (i_title_key x) x2)"

definition known_lang :: "string \<Rightarrow> string" where
  "known_lang l = (if l = ''de'' \<or> l = ''en'' then l else ''de'')"

text \<open>The first part of \<^verbatim>\<open>switchLanguage\<close>: the page's translated elements, the language buttons and the stored choice. The refreshing
  of the price table, the market and the model cards follows in \<open>PortalMarket\<close>.\<close>

definition apply_language :: "translations_table \<Rightarrow> string \<Rightarrow> i18n_elem list \<times> 'a portal_scheme \<Rightarrow> i18n_elem list \<times> 'a portal_scheme" where
  "apply_language tr l xp = (case xp of (xs, p) \<Rightarrow> let lang = known_lang l;
       p1 = on_elem ''lang-toggle-btn'' (set_text (if lang = ''en'' then ([CHR 0xF0, CHR 0x9F, CHR 0x87, CHR 0xA9, CHR 0xF0, CHR 0x9F, CHR 0x87, CHR 0xAA] @ '' Deutsch'') else ([CHR 0xF0, CHR 0x9F, CHR 0x87, CHR 0xAC, CHR 0xF0, CHR 0x9F, CHR 0x87, CHR 0xA7] @ '' English''))) (p\<lparr>currentLang := lang, docLang := lang\<rparr>);
       p2 = on_elem ''lang-en'' (toggle_class ''active'' (lang = ''en'')) (on_elem ''lang-de'' (toggle_class ''active'' (lang = ''de'')) p1) in
     (map (translate_elem tr lang) xs, put_local lang_key lang p2))"

lemmas portal_auth_defs [js_defs] = document_cookie_def del_cookie_def put_cookie_def portal_keys_def first_line_def clean_key_def
  getActiveComputeMeshApiKey_def session_items_def hasActiveSession_def config_keys_def write_config_def overrides_key_def
  write_overrides_def link_key_def ai_host_def sign_in_def handleAiSubdomainRouting_def lookup_or_def banner_html_def
  auth_button_def open_in_tab_def chat_link_def menu_entry_def auth_banner_def updateAuthStateUI_def logout_items_def sign_out_def handleAuthNavClick_def clean_path_def nav_active_def lang_key_def
  detectInitialLanguage_def show_translation_def translate_text_def translate_attr_def translate_elem_def known_lang_def apply_language_def

section \<open>Lemmas\<close>

lemma set_items_ok: "can_write st \<Longrightarrow> \<exists>st'. set_items ks v st = Some st' \<and> can_write st' \<and> can_read st' = can_read st \<and>
    items st' = (\<lambda>k. if k \<in> set ks then Some v else items st k)"
proof (induction ks arbitrary: st)
  case Nil
  then show ?case by simp
next
  case (Cons k ks)
  let ?st = "st\<lparr>items := (items st)(k \<mapsto> v)\<rparr>"
  have "can_write ?st" using Cons.prems by simp
  from Cons.IH [OF this] Cons.prems show ?case by (auto simp: set_item_def fun_eq_iff)
qed

lemma write_config_access [simp]: "can_read (write_config q k st) = can_read st" "can_write (write_config q k st) = can_write st"
  by (simp_all add: write_config_def split: option.split jsv.split)

lemma write_config_other: "k' \<noteq> k \<Longrightarrow> items (write_config q k st) k' = items st k'"
  by (simp add: write_config_def items_try_set_item split: option.split jsv.split)

lemma write_configs_access [simp]:
  "can_read (fold (write_config q) ks st) = can_read st" "can_write (fold (write_config q) ks st) = can_write st"
  by (induction ks arbitrary: st) simp_all

lemma write_configs_other: "k' \<notin> set ks \<Longrightarrow> items (fold (write_config q) ks st) k' = items st k'"
  by (induction ks arbitrary: st) (simp_all add: write_config_other)

lemma write_overrides_frame [simp]: "can_read (write_overrides st) = can_read st"
  "k' \<noteq> overrides_key \<Longrightarrow> items (write_overrides st) k' = items st k'"
  by (simp_all add: write_overrides_def items_try_set_item Let_def split: option.split)

lemma sign_in_keys:
  assumes "can_write (localStorage p)" and "k \<in> set portal_keys"
  shows "items (localStorage (sign_in q p)) k = Some q" "can_read (localStorage (sign_in q p)) = can_read (localStorage p)"
proof -
  obtain st where st: "set_items portal_keys q (localStorage p) = Some st" "can_read st = can_read (localStorage p)" "items st k = Some q"
    using set_items_ok [OF assms(1), of portal_keys q] assms(2) by auto
  have k: "k \<notin> set config_keys" "k \<noteq> overrides_key" using assms(2) by (auto simp: portal_keys_def config_keys_def overrides_key_def)
  show "items (localStorage (sign_in q p)) k = Some q" using st k by (simp add: sign_in_def navigate_def write_configs_other)
  show "can_read (localStorage (sign_in q p)) = can_read (localStorage p)" using st by (simp add: sign_in_def navigate_def)
qed

lemma updateAuthStateUI_frame [simp]:
  "localStorage (updateAuthStateUI tr p) = localStorage p" "jar (updateAuthStateUI tr p) = jar p"
  "isLoggedIn (updateAuthStateUI tr p) = isLoggedIn p" "navs (updateAuthStateUI tr p) = navs p"
  "currentLang (updateAuthStateUI tr p) = currentLang p"
  by (simp_all add: updateAuthStateUI_def auth_button_def auth_banner_def Let_def)

lemma items_remove: "can_read st \<Longrightarrow> items (fold try_remove_item ks st) = (\<lambda>k. if k \<in> set ks then None else items st k)"
  by (induction ks arbitrary: st) (auto simp: items_try_remove_item fun_eq_iff)

lemma remove_access [simp]: "can_read (fold try_remove_item ks st) = can_read st"
  by (induction ks arbitrary: st) simp_all

lemma del_cookie_other: "(n, d', v) \<in> set (del_cookie n d j) \<longleftrightarrow> (n, d', v) \<in> set j \<and> d' \<noteq> d"
  by (auto simp: del_cookie_def)

lemma clicked:
  assumes "hasActiveSession p" and "isLoggedIn p \<noteq> Some True \<or> doLogout = None"
  shows "localStorage (handleAuthNavClick doLogout tr loc p) = localStorage (sign_out p) \<and> jar (handleAuthNavClick doLogout tr loc p) = jar (sign_out p) \<and>
    isLoggedIn (handleAuthNavClick doLogout tr loc p) \<noteq> Some True"
proof -
  let ?q = "updateAuthStateUI tr ((sign_out p)\<lparr>isLoggedIn := (if isLoggedIn (sign_out p) = None then None else Some False)\<rparr>)"
  have "handleAuthNavClick doLogout tr loc p = (if starts_with (pathname loc) ''/fleet'' then navigate Reload ?q else ?q)"
    using assms by (auto simp: handleAuthNavClick_def Let_def split: option.splits bool.splits)
  then show ?thesis by (simp add: navigate_def)
qed

definition leftover_items :: "string list" where
  "leftover_items = [''cm_fleet_owner_key'', ''cm_token'', ''apiKey'']"

lemma session_after_sign_out:
  assumes "can_read (localStorage p)" and "q = sign_out p"
  shows "list_ex (\<lambda>k. stored (localStorage q) k \<noteq> []) session_items \<longleftrightarrow> list_ex (\<lambda>k. stored (localStorage p) k \<noteq> []) leftover_items"
  using assms by (simp add: sign_out_def stored_def items_try_remove_item session_items_def portal_keys_def logout_items_def leftover_items_def item_text_def)

section \<open>Properties\<close>


definition portal0 :: portal where
  "portal0 = browser.extend
     \<lparr>localStorage = \<lparr>items = [''cm_owner_key'' \<mapsto> ''k1''], can_read = True, can_write = True\<rparr>,
      sessionStorage = \<lparr>items = Map.empty, can_read = True, can_write = True\<rparr>, cookie = [],
      page = Map.empty, sent = [], navs = [], alerts = []\<rparr>
     \<lparr>isLoggedIn = None, currentLang = ''de'', docLang = ''de'', jar = [], address = ''/'', chat_links = [], menu_items = [], clipboard = []\<rparr>"

lemma portal0_session: "can_read (localStorage portal0)" "can_write (localStorage portal0)" "isLoggedIn portal0 = None" "hasActiveSession portal0"
  by (simp_all add: portal0_def browser.defs hasActiveSession_def session_items_def portal_keys_def stored_def item_text_def)


text \<open>A sign-in link works once and leaves no credential behind in the address: the key of the link is stored where the portal
  looks for it, the session is active, the cookie carries the encoded key, and the page is replaced by the chat under an
  address without the key.\<close>

theorem link_sign_in:
  assumes "hostname loc = ai_host" and "link_key loc = q" and "q \<noteq> []" and "clean_key q = q"
    and "can_read (localStorage p)" and "can_write (localStorage p)" and "r = handleAiSubdomainRouting loc p"
  shows "getActiveComputeMeshApiKey r = q \<and> hasActiveSession r \<and> address r = ''/webui/'' \<and> navs r = navs p @ [Replace ''/webui/''] \<and>
    (''cm_session'', True, encodeURIComponent q) \<in> set (jar r)"
proof -
  have r: "r = sign_in q p" using assms by (simp add: handleAiSubdomainRouting_def)
  have k: "stored (localStorage r) ''cm_fleet_owner_key'' = q"
    using sign_in_keys(1) [OF assms(6), of "''cm_fleet_owner_key''" q] r by (simp add: portal_keys_def stored_def item_text_def)
  have rd: "can_read (localStorage r)"
    using sign_in_keys(2) [OF assms(6), of "''cm_fleet_owner_key''" q] assms(5) r by (simp add: portal_keys_def)
  have "getActiveComputeMeshApiKey r = q" using k rd assms(3,4) by (simp add: getActiveComputeMeshApiKey_def portal_keys_def)
  moreover have "hasActiveSession r" using k rd assms(3) by (simp add: hasActiveSession_def session_items_def portal_keys_def)
  moreover obtain st where "set_items portal_keys q (localStorage p) = Some st" using set_items_ok [OF assms(6)] by blast
  then have "address r = ''/webui/'' \<and> navs r = navs p @ [Replace ''/webui/''] \<and> (''cm_session'', True, encodeURIComponent q) \<in> set (jar r)"
    using r by (simp add: sign_in_def navigate_def put_cookie_def)
  ultimately show ?thesis by simp
qed

definition key_link :: location where
  "key_link = \<lparr>hostname = ''ai.inetconnector.com'', origin = ''https://ai.inetconnector.com'', pathname = ''/'', protocol = ''https:'',
     query = [''token'' \<mapsto> ''Bearer cm-42 '']\<rparr>"

theorem link_sign_in_witness:
  "getActiveComputeMeshApiKey (handleAiSubdomainRouting key_link portal0) = ''cm-42''"
proof -
  have "hostname key_link = ai_host" "link_key key_link = ''cm-42''" "clean_key ''cm-42'' = ''cm-42''" by code_simp+
  from link_sign_in [OF this(1,2) _ this(3) portal0_session(1,2) refl] show ?thesis by simp
qed

definition single_key :: "i18n_elem \<Rightarrow> bool" where
  "single_key x = (i_key x = None \<or> i_ph_key x = None)"

lemma translate_attr_keys [simp]:
  "i_key (translate_attr tr l a k x) = i_key x" "i_ph_key (translate_attr tr l a k x) = i_ph_key x"
  "i_title_key (translate_attr tr l a k x) = i_title_key x" "i_tag (translate_attr tr l a k x) = i_tag x"
  by (simp_all add: translate_attr_def split: option.split)

lemma translate_text_keys [simp]:
  "i_ph_key (translate_text tr l x) = i_ph_key x" "i_title_key (translate_text tr l x) = i_title_key x" "i_key (translate_text tr l x) = i_key x"
  by (simp_all add: translate_text_def split: option.split)

lemma translate_attr_twice:
  assumes "\<And>k. tr l k = None \<longleftrightarrow> tr l' k = None"
  shows "translate_attr tr l a k (translate_attr tr l' a k x) = translate_attr tr l a k x"
proof (cases k)
  case (Some k')
  then show ?thesis using assms [of k'] by (cases "tr l k'"; cases "tr l' k'") (simp_all add: translate_attr_def)
qed (simp add: translate_attr_def)

lemma translate_attr_commute:
  "a \<noteq> b \<Longrightarrow> translate_attr tr l a k (translate_attr tr l' b k' x) = translate_attr tr l' b k' (translate_attr tr l a k x)"
  by (simp add: translate_attr_def fun_upd_twist split: option.split)

lemma show_translation_twice: "t' \<noteq> [] \<Longrightarrow> show_translation tg t (show_translation tg t' e) = show_translation tg t e"
  by (simp add: show_translation_def item_text_def)

lemma show_translation_title: "show_translation tg t (set_attr ''title'' u e) = set_attr ''title'' u (show_translation tg t e)"
  by (simp add: show_translation_def fun_upd_twist)

lemma translate_text_title: "translate_text tr l (translate_attr tr l' ''title'' k x) = translate_attr tr l' ''title'' k (translate_text tr l x)"
  by (simp add: translate_text_def translate_attr_def show_translation_title split: option.split)

lemma translate_text_twice:
  assumes "\<And>k. tr l k = None \<longleftrightarrow> tr l' k = None" and "\<And>k. tr l' k \<noteq> Some []"
  shows "translate_text tr l (translate_text tr l' x) = translate_text tr l x"
proof (cases "i_key x")
  case None
  then show ?thesis by (simp add: translate_text_def)
next
  case (Some k)
  then show ?thesis using assms(1) [of k] assms(2) [of k]
    by (cases "tr l' k"; cases "tr l k") (simp_all add: translate_text_def show_translation_twice)
qed

lemma translate_elem_twice:
  assumes "\<And>k. tr l k = None \<longleftrightarrow> tr l' k = None" and "\<And>k. tr l' k \<noteq> Some []" and "single_key x"
  shows "translate_elem tr l (translate_elem tr l' x) = translate_elem tr l x"
proof -
  let ?T = "\<lambda>l. translate_attr tr l ''title'' (i_title_key x)" and ?P = "\<lambda>l. translate_attr tr l ''placeholder'' (i_ph_key x)"
  let ?X = "translate_text tr"
  have "translate_elem tr l (translate_elem tr l' x) = ?T l (?P l (?X l (?T l' (?P l' (?X l' x)))))"
    by (simp add: translate_elem_def Let_def)
  also have "\<dots> = ?T l (?T l' (?P l (?X l (?P l' (?X l' x)))))"
    by (simp add: translate_text_title translate_attr_commute [of "''placeholder''" "''title''"])
  also have "\<dots> = ?T l (?P l (?X l (?P l' (?X l' x))))" by (rule translate_attr_twice) (rule assms(1))
  also have "?P l (?X l (?P l' (?X l' x))) = ?P l (?X l x)"
  proof (cases "i_key x")
    case None
    then have "?X m y = y" if "i_key y = None" for m y using that by (simp add: translate_text_def)
    then show ?thesis using None translate_attr_twice [of tr l l' "''placeholder''", OF assms(1)] by simp
  next
    case (Some k)
    then have "i_ph_key x = None" using assms(3) by (simp add: single_key_def)
    then show ?thesis using translate_text_twice [of tr l l', OF assms(1,2)] by (simp add: translate_attr_def)
  qed
  finally show ?thesis by (simp add: translate_elem_def Let_def)
qed

text \<open>Switching the language is reversible: with tables that translate the same keys by non-empty texts, changing to one language
  and then to another shows exactly what changing to the other at once shows, and the initial language is English only when
  the address or a stored choice says so, whatever the browser's languages are.\<close>

theorem language_switch_reversible:
  assumes "\<And>k. tr ''de'' k = None \<longleftrightarrow> tr ''en'' k = None" and "\<And>l k. tr l k \<noteq> Some []" and "list_all single_key xs"
  shows "fst (apply_language tr ''de'' (apply_language tr ''en'' (xs, p))) = fst (apply_language tr ''de'' (xs, p)) \<and>
    fst (apply_language tr ''en'' (apply_language tr ''de'' (xs, p))) = fst (apply_language tr ''en'' (xs, p)) \<and>
    (fst (detectInitialLanguage loc bl p) = ''en'' \<longrightarrow> query loc ''lang'' = Some ''en'' \<or> items (localStorage p) lang_key = Some ''en'')"
proof -
  have "map (translate_elem tr ''de'') (map (translate_elem tr ''en'') xs) = map (translate_elem tr ''de'') xs"
    using assms(3) by (simp add: list_all_iff translate_elem_twice [OF assms(1) assms(2)])
  moreover have "map (translate_elem tr ''en'') (map (translate_elem tr ''de'') xs) = map (translate_elem tr ''en'') xs"
    using assms(3) by (simp add: list_all_iff translate_elem_twice [OF assms(1) [symmetric] assms(2)])
  moreover have "fst (detectInitialLanguage loc bl p) = ''en'' \<Longrightarrow> query loc ''lang'' = Some ''en'' \<or> items (localStorage p) lang_key = Some ''en''"
    by (auto simp: detectInitialLanguage_def get_item_def Let_def split: option.splits if_splits)
  ultimately show ?thesis by (simp add: apply_language_def known_lang_def Let_def)
qed

theorem language_switch_reversible_witness:
  "fst (detectInitialLanguage key_link \<lparr>browser_langs = [''en-US''], time_zone = ''UTC''\<rparr> portal0) \<noteq> ''en''"
proof -
  have "query key_link ''lang'' = None" "items (localStorage portal0) lang_key = None"
    by (simp_all add: key_link_def portal0_def browser.defs lang_key_def)
  then show ?thesis
    using language_switch_reversible [of "\<lambda>l k. None" "[]" portal0 key_link "\<lparr>browser_langs = [''en-US''], time_zone = ''UTC''\<rparr>"] by auto
qed

end
