(* ===== verification/PortalMarket.thy ===== *)
theory PortalMarket
  imports PortalAuth SelectorDiscovery
begin

text \<open>
  Live data of the public portal, \<^verbatim>\<open>src/portal/portal-core.js\<close>: the price table (lines 1937 to 1989), the model catalogue (3238 to 3344),
  the node market with its filters (3224 to 3568), and the code samples (3578 to 3735). The cards of the market and of the
  model library are lists of records in the order in which the code appends them; the containers are elements of the page.
\<close>

section \<open>State\<close>

datatype fetch_state = Loading | NeedsAuth | Ready | Failed

record market_filters =
  f_gpu :: string
  f_vram :: string
  f_status :: string
  f_search :: string

text \<open>A card of the market; \<open>promo\<close>: the onboarding card, recognised by its class and its text.\<close>

record market_card =
  mc_gpu :: string
  mc_vram :: string
  mc_status :: string
  mc_text :: string
  mc_html :: string
  promo :: bool
  shown :: bool

record model_card =
  md_category :: string
  md_name :: string
  md_badge :: string
  md_context :: string
  md_desc :: string
  md_actions :: "string list"
  md_shown :: bool

record market = portal +
  currentMarketFilters :: market_filters
  lastFetchedNodes :: "jsv list"
  marketplaceFetchState :: fetch_state
  lastFetchedModels :: "jsv list option"
  modelCatalogLoaded :: bool
  currentModelCategory :: string
  currentDxTab :: string
  market_cards :: "market_card list"
  model_cards :: "model_card list"

section \<open>Prices\<close>

definition fin_num :: "jsv \<Rightarrow> rat option" where
  "fin_num v = (case v of Num (Fin q) \<Rightarrow> Some q | _ \<Rightarrow> None)"

definition unavailable :: "jsv \<Rightarrow> bool" where
  "unavailable m = (safe_prop m ''available'' = Bool False \<or> starts_with (str_of_or (safe_prop m ''availability'') []) ''unavailable'')"

definition price_tiers :: "jsv \<Rightarrow> (string \<times> jsv) list" where
  "price_tiers prices = (case and_prop prices ''tiers'' of Obj kvs \<Rightarrow> kvs | _ \<Rightarrow> [])"

definition tier_prices :: "(string \<times> jsv) list \<Rightarrow> string \<Rightarrow> (rat \<times> rat) option" where
  "tier_prices tiers i = (case map_of tiers i of None \<Rightarrow> None
     | Some t \<Rightarrow> (case (fin_num (safe_prop t ''prompt_usd_per_million''), fin_num (safe_prop t ''completion_usd_per_million'')) of
         (Some a, Some b) \<Rightarrow> Some (a, b) | _ \<Rightarrow> None))"

definition published_price :: "(string \<times> jsv) list \<Rightarrow> jsv \<Rightarrow> (string \<times> rat \<times> rat) option" where
  "published_price tiers m = (case safe_prop m ''id'' of
     Str i \<Rightarrow> if unavailable m then None else map_option (\<lambda>p. (i, p)) (tier_prices tiers i)
   | _ \<Rightarrow> None)"

definition price_row :: "string \<times> rat \<times> rat \<Rightarrow> node" where
  "price_row r = (case r of (i, a, b) \<Rightarrow> Node ''tr'' [] [] []
     [Node ''td'' [] [] i [], Node ''td'' [] [] (''$'' @ to_fixed 4 a) [], Node ''td'' [] [] (''$'' @ to_fixed 4 b) []])"

definition price_header :: "bool \<Rightarrow> node" where
  "price_header german = Node ''tr'' [] [] [] (map (\<lambda>t. Node ''th'' [] [] t [])
     (if german then [''Modell'', ''Eingabe / 1 Mio. Tokens'', ''Ausgabe / 1 Mio. Tokens''] else [''Model'', ''Input / 1M tokens'', ''Output / 1M tokens'']))"

definition price_content :: "bool \<Rightarrow> jsv \<Rightarrow> jsv \<Rightarrow> content" where
  "price_content german models prices =
     (let rows = List.map_filter (published_price (price_tiers prices)) (arr_or_empty (safe_prop models ''data'')) in
      if rows = [] then Text (if german
        then (''F'' @ [CHR 0xC3, CHR 0xBC] @ ''r die aktuell verf'' @ [CHR 0xC3, CHR 0xBC] @ ''gbaren Modelle ist noch kein passender '' @ [CHR 0xC3, CHR 0xB6] @ ''ffentlicher Preistier ver'' @ [CHR 0xC3, CHR 0xB6] @ ''ffentlicht. Bitte vor Nutzung die Abrechnung pr'' @ [CHR 0xC3, CHR 0xBC] @ ''fen.'')
        else ''No matching public price tier is published for the currently available models. Check billing before use.'')
      else Kids [Node ''table'' [] [] [] (price_header german # map price_row rows)])"

definition price_failure :: "bool \<Rightarrow> string" where
  "price_failure german = (if german then ''Live-Preise sind derzeit nicht abrufbar. Bitte vor Nutzung die Abrechnung pr'' @ [CHR 0xC3, CHR 0xBC] @ ''fen.''
     else ''Live pricing is unavailable. Check billing before use.'')"

text \<open>Both requests are made at once; a rejection, a failure status, malformed JSON or a catalogue that is \<^verbatim>\<open>null\<close> ends in the
  exception handler.\<close>

definition price_outcome :: "bool \<Rightarrow> fetched \<Rightarrow> fetched \<Rightarrow> content" where
  "price_outcome german mf pf = (case (mf, pf) of
     (Resp mr, Resp pr) \<Rightarrow> (if ok mr \<and> ok pr then (case (rjson mr, rjson pr) of
         (Some models, Some prices) \<Rightarrow> if models = Null \<or> models = Undef then Text (price_failure german) else price_content german models prices
       | _ \<Rightarrow> Text (price_failure german)) else Text (price_failure german))
   | _ \<Rightarrow> Text (price_failure german))"

definition loadLivePricing :: "server \<Rightarrow> 'a portal_scheme \<Rightarrow> 'a portal_scheme" where
  "loadLivePricing srv p = (if page p ''live-pricing'' = None then p
     else (case do_fetch srv (get_request ''/v1/models'') p of (mf, p1) \<Rightarrow>
       (case do_fetch srv (get_request ''/api/v1/pricing'') p1 of (pf, p2) \<Rightarrow>
         on_elem ''live-pricing'' (\<lambda>e. e\<lparr>content := price_outcome (currentLang p = ''de'') mf pf\<rparr>) p2)))"

section \<open>Model catalogue\<close>

definition listed_model :: "jsv \<Rightarrow> bool" where
  "listed_model m = (case safe_prop m ''id'' of Str i \<Rightarrow> length i \<le> 128 | _ \<Rightarrow> False)"

definition id_text :: "jsv \<Rightarrow> string" where
  "id_text m = (case safe_prop m ''id'' of Str i \<Rightarrow> i | _ \<Rightarrow> [])"

definition syncPlaygroundModel :: "string \<Rightarrow> 'a portal_scheme \<Rightarrow> 'a portal_scheme" where
  "syncPlaygroundModel i p = on_elem ''pg-cluster-status'' (set_text (if currentLang p = ''de'' then (''Modell ausgew'' @ [CHR 0xC3, CHR 0xA4] @ ''hlt ('') @ i @ '')'' else ''Model selected ('' @ i @ '')'')) p"

definition option_node :: "string \<Rightarrow> node" where
  "option_node i = Node ''option'' [] [(''value'', i)] i []"

definition send_button :: "string \<Rightarrow> string" where
  "send_button sel = (if sel = ''playground-model'' then ''playground-btn'' else ''playground-send-btn'')"

definition render_select :: "bool \<Rightarrow> string \<Rightarrow> 'a market_scheme \<Rightarrow> 'a market_scheme" where
  "render_select isDe sel s = (case page s sel of None \<Rightarrow> s
     | Some e \<Rightarrow>
       let ms = map id_text (filter (\<lambda>m. \<not> unavailable m) (case lastFetchedModels s of Some xs \<Rightarrow> xs | None \<Rightarrow> [])) in
       if ms = [] then
         (let note = (if \<not> modelCatalogLoaded s then (if isDe then ''Live-Modelle werden geladen...'' else ''Loading live models...'')
              else (if isDe then (''Keine Modelle verf'' @ [CHR 0xC3, CHR 0xBC] @ ''gbar'') else ''No models available'')) in
          on_elem (send_button sel) (\<lambda>b. b\<lparr>disabled := True\<rparr>)
            (on_elem sel (\<lambda>e. e\<lparr>content := Kids [Node ''option'' [] [(''value'', [])] note []], val := [], disabled := True\<rparr>) s))
       else
         (let v = (if val e \<in> set ms then val e else hd ms);
              s1 = on_elem (send_button sel) (\<lambda>b. b\<lparr>disabled := False\<rparr>)
                (on_elem sel (\<lambda>e. e\<lparr>content := Kids (map option_node ms), val := v, disabled := False\<rparr>) s) in
          if sel = ''playground-model-select'' then syncPlaygroundModel v s1 else s1))"

definition renderLivePlaygroundModels :: "bool \<Rightarrow> 'a market_scheme \<Rightarrow> 'a market_scheme" where
  "renderLivePlaygroundModels isDe s = fold (render_select isDe) [''playground-model-select'', ''playground-model''] s"

definition model_capabilities :: "jsv \<Rightarrow> string list" where
  "model_capabilities m = List.map_filter as_str (arr_or_empty (safe_prop m ''capabilities''))"

definition model_category :: "jsv \<Rightarrow> string" where
  "model_category m = (let i = lower (id_text m) in
     if ''vision'' \<in> set (model_capabilities m) \<or> includes_str i ''llava'' then ''vision''
     else if includes_str i ''coder'' \<or> includes_str i ''code'' then ''code''
     else if includes_str i ''reason'' \<or> includes_str i ''deepseek'' then ''reasoning'' else ''fast'')"

definition live_card :: "bool \<Rightarrow> string \<Rightarrow> jsv \<Rightarrow> model_card" where
  "live_card isDe cat m = (let caps = join '', '' (model_capabilities m) in
     \<lparr>md_category = model_category m, md_name = id_text m,
      md_badge = (if \<not> unavailable m then (if isDe then (''Im Gateway verf'' @ [CHR 0xC3, CHR 0xBC] @ ''gbar'') else ''Available in gateway'')
        else (if isDe then (''Derzeit nicht verf'' @ [CHR 0xC3, CHR 0xBC] @ ''gbar'') else ''Currently unavailable'')),
      md_context = (if model_category m = ''vision'' then (if isDe then ''Bild + Text'' else ''Image + text'') else ''Text''),
      md_desc = (if isDe then (''Live-Katalogeintrag '' @ [CHR 0xC2, CHR 0xB7] @ '' F'' @ [CHR 0xC3, CHR 0xA4] @ ''higkeiten: '') @ str_or caps ''Text'' else (''Live catalog entry '' @ [CHR 0xC2, CHR 0xB7] @ '' Capabilities: '') @ str_or caps ''text''),
      md_actions = (if \<not> unavailable m then (if isDe then [(''Im Chat '' @ [CHR 0xC3, CHR 0xB6] @ ''ffnen''), ''API-Code kopieren''] else [''Open chat'', ''Copy API code'']) else []),
      md_shown = (cat = ''all'' \<or> model_category m = cat)\<rparr>)"

definition filterModelCategory :: "string \<Rightarrow> 'a market_scheme \<Rightarrow> 'a market_scheme" where
  "filterModelCategory cat s = s\<lparr>currentModelCategory := cat,
     model_cards := map (\<lambda>c. c\<lparr>md_shown := (cat = ''all'' \<or> md_category c = cat)\<rparr>) (model_cards s)\<rparr>"

definition models_notice :: "bool \<Rightarrow> 'a market_scheme \<Rightarrow> string" where
  "models_notice isDe s = (if lastFetchedModels s = None then
       (if \<not> modelCatalogLoaded s then (if isDe then ''Der Live-Modellkatalog wird geladen...'' else ''Loading the live model catalog...'')
        else (if isDe then ''Der Live-Modellkatalog ist momentan nicht erreichbar.'' else ''The live model catalog is currently unavailable.''))
     else (if isDe then ''Das Gateway meldet derzeit keine Modelle.'' else ''The gateway currently lists no models.''))"

text \<open>Without models the container shows a notice and the list of cards is empty.\<close>

definition renderLiveModelCards :: "bool \<Rightarrow> 'a market_scheme \<Rightarrow> 'a market_scheme" where
  "renderLiveModelCards isDe s = (if page s ''models-cards-container'' = None then s
     else (case lastFetchedModels s of
       Some (m # ms) \<Rightarrow> filterModelCategory (currentModelCategory s) (on_elem ''models-cards-container'' (\<lambda>e. e\<lparr>content := Kids []\<rparr>)
          (s\<lparr>model_cards := map (live_card isDe ''all'') (m # ms)\<rparr>))
     | _ \<Rightarrow> on_elem ''models-cards-container'' (\<lambda>e. e\<lparr>content := Kids [Node ''p'' ''model-catalog-notice'' [] (models_notice isDe s) []]\<rparr>)
          (s\<lparr>model_cards := []\<rparr>)))"

definition loadLiveModelCatalog :: "server \<Rightarrow> 'a market_scheme \<Rightarrow> 'a market_scheme" where
  "loadLiveModelCatalog srv s =
     (if page s ''models-cards-container'' = None \<and> page s ''playground-model-select'' = None \<and> page s ''playground-model'' = None then s
      else (case do_fetch srv (get_request ''/v1/models'') s of (f, s1) \<Rightarrow>
        let ms = (case f of Rejected _ \<Rightarrow> None
              | Resp r \<Rightarrow> if \<not> ok r then None else (case rjson r of None \<Rightarrow> None
                  | Some p \<Rightarrow> (case and_prop p ''data'' of Arr xs \<Rightarrow> Some (filter listed_model xs) | _ \<Rightarrow> None)));
            s2 = s1\<lparr>lastFetchedModels := ms, modelCatalogLoaded := True\<rparr>; isDe = (currentLang s2 = ''de'') in
        renderLivePlaygroundModels isDe (renderLiveModelCards isDe s2)))"

section \<open>Node market\<close>

definition escape_html :: "string \<Rightarrow> string" where
  "escape_html s = concat (map (\<lambda>c. if c = CHR ''&'' then ''&amp;'' else if c = CHR ''<'' then ''&lt;'' else if c = CHR ''>'' then ''&gt;''
     else if c = CHR 0x22 then ''&quot;'' else if c = CHR 0x27 then ''&#39;'' else [c]) s)"

definition node_gpus :: "jsv \<Rightarrow> string list" where
  "node_gpus n = (case safe_prop n ''gpus'' of Arr (x # xs) \<Rightarrow> take 16 (List.map_filter as_str (x # xs)) | _ \<Rightarrow> [''ComputeMesh Hardware Worker''])"

definition gpus_text :: "jsv \<Rightarrow> string" where
  "gpus_text n = escape_html (join ('' '' @ [CHR 0xE2, CHR 0x80, CHR 0xA2] @ '' '') (node_gpus n))"

definition gpu_category :: "jsv \<Rightarrow> string \<times> string \<times> string" where
  "gpu_category n = (let l = lower (gpus_text n); has = includes_str l in
     if has ''amd'' \<or> has ''radeon'' \<or> has ''rocm'' \<or> has ''mi25'' then (''amd'', ''amd'', ''AMD ROCm / Vulkan'')
     else if has ''apple'' \<or> has ''metal'' \<or> has ''m1'' \<or> has ''m2'' \<or> has ''m3'' then (''apple'', ''enterprise'', ''Apple Silicon'')
     else if 1 < length (node_gpus n) then (''rig'', ''rig'', nat_str (length (node_gpus n)) @ ''x Multi-GPU Cluster'')
     else (''nvidia'', ''nvidia'', ''NVIDIA (CUDA)''))"

definition node_online :: "jsv \<Rightarrow> bool" where
  "node_online n = (truthy (safe_prop n ''is_online'') \<or> safe_prop n ''status'' = Str ''online'')"

definition measured :: "bool \<Rightarrow> string \<Rightarrow> jsv \<Rightarrow> string" where
  "measured isDe unit v = (case to_num v of Fin q \<Rightarrow> if q > 0 then to_fixed 1 q @ unit else (if isDe then ''Nicht gemessen'' else ''Not measured'')
     | _ \<Rightarrow> (if isDe then ''Nicht gemessen'' else ''Not measured''))"

definition vram_attr :: "jsv \<Rightarrow> string" where
  "vram_attr n = (case to_num (safe_prop n ''vram_gb'') of Fin q \<Rightarrow> if q > 0 then int_str (math_round q) else ''0'' | _ \<Rightarrow> ''0'')"

definition remote_link :: "url_parser \<Rightarrow> jsv \<Rightarrow> string" where
  "remote_link parser n = (case parser (str_of_or (safe_prop n ''remote_url'') []) [] of None \<Rightarrow> []
     | Some u \<Rightarrow> if url_protocol u = ''https:'' \<or> url_protocol u = ''http:'' then escape_html (href u) else [])"

definition remote_button :: "string \<Rightarrow> string" where
  "remote_button u = (if u = [] then [] else (html ''<a href=^'') @ u @ (html ''^ target=^_blank^ rel=^noopener^ class=^btn btn-secondary btn-sm^>'' @ [CHR 0xF0, CHR 0x9F, CHR 0x96, CHR 0xA5, CHR 0xEF, CHR 0xB8, CHR 0x8F] @ '' Node Dashboard</a>''))"

definition card_html :: "bool \<Rightarrow> url_parser \<Rightarrow> jsv \<Rightarrow> string" where
  "card_html isDe parser n = (case gpu_category n of (cat, badgeClass, badgeText) \<Rightarrow>
     (html ''~      <div class=^market-card-head^>~        <div class=^gpu-badge '') @ badgeClass @ (html ''^>'') @ badgeText @ (html ''</div>~        <span class=^status-pill '') @ (if node_online n then ''online'' else ''offline'') @ (html ''^>~          '') @ (if node_online n then (html ''<span class=^pulse-dot^></span> Online'') else ''Standby'') @ (html ''~        </span>~      </div>~      <h3 class=^market-gpu-name^ style=^font-family: var(--font-mono); font-size: 1.15rem; color: #ffffff;^>'') @ escape_html (str_of_or (safe_prop n ''node_id'') ''Node'') @ (html ''</h3>~      <p class=^market-gpu-sub^>'') @ gpus_text n @ (html ''</p>~      <div class=^market-specs-row^>~        <div class=^spec-box^><span class=^spec-lbl^>VRAM</span><span class=^spec-val^>'') @ measured isDe '' GB'' (safe_prop n ''vram_gb'') @ (html ''</span></div>~        <div class=^spec-box^><span class=^spec-lbl^>AI Power</span><span class=^spec-val^>'') @ measured isDe '' TFLOPS'' (safe_prop n ''tflops'') @ (html ''</span></div>~        <div class=^spec-box^><span class=^spec-lbl^>'') @ ''Status'' @ (html ''</span><span class=^spec-val^>'') @ (if node_online n then ''Online'' else ''Standby'') @ (html ''</span></div>~      </div>~      <div class=^market-price-row^>~        <div>~          <span class=^price-val^>'') @ (if isDe then ''Tarif nach Modell'' else ''Price by model'') @ (html ''</span>~          <div class=^hourly-est^>'') @ (if isDe then (''Preis vor Auftrag pr'' @ [CHR 0xC3, CHR 0xBC] @ ''fen'') else ''Check price before request'') @ (html ''</div>~        </div>~        <span class=^verified-tag^>'') @ (if isDe then ([CHR 0xE2, CHR 0x9C, CHR 0x93] @ '' Echter Mesh-Knoten'') else ([CHR 0xE2, CHR 0x9C, CHR 0x93] @ '' Real Mesh Node'')) @ (html ''</span>~      </div>~      <div class=^market-card-actions^>~        <a class=^btn btn-primary btn-sm^ href=^/models^>'') @ (if isDe then ''Modelle ansehen'' else ''View models'') @ (html ''</a>~        '') @ remote_button (remote_link parser n) @ (html ''~      </div>~    ''))"

text \<open>The text content of parsed markup: tags are dropped and the entities written by \<open>escape_html\<close> are resolved.\<close>

fun strip_tags :: "bool \<Rightarrow> string \<Rightarrow> string" where
  "strip_tags b [] = []"
| "strip_tags False (c # s) = (if c = CHR ''<'' then strip_tags True s else c # strip_tags False s)"
| "strip_tags True (c # s) = (if c = CHR ''>'' then strip_tags False s else strip_tags True s)"

definition entities :: "(string \<times> char) list" where
  "entities = [(''&amp;'', CHR ''&''), (''&lt;'', CHR ''<''), (''&gt;'', CHR ''>''), (''&quot;'', CHR 0x22), (''&#39;'', CHR 0x27)]"

function decode_entities :: "string \<Rightarrow> string" where
  "decode_entities s = (case s of [] \<Rightarrow> []
     | c # r \<Rightarrow> (case find (\<lambda>(e, _). starts_with s e) entities of
         Some (e, d) \<Rightarrow> d # decode_entities (drop (length e) s) | None \<Rightarrow> c # decode_entities r))"
  by auto
termination
  by (relation "measure length") (auto simp: entities_def split: if_splits)

declare decode_entities.simps [simp del]

definition text_content :: "string \<Rightarrow> string" where
  "text_content h = decode_entities (strip_tags False h)"

definition node_card :: "bool \<Rightarrow> url_parser \<Rightarrow> jsv \<Rightarrow> market_card" where
  "node_card isDe parser n = \<lparr>mc_gpu = fst (gpu_category n), mc_vram = vram_attr n, mc_status = (if node_online n then ''online'' else ''standby''),
     mc_text = text_content (card_html isDe parser n), mc_html = card_html isDe parser n, promo = False, shown = True\<rparr>"

definition promo_html :: "bool \<Rightarrow> string" where
  "promo_html isDe = (html ''~    <div>~      <div class=^market-card-head^>~        <div class=^gpu-badge rig^ style=^background: rgba(16, 185, 129, 0.15); color: var(--accent-emerald); border-color: rgba(16, 185, 129, 0.3);^>75% REVENUE SHARE</div>~        <span class=^status-pill online^ style=^color: var(--accent-emerald);^><span class=^pulse-dot^></span> '') @ (if isDe then ''Live-Kopplung'' else ''Live Pairing'') @ (html ''</span>~      </div>~      <h3 class=^market-gpu-name^ style=^font-size: 1.25rem;^>+ '') @ (if isDe then ''Eigenen GPU-Node verbinden'' else ''Connect Your GPU Node'') @ (html ''</h3>~      <p class=^market-gpu-sub^>'') @ (if isDe then ''Windows Agent, Linux Headless Daemon oder Mining Rig OS (NodeOS).'' else ''Windows Agent, Linux Headless Daemon or Mining Rig OS (NodeOS).'') @ (html ''</p>~      <div style=^font-size: 0.88rem; color: var(--text-muted); line-height: 1.5; margin-top: 0.75rem; margin-bottom: 1.25rem;^>~        '') @ (if isDe then (''Schlie'' @ [CHR 0xC3, CHR 0x9F] @ ''e deine Gaming-GPU, Workstation oder dein Mining-Rig an und erhalte automatische Auszahlungen ab 25 '' @ [CHR 0xE2, CHR 0x82, CHR 0xAC] @ ''/$ '' @ [CHR 0xC3, CHR 0xBC] @ ''ber Stripe Connect.'') else (''Connect your gaming GPU, workstation or mining rig and receive automatic payouts from 25 '' @ [CHR 0xE2, CHR 0x82, CHR 0xAC] @ ''/$ via Stripe Connect.'')) @ (html ''~      </div>~    </div>~    <div class=^market-card-actions^>~      <a href=^/downloads^ class=^btn btn-emerald btn-sm^ style=^width: 100%; text-align: center; text-decoration: none; font-weight: 700;^>'') @ (if isDe then (''Provider-Software herunterladen '' @ [CHR 0xE2, CHR 0x9E, CHR 0x94]) else (''Download Provider Software '' @ [CHR 0xE2, CHR 0x9E, CHR 0x94])) @ (html ''</a>~    </div>~  '')"

definition plain_card :: "bool \<Rightarrow> string \<Rightarrow> market_card" where
  "plain_card p h = \<lparr>mc_gpu = [], mc_vram = [], mc_status = [], mc_text = text_content h, mc_html = h, promo = p, shown = True\<rparr>"

definition notice_html :: "bool \<Rightarrow> fetch_state \<Rightarrow> string" where
  "notice_html isDe st = ''<h3>'' @ (case st of NeedsAuth \<Rightarrow> (if isDe then ''Knotendetails erfordern eine Anmeldung'' else ''Sign in to view node details'')
       | Loading \<Rightarrow> (if isDe then ''Knotendaten werden geladen'' else ''Loading node data'')
       | _ \<Rightarrow> (if isDe then (''Knotendaten sind momentan nicht verf'' @ [CHR 0xC3, CHR 0xBC] @ ''gbar'') else ''Node data is currently unavailable'')) @
     ''</h3><p>'' @ (if isDe then ([CHR 0xC3, CHR 0x96] @ ''ffentliche GPU- und Knotenzahlen stehen in der Live-'' @ [CHR 0xC3, CHR 0x9C] @ ''bersicht. Pers'' @ [CHR 0xC3, CHR 0xB6] @ ''nliche Flottendetails sind gesch'' @ [CHR 0xC3, CHR 0xBC] @ ''tzt.'')
       else ''Public GPU and node counts appear in the live overview. Personal fleet details are protected.'') @
     (html ''</p><a href=^/fleet^ class=^btn btn-primary^>'') @ (if isDe then ''Zur Flottenanmeldung'' else ''Open fleet sign-in'') @ ''</a>''"

definition empty_market_html :: "bool \<Rightarrow> string" where
  "empty_market_html isDe = (html ''~      <div class=^market-card highlight^ style=^grid-column: 1 / -1; text-align: center; padding: 3rem 2rem; background: linear-gradient(145deg, rgba(15, 23, 42, 0.9), rgba(56, 189, 248, 0.08)); border: 1px dashed rgba(56, 189, 248, 0.35);^>~        <div style=^font-size: 2.5rem; margin-bottom: 0.75rem;^>'' @ [CHR 0xF0, CHR 0x9F, CHR 0x8C, CHR 0x90] @ html ''</div>~        <h3 style=^font-size: 1.5rem; margin-bottom: 0.5rem;^>'') @ (if isDe then ''Keine Knoten in dieser Flottenansicht'' else ''No nodes in this fleet view'') @ (html ''</h3>~        <p style=^color: var(--text-muted); max-width: 620px; margin: 0 auto 1.5rem auto; font-size: 0.95rem; line-height: 1.6;^>~          '') @ (if isDe then (''Das Gateway hat f'' @ [CHR 0xC3, CHR 0xBC] @ ''r diese Anmeldung derzeit keine sichtbaren Knoten gemeldet.'') else ''The gateway currently reports no visible nodes for this sign-in.'') @ (html ''~        </p>~        <div style=^display: flex; gap: 1rem; justify-content: center; flex-wrap: wrap;^>~          <button class=^btn btn-primary^ onclick=^openModal(`consumer`)^>'') @ (if isDe then ([CHR 0xF0, CHR 0x9F, CHR 0x9A, CHR 0x80] @ '' API-Key holen'') else ([CHR 0xF0, CHR 0x9F, CHR 0x9A, CHR 0x80] @ '' Get API Key'')) @ (html ''</button>~          <a href=^/downloads^ class=^btn btn-emerald^>'') @ (if isDe then ([CHR 0xE2, CHR 0x9A, CHR 0xA1] @ '' Provider-Software laden (.exe / Linux / NodeOS)'') else ([CHR 0xE2, CHR 0x9A, CHR 0xA1] @ '' Download Provider Agent'')) @ (html ''</a>~        </div>~      </div>~    '')"

text \<open>\<^verbatim>\<open>parseInt(a || '0', 10) >= parseInt(b, 10)\<close>.\<close>

definition num_ge :: "jnum \<Rightarrow> jnum \<Rightarrow> bool" where
  "num_ge a b = (a \<noteq> NaN \<and> b \<noteq> NaN \<and> \<not> num_less a b)"

definition card_matches :: "market_filters \<Rightarrow> market_card \<Rightarrow> bool" where
  "card_matches f c = (promo c \<or>
     ((f_gpu f = ''all'' \<or> mc_gpu c = f_gpu f) \<and> (f_vram f = ''all'' \<or> num_ge (parse_int (str_or (mc_vram c) ''0'')) (parse_int (f_vram f))) \<and>
      (f_status f = ''all'' \<or> mc_status c = f_status f) \<and> (f_search f = [] \<or> includes_str (lower (mc_text c)) (f_search f))))"

definition filterMarketplace :: "'a market_scheme \<Rightarrow> 'a market_scheme" where
  "filterMarketplace s = (let f = (currentMarketFilters s)\<lparr>f_search := (case page s ''market-search'' of None \<Rightarrow> [] | Some e \<Rightarrow> trim (lower (val e)))\<rparr> in
     s\<lparr>currentMarketFilters := f, market_cards := map (\<lambda>c. c\<lparr>shown := card_matches f c\<rparr>) (market_cards s)\<rparr>)"

definition renderRealMarketplaceCards :: "url_parser \<Rightarrow> jsv list \<Rightarrow> bool \<Rightarrow> 'a market_scheme \<Rightarrow> 'a market_scheme" where
  "renderRealMarketplaceCards parser nodes isDe s = (if page s ''marketplace-cards-container'' = None then s
     else if nodes = [] then s\<lparr>market_cards := [plain_card False (if marketplaceFetchState s \<noteq> Ready then notice_html isDe (marketplaceFetchState s) else empty_market_html isDe)]\<rparr>
     else filterMarketplace (s\<lparr>market_cards := map (node_card isDe parser) (filter (\<lambda>n. truthy n \<and> is_object n) nodes) @ [plain_card True (promo_html isDe)]\<rparr>))"

definition market_is_german :: "string \<Rightarrow> 'a market_scheme \<Rightarrow> bool" where
  "market_is_german nav s = (currentLang s = ''de'' \<or> stored (localStorage s) lang_key = ''de'' \<or> (stored (localStorage s) lang_key = [] \<and> starts_with nav ''de''))"

text \<open>The reply of the fleet request.\<close>

definition market_reply :: "url_parser \<Rightarrow> bool \<Rightarrow> fetched \<Rightarrow> 'a market_scheme \<Rightarrow> 'a market_scheme" where
  "market_reply parser isDe f s =
     (let failed = renderRealMarketplaceCards parser (lastFetchedNodes s) isDe
            (s\<lparr>marketplaceFetchState := (if marketplaceFetchState s = Ready then Ready else Failed)\<rparr>) in
      case f of Rejected _ \<Rightarrow> failed
      | Resp r \<Rightarrow>
          if status r = 401 \<or> status r = 403 then renderRealMarketplaceCards parser [] isDe (s\<lparr>marketplaceFetchState := NeedsAuth, lastFetchedNodes := []\<rparr>)
          else if \<not> ok r then failed
          else (case rjson r of None \<Rightarrow> failed
            | Some d \<Rightarrow> let ns = arr_or_empty (and_prop d ''nodes'') in
                renderRealMarketplaceCards parser ns isDe (s\<lparr>marketplaceFetchState := Ready, lastFetchedNodes := ns\<rparr>)))"

text \<open>Reading the stored language outside the \<^verbatim>\<open>try\<close> block can throw.\<close>

definition loadRealMarketplaceData :: "server \<Rightarrow> url_parser \<Rightarrow> string \<Rightarrow> 'a market_scheme \<Rightarrow> 'a market_scheme" where
  "loadRealMarketplaceData srv parser nav s = (if page s ''marketplace-cards-container'' = None then s
     else if currentLang s \<noteq> ''de'' \<and> \<not> can_read (localStorage s) then s
     else (case do_fetch srv (get_request ''/api/v1/mesh/fleet'') s of (f, s1) \<Rightarrow> market_reply parser (market_is_german nav s) f s1))"

definition setMarketFilter :: "string \<Rightarrow> string \<Rightarrow> 'a market_scheme \<Rightarrow> 'a market_scheme" where
  "setMarketFilter ty v s = (let f = currentMarketFilters s in
     filterMarketplace (s\<lparr>currentMarketFilters := (if ty = ''gpu'' then f\<lparr>f_gpu := v\<rparr> else if ty = ''vram'' then f\<lparr>f_vram := v\<rparr>
       else if ty = ''status'' then f\<lparr>f_status := v\<rparr> else f)\<rparr>))"

section \<open>Model selection and code samples\<close>

definition selectModelInPlayground :: "string \<Rightarrow> 'a portal_scheme \<Rightarrow> 'a portal_scheme" where
  "selectModelInPlayground i p = (if page p ''playground-model-select'' = None then p
     else syncPlaygroundModel i (on_elem ''playground-model-select'' (\<lambda>e. e\<lparr>val := i\<rparr>) p))"

definition sample_key :: "'a browser_scheme \<Rightarrow> string" where
  "sample_key b = str_or (stored (localStorage b) ''cm_api_key'') ''cm_live_your_key''"

definition model_api_snippet :: "string \<Rightarrow> string \<Rightarrow> string" where
  "model_api_snippet apiKey modelId = (html ''from openai import OpenAI~~client = OpenAI(~    base_url=^https://mesh.inetconnector.com/v1^,~    api_key=^'') @ apiKey @ (html ''^~)~~response = client.chat.completions.create(~    model=^'') @ modelId @ (html ''^,~    messages=[{^role^: ^user^, ^content^: ^Hello from ComputeMesh!^}],~    stream=True~)~~for chunk in response:~    print(chunk.choices[0].delta.content or ^^, end=^^, flush=True)'')"

text \<open>\<open>granted\<close>: the browser lets the page write to the clipboard. Reading the key can throw.\<close>

definition copyModelApiSnippet :: "bool \<Rightarrow> string \<Rightarrow> 'a portal_scheme \<Rightarrow> 'a portal_scheme" where
  "copyModelApiSnippet granted modelId p = (if \<not> can_read (localStorage p) \<or> \<not> granted then p
     else p\<lparr>clipboard := clipboard p @ [model_api_snippet (sample_key p) modelId],
       alerts := alerts p @ [if currentLang p = ''de'' then (''API-Snippet f'' @ [CHR 0xC3, CHR 0xBC] @ ''r '') @ modelId @ '' kopiert!'' else ''API snippet for '' @ modelId @ '' copied!'']\<rparr>)"

definition dx_templates :: "string \<Rightarrow> (string \<times> string \<times> string) list" where
  "dx_templates key = [
     (''python'', ''inference_client.py'', (html ''from openai import OpenAI~~# 100% drop-in replacement for OpenAI SDK~client = OpenAI(~    base_url=^https://mesh.inetconnector.com/v1^,~    api_key=^'') @ key @ (html ''^~)~~response = client.chat.completions.create(~    model=^qwen2.5:7b^,~    messages=[{^role^: ^user^, ^content^: ^Explain distributed AI inference in simple terms.^}],~    stream=True~)~~for chunk in response:~    if chunk.choices[0].delta.content:~        print(chunk.choices[0].delta.content, end=^^, flush=True)'')),
     (''nodejs'', ''inference.ts'', (html ''import OpenAI from ^openai^;~~const openai = new OpenAI({~  baseURL: ^https://mesh.inetconnector.com/v1^,~  apiKey: ^'') @ key @ (html ''^,~});~~async function main() {~  const stream = await openai.chat.completions.create({~    model: ^qwen2.5:7b^,~    messages: [{ role: ^user^, content: ^Write a quick TypeScript helper.^ }],~    stream: true,~  });~~  for await (const chunk of stream) {~    process.stdout.write(chunk.choices[0]?.delta?.content || ^^);~  }~}~~main();'')),
     (''curl'', ''curl_request.sh'', (''curl https://mesh.inetconnector.com/v1/chat/completions '' @ [CHR 0x5C] @ html ''~  -H ^Content-Type: application/json^ '' @ [CHR 0x5C] @ html ''~  -H ^Authorization: Bearer '') @ key @ (html ''^ '' @ [CHR 0x5C] @ html ''~  -d `{~    ^model^: ^qwen2.5:7b^,~    ^messages^: [{^role^: ^user^, ^content^: ^What is ComputeMesh?^}],~    ^stream^: true~  }`'')),
     (''ollama'', ''ollama_cli.sh'', (html ''# Point Ollama CLI to the ComputeMesh distributed pool~export OLLAMA_HOST=https://mesh.inetconnector.com~~# Run any open-source model instantly~ollama run qwen2.5:7b ^Explain pipeline layer sharding.^'')),
     (''langchain'', ''langchain_mesh.py'', (html ''from langchain_openai import ChatOpenAI~~llm = ChatOpenAI(~    base_url=^https://mesh.inetconnector.com/v1^,~    api_key=^'') @ key @ (html ''^,~    model=^qwen2.5:7b^,~    temperature=0.7~)~~for chunk in llm.stream(^Summarize the benefits of decentralized GPUs:^):~    print(chunk.content, end=^^, flush=True)''))]"

definition dx_sample :: "string \<Rightarrow> string \<Rightarrow> string \<times> string" where
  "dx_sample key lang = (case map_of (dx_templates key) lang of Some t \<Rightarrow> t
     | None \<Rightarrow> (case map_of (dx_templates key) ''python'' of Some t \<Rightarrow> t | None \<Rightarrow> ([], [])))"

text \<open>The highlighting of the pressed tab is not modelled.\<close>

definition switchDxTab :: "string \<Rightarrow> 'a market_scheme \<Rightarrow> 'a market_scheme" where
  "switchDxTab lang s = (let s1 = s\<lparr>currentDxTab := lang\<rparr> in
     if \<not> can_read (localStorage s) then s1
     else (case dx_sample (sample_key s) lang of (file, code) \<Rightarrow>
       on_elem ''dx-code-content'' (set_text code) (on_elem ''dx-filename'' (set_text file) s1)))"

section \<open>Switching the language\<close>

text \<open>The whole language switch: the translated elements, the prices, the header, and the cards from the data fetched last. The hooks of
  single pages and the removal of pictographs from the header, which only changes text nodes, are the parameter \<open>hooks\<close>.\<close>

definition switchLanguage :: "translations_table \<Rightarrow> server \<Rightarrow> url_parser \<Rightarrow> (string \<Rightarrow> 'a market_scheme \<Rightarrow> 'a market_scheme) \<Rightarrow> string \<Rightarrow>
    i18n_elem list \<times> 'a market_scheme \<Rightarrow> i18n_elem list \<times> 'a market_scheme" where
  "switchLanguage tr srv parser hooks l xs = (case apply_language tr l xs of (ys, s1) \<Rightarrow>
     let lang = known_lang l; isDe = (lang = ''de''); s2 = updateAuthStateUI tr (loadLivePricing srv s1);
       s3 = renderLiveModelCards isDe (renderRealMarketplaceCards parser (lastFetchedNodes s2) isDe s2) in
     (ys, hooks lang (renderLivePlaygroundModels isDe s3)))"

definition toggleLanguage :: "translations_table \<Rightarrow> server \<Rightarrow> url_parser \<Rightarrow> (string \<Rightarrow> 'a market_scheme \<Rightarrow> 'a market_scheme) \<Rightarrow>
    i18n_elem list \<times> 'a market_scheme \<Rightarrow> i18n_elem list \<times> 'a market_scheme" where
  "toggleLanguage tr srv parser hooks xs = switchLanguage tr srv parser hooks (if currentLang (snd xs) = ''en'' then ''de'' else ''en'') xs"

lemmas market_defs [js_defs] = fin_num_def unavailable_def price_tiers_def tier_prices_def published_price_def price_row_def price_header_def
  price_content_def price_failure_def price_outcome_def loadLivePricing_def listed_model_def id_text_def syncPlaygroundModel_def
  option_node_def send_button_def render_select_def renderLivePlaygroundModels_def model_capabilities_def model_category_def
  live_card_def filterModelCategory_def models_notice_def renderLiveModelCards_def loadLiveModelCatalog_def escape_html_def
  node_gpus_def gpus_text_def gpu_category_def node_online_def measured_def vram_attr_def remote_link_def remote_button_def card_html_def
  entities_def text_content_def node_card_def promo_html_def plain_card_def notice_html_def empty_market_html_def num_ge_def card_matches_def
  filterMarketplace_def renderRealMarketplaceCards_def market_is_german_def market_reply_def loadRealMarketplaceData_def setMarketFilter_def
  selectModelInPlayground_def sample_key_def model_api_snippet_def copyModelApiSnippet_def
  dx_templates_def dx_sample_def switchDxTab_def switchLanguage_def toggleLanguage_def

section \<open>Escaping\<close>

lemma decode_entities_Nil [simp]: "decode_entities [] = []"
  by (simp add: decode_entities.simps)

lemma decode_entities_plain: "c \<noteq> CHR ''&'' \<Longrightarrow> decode_entities (c # s) = c # decode_entities s"
  by (simp add: decode_entities.simps [of "c # s"] entities_def)

lemma decode_entities_plains: "CHR ''&'' \<notin> set x \<Longrightarrow> decode_entities (x @ y) = x @ decode_entities y"
proof (induction x)
  case (Cons c x)
  then have "c \<noteq> CHR ''&''" by auto
  then show ?case using Cons by (simp add: decode_entities_plain)
qed simp

lemma decode_entity:
  "decode_entities (''&amp;'' @ y) = CHR ''&'' # decode_entities y" "decode_entities (''&lt;'' @ y) = CHR ''<'' # decode_entities y"
  "decode_entities (''&gt;'' @ y) = CHR ''>'' # decode_entities y" "decode_entities (''&quot;'' @ y) = CHR 0x22 # decode_entities y"
  "decode_entities (''&#39;'' @ y) = CHR 0x27 # decode_entities y"
  by (subst decode_entities.simps, simp add: entities_def)+

lemma escape_html_Cons: "escape_html (c # s) = escape_html [c] @ escape_html s"
  by (simp add: escape_html_def)

lemma decode_escape_char: "decode_entities (escape_html [c] @ y) = c # decode_entities y"
proof -
  consider "c = CHR ''&''" | "c = CHR ''<''" | "c = CHR ''>''" | "c = CHR 0x22" | "c = CHR 0x27"
    | "c \<notin> {CHR ''&'', CHR ''<'', CHR ''>'', CHR 0x22, CHR 0x27}" by blast
  then show ?thesis
  proof cases
    case 6
    then show ?thesis by (simp add: escape_html_def decode_entities_plain)
  qed (use decode_entity in \<open>simp_all add: escape_html_def\<close>)
qed

lemma decode_escape: "decode_entities (escape_html s @ y) = s @ decode_entities y"
proof (induction s)
  case Nil
  show ?case by (simp add: escape_html_def)
next
  case (Cons c s)
  have "decode_entities (escape_html (c # s) @ y) = decode_entities (escape_html [c] @ escape_html s @ y)"
    by (subst escape_html_Cons) simp
  then show ?case using Cons by (simp add: decode_escape_char)
qed

lemma set_escape_html: "set (escape_html s) \<inter> {CHR ''<'', CHR ''>'', CHR 0x22, CHR 0x27} = {}"
  by (auto simp: escape_html_def split: if_splits)

fun tag_state :: "bool \<Rightarrow> string \<Rightarrow> bool" where
  "tag_state b [] = b"
| "tag_state b (c # s) = tag_state (if b then c \<noteq> CHR ''>'' else c = CHR ''<'') s"

lemma strip_tags_append: "strip_tags b (x @ y) = strip_tags b x @ strip_tags (tag_state b x) y"
  by (induction b x rule: strip_tags.induct) auto

lemma tag_state_append: "tag_state b (x @ y) = tag_state (tag_state b x) y"
  by (induction x arbitrary: b) auto

lemma tag_state_plain: "CHR ''<'' \<notin> set x \<Longrightarrow> CHR ''>'' \<notin> set x \<Longrightarrow> tag_state b x = b"
  by (induction x) auto

lemma strip_tags_plain: "CHR ''<'' \<notin> set x \<Longrightarrow> strip_tags False x = x"
  by (induction x) auto

lemma set_strip_tags: "set (strip_tags b x) \<subseteq> set x"
  by (induction b x rule: strip_tags.induct) auto

lemma strip_escape: "strip_tags False (escape_html s @ y) = escape_html s @ strip_tags False y"
  using set_escape_html [of s] by (subst strip_tags_append) (auto simp: strip_tags_plain tag_state_plain)

lemma text_content_data:
  assumes "CHR ''&'' \<notin> set x" and "\<not> tag_state False x"
  shows "text_content (x @ escape_html s @ y) = strip_tags False x @ s @ text_content y"
proof -
  have "strip_tags False (x @ escape_html s @ y) = strip_tags False x @ escape_html s @ strip_tags False y"
    using assms(2) by (simp add: strip_tags_append [of False x] strip_escape)
  moreover have "CHR ''&'' \<notin> set (strip_tags False x)" using set_strip_tags [of False x] assms(1) by blast
  ultimately show ?thesis by (simp add: text_content_def decode_entities_plains decode_escape)
qed

section \<open>Cards\<close>

definition card_prefix :: "jsv \<Rightarrow> string" where
  "card_prefix n = (case gpu_category n of (cat, badgeClass, badgeText) \<Rightarrow>
     (html ''~      <div class=^market-card-head^>~        <div class=^gpu-badge '') @ badgeClass @ (html ''^>'') @ badgeText @ (html ''</div>~        <span class=^status-pill '') @ (if node_online n then ''online'' else ''offline'') @ (html ''^>~          '') @ (if node_online n then (html ''<span class=^pulse-dot^></span> Online'') else ''Standby'') @ (html ''~        </span>~      </div>~      <h3 class=^market-gpu-name^ style=^font-family: var(--font-mono); font-size: 1.15rem; color: #ffffff;^>''))"

lemma card_html_split: "\<exists>rest. card_html isDe parser n = card_prefix n @ escape_html (str_of_or (safe_prop n ''node_id'') ''Node'') @ rest"
  by (cases "gpu_category n") (simp add: card_html_def card_prefix_def)

definition harmless :: "string \<Rightarrow> bool" where
  "harmless x = (set x \<inter> {CHR ''<'', CHR ''>'', CHR ''&'', CHR 0x22} = {})"

lemma harmless_nat_str: "harmless (nat_str n)"
proof (induction n rule: nat_str.induct)
  case (1 n)
  have d: "m < 10 \<Longrightarrow> harmless [char_of (48 + m :: nat)]" for m
    by (cases "m = 0 \<or> m = 1 \<or> m = 2 \<or> m = 3 \<or> m = 4 \<or> m = 5 \<or> m = 6 \<or> m = 7 \<or> m = 8 \<or> m = 9")
      (auto simp: harmless_def char_of_def)
  show ?case using 1 d [of n] d [of "n mod 10"] by (subst nat_str.simps) (auto simp: harmless_def)
qed

lemma gpu_category_harmless: "gpu_category n = (cat, badgeClass, badgeText) \<Longrightarrow> harmless badgeClass \<and> harmless badgeText"
  using harmless_nat_str [of "length (node_gpus n)"]
  by (auto simp: gpu_category_def Let_def harmless_def split: if_splits)

lemma card_prefix_outside: "\<not> tag_state False (card_prefix n) \<and> CHR ''&'' \<notin> set (card_prefix n)"
proof (cases "gpu_category n")
  case (fields cat badgeClass badgeText)
  have h: "tag_state b badgeClass = b" "tag_state b badgeText = b" "CHR ''&'' \<notin> set badgeClass" "CHR ''&'' \<notin> set badgeText" for b
    using gpu_category_harmless [OF fields] by (auto simp: harmless_def intro!: tag_state_plain)
  show ?thesis using h by (simp add: card_prefix_def fields tag_state_append html_def)
qed

section \<open>Properties\<close>

text \<open>Searching the market by the identifier of a node finds it: with the other filters open, a node's card is shown whenever the
  search text occurs in the node's identifier, whatever characters the identifier has, because escaping and rendering keep
  the text.\<close>

theorem market_search_finds_node:
  assumes "f_gpu f = ''all''" and "f_vram f = ''all''" and "f_status f = ''all''"
    and "includes_str (lower (str_of_or (safe_prop n ''node_id'') ''Node'')) (f_search f)"
  shows "card_matches f (node_card isDe parser n)"
proof -
  let ?i = "str_of_or (safe_prop n ''node_id'') ''Node''"
  obtain rest where "card_html isDe parser n = card_prefix n @ escape_html ?i @ rest" using card_html_split by blast
  then have "mc_text (node_card isDe parser n) = strip_tags False (card_prefix n) @ ?i @ text_content rest"
    using text_content_data [of "card_prefix n" ?i rest] card_prefix_outside [of n] by (simp add: node_card_def)
  moreover have "includes_str (u @ x @ v) q" if "includes_str x q" for u x v q :: string
    using that unfolding includes_iff by (metis append.assoc)
  ultimately have "includes_str (lower (mc_text (node_card isDe parser n))) (f_search f)"
    using assms(4) by (simp add: lower_def)
  then show ?thesis using assms(1-3) by (simp add: card_matches_def)
qed

theorem market_search_finds_node_witness:
  "card_matches \<lparr>f_gpu = ''all'', f_vram = ''all'', f_status = ''all'', f_search = ''<rig''\<rparr> (node_card True (\<lambda>t b. None) (Obj [(''node_id'', Str ''A<Rig&7'')]))"
proof -
  have "includes_str (lower (str_of_or (safe_prop (Obj [(''node_id'', Str ''A<Rig&7'')]) ''node_id'') ''Node'')) ''<rig''" by code_simp
  then show ?thesis
    using market_search_finds_node [of "\<lparr>f_gpu = ''all'', f_vram = ''all'', f_status = ''all'', f_search = ''<rig''\<rparr>"] by simp
qed

inductive market_step :: "url_parser \<Rightarrow> 'a market_scheme \<Rightarrow> 'a market_scheme \<Rightarrow> bool" for parser where
  replied: "market_step parser s (market_reply parser isDe f s)"
| filtered: "market_step parser s (setMarketFilter ty v s)"
| searched: "market_step parser s (filterMarketplace s)"
| categorised: "market_step parser s (filterModelCategory cat s)"

definition private_hidden :: "'a market_scheme \<Rightarrow> bool" where
  "private_hidden s = (page s ''marketplace-cards-container'' \<noteq> None \<and>
     (marketplaceFetchState s \<noteq> Ready \<longrightarrow> lastFetchedNodes s = [] \<and> (\<forall>c \<in> set (market_cards s). mc_gpu c = [] \<and> mc_status c = [])))"

lemma filterMarketplace_frame [simp]:
  "page (filterMarketplace s) = page s" "marketplaceFetchState (filterMarketplace s) = marketplaceFetchState s"
  "lastFetchedNodes (filterMarketplace s) = lastFetchedNodes s"
  by (simp_all add: filterMarketplace_def Let_def)

lemma private_hidden_filter: "private_hidden s \<Longrightarrow> private_hidden (filterMarketplace s)"
  by (auto simp: private_hidden_def) (auto simp: filterMarketplace_def Let_def)

lemma private_hidden_render:
  "page s ''marketplace-cards-container'' \<noteq> None \<Longrightarrow> (marketplaceFetchState s \<noteq> Ready \<Longrightarrow> ns = [] \<and> lastFetchedNodes s = []) \<Longrightarrow>
   private_hidden (renderRealMarketplaceCards parser ns isDe s)"
  by (auto simp: renderRealMarketplaceCards_def private_hidden_def plain_card_def)

lemma private_hidden_step: "market_step parser s t \<Longrightarrow> private_hidden s \<Longrightarrow> private_hidden t"
proof (induction rule: market_step.induct)
  case (replied s isDe f)
  then show ?case
    by (auto simp: market_reply_def private_hidden_def [of s] Let_def intro!: private_hidden_render split: fetched.split option.split)
next
  case (filtered s ty v)
  then have "private_hidden (s\<lparr>currentMarketFilters := g\<rparr>)" for g by (simp add: private_hidden_def)
  then show ?case by (simp add: setMarketFilter_def Let_def private_hidden_filter)
next
  case (searched s)
  then show ?case by (rule private_hidden_filter)
next
  case (categorised s cat)
  then show ?case by (simp add: filterModelCategory_def private_hidden_def)
qed


definition market0 :: market where
  "market0 = portal.extend (portal0\<lparr>page := [''marketplace-cards-container'' \<mapsto> blank]\<rparr>)
     \<lparr>currentMarketFilters = \<lparr>f_gpu = ''all'', f_vram = ''all'', f_status = ''all'', f_search = []\<rparr>, lastFetchedNodes = [],
      marketplaceFetchState = Loading, lastFetchedModels = None, modelCatalogLoaded = False, currentModelCategory = ''all'',
      currentDxTab = ''python'', market_cards = [], model_cards = []\<rparr>"


lemma published_price_iff:
  "published_price tiers m = Some (i, a, b) \<longleftrightarrow> safe_prop m ''id'' = Str i \<and> \<not> unavailable m \<and> tier_prices tiers i = Some (a, b)"
  by (cases "safe_prop m ''id''") (auto simp: published_price_def)

lemma set_map_filter: "set (List.map_filter g xs) = {y. \<exists>x \<in> set xs. g x = Some y}"
  by (induction xs) (auto simp: map_filter_simps split: option.split)


definition priced_models :: jsv where
  "priced_models = Obj [(''data'', Arr [Obj [(''id'', Str ''m1'')], Obj [(''id'', Str ''m2'')]])]"

definition price_list :: jsv where
  "price_list = Obj [(''tiers'', Obj [(''m1'', Obj [(''prompt_usd_per_million'', JInt 1), (''completion_usd_per_million'', JInt 2)])])]"


definition available_ids :: "'a market_scheme \<Rightarrow> string list" where
  "available_ids s = map id_text (filter (\<lambda>m. \<not> unavailable m) (case lastFetchedModels s of Some xs \<Rightarrow> xs | None \<Rightarrow> []))"

lemma render_select_ids: "lastFetchedModels (render_select isDe sel s) = lastFetchedModels s"
  by (simp add: render_select_def syncPlaygroundModel_def Let_def split: option.split)

text \<open>The playground offers exactly the available models: after a catalogue load a model list is disabled, and its send button with
  it, exactly when no model is available; otherwise its value is an available model and a previous choice that is still
  available is kept.\<close>

theorem playground_offers_available:
  assumes "page s sel = Some e" and "sel \<in> {''playground-model-select'', ''playground-model''}"
  shows "\<exists>e'. page (render_select isDe sel s) sel = Some e' \<and> (disabled e' \<longleftrightarrow> available_ids s = []) \<and>
    (available_ids s \<noteq> [] \<longrightarrow> content e' = Kids (map option_node (available_ids s)) \<and> val e' \<in> set (available_ids s) \<and>
       (val e \<in> set (available_ids s) \<longrightarrow> val e' = val e)) \<and>
    (\<forall>b. page s (send_button sel) = Some b \<longrightarrow> (\<exists>b'. page (render_select isDe sel s) (send_button sel) = Some b' \<and> (disabled b' \<longleftrightarrow> available_ids s = [])))"
proof -
  have ne: "send_button sel \<noteq> sel" "send_button sel \<noteq> ''pg-cluster-status''" "sel \<noteq> ''pg-cluster-status''"
    using assms(2) by (auto simp: send_button_def)
  show ?thesis
  proof (cases "available_ids s = []")
    case True
    then show ?thesis using assms(1) ne by (auto simp: render_select_def available_ids_def Let_def)
  next
    case False
    then show ?thesis using assms(1) ne by (auto simp: render_select_def available_ids_def [symmetric] syncPlaygroundModel_def Let_def)
  qed
qed

end
