(* ===== verification/PortalForms.thy ===== *)
theory PortalForms
  imports PortalMarket
begin

text \<open>
  The dialogs of the public portal: registration, code samples and copy buttons, deposit and contact form of
  \<^verbatim>\<open>src/portal/portal-core.js\<close> (lines 1992 to 2403) and the registration with consent of \<^verbatim>\<open>src/portal/portal.js\<close> (lines 504 to 605),
  which replaces the former on pages that load it. Handlers that wait for the gateway are split at the
  \<^verbatim>\<open>await\<close>: a function up to the request, which says whether a request was sent, and a function for the outcome. A button found by its \<^verbatim>\<open>onclick\<close>
  attribute is the element \<open>copyKey()\<close> or \<open>copyLinuxCommand()\<close>.
\<close>

section \<open>State\<close>

text \<open>\<open>timers\<close>: the pending restorations of copy buttons, each with its button, the label to restore and the styles to clear;
  \<open>confirmed\<close>: the box that accepts the terms, if the page has one.\<close>

record forms = market +
  currentPlaygroundTab :: string
  timers :: "(string \<times> string \<times> string list) list"
  confirmed :: "bool option"

definition json_post :: "string \<Rightarrow> (string \<times> string) list \<Rightarrow> jsv \<Rightarrow> request" where
  "json_post u hs v = \<lparr>url = u, http_method = ''POST'', headers = (''Content-Type'', ''application/json'') # hs, body = Some (stringify v),
     credentials = ''same-origin''\<rparr>"

definition elem_val :: "string \<Rightarrow> 'a browser_scheme \<Rightarrow> string" where
  "elem_val i s = (case page s i of None \<Rightarrow> [] | Some e \<Rightarrow> val e)"

definition show_box :: "string \<Rightarrow> string \<Rightarrow> 'a browser_scheme \<Rightarrow> 'a browser_scheme" where
  "show_box i d s = on_elem i (set_style ''display'' d) s"

abbreviation set_val :: "string \<Rightarrow> string \<Rightarrow> 'a browser_scheme \<Rightarrow> 'a browser_scheme" where
  "set_val i v s \<equiv> on_elem i (\<lambda>e. e\<lparr>val := v\<rparr>) s"

section \<open>Registration dialog\<close>

definition openModal :: "string \<Rightarrow> 'a browser_scheme \<Rightarrow> 'a browser_scheme" where
  "openModal role s = (if page s ''register-modal'' = None then navigate (Assign (''/?action=register&role='' @ encodeURIComponent role)) s
     else set_val ''modal-role'' role (on_elem ''register-modal'' (add_class ''active'') s))"

definition closeModal :: "'a browser_scheme \<Rightarrow> 'a browser_scheme" where
  "closeModal s = show_box ''modal-result-box'' ''none'' (on_elem ''register-modal'' (remove_class ''active'') s)"

text \<open>The key of a successful registration, \<^const>\<open>None\<close> when the code throws.\<close>

definition registered_key :: "fetched \<Rightarrow> string option" where
  "registered_key f = (case f of Rejected _ \<Rightarrow> None
     | Resp r \<Rightarrow> (case rjson r of None \<Rightarrow> None
         | Some d \<Rightarrow> if \<not> ok r \<or> d = Null \<or> \<not> truthy (safe_prop d ''api_key'') then None else Some (to_str (safe_prop d ''api_key''))))"

text \<open>The e-mail address and the wallet are those of the submitted form; without a role list the handler throws at once.\<close>

definition handleRegistration :: "server \<Rightarrow> string \<Rightarrow> string \<Rightarrow> 'a portal_scheme \<Rightarrow> 'a portal_scheme" where
  "handleRegistration srv email wallet s = (if page s ''modal-role'' = None then s
     else (let s1 = show_box ''modal-result-box'' ''block'' (set_val ''generated-key-val'' (if currentLang s = ''de'' then (''Registrierung l'' @ [CHR 0xC3, CHR 0xA4] @ ''uft...'') else ''Registering...'') s) in
       case do_fetch srv (json_post ''/api/v1/register'' [] (Obj [(''email'', Str email), (''role'', Str (elem_val ''modal-role'' s)), (''wallet'', Str wallet)])) s1 of (f, s2) \<Rightarrow>
         set_val ''generated-key-val'' (case registered_key f of Some k \<Rightarrow> k
           | None \<Rightarrow> (if currentLang s2 = ''de'' then (''Registrierung fehlgeschlagen. Bitte sp'' @ [CHR 0xC3, CHR 0xA4] @ ''ter erneut versuchen.'') else ''Registration failed. Please try again later.'')) s2))"

section \<open>Code samples with the visitor's key\<close>

definition playground_snippet :: "string \<Rightarrow> string \<Rightarrow> string option" where
  "playground_snippet tab apiKey =
     (if tab = ''curl_bash'' then Some ((html ''# Linux / macOS (cURL / Bash)~export OLLAMA_HOST=https://mesh.inetconnector.com~curl https://mesh.inetconnector.com/v1/chat/completions '' @ [CHR 0x5C] @ html ''~  -H ^Content-Type: application/json^ '' @ [CHR 0x5C] @ html ''~  -H ^Authorization: Bearer '') @ apiKey @ (html ''^ '' @ [CHR 0x5C] @ html ''~  -d `{^model^:^qwen2.5:7b^,^messages^:[{^role^:^user^,^content^:^What is ComputeMesh?^}],^stream^:true}`''))
      else if tab = ''curl_win'' then Some ((html ''REM Windows Eingabeaufforderung (CMD - Einzeiler)~curl -X POST ^https://mesh.inetconnector.com/v1/chat/completions^ -H ^Content-Type: application/json^ -H ^Authorization: Bearer '') @ apiKey @ (html ''^ -d ^{'' @ [CHR 0x5C] @ html ''^model'' @ [CHR 0x5C] @ html ''^:'' @ [CHR 0x5C] @ html ''^qwen2.5:7b'' @ [CHR 0x5C] @ html ''^,'' @ [CHR 0x5C] @ html ''^messages'' @ [CHR 0x5C] @ html ''^:[{'' @ [CHR 0x5C] @ html ''^role'' @ [CHR 0x5C] @ html ''^:'' @ [CHR 0x5C] @ html ''^user'' @ [CHR 0x5C] @ html ''^,'' @ [CHR 0x5C] @ html ''^content'' @ [CHR 0x5C] @ html ''^:'' @ [CHR 0x5C] @ html ''^What is ComputeMesh?'' @ [CHR 0x5C] @ html ''^}],'' @ [CHR 0x5C] @ html ''^stream'' @ [CHR 0x5C] @ html ''^:false}^''))
      else if tab = ''powershell'' then Some ((html ''# Windows PowerShell (Native REST-Abfrage)~$headers = @'' @ html ''{ ^Content-Type^ = ^application/json^; ^Authorization^ = ^Bearer '') @ apiKey @ (html ''^ }~$body = @'' @ html ''{ model = ^qwen2.5:7b^; messages = @(@'' @ html ''{ role = ^user^; content = ^What is ComputeMesh?^ }); stream = $false } | ConvertTo-Json~Invoke-RestMethod -Uri ^https://mesh.inetconnector.com/v1/chat/completions^ -Method Post -Headers $headers -Body $body''))
      else if tab = ''python'' then Some ((html ''# Python 3 (OpenAI SDK oder urllib mit SSE Streaming)~import urllib.request, json~~req = urllib.request.Request(~    ^https://mesh.inetconnector.com/v1/chat/completions^,~    data=json.dumps({^model^: ^qwen2.5:7b^, ^messages^: [{^role^: ^user^, ^content^: ^What is ComputeMesh?^}], ^stream^: True}).encode(^utf-8^),~    headers={^Content-Type^: ^application/json^, ^Authorization^: ^Bearer '') @ apiKey @ (html ''^}~)~with urllib.request.urlopen(req) as resp:~    for line in resp:~        txt = line.decode(^utf-8^).strip()~        if txt.startswith(^data: ^) and not txt.endswith(^[DONE]^):~            print(json.loads(txt[6:])[^choices^][0][^delta^].get(^content^, ^^), end=^^, flush=True)~print()''))
      else if tab = ''ollama'' then Some ((html ''# Offizielle Ollama CLI (Linux/macOS: export, Windows CMD: set, PowerShell: $env:OLLAMA_HOST)~export OLLAMA_HOST=https://mesh.inetconnector.com~ollama run qwen2.5:7b ^What is ComputeMesh?^''))
      else None)"

text \<open>Reading the key can throw; the flag says that the function returned.\<close>

definition renderPlaygroundSnippet :: "'a forms_scheme \<Rightarrow> 'a forms_scheme \<times> bool" where
  "renderPlaygroundSnippet s = (if \<not> can_read (localStorage s) then (s, False)
     else (case playground_snippet (currentPlaygroundTab s) (sample_key s) of None \<Rightarrow> (s, True)
       | Some t \<Rightarrow> (on_elem ''pg-ollama-code-content'' (set_text t) s, True)))"

definition tab_button :: "string \<Rightarrow> string" where
  "tab_button tab = ''tab-btn-'' @ replace_first ''_'' ''-'' tab"

definition tab_buttons :: "string list" where
  "tab_buttons = map tab_button [''curl_bash'', ''curl_win'', ''powershell'', ''python'', ''ollama'']"

definition switchPlaygroundCodeTab :: "string \<Rightarrow> 'a forms_scheme \<Rightarrow> 'a forms_scheme" where
  "switchPlaygroundCodeTab tab s = (let s1 = fold (\<lambda>b. on_elem b (remove_class ''active'')) tab_buttons (s\<lparr>currentPlaygroundTab := tab\<rparr>) in
     fst (renderPlaygroundSnippet (on_elem (tab_button tab) (add_class ''active'') s1)))"

definition python_sample :: "string \<Rightarrow> string" where
  "python_sample apiKey = (html ''from openai import OpenAI~~# 100% drop-in replacement for OpenAI SDK~client = OpenAI(~    base_url=^https://mesh.inetconnector.com/v1^,~    api_key=^'') @ apiKey @ (html ''^~)~~response = client.chat.completions.create(~    model=^qwen2.5:7b^,~    messages=[{^role^: ^user^, ^content^: ^Explain decentralized AI in 3 sentences.^}],~    stream=True~)~~for chunk in response:~    print(chunk.choices[0].delta.content or ^^, end=^^)'')"

definition no_key :: "string \<Rightarrow> bool" where
  "no_key k = (k = [] \<or> starts_with k ''Bitte'' \<or> starts_with k ''Please'' \<or> starts_with k ''Reg'')"

definition updateCodeSnippetsWithKey :: "string \<Rightarrow> 'a forms_scheme \<Rightarrow> 'a forms_scheme" where
  "updateCodeSnippetsWithKey apiKey s = (if no_key apiKey then s
     else (case renderPlaygroundSnippet (put_local ''cm_api_key'' apiKey s) of
       (s1, returned) \<Rightarrow> if returned then on_elem ''python-sdk-code-content'' (set_text (python_sample apiKey)) s1 else s1))"

section \<open>Copy buttons\<close>

text \<open>A copy button shows a confirmation for two seconds; the label to restore is the one it has when it is pressed.\<close>

definition flash :: "string \<Rightarrow> string \<Rightarrow> string list \<Rightarrow> 'a forms_scheme \<Rightarrow> 'a forms_scheme" where
  "flash b msg sts s = (case page s b of None \<Rightarrow> s
     | Some e \<Rightarrow> on_elem b (\<lambda>e. fold (\<lambda>k. set_style k ''var(--accent-emerald)'') sts (set_text msg e))
         (s\<lparr>timers := timers s @ [(b, text_of e, sts)]\<rparr>))"

definition timer_fires :: "'a forms_scheme \<Rightarrow> 'a forms_scheme" where
  "timer_fires s = (case timers s of [] \<Rightarrow> s
     | (b, orig, sts) # ts \<Rightarrow> on_elem b (\<lambda>e. fold (\<lambda>k. set_style k []) sts (set_text orig e)) (s\<lparr>timers := ts\<rparr>))"

definition copied_note :: "'a portal_scheme \<Rightarrow> string \<Rightarrow> string \<Rightarrow> string" where
  "copied_note s de en = (if currentLang s = ''de'' then de else en)"

definition clip :: "bool \<Rightarrow> string \<Rightarrow> 'a portal_scheme \<Rightarrow> 'a portal_scheme" where
  "clip granted t s = (if granted then s\<lparr>clipboard := clipboard s @ [t]\<rparr> else s)"

definition copyKey :: "bool \<Rightarrow> 'a forms_scheme \<Rightarrow> 'a forms_scheme" where
  "copyKey granted s = (let key = elem_val ''generated-key-val'' s in
     if key = [] then s
     else if can_read (localStorage s) \<or> no_key key then flash ''copyKey()'' (copied_note s ([CHR 0xE2, CHR 0x9C, CHR 0x93] @ '' Kopiert!'') ([CHR 0xE2, CHR 0x9C, CHR 0x93] @ '' Copied!'')) [''borderColor'', ''color'']
         (updateCodeSnippetsWithKey key (clip granted key s))
     else updateCodeSnippetsWithKey key (clip granted key s))"

text \<open>Without permission the command and the code are copied through a text area, which always succeeds.\<close>

definition copyPlaygroundCommand :: "'a forms_scheme \<Rightarrow> 'a forms_scheme" where
  "copyPlaygroundCommand s = (case page s ''pg-ollama-code-content'' of None \<Rightarrow> s
     | Some e \<Rightarrow> flash ''copy-playground-cmd-btn'' (copied_note s ([CHR 0xE2, CHR 0x9C, CHR 0x93] @ '' Befehl kopiert!'') ([CHR 0xE2, CHR 0x9C, CHR 0x93] @ '' Command copied!'')) [''color'', ''borderColor''] (clip True (text_of e) s))"

definition copyPythonCode :: "'a forms_scheme \<Rightarrow> 'a forms_scheme" where
  "copyPythonCode s = (case page s ''python-sdk-code-content'' of None \<Rightarrow> s
     | Some e \<Rightarrow> flash ''copy-python-code-btn'' (copied_note s ([CHR 0xE2, CHR 0x9C, CHR 0x93] @ '' Code kopiert!'') ([CHR 0xE2, CHR 0x9C, CHR 0x93] @ '' Code copied!'')) [''color'', ''borderColor''] (clip True (text_of e) s))"

definition copyLinuxCommand :: "bool \<Rightarrow> 'a forms_scheme \<Rightarrow> 'a forms_scheme" where
  "copyLinuxCommand granted s = flash ''copyLinuxCommand()'' (copied_note s ([CHR 0xE2, CHR 0x9C, CHR 0x93] @ '' Kopiert!'') ([CHR 0xE2, CHR 0x9C, CHR 0x93] @ '' Copied!'')) []
     (clip granted ''curl -fsSL https://mesh.inetconnector.com/downloads/install.sh | sudo bash'' s)"

definition copyDxCode :: "bool \<Rightarrow> 'a forms_scheme \<Rightarrow> 'a forms_scheme" where
  "copyDxCode granted s = (case page s ''dx-code-content'' of None \<Rightarrow> s
     | Some e \<Rightarrow> if granted then flash ''copy-dx-btn'' (copied_note s ([CHR 0xE2, CHR 0x9C, CHR 0x93] @ '' Kopiert!'') ([CHR 0xE2, CHR 0x9C, CHR 0x93] @ '' Copied!'')) [''color''] (clip True (text_of e) s) else s)"

definition copyCliCommand :: "bool \<Rightarrow> string \<Rightarrow> string \<Rightarrow> 'a forms_scheme \<Rightarrow> 'a forms_scheme" where
  "copyCliCommand granted b cmd s = (if granted then flash b [CHR 0xE2, CHR 0x9C, CHR 0x93] [] (clip True cmd s) else alert (''Copied: '' @ cmd) s)"

section \<open>Deposit\<close>

abbreviation unset_data :: "string \<Rightarrow> elem \<Rightarrow> elem" where
  "unset_data k e \<equiv> e\<lparr>dataset := (dataset e)(k := None)\<rparr>"

definition openDepositModal :: "'a browser_scheme \<Rightarrow> 'a browser_scheme" where
  "openDepositModal s = (if page s ''deposit-modal'' = None then navigate (Assign ''/?action=deposit'') s
     else show_box ''deposit-msg-box'' ''none'' (on_elem ''deposit-submit-btn''
       (\<lambda>b. (unset_data ''checkoutIdempotencyKey'' (unset_data ''checkoutCompleted'' (unset_data ''checkoutBusy'' b)))\<lparr>disabled := False\<rparr>)
       (on_elem ''deposit-modal'' (add_class ''active'') s)))"

definition closeDepositModal :: "'a browser_scheme \<Rightarrow> 'a browser_scheme" where
  "closeDepositModal s = on_elem ''deposit-modal'' (remove_class ''active'') s"

definition deposit_message :: "string \<Rightarrow> string \<Rightarrow> (elem \<Rightarrow> elem) \<Rightarrow> 'a browser_scheme \<Rightarrow> 'a browser_scheme" where
  "deposit_message bg col f s = on_elem ''deposit-msg-box'' (\<lambda>e. f (set_style ''color'' col (set_style ''background'' bg e))) s"

definition checkout_request :: "string \<Rightarrow> string \<Rightarrow> jnum \<Rightarrow> request" where
  "checkout_request apiKey idem amount = json_post ''/v1/billing/checkout''
     [(''Authorization'', ''Bearer '' @ apiKey), (''Idempotency-Key'', idem)] (Obj [(''amount_usd'', Num amount)])"

definition checkout_blocked :: "elem \<Rightarrow> bool" where
  "checkout_blocked b = (dataset b ''checkoutBusy'' = Some ''1'' \<or> dataset b ''checkoutCompleted'' = Some ''1'')"

text \<open>\<open>fresh\<close> is the random identifier the browser makes up.\<close>

definition handleDepositSubmit :: "string \<Rightarrow> 'a portal_scheme \<Rightarrow> 'a portal_scheme \<times> bool" where
  "handleDepositSubmit fresh s =
     (case (page s ''deposit-key-input'', page s ''deposit-amount-select'', page s ''deposit-msg-box'', page s ''deposit-submit-btn'') of
       (Some k, Some a, Some m, Some b) \<Rightarrow>
         if checkout_blocked b then (s, False)
         else if trim (val k) = [] then (alert (if currentLang s = ''de'' then (''Bitte gib deinen API-Schl'' @ [CHR 0xC3, CHR 0xBC] @ ''ssel ein.'') else ''Please enter your API key.'') s, False)
         else (let idem = str_or (item_text (dataset b ''checkoutIdempotencyKey'')) fresh; german = (currentLang s = ''de'');
             s1 = on_elem ''deposit-submit-btn'' (\<lambda>b. (set_text (if german then ''Erstelle Checkout-Session...'' else ''Creating checkout session...'')
                (set_data ''checkoutIdempotencyKey'' idem (set_data ''checkoutBusy'' ''1'' b)))\<lparr>disabled := True\<rparr>) s;
             s2 = deposit_message ''rgba(0, 242, 254, 0.1)'' ''var(--primary)'' (set_text (if german then ''Verbinde mit Stripe...'' else ''Connecting to Stripe...''))
                (show_box ''deposit-msg-box'' ''block'' s1) in
           (issue (checkout_request (trim (val k)) idem (parse_float (val a))) s2, True))
     | _ \<Rightarrow> (s, False))"

definition proceed_label :: "'a portal_scheme \<Rightarrow> string" where
  "proceed_label s = (if currentLang s = ''de'' then (''Weiter zu Stripe Checkout '' @ [CHR 0xE2, CHR 0x86, CHR 0x92]) else (''Proceed to Stripe Checkout '' @ [CHR 0xE2, CHR 0x86, CHR 0x92]))"

definition deposit_finally :: "'a portal_scheme \<Rightarrow> 'a portal_scheme" where
  "deposit_finally s = on_elem ''deposit-submit-btn'' (\<lambda>b. let b1 = unset_data ''checkoutBusy'' b in
     if dataset b1 ''checkoutCompleted'' = Some ''1'' then b1 else (set_text (proceed_label s) b1)\<lparr>disabled := False\<rparr>) s"

definition deposit_failed :: "string \<Rightarrow> 'a portal_scheme \<Rightarrow> 'a portal_scheme" where
  "deposit_failed m s = deposit_message ''rgba(239, 68, 68, 0.15)'' ''var(--accent-red)'' (set_text m) s"

definition checkout_link :: "string \<Rightarrow> string" where
  "checkout_link u = ([CHR 0xE2, CHR 0x9C, CHR 0x93] @ html '' Checkout Session created! <a href=^'') @ u @ (html ''^ target=^_blank^ style=^color: #00f2fe; text-decoration: underline; font-weight: bold;^>Click here to complete payment on Stripe '' @ [CHR 0xE2, CHR 0x86, CHR 0x92] @ ''</a>'')"

text \<open>\<open>thrown\<close> is the message of an exception of the engine, for a reply that is not JSON or is \<^verbatim>\<open>null\<close>.\<close>

definition deposit_reply :: "string \<Rightarrow> fetched \<Rightarrow> 'a portal_scheme \<Rightarrow> 'a portal_scheme" where
  "deposit_reply thrown f s = deposit_finally (case f of
     Rejected m \<Rightarrow> deposit_failed (''Network Error: '' @ m) s
   | Resp r \<Rightarrow> if \<not> ok r then on_elem ''deposit-submit-btn'' (\<lambda>b. (set_text (proceed_label s) b)\<lparr>disabled := False\<rparr>) (deposit_failed (''Error: '' @ rtext r) s)
       else (case rjson r of None \<Rightarrow> deposit_failed (''Network Error: '' @ thrown) s
         | Some d \<Rightarrow> if d = Null then deposit_failed (''Network Error: '' @ thrown) s
             else (let u = to_str (safe_prop d ''checkout_url'') in
               navigate (Open u) (on_elem ''deposit-submit-btn'' (\<lambda>b. set_text (if currentLang s = ''de'' then (''Checkout ge'' @ [CHR 0xC3, CHR 0xB6] @ ''ffnet'') else ''Checkout opened'')
                   (set_data ''checkoutCompleted'' ''1'' b))
                 (deposit_message ''rgba(16, 185, 129, 0.15)'' ''var(--accent-emerald)'' (set_html (checkout_link u)) s)))))"

section \<open>Contact form\<close>

definition contact_button :: "'a browser_scheme \<Rightarrow> string" where
  "contact_button s = (if page s ''contact-submit-btn'' = None then ''contact-form-submit'' else ''contact-submit-btn'')"

definition contact_request :: "string \<Rightarrow> string \<Rightarrow> string \<Rightarrow> string \<Rightarrow> request" where
  "contact_request n e t m = json_post ''/api/v1/contact'' [] (Obj [(''name'', Str n), (''email'', Str e), (''topic'', Str t), (''message'', Str m)])"

definition handleContactSubmit :: "'a portal_scheme \<Rightarrow> 'a portal_scheme \<times> bool" where
  "handleContactSubmit s0 = (let s = show_box ''contact-error-msg'' ''none'' (show_box ''contact-success-msg'' ''none'' s0);
       name = trim (elem_val ''contact-name'' s); email = trim (elem_val ''contact-email'' s); message = trim (elem_val ''contact-message'' s);
       topic = (if page s ''contact-topic'' = None then ''developer'' else trim (elem_val ''contact-topic'' s)) in
     if name = [] \<or> email = [] \<or> message = [] then (s, False)
     else (issue (contact_request name email topic message) (on_elem (contact_button s) (\<lambda>b. (set_text (if currentLang s = ''de'' then ([CHR 0xE2, CHR 0x8F, CHR 0xB3] @ '' Nachricht wird gesendet...'') else ([CHR 0xE2, CHR 0x8F, CHR 0xB3] @ '' Sending message...''))
         (set_data ''originalText'' (text_of b) b))\<lparr>disabled := True\<rparr>) s), True))"

definition contact_fields :: "string list" where
  "contact_fields = [''contact-name'', ''contact-email'', ''contact-topic'', ''contact-message'']"

definition contact_error :: "string \<Rightarrow> 'a portal_scheme \<Rightarrow> 'a portal_scheme" where
  "contact_error m s = on_elem (contact_button s) (\<lambda>b. (set_text (str_or (item_text (dataset b ''originalText''))
       (if currentLang s = ''de'' then ''Nachricht absenden'' else ''Send Message'')) b)\<lparr>disabled := False\<rparr>)
     (if page s ''contact-error-msg'' \<noteq> None then show_box ''contact-error-msg'' ''block'' (on_elem ''contact-error-msg'' (set_text m) s)
      else show_box ''contact-success-msg'' ''block'' (on_elem ''contact-success-msg'' (\<lambda>e. set_style ''color'' ''#ef4444'' (set_text m e)) s))"

definition contact_network_error :: "string \<Rightarrow> 'a portal_scheme \<Rightarrow> string" where
  "contact_network_error m s = (if currentLang s = ''de'' then ''Netzwerkfehler: '' @ m @ ''. Bitte schreibe direkt an mesh@inetconnector.com.''
     else ''Network error: '' @ m @ ''. Please contact mesh@inetconnector.com directly.'')"

text \<open>\<open>defaults\<close> are the initial values of the form's fields, which \<^verbatim>\<open>form.reset()\<close> restores; \<open>thrown\<close> is the message of the exception for a
  reply that is \<^verbatim>\<open>null\<close>.\<close>

definition contact_reply :: "string \<Rightarrow> (string \<Rightarrow> string) \<Rightarrow> fetched \<Rightarrow> 'a portal_scheme \<Rightarrow> 'a portal_scheme" where
  "contact_reply thrown defaults f s = (case f of
     Rejected m \<Rightarrow> contact_error (contact_network_error m s) s
   | Resp r \<Rightarrow> let d = (case rjson r of None \<Rightarrow> Obj [] | Some d \<Rightarrow> d) in
       if d = Null then contact_error (contact_network_error thrown s) s
       else if ok r \<and> safe_prop d ''status'' = Str ''ok''
       then on_elem (contact_button s) (set_text (if currentLang s = ''de'' then ([CHR 0xE2, CHR 0x9C, CHR 0x93] @ '' Nachricht gesendet'') else ([CHR 0xE2, CHR 0x9C, CHR 0x93] @ '' Message sent'')))
         (fold (\<lambda>i. set_val i (defaults i)) contact_fields
           (on_elem ''contact-success-msg'' (\<lambda>e. set_style ''display'' ''block'' (set_style ''color'' ''var(--accent-emerald)'' e)) s))
       else contact_error (to_str (js_or (safe_prop d ''error'') (Str (if currentLang s = ''de''
           then (''Fehler beim Absenden. Bitte versuche es sp'' @ [CHR 0xC3, CHR 0xA4] @ ''ter erneut oder schreibe direkt an mesh@inetconnector.com.'')
           else ''Failed to send message. Please try again later or email mesh@inetconnector.com directly.'')))) s)"

section \<open>Registration with consent\<close>

text \<open>\<open>getLang\<close> of \<^verbatim>\<open>portal.js\<close>; \<open>nav\<close> is the browser's language.\<close>

definition getLang :: "string \<Rightarrow> 'a portal_scheme \<Rightarrow> string" where
  "getLang nav s = (if currentLang s = ''de'' \<or> stored (localStorage s) lang_key = ''de'' \<or> stored (localStorage s) lang_key = [] \<and> starts_with nav ''de''
     then ''de'' else ''en'')"

text \<open>\<^verbatim>\<open>getLang\<close> throws when it has to read a storage it may not read.\<close>

definition lang_known :: "'a portal_scheme \<Rightarrow> bool" where
  "lang_known s = (currentLang s = ''de'' \<or> can_read (localStorage s))"

definition text_field :: "jsv \<Rightarrow> string option" where
  "text_field v = (case v of Str t \<Rightarrow> if trim t = [] then None else Some (trim t) | _ \<Rightarrow> None)"

definition registrationErrorMessage :: "jsv \<Rightarrow> string \<Rightarrow> string" where
  "registrationErrorMessage payload fallback = (let e = and_prop payload ''error'' in
     case text_field e of Some t \<Rightarrow> t
     | None \<Rightarrow> (case text_field (and_prop e ''message'') of Some t \<Rightarrow> t
         | None \<Rightarrow> (case text_field (and_prop payload ''message'') of Some t \<Rightarrow> t | None \<Rightarrow> fallback)))"

definition syncProviderControls :: "string \<Rightarrow> 'a portal_scheme \<Rightarrow> 'a portal_scheme" where
  "syncProviderControls nav s = (if \<not> lang_known s then s else let role = str_or (elem_val ''modal-role'' s) ''consumer''; german = (getLang nav s = ''de'') in
     on_elem ''modal-submit-btn'' (set_text (if role = ''provider'' then (if german then ([CHR 0xE2, CHR 0x9A, CHR 0xA1] @ '' GPU-Node registrieren'') else ([CHR 0xE2, CHR 0x9A, CHR 0xA1] @ '' Register GPU Node''))
         else (if german then ([CHR 0xF0, CHR 0x9F, CHR 0x9A, CHR 0x80] @ '' API-Key generieren'') else ([CHR 0xF0, CHR 0x9F, CHR 0x9A, CHR 0x80] @ '' Generate API Key''))))
       (show_box ''provider-extra-fields'' (if role = ''provider'' then ''flex'' else ''none'') s))"

definition openModal_hook :: "string \<Rightarrow> string \<Rightarrow> 'a portal_scheme \<Rightarrow> 'a portal_scheme" where
  "openModal_hook nav role s = syncProviderControls nav (set_val ''modal-role'' role (openModal role s))"

definition consent_request :: "string \<Rightarrow> string \<Rightarrow> string \<Rightarrow> string \<Rightarrow> request" where
  "consent_request email role wallet country = (let p = (role = ''provider'') in json_post ''/api/v1/register'' [] (Obj
     [(''email'', Str email), (''role'', Str role), (''wallet'', Str (if p then wallet else [])), (''country_code'', Str (if p then country else [])),
      (''terms_version'', Str ''2.1''), (''accepted_terms'', Bool True), (''privacy_acknowledged'', Bool True), (''business_user'', Bool True),
      (''provider_data_processing_terms_accepted'', Bool p), (''no_prompt_logging_attested'', Bool p)]))"

definition key_note :: "string \<Rightarrow> 'a browser_scheme \<Rightarrow> 'a browser_scheme" where
  "key_note m s = show_box ''modal-result-box'' ''block'' (set_val ''generated-key-val'' m s)"

definition consent_text :: "bool \<Rightarrow> string" where
  "consent_text german = (if german then (''Bitte akzeptiere die Nutzungsbedingungen und best'' @ [CHR 0xC3, CHR 0xA4] @ ''tige die gesch'' @ [CHR 0xC3, CHR 0xA4] @ ''ftliche Nutzung (B2B).'')
     else ''Please accept the Terms of Service & Privacy Policy and confirm business (B2B) use.'')"

definition country_text :: "bool \<Rightarrow> string" where
  "country_text german = (if german then (''Bitte w'' @ [CHR 0xC3, CHR 0xA4] @ ''hle dein Betriebsland (EWR/EU).'') else ''Please select your operating country.'')"

definition progress_text :: "bool \<Rightarrow> string" where
  "progress_text german = (if german then (''Zugangsdaten werden generiert'' @ [CHR 0xE2, CHR 0x80, CHR 0xA6]) else (''Generating API credentials'' @ [CHR 0xE2, CHR 0x80, CHR 0xA6]))"

definition registration_busy :: "'a browser_scheme \<Rightarrow> bool" where
  "registration_busy s = (case page s ''registration-form'' of None \<Rightarrow> False | Some e \<Rightarrow> dataset e ''registrationBusy'' = Some ''1'')"

definition compliantRegistration :: "string \<Rightarrow> 'a forms_scheme \<Rightarrow> 'a forms_scheme \<times> bool" where
  "compliantRegistration nav s = (let german = (getLang nav s = ''de''); role = str_or (elem_val ''modal-role'' s) ''consumer'';
       country = elem_val ''cm-provider-country'' s in
     if registration_busy s \<or> \<not> lang_known s then (s, False)
     else if confirmed s \<noteq> Some True then (key_note (consent_text german) s, False)
     else if role = ''provider'' \<and> country = [] then (key_note (country_text german) s, False)
     else (issue (consent_request (trim (elem_val ''modal-email'' s)) role (trim (elem_val ''modal-wallet'' s)) country)
       (key_note (progress_text german) (on_elem ''modal-submit-btn'' (\<lambda>e. (set_attr ''aria-busy'' ''true'' e)\<lparr>disabled := True\<rparr>)
         (on_elem ''registration-form'' (set_data ''registrationBusy'' ''1'') s))), True))"

text \<open>The message of the error the handler throws or catches, cut to 160 characters where it is shown; \<open>thrown\<close> is a message of the engine.\<close>

definition registration_problem :: "string \<Rightarrow> bool \<Rightarrow> fetched \<Rightarrow> string" where
  "registration_problem thrown german f = (case f of Rejected m \<Rightarrow> m
     | Resp r \<Rightarrow> (case rjson r of None \<Rightarrow> thrown
         | Some d \<Rightarrow> if ok r \<and> d = Null then thrown
             else registrationErrorMessage d (if german then ''Registrierung konnte nicht abgeschlossen werden.'' else ''Registration could not be completed.'')))"

definition registration_finally :: "'a browser_scheme \<Rightarrow> 'a browser_scheme" where
  "registration_finally s = on_elem ''modal-submit-btn'' (\<lambda>e. e\<lparr>disabled := False, attr := (attr e)(''aria-busy'' := None)\<rparr>)
     (on_elem ''registration-form'' (unset_data ''registrationBusy'') s)"

definition registration_reply :: "string \<Rightarrow> bool \<Rightarrow> fetched \<Rightarrow> 'a forms_scheme \<Rightarrow> 'a forms_scheme" where
  "registration_reply thrown german f s = registration_finally (case registered_key f of
     Some k \<Rightarrow> updateCodeSnippetsWithKey k (put_local ''cm_api_key'' k (set_val ''generated-key-val'' k s))
   | None \<Rightarrow> set_val ''generated-key-val'' ((if german then ''Registrierung fehlgeschlagen: '' else ''Registration failed: '') @ take 160 (registration_problem thrown german f)) s)"

lemmas portal_forms_defs [js_defs] = json_post_def elem_val_def show_box_def openModal_def closeModal_def registered_key_def handleRegistration_def
  playground_snippet_def renderPlaygroundSnippet_def tab_button_def tab_buttons_def switchPlaygroundCodeTab_def python_sample_def no_key_def
  updateCodeSnippetsWithKey_def flash_def timer_fires_def copied_note_def clip_def copyKey_def copyPlaygroundCommand_def copyPythonCode_def
  copyLinuxCommand_def copyDxCode_def copyCliCommand_def openDepositModal_def closeDepositModal_def deposit_message_def checkout_request_def
  checkout_blocked_def handleDepositSubmit_def proceed_label_def deposit_finally_def deposit_failed_def checkout_link_def deposit_reply_def
  contact_button_def contact_request_def handleContactSubmit_def contact_fields_def contact_error_def contact_network_error_def contact_reply_def
  getLang_def lang_known_def text_field_def registrationErrorMessage_def syncProviderControls_def openModal_hook_def consent_request_def key_note_def
  consent_text_def country_text_def progress_text_def registration_busy_def compliantRegistration_def registration_problem_def
  registration_finally_def registration_reply_def

section \<open>One request at a time\<close>

text \<open>Handlers that guard themselves by a busy mark: \<open>start\<close> runs until the request, if any, and \<open>reply\<close> treats the outcome; \<open>other\<close> are the
  further events of the page. The number counts the requests under way.\<close>

inductive flight_step :: "('x \<Rightarrow> 's \<Rightarrow> 's \<times> bool) \<Rightarrow> ('r \<Rightarrow> 's \<Rightarrow> 's) \<Rightarrow> ('s \<Rightarrow> 's \<Rightarrow> bool) \<Rightarrow> 's \<times> nat \<Rightarrow> 's \<times> nat \<Rightarrow> bool"
  for start reply other where
  flight_refused: "start x s = (t, False) \<Longrightarrow> flight_step start reply other (s, n) (t, n)"
| flight_issued: "start x s = (t, True) \<Longrightarrow> flight_step start reply other (s, n) (t, Suc n)"
| flight_replied: "flight_step start reply other (s, Suc n) (reply r s, n)"
| flight_other: "other s t \<Longrightarrow> flight_step start reply other (s, n) (t, n)"

inductive_cases flight_stepE: "flight_step start reply other (s, n) (t, m)"

locale single_flight =
  fixes wf :: "'s \<Rightarrow> bool" and busy :: "'s \<Rightarrow> bool" and start :: "'x \<Rightarrow> 's \<Rightarrow> 's \<times> bool" and reply :: "'r \<Rightarrow> 's \<Rightarrow> 's"
    and other :: "'s \<Rightarrow> 's \<Rightarrow> bool"
  assumes wf_start: "wf s \<Longrightarrow> wf (fst (start x s))" and wf_reply: "wf s \<Longrightarrow> wf (reply r s)" and wf_other: "wf s \<Longrightarrow> other s t \<Longrightarrow> wf t"
    and start_issues: "wf s \<Longrightarrow> snd (start x s) \<Longrightarrow> \<not> busy s \<and> busy (fst (start x s))"
    and start_refuses: "wf s \<Longrightarrow> \<not> snd (start x s) \<Longrightarrow> busy (fst (start x s)) = busy s"
    and reply_ends: "wf s \<Longrightarrow> \<not> busy (reply r s)"
    and other_keeps: "wf s \<Longrightarrow> other s t \<Longrightarrow> busy t = busy s"
begin

definition in_flight :: "'s \<times> nat \<Rightarrow> bool" where
  "in_flight c = (wf (fst c) \<and> snd c = (if busy (fst c) then 1 else 0))"

lemma in_flight_step: "flight_step start reply other c d \<Longrightarrow> in_flight c \<Longrightarrow> in_flight d"
proof (induction rule: flight_step.induct)
  case (flight_refused x s t n)
  then show ?case using wf_start [of s x] start_refuses [of s x] by (simp add: in_flight_def)
next
  case (flight_issued x s t n)
  then show ?case using wf_start [of s x] start_issues [of s x] by (simp add: in_flight_def)
next
  case (flight_replied s n r)
  then show ?case using wf_reply [of s r] reply_ends [of s r] by (auto simp: in_flight_def split: if_splits)
next
  case (flight_other s t n)
  then show ?case using wf_other [of s t] other_keeps [of s t] by (simp add: in_flight_def)
qed

lemma in_flight_run: "(flight_step start reply other)\<^sup>*\<^sup>* c d \<Longrightarrow> in_flight c \<Longrightarrow> in_flight d"
  by (induction rule: rtranclp_induct) (auto intro: in_flight_step)

lemma single_request:
  assumes "(flight_step start reply other)\<^sup>*\<^sup>* (s, 0) (t, n)" and "wf s" and "\<not> busy s"
  shows "n \<le> 1 \<and> (n = 1 \<longleftrightarrow> busy t) \<and> (n = 1 \<longrightarrow> (\<forall>x. \<not> snd (start x t)))"
proof -
  have "in_flight (t, n)" using in_flight_run [OF assms(1)] assms(2,3) by (simp add: in_flight_def)
  then show ?thesis using start_issues [of t] by (auto simp: in_flight_def split: if_splits)
qed

end

section \<open>Deposits\<close>

definition deposit_wf :: "'a browser_scheme \<Rightarrow> bool" where
  "deposit_wf s = (page s ''deposit-key-input'' \<noteq> None \<and> page s ''deposit-amount-select'' \<noteq> None \<and> page s ''deposit-msg-box'' \<noteq> None \<and>
     page s ''deposit-submit-btn'' \<noteq> None)"

definition checkout_mark :: "'a browser_scheme \<Rightarrow> string \<Rightarrow> string option" where
  "checkout_mark s k = (case page s ''deposit-submit-btn'' of None \<Rightarrow> None | Some b \<Rightarrow> dataset b k)"

definition checkout_busy :: "'a browser_scheme \<Rightarrow> bool" where
  "checkout_busy s = (checkout_mark s ''checkoutBusy'' = Some ''1'')"

definition checkout_done :: "'a browser_scheme \<Rightarrow> bool" where
  "checkout_done s = (checkout_mark s ''checkoutCompleted'' = Some ''1'')"

definition checkout_key :: "'a browser_scheme \<Rightarrow> string" where
  "checkout_key s = item_text (checkout_mark s ''checkoutIdempotencyKey'')"

text \<open>What else happens on the page: input into fields, closing the dialog, a change of the language.\<close>

inductive deposit_other :: "'a portal_scheme \<Rightarrow> 'a portal_scheme \<Rightarrow> bool" where
  typed: "deposit_other s (set_val i v s)"
| closed: "deposit_other s (closeDepositModal s)"
| spoken: "deposit_other s (s\<lparr>currentLang := l\<rparr>)"

definition deposit_start :: "(nat \<Rightarrow> string) \<Rightarrow> nat \<Rightarrow> 'a portal_scheme \<Rightarrow> 'a portal_scheme \<times> bool" where
  "deposit_start uuid i s = handleDepositSubmit (uuid i) s"

lemmas deposit_simps = deposit_wf_def checkout_mark_def deposit_message_def show_box_def issue_def deposit_finally_def deposit_failed_def alert_def
  closeDepositModal_def navigate_def

lemma deposit_other_frame:
  assumes "deposit_other s t"
  shows "checkout_mark t = checkout_mark s" "sent t = sent s" "deposit_wf t = deposit_wf s"
  using assms
  by (induction rule: deposit_other.induct) (auto simp: deposit_simps upd_elem_def fun_eq_iff split: option.split)

lemma deposit_reply_marks:
  assumes "deposit_wf s"
  shows "deposit_wf (deposit_reply thrown f s)" "sent (deposit_reply thrown f s) = sent s"
    "checkout_mark (deposit_reply thrown f s) ''checkoutBusy'' = None"
    "checkout_key (deposit_reply thrown f s) = checkout_key s"
  using assms
  by (auto simp: deposit_reply_def deposit_simps checkout_key_def Let_def split: fetched.split option.split)

lemma submit_cases:
  assumes "deposit_wf s"
  obtains (refused) t where "handleDepositSubmit x s = (t, False)" "checkout_mark t = checkout_mark s" "sent t = sent s" "deposit_wf t"
  | (sends) t a q where "handleDepositSubmit x s = (t, True)" "sent t = sent s @ [checkout_request a (str_or (checkout_key s) x) q]" "deposit_wf t"
      "checkout_busy t" "checkout_key t = str_or (checkout_key s) x" "\<not> checkout_busy s" "\<not> checkout_done s" "\<not> checkout_done t"
proof -
  obtain k a m b where p: "page s ''deposit-key-input'' = Some k" "page s ''deposit-amount-select'' = Some a" "page s ''deposit-msg-box'' = Some m"
    "page s ''deposit-submit-btn'' = Some b" using assms by (auto simp: deposit_wf_def)
  show ?thesis
  proof (cases "checkout_blocked b \<or> trim (val k) = []")
    case True
    then show ?thesis using p by (intro refused [of "fst (handleDepositSubmit x s)"]) (auto simp: handleDepositSubmit_def deposit_simps)
  next
    case False
    show ?thesis
      by (rule sends [of "fst (handleDepositSubmit x s)" "trim (val k)" "parse_float (val a)"])
        (use False p in \<open>auto simp: handleDepositSubmit_def deposit_simps checkout_busy_def checkout_done_def checkout_key_def checkout_blocked_def Let_def item_text_def\<close>)
  qed
qed

interpretation deposit: single_flight deposit_wf checkout_busy "deposit_start uuid" "deposit_reply thrown" deposit_other
proof
  fix s :: "'a portal_scheme" and x r t
  assume s: "deposit_wf s"
  show "deposit_wf (fst (deposit_start uuid x s))" using s by (cases rule: submit_cases [where x = "uuid x"]) (auto simp: deposit_start_def)
  show "snd (deposit_start uuid x s) \<Longrightarrow> \<not> checkout_busy s \<and> checkout_busy (fst (deposit_start uuid x s))"
    using s by (cases rule: submit_cases [where x = "uuid x"]) (auto simp: deposit_start_def)
  show "\<not> snd (deposit_start uuid x s) \<Longrightarrow> checkout_busy (fst (deposit_start uuid x s)) = checkout_busy s"
    using s by (cases rule: submit_cases [where x = "uuid x"]) (auto simp: deposit_start_def checkout_busy_def)
  show "deposit_wf (deposit_reply thrown r s)" using s by (rule deposit_reply_marks)
  show "\<not> checkout_busy (deposit_reply thrown r s)" using deposit_reply_marks(3) [OF s] by (simp add: checkout_busy_def)
  show "deposit_other s t \<Longrightarrow> deposit_wf t" using s by (simp add: deposit_other_frame)
  show "deposit_other s t \<Longrightarrow> checkout_busy t = checkout_busy s" by (simp add: checkout_busy_def deposit_other_frame)
qed

text \<open>The checkout requests sent since the page was opened, and the mark of a completed checkout.\<close>

definition checkout_history :: "request list \<Rightarrow> 'a browser_scheme \<Rightarrow> bool" where
  "checkout_history old s = (\<exists>rs. sent s = old @ rs \<and> (\<forall>r \<in> set rs. (''Idempotency-Key'', checkout_key s) \<in> set (headers r)) \<and> (rs \<noteq> [] \<longrightarrow> checkout_key s \<noteq> []) \<and>
     (checkout_done s \<longrightarrow> \<not> checkout_busy s))"

lemma checkout_history_step:
  assumes "flight_step (deposit_start uuid) (deposit_reply thrown) deposit_other c d" and "\<And>i. uuid i \<noteq> []"
    and "deposit_wf (fst c)" and "checkout_history old (fst c)"
  shows "checkout_history old (fst d)"
  using assms(1)
proof cases
  case (flight_refused x s t n)
  then have h: "handleDepositSubmit (uuid x) s = (t, False)" and s: "deposit_wf s" "checkout_history old s"
    using assms(3,4) by (simp_all add: deposit_start_def)
  from s(1) show ?thesis
    by (cases rule: submit_cases [where x = "uuid x"])
      (use h s(2) flight_refused in \<open>auto simp: checkout_history_def checkout_key_def checkout_done_def checkout_busy_def\<close>)
next
  case (flight_issued x s t n)
  then have h: "handleDepositSubmit (uuid x) s = (t, True)" by (simp add: deposit_start_def)
  have s: "deposit_wf s" "checkout_history old s" using assms(3,4) flight_issued by simp_all
  then obtain rs where rs: "sent s = old @ rs" "\<forall>r \<in> set rs. (''Idempotency-Key'', checkout_key s) \<in> set (headers r)" "rs \<noteq> [] \<longrightarrow> checkout_key s \<noteq> []"
    by (auto simp: checkout_history_def)
  from s(1) show ?thesis
  proof (cases rule: submit_cases [where x = "uuid x"])
    case (sends u a q)
    then have "u = t" using h by simp
    moreover have "rs \<noteq> [] \<Longrightarrow> checkout_key t = checkout_key s" using sends(5) rs(3) \<open>u = t\<close> by (simp add: str_or_def)
    moreover have "checkout_key t \<noteq> []" using sends(5) assms(2) \<open>u = t\<close> by (simp add: str_or_def)
    ultimately have "sent t = old @ (rs @ [checkout_request a (checkout_key t) q]) \<and>
        (\<forall>r \<in> set (rs @ [checkout_request a (checkout_key t) q]). (''Idempotency-Key'', checkout_key t) \<in> set (headers r))"
      using sends(2,5) rs(1,2) by (cases "rs = []") (auto simp: checkout_request_def json_post_def)
    then show ?thesis using sends(8) \<open>u = t\<close> \<open>checkout_key t \<noteq> []\<close> flight_issued(2) unfolding checkout_history_def by auto
  qed (use h in simp)
next
  case (flight_replied s n r)
  then show ?thesis using assms(3,4) deposit_reply_marks [of s thrown r]
    by (auto simp: checkout_history_def checkout_busy_def)
next
  case (flight_other s t n)
  then show ?thesis using assms(4) deposit_other_frame [of s t] by (auto simp: checkout_history_def checkout_key_def checkout_done_def checkout_busy_def)
qed

lemma checkout_run:
  assumes "(flight_step (deposit_start uuid) (deposit_reply thrown) deposit_other)\<^sup>*\<^sup>* c d" and "\<And>i. uuid i \<noteq> []"
    and "deposit_wf (fst c)" and "checkout_history old (fst c)"
  shows "deposit_wf (fst d) \<and> checkout_history old (fst d)"
  using assms(1)
proof (induction rule: rtranclp_induct)
  case base
  then show ?case using assms(3,4) by simp
next
  case (step u v)
  have "deposit_wf (fst v)" using step.hyps(2)
  proof cases
    case (flight_replied s n r)
    then show ?thesis using step.IH deposit.wf_reply [of s] by simp
  next
    case (flight_other s t n)
    then show ?thesis using step.IH deposit.wf_other [of s t] by simp
  qed (use step.IH deposit.wf_start [of "fst u" uuid] in \<open>metis fst_conv\<close>)+
  then show ?case using step.IH checkout_history_step [OF step.hyps(2) assms(2)] by simp
qed

section \<open>Properties\<close>


definition deposit_page :: dom where
  "deposit_page = [''deposit-key-input'' \<mapsto> blank\<lparr>val := ''cm-1''\<rparr>, ''deposit-amount-select'' \<mapsto> blank\<lparr>val := ''25''\<rparr>, ''deposit-msg-box'' \<mapsto> blank,
     ''deposit-submit-btn'' \<mapsto> blank, ''deposit-modal'' \<mapsto> blank]"

definition deposit0 :: portal where
  "deposit0 = portal0\<lparr>page := deposit_page\<rparr>"

lemma deposit0_ready: "deposit_wf deposit0" "\<not> checkout_busy deposit0" "\<not> checkout_done deposit0"
  by (simp_all add: deposit0_def deposit_wf_def deposit_page_def checkout_busy_def checkout_done_def checkout_mark_def blank_def)


text \<open>Reopening the deposit dialog lets a second checkout through: whenever a submission has sent a checkout request, opening the dialog
  again while the reply is outstanding removes the busy mark and the idempotency key, so that the next submission sends a second
  checkout request under a new key while the first is still under way.\<close>

theorem reopened_dialog_checks_out_twice:
  assumes "handleDepositSubmit x s = (t, True)" and "page s ''deposit-modal'' \<noteq> None" and "deposit_wf s"
  shows "\<exists>u a q a' q'. handleDepositSubmit y (openDepositModal t) = (u, True) \<and>
    sent u = sent s @ [checkout_request a (str_or (checkout_key s) x) q, checkout_request a' y q']"
proof -
  obtain k a m b where p: "page s ''deposit-key-input'' = Some k" "page s ''deposit-amount-select'' = Some a" "page s ''deposit-msg-box'' = Some m"
    "page s ''deposit-submit-btn'' = Some b" "page s ''deposit-modal'' \<noteq> None" using assms(2,3) by (auto simp: deposit_wf_def)
  obtain w where w: "page s ''deposit-modal'' = Some w" using p(5) by blast
  have nb: "\<not> checkout_blocked b \<and> trim (val k) \<noteq> []" using assms(1) p by (auto simp: handleDepositSubmit_def split: if_splits)
  let ?idem = "str_or (checkout_key s) x"
  have t: "sent t = sent s @ [checkout_request (trim (val k)) ?idem (parse_float (val a))]"
    "page t ''deposit-key-input'' = Some k" "page t ''deposit-amount-select'' = Some a" "page t ''deposit-modal'' = Some w"
    "\<exists>m. page t ''deposit-msg-box'' = Some m" "\<exists>b. page t ''deposit-submit-btn'' = Some b"
    using assms(1) p w nb by (auto simp: handleDepositSubmit_def deposit_simps checkout_key_def Let_def)
  then obtain m' b' where m': "page t ''deposit-msg-box'' = Some m'" "page t ''deposit-submit-btn'' = Some b'" by blast
  have "\<exists>u a' q'. handleDepositSubmit y (openDepositModal t) = (u, True) \<and> sent u = sent t @ [checkout_request a' y q']"
    using t(2-4) m' nb by (auto simp: handleDepositSubmit_def openDepositModal_def show_box_def checkout_blocked_def item_text_def str_or_def
        deposit_message_def issue_def Let_def)
  then obtain u a' q' where u: "handleDepositSubmit y (openDepositModal t) = (u, True)" "sent u = sent t @ [checkout_request a' y q']" by blast
  then have "sent u = sent s @ [checkout_request (trim (val k)) ?idem (parse_float (val a)), checkout_request a' y q']" using t(1) by simp
  then show ?thesis using u(1) by blast
qed

theorem reopened_dialog_checks_out_twice_witness:
  "\<exists>u. handleDepositSubmit ''b'' (openDepositModal (fst (handleDepositSubmit ''a'' deposit0))) = (u, True) \<and> length (sent u) = 2"
proof -
  have h: "handleDepositSubmit ''a'' deposit0 = (fst (handleDepositSubmit ''a'' deposit0), True)"
    by (simp add: deposit0_def deposit_page_def handleDepositSubmit_def checkout_blocked_def blank_def Let_def trim_def trim_left_def trim_right_def is_ws_def)
  have "page deposit0 ''deposit-modal'' \<noteq> None" "sent deposit0 = []" by (simp_all add: deposit0_def deposit_page_def portal0_def browser.defs)
  with reopened_dialog_checks_out_twice [OF h _ deposit0_ready(1), of "''b''"] show ?thesis by force
qed

section \<open>Registration\<close>

definition registration_wf :: "'a browser_scheme \<Rightarrow> bool" where
  "registration_wf s = (page s ''registration-form'' \<noteq> None)"

text \<open>What else happens while the dialog is shown.\<close>

inductive registration_other :: "'a forms_scheme \<Rightarrow> 'a forms_scheme \<Rightarrow> bool" where
  reg_typed: "registration_other s (set_val i v s)"
| reg_ticked: "registration_other s (s\<lparr>confirmed := c\<rparr>)"
| reg_copied: "registration_other s (copyKey granted s)"
| reg_opened: "registration_other s (openModal_hook nav role s)"
| reg_closed: "registration_other s (closeModal s)"

definition form_data :: "'a browser_scheme \<Rightarrow> (string \<rightharpoonup> string) option" where
  "form_data s = map_option dataset (page s ''registration-form'')"

lemma registration_form_data:
  "registration_wf s \<longleftrightarrow> form_data s \<noteq> None" "registration_busy s \<longleftrightarrow> (\<exists>d. form_data s = Some d \<and> d ''registrationBusy'' = Some ''1'')"
  by (auto simp: registration_wf_def registration_busy_def form_data_def split: option.split)

lemma upd_elem_dataset: "(\<And>e. dataset (f e) = dataset e) \<Longrightarrow> map_option dataset (upd_elem i f d j) = map_option dataset (d j)"
  by (cases "d i"; cases "i = j") (auto simp: upd_elem_def)

lemma dataset_class [simp]: "dataset (add_class c e) = dataset e" "dataset (remove_class c e) = dataset e"
  by (simp_all add: add_class_def remove_class_def)

lemma dataset_styles [simp]: "dataset (fold (\<lambda>k. set_style k v) sts e) = dataset e" "content (fold (\<lambda>k. set_style k v) sts e) = content e"
  by (induction sts arbitrary: e) simp_all

lemma form_data_on_elem: "(\<And>e. dataset (f e) = dataset e) \<Longrightarrow> form_data (on_elem i f s) = form_data s"
  by (simp add: form_data_def upd_elem_dataset)

lemmas form_data_frame = form_data_def upd_elem_dataset put_local_def clip_def navigate_def issue_def show_box_def key_note_def

lemma form_data_update [simp]: "form_data (updateCodeSnippetsWithKey k u) = form_data u"
  by (auto simp: updateCodeSnippetsWithKey_def renderPlaygroundSnippet_def form_data_frame split: option.split)

lemma form_data_flash [simp]: "form_data (flash b msg sts u) = form_data u"
  by (auto simp: flash_def form_data_frame split: option.split)

lemma form_data_ops [simp]:
  "form_data (key_note m s) = form_data s" "form_data (clip g v p) = form_data p" "form_data (closeModal s) = form_data s"
  "form_data (openModal_hook nav role p) = form_data p"
  by (auto simp: closeModal_def openModal_hook_def openModal_def syncProviderControls_def Let_def form_data_frame)

lemma form_data_put_local [simp]: "form_data (put_local k v s) = form_data s"
  by (simp add: form_data_frame)

lemma form_data_copyKey [simp]: "form_data (copyKey g u) = form_data u"
  by (simp add: copyKey_def Let_def)

lemma registration_other_frame: "registration_other s t \<Longrightarrow> form_data t = form_data s"
  by (induction rule: registration_other.induct) (simp_all add: form_data_on_elem, simp add: form_data_def)

lemma registration_cases:
  obtains (refused) t where "compliantRegistration nav s = (t, False)" "form_data t = form_data s" "sent t = sent s"
  | (sends) t where "compliantRegistration nav s = (t, True)" "\<not> registration_busy s" "confirmed s = Some True"
      "str_or (elem_val ''modal-role'' s) ''consumer'' = ''provider'' \<longrightarrow> elem_val ''cm-provider-country'' s \<noteq> []"
      "form_data t = map_option (\<lambda>d. d(''registrationBusy'' \<mapsto> ''1'')) (form_data s)"
      "sent t = sent s @ [consent_request (trim (elem_val ''modal-email'' s)) (str_or (elem_val ''modal-role'' s) ''consumer'')
         (trim (elem_val ''modal-wallet'' s)) (elem_val ''cm-provider-country'' s)]"
proof (cases "registration_busy s \<or> \<not> lang_known s \<or> confirmed s \<noteq> Some True \<or>
    str_or (elem_val ''modal-role'' s) ''consumer'' = ''provider'' \<and> elem_val ''cm-provider-country'' s = []")
  case True
  then show ?thesis
    by (intro refused [of "fst (compliantRegistration nav s)"]) (auto simp: compliantRegistration_def Let_def form_data_frame)
next
  case False
  have "map_option dataset (upd_elem ''registration-form'' (set_data ''registrationBusy'' ''1'') (page s) ''registration-form'') =
      map_option (\<lambda>d. d(''registrationBusy'' \<mapsto> ''1'')) (map_option dataset (page s ''registration-form''))"
    by (cases "page s ''registration-form''") simp_all
  then show ?thesis using False
    by (intro sends [of "fst (compliantRegistration nav s)"]) (auto simp: compliantRegistration_def Let_def form_data_frame simp del: upd_elem_same)
qed

lemma registration_finally_data: "form_data (registration_finally s) = map_option (\<lambda>d. d(''registrationBusy'' := None)) (form_data s)"
  by (cases "page s ''registration-form''") (simp_all add: registration_finally_def form_data_def)

lemma registration_reply_data:
  "form_data (registration_reply thrown german f s) = map_option (\<lambda>d. d(''registrationBusy'' := None)) (form_data s)"
  by (auto simp: registration_reply_def registration_finally_data form_data_on_elem split: option.split)

interpretation registration: single_flight registration_wf registration_busy compliantRegistration "registration_reply thrown german" registration_other
proof
  fix s :: "'a forms_scheme" and x r t
  assume s: "registration_wf s"
  show "registration_wf (fst (compliantRegistration x s))"
    using s by (cases rule: registration_cases [of x s]) (auto simp: registration_form_data)
  show "snd (compliantRegistration x s) \<Longrightarrow> \<not> registration_busy s \<and> registration_busy (fst (compliantRegistration x s))"
    using s by (cases rule: registration_cases [of x s]) (auto simp: registration_form_data)
  show "\<not> snd (compliantRegistration x s) \<Longrightarrow> registration_busy (fst (compliantRegistration x s)) = registration_busy s"
    by (cases rule: registration_cases [of x s]) (auto simp: registration_form_data)
  show "registration_wf (registration_reply thrown german r s)" using s by (simp add: registration_form_data registration_reply_data)
  show "\<not> registration_busy (registration_reply thrown german r s)" by (auto simp: registration_form_data registration_reply_data)
  show "registration_other s t \<Longrightarrow> registration_wf t" using s by (simp add: registration_form_data registration_other_frame)
  show "registration_other s t \<Longrightarrow> registration_busy t = registration_busy s" by (simp add: registration_form_data registration_other_frame)
qed

text \<open>C10. Nobody is registered without consent, and no registration is sent twice: through any sequence of submissions, replies and inputs at
  most one registration request is under way, and a submission sends one exactly when none is under way, the terms are
  confirmed and a provider has named a country; it then sends exactly one request, which states the consent.\<close>

theorem registration_requires_consent:
  assumes "(flight_step compliantRegistration (registration_reply thrown german) registration_other)\<^sup>*\<^sup>* (s, 0) (t, n)"
    and "registration_wf s" and "\<not> registration_busy s"
  shows "n \<le> 1 \<and> (snd (compliantRegistration nav t) \<longrightarrow> n = 0 \<and> confirmed t = Some True \<and>
      (str_or (elem_val ''modal-role'' t) ''consumer'' = ''provider'' \<longrightarrow> elem_val ''cm-provider-country'' t \<noteq> []) \<and>
      sent (fst (compliantRegistration nav t)) = sent t @ [consent_request (trim (elem_val ''modal-email'' t)) (str_or (elem_val ''modal-role'' t) ''consumer'')
         (trim (elem_val ''modal-wallet'' t)) (elem_val ''cm-provider-country'' t)]) \<and>
    (\<not> snd (compliantRegistration nav t) \<longrightarrow> sent (fst (compliantRegistration nav t)) = sent t)"
proof -
  have n: "n \<le> 1 \<and> (n = 1 \<longleftrightarrow> registration_busy t)" using registration.single_request [OF assms] by blast
  show ?thesis
  proof (cases rule: registration_cases [of nav t])
    case (refused u)
    then show ?thesis using n by simp
  next
    case (sends u)
    then have "n = 0" using n by auto
    then show ?thesis using n sends by simp
  qed
qed

definition register_page :: dom where
  "register_page = [''registration-form'' \<mapsto> blank, ''generated-key-val'' \<mapsto> blank, ''modal-email'' \<mapsto> blank\<lparr>val := ''a@b.de''\<rparr>]"

definition forms0 :: forms where
  "forms0 = market.extend (market0\<lparr>page := register_page\<rparr>) \<lparr>currentPlaygroundTab = ''curl_bash'', timers = [], confirmed = Some True\<rparr>"

lemma forms0_simps: "page forms0 = register_page" "confirmed forms0 = Some True" "timers forms0 = []" "sent forms0 = []" "currentLang forms0 = ''de''"
  "can_read (localStorage forms0)" "can_write (localStorage forms0)"
  by (simp_all add: forms0_def market0_def portal0_def market.defs portal.defs browser.defs)

lemma forms0_ready: "registration_wf forms0" "\<not> registration_busy forms0" "lang_known forms0"
  by (simp_all add: lang_known_def registration_wf_def registration_busy_def forms0_simps register_page_def blank_def)

theorem registration_requires_consent_witness:
  "sent (fst (compliantRegistration ''de'' forms0)) = [consent_request ''a@b.de'' ''consumer'' [] []]"
proof -
  have "snd (compliantRegistration ''de'' forms0)"
    by (simp add: compliantRegistration_def forms0_ready forms0_simps elem_val_def register_page_def str_or_def Let_def)
  moreover have "trim (elem_val ''modal-email'' forms0) = ''a@b.de''" "elem_val ''modal-role'' forms0 = []" "elem_val ''modal-wallet'' forms0 = []"
    "elem_val ''cm-provider-country'' forms0 = []" "trim [] = []"
    by (simp_all add: elem_val_def forms0_simps register_page_def trim_def trim_left_def trim_right_def is_ws_def)
  ultimately show ?thesis
    using registration_requires_consent [of "[]" True forms0 forms0 0 "''de''"] forms0_ready by (simp add: forms0_simps str_or_def)
qed

text \<open>The progress text can become the stored key: while a registration is under way the key field shows a progress text that the check in
  \<^verbatim>\<open>updateCodeSnippetsWithKey\<close> does not recognise, so pressing the copy button stores this text as the API key, after which the portal
  takes the visitor for signed in.\<close>

theorem progress_text_stored_as_key:
  assumes "compliantRegistration nav s = (t, True)" and "page s ''generated-key-val'' \<noteq> None"
    and "can_read (localStorage s)" and "can_write (localStorage s)"
  shows "stored (localStorage (copyKey granted t)) ''cm_api_key'' = progress_text (getLang nav s = ''de'') \<and> hasActiveSession (copyKey granted t)"
proof -
  let ?k = "progress_text (getLang nav s = ''de'')"
  obtain e where e: "page s ''generated-key-val'' = Some e" using assms(2) by blast
  have t: "elem_val ''generated-key-val'' t = ?k" "localStorage t = localStorage s"
    using assms(1) e by (auto simp: compliantRegistration_def Let_def elem_val_def issue_def key_note_def show_box_def split: if_splits)
  have k: "\<not> no_key ?k" "?k \<noteq> []" by (simp_all add: progress_text_def no_key_def)
  have "localStorage (flash b msg sts u) = localStorage u" for b msg sts and u :: "'a forms_scheme" by (simp add: flash_def split: option.split)
  then have st: "localStorage (copyKey granted t) = try_set_item ''cm_api_key'' ?k (localStorage s)"
    using t k assms(3) by (simp add: copyKey_def Let_def updateCodeSnippetsWithKey_def renderPlaygroundSnippet_def put_local_def clip_def split: option.split)
  then have "stored (localStorage (copyKey granted t)) ''cm_api_key'' = ?k" using assms(4) by (simp add: stored_def items_try_set_item item_text_def)
  then show ?thesis using st k(2) assms(3) by (simp add: hasActiveSession_def session_items_def portal_keys_def)
qed

theorem progress_text_stored_as_key_witness:
  "hasActiveSession (copyKey True (fst (compliantRegistration ''de'' forms0)))"
proof -
  have "compliantRegistration ''de'' forms0 = (fst (compliantRegistration ''de'' forms0), True)"
    by (simp add: compliantRegistration_def forms0_ready forms0_simps elem_val_def register_page_def str_or_def Let_def)
  moreover have "page forms0 ''generated-key-val'' \<noteq> None" by (simp add: forms0_simps register_page_def)
  ultimately show ?thesis using progress_text_stored_as_key forms0_simps(6,7) by blast
qed

section \<open>Copy buttons\<close>

lemma timers_fire:
  assumes "timers s = ts" and "ts \<noteq> []" and "\<forall>x \<in> set ts. fst x = b" and "page s b \<noteq> None"
  shows "timers ((timer_fires ^^ length ts) s) = [] \<and> (\<exists>e. page ((timer_fires ^^ length ts) s) b = Some e \<and> content e = Text (fst (snd (last ts))))"
  using assms
proof (induction ts arbitrary: s)
  case (Cons x ts)
  obtain lbl sts e where x: "x = (b, lbl, sts)" "page s b = Some e" using Cons.prems by (cases x) auto
  let ?u = "timer_fires s"
  have u: "timers ?u = ts" "page ?u b = Some (fold (\<lambda>k. set_style k []) sts (set_text lbl e))" using Cons.prems(1) x by (simp_all add: timer_fires_def)
  show ?case
  proof (cases "ts = []")
    case True
    then show ?thesis using u x by simp
  next
    case False
    then show ?thesis using Cons.IH [OF u(1)] Cons.prems(3) u(2) by (simp add: funpow_swap1)
  qed
qed simp

lemma flash_step:
  assumes "page s b = Some e" and "content e = Text lbl"
  shows "timers (flash b msg sts s) = timers s @ [(b, lbl, sts)] \<and> (\<exists>e'. page (flash b msg sts s) b = Some e' \<and> content e' = Text msg)"
  using assms by (simp add: flash_def text_of_def)

lemma flashes:
  assumes "page s b = Some e" and "timers s = []" and "content e = Text lbl"
  shows "timers ((flash b msg sts ^^ Suc n) s) = (b, lbl, sts) # replicate n (b, msg, sts) \<and>
    (\<exists>e'. page ((flash b msg sts ^^ Suc n) s) b = Some e' \<and> content e' = Text msg)"
proof (induction n)
  case 0
  then show ?case using flash_step [OF assms(1,3), of msg sts] assms(2) by simp
next
  case (Suc n)
  define u where "u = (flash b msg sts ^^ Suc n) s"
  obtain e' where "timers u = (b, lbl, sts) # replicate n (b, msg, sts)" "page u b = Some e'" "content e' = Text msg"
    using Suc unfolding u_def by blast
  moreover have "(flash b msg sts ^^ Suc (Suc n)) s = flash b msg sts u" by (simp add: u_def)
  ultimately show ?case using flash_step [of u b e' msg msg sts] by (simp add: replicate_append_same)
qed

text \<open>A copy button gets its label back after one press, but not after two: once all pending timers have fired, the button shows its
  original label when it was pressed once, and keeps the confirmation for good when it was pressed again before the first timer
  fired.\<close>

theorem copy_button_label:
  assumes "page s b = Some e" and "timers s = []" and "content e = Text lbl"
  shows "\<exists>e'. page ((timer_fires ^^ Suc n) ((flash b msg sts ^^ Suc n) s)) b = Some e' \<and> content e' = Text (if n = 0 then lbl else msg) \<and>
    timers ((timer_fires ^^ Suc n) ((flash b msg sts ^^ Suc n) s)) = []"
proof -
  note f = flashes [OF assms, of n msg sts]
  let ?ts = "(b, lbl, sts) # replicate n (b, msg, sts)"
  have "length ?ts = Suc n" "last ?ts = (b, if n = 0 then lbl else msg, sts)" by (simp_all add: last_replicate)
  then show ?thesis using timers_fire [of "(flash b msg sts ^^ Suc n) s" ?ts b] f by auto
qed

theorem copy_button_label_witness:
  "\<exists>e'. page ((timer_fires ^^ 2) ((flash ''copyKey()'' ''ok'' [] ^^ 2) (forms0\<lparr>page := [''copyKey()'' \<mapsto> set_text ''copy'' blank]\<rparr>))) ''copyKey()'' = Some e' \<and>
    content e' = Text ''ok''"
  using copy_button_label [of "forms0\<lparr>page := [''copyKey()'' \<mapsto> set_text ''copy'' blank]\<rparr>" "''copyKey()''" "set_text ''copy'' blank" "''copy''" 1 "''ok''" "[]"]
  by (auto simp: forms0_simps numeral_2_eq_2)

end
