(* ===== verification/PortalMarkdown.thy ===== *)
theory PortalMarkdown
  imports PortalMarket
begin

text \<open>
  The Markdown renderer of the playground chat, \<^verbatim>\<open>src/portal/portal-core.js\<close> lines 2414 to 2703. The regular expressions of the source are
  written out as matchers: a matcher looks at the rest of the text and gives the replacement and what follows the match. None of
  them matches the empty text and none is ambiguous, so \<open>replace_all\<close> is \<^verbatim>\<open>replace\<close> with the flag \<^verbatim>\<open>g\<close>. Code blocks and reasoning blocks are cut
  out first, kept aside and put back at the end for a placeholder, where \<^verbatim>\<open>String.prototype.replace\<close> expands patterns such as
  \<^verbatim>\<open>$$\<close> in the replacement text.
\<close>

section \<open>Replacing\<close>

function replace_all :: "(string \<Rightarrow> (string \<times> string) option) \<Rightarrow> string \<Rightarrow> string" where
  "replace_all m [] = []"
| "replace_all m (c # s) = (case m (c # s) of None \<Rightarrow> c # replace_all m s
     | Some (x, r) \<Rightarrow> if length r \<le> length s then x @ replace_all m r else c # replace_all m s)"
  by pat_completeness auto
termination
  by (relation "measure (length \<circ> snd)") auto

text \<open>The same with a list of blocks that the replacement function extends.\<close>

function extract_all :: "(nat \<Rightarrow> string \<Rightarrow> (string \<times> string list \<times> string) option) \<Rightarrow> string list \<Rightarrow> string \<Rightarrow> string \<times> string list" where
  "extract_all m bs [] = ([], bs)"
| "extract_all m bs (c # s) = (case m (length bs) (c # s) of
     Some (x, new, r) \<Rightarrow> (if length r \<le> length s then (case extract_all m (bs @ new) r of (t, bs') \<Rightarrow> (x @ t, bs'))
        else (case extract_all m bs s of (t, bs') \<Rightarrow> (c # t, bs')))
   | None \<Rightarrow> (case extract_all m bs s of (t, bs') \<Rightarrow> (c # t, bs')))"
  by pat_completeness auto
termination
  by (relation "measure (\<lambda>(m, bs, s). length s)") auto

section \<open>Inline markup\<close>

definition escape_text :: "string \<Rightarrow> string" where
  "escape_text s = concat (map (\<lambda>c. if c = CHR ''&'' then ''&amp;'' else if c = CHR ''<'' then ''&lt;'' else if c = CHR ''>'' then ''&gt;'' else [c]) s)"

text \<open>A text without the character \<open>c\<close> between two delimiters \<open>d\<close>, put between \<open>a\<close> and \<open>b\<close>.\<close>

definition delim_match :: "string \<Rightarrow> char \<Rightarrow> string \<Rightarrow> string \<Rightarrow> string \<Rightarrow> (string \<times> string) option" where
  "delim_match d c a b s = (if starts_with s d then
       (let r = drop (length d) s; x = takeWhile (\<lambda>y. y \<noteq> c) r; r' = dropWhile (\<lambda>y. y \<noteq> c) r in
        if x \<noteq> [] \<and> starts_with r' d then Some (a @ x @ b, drop (length d) r') else None)
     else None)"

text \<open>An address with one of the given beginnings, without white space, up to a closing parenthesis.\<close>

definition url_match :: "string list \<Rightarrow> string \<Rightarrow> (string \<times> string) option" where
  "url_match ps s = (case find (starts_with s) ps of None \<Rightarrow> None
     | Some p \<Rightarrow> (let r = drop (length p) s; ok = (\<lambda>c. \<not> is_ws c \<and> c \<noteq> CHR '')''); x = takeWhile ok r; r' = dropWhile ok r in
         if x \<noteq> [] \<and> starts_with r' '')'' then Some (p @ x, tl r') else None))"

definition clean_url :: "string \<Rightarrow> string" where
  "clean_url u = replace_all (\<lambda>s. if starts_with s ''&amp;'' then Some (''&'', drop 5 s) else None) u"

fun image_tail :: "string \<Rightarrow> (string \<times> string \<times> string) option" where
  "image_tail [] = None"
| "image_tail (c # s) = (case (if starts_with (c # s) '']('' then url_match [''https://'', ''http://'', ''data:image/''] (drop 2 (c # s)) else None) of
     Some (u, r) \<Rightarrow> Some ([], u, r)
   | None \<Rightarrow> if c = CHR 0x0A \<or> c = CHR 0x0D then None else map_option (\<lambda>(alt, u, r). (c # alt, u, r)) (image_tail s))"

definition image_html :: "string \<Rightarrow> string \<Rightarrow> string" where
  "image_html alt cleanUrl = (html ''<div class=^chat-image-wrap^ style=^margin: 0.9rem 0; text-align: center;^>~      <a href=^'') @ cleanUrl @ (html ''^ target=^_blank^ rel=^noopener^ title=^Klicken f'' @ [CHR 0xC3, CHR 0xBC] @ html ''r Vollbild^>~        <img src=^'') @ cleanUrl @ (html ''^ alt=^'') @ alt @ (html ''^ style=^max-width: 100%; max-height: 480px; border-radius: 12px; border: 1px solid rgba(255,255,255,0.2); box-shadow: 0 10px 30px rgba(0,0,0,0.5); display: inline-block; cursor: pointer; transition: transform 0.25s ease;^ loading=^lazy^ onmouseover=^this.style.transform=`scale(1.01)`^ onmouseout=^this.style.transform=`scale(1)`^ />~      </a>~      <div style=^font-size: 0.8rem; color: var(--text-muted); margin-top: 0.4rem; font-style: italic;^>'' @ [CHR 0xF0, CHR 0x9F, CHR 0x96, CHR 0xBC, CHR 0xEF, CHR 0xB8, CHR 0x8F] @ '' '') @ alt @ (html ''</div>~    </div>'')"

definition image_match :: "string \<Rightarrow> (string \<times> string) option" where
  "image_match s = (if starts_with s ''!['' then (case image_tail (drop 2 s) of None \<Rightarrow> None
     | Some (alt, u, r) \<Rightarrow> Some (image_html alt (clean_url u), r)) else None)"

definition link_html :: "string \<Rightarrow> string \<Rightarrow> string" where
  "link_html txt1 cleanUrl = (html ''<a href=^'') @ cleanUrl @ (html ''^ target=^_blank^ rel=^noopener noreferrer^ class=^chat-link^>'') @ txt1 @ ''</a>''"

definition link_match :: "string \<Rightarrow> (string \<times> string) option" where
  "link_match s = (if starts_with s ''['' then
       (let r = tl s; x = takeWhile (\<lambda>c. c \<noteq> CHR '']'') r; r' = dropWhile (\<lambda>c. c \<noteq> CHR '']'') r in
        if x \<noteq> [] \<and> starts_with r' '']('' then (case url_match [''https://'', ''http://''] (drop 2 r') of None \<Rightarrow> None
          | Some (u, t) \<Rightarrow> Some (link_html x (clean_url u), t)) else None)
     else None)"

text \<open>The rest of an italic span after the character before it: the span, the character after it, and what follows.\<close>

definition italic_tail :: "string \<Rightarrow> (string \<times> string \<times> string) option" where
  "italic_tail s = (if starts_with s ''*'' then
       (let x = takeWhile (\<lambda>c. c \<noteq> CHR ''*'') (tl s); r = dropWhile (\<lambda>c. c \<noteq> CHR ''*'') (tl s) in
        if x = [] \<or> r = [] then None else (case tl r of [] \<Rightarrow> Some (x, [], []) | c # t \<Rightarrow> if c = CHR ''*'' then None else Some (x, [c], t)))
     else None)"

definition italic_match :: "bool \<Rightarrow> string \<Rightarrow> (string \<times> string) option" where
  "italic_match first s = (case s of [] \<Rightarrow> None
     | c # t \<Rightarrow> if c = CHR ''*'' then (if first then map_option (\<lambda>(x, y, r). (''<em>'' @ x @ ''</em>'' @ y, r)) (italic_tail s) else None)
         else map_option (\<lambda>(x, y, r). (c # ''<em>'' @ x @ ''</em>'' @ y, r)) (italic_tail t))"

text \<open>The beginning of the text, \<^verbatim>\<open>^\<close>, matches once only.\<close>

definition replace_italic :: "string \<Rightarrow> string" where
  "replace_italic s = (case s of [] \<Rightarrow> []
     | c # t \<Rightarrow> (case italic_match True s of Some (x, r) \<Rightarrow> x @ replace_all (italic_match False) r
         | None \<Rightarrow> c # replace_all (italic_match False) t))"

definition formatInlineMarkdown :: "string \<Rightarrow> string" where
  "formatInlineMarkdown t =
     (let e = replace_all (delim_match [CHR 0x60] (CHR 0x60) ''<code>'' ''</code>'') (escape_text t);
          l = replace_all link_match (replace_all image_match e);
          b = replace_all (delim_match ''__'' (CHR ''_'') ''<strong>'' ''</strong>'') (replace_all (delim_match ''**'' (CHR ''*'') ''<strong>'' ''</strong>'') l) in
      replace_all (delim_match [CHR 0x7E, CHR 0x7E] (CHR 0x7E) ''<del>'' ''</del>'') (replace_italic b))"

section \<open>Blocks cut out before formatting\<close>

definition think_open :: "string list" where
  "think_open = [''&lt;think&gt;'', ''<think>'']"

definition think_close :: "string list" where
  "think_close = [''&lt;/think&gt;'', ''</think>'']"

definition tag_prefix :: "string list \<Rightarrow> string \<Rightarrow> string option" where
  "tag_prefix ps s = find (\<lambda>p. starts_with (lower s) p) ps"

text \<open>The shortest text before one of the closing marks, and what follows the mark.\<close>

fun until_tag :: "string list \<Rightarrow> string \<Rightarrow> (string \<times> string) option" where
  "until_tag ps s = (case tag_prefix ps s of Some p \<Rightarrow> Some ([], drop (length p) s)
     | None \<Rightarrow> (case s of [] \<Rightarrow> None | c # t \<Rightarrow> map_option (\<lambda>(x, r). (c # x, r)) (until_tag ps t)))"

definition think_html :: "bool \<Rightarrow> string \<Rightarrow> string" where
  "think_html german thought = (html ''<details class=^cm-thinking-block^ style=^background: rgba(15,23,42,0.65); border: 1px solid rgba(99,102,241,0.35); border-radius: 10px; padding: 0.65rem 0.9rem; margin: 0.8rem 0; font-size: 0.85rem;^>~      <summary style=^cursor: pointer; color: #a5b4fc; font-weight: 600; outline: none; user-select: none;^>'') @ (if german then ([CHR 0xF0, CHR 0x9F, CHR 0xA7, CHR 0xA0] @ '' Gedankengang anzeigen (Deep Reasoning & Planung)'') else ([CHR 0xF0, CHR 0x9F, CHR 0xA7, CHR 0xA0] @ '' Show Thinking Process (Deep Reasoning & Plan)'')) @ (html ''</summary>~      <div style=^margin-top: 0.5rem; padding-top: 0.5rem; border-top: 1px solid rgba(255,255,255,0.08); white-space: pre-wrap; font-family: var(--font-mono, monospace); font-size: 0.82rem; color: #cbd5e1; line-height: 1.5;^>'') @ escape_text thought @ (html ''</div>~    </details>'')"

definition placeholder :: "string \<Rightarrow> nat \<Rightarrow> string" where
  "placeholder kind i = ''___CM_'' @ kind @ ''_BLOCK_'' @ nat_str i @ ''___''"

definition think_match :: "bool \<Rightarrow> nat \<Rightarrow> string \<Rightarrow> (string \<times> string list \<times> string) option" where
  "think_match german i s = (case tag_prefix think_open s of None \<Rightarrow> None
     | Some p \<Rightarrow> (case until_tag think_close (drop (length p) s) of None \<Rightarrow> None
         | Some (x, r) \<Rightarrow> if trim x = [] then Some ([], [], r) else Some (placeholder ''THINK'' i, [think_html german (trim x)], r)))"

definition lang_char :: "char \<Rightarrow> bool" where
  "lang_char c = (is_upper c \<or> is_lower c \<or> is_digit c \<or> c = CHR ''_'' \<or> c = CHR ''-'')"

definition fence :: string where
  "fence = [CHR 0x60, CHR 0x60, CHR 0x60]"

fun until_fence :: "string \<Rightarrow> (string \<times> string) option" where
  "until_fence s = (if starts_with s fence then Some ([], drop 3 s)
     else (case s of [] \<Rightarrow> None | c # t \<Rightarrow> map_option (\<lambda>(x, r). (c # x, r)) (until_fence t)))"

definition code_html :: "string \<Rightarrow> string \<Rightarrow> string" where
  "code_html lang code = ''<pre>'' @ (if lang = [] then [] else (html ''<div style=^font-size:0.7rem; color:var(--accent-cyan); text-transform:uppercase; margin-bottom:0.25rem;^>'') @ lang @ ''</div>'') @ ''<code>'' @ trim (escape_text code) @ ''</code></pre>''"

definition code_match :: "nat \<Rightarrow> string \<Rightarrow> (string \<times> string list \<times> string) option" where
  "code_match i s = (if starts_with s fence then
       (let lang = takeWhile lang_char (drop 3 s); r = dropWhile lang_char (drop 3 s) in
        if starts_with r [CHR 0x0A] then (case until_fence (tl r) of None \<Rightarrow> None
          | Some (code, t) \<Rightarrow> Some (placeholder ''CODE'' i, [code_html lang code], t)) else None)
     else None)"

text \<open>The patterns a replacement text is expanded by: \<open>hit\<close> is the text replaced, \<open>pre\<close> and \<open>post\<close> what surrounds it.\<close>

fun expand_dollar :: "string \<Rightarrow> string \<Rightarrow> string \<Rightarrow> string \<Rightarrow> string" where
  "expand_dollar pre hit post (a # b # s) = (if a = CHR 0x24 then
       (if b = CHR 0x24 then CHR 0x24 # expand_dollar pre hit post s
        else if b = CHR 0x26 then hit @ expand_dollar pre hit post s
        else if b = CHR 0x60 then pre @ expand_dollar pre hit post s
        else if b = CHR 0x27 then post @ expand_dollar pre hit post s
        else a # expand_dollar pre hit post (b # s))
     else a # expand_dollar pre hit post (b # s))"
| "expand_dollar pre hit post s = s"

text \<open>\<^verbatim>\<open>s.replace(p, r)\<close> for a text \<open>p\<close>: the first occurrence only.\<close>

fun replace_pattern :: "string \<Rightarrow> string \<Rightarrow> string \<Rightarrow> string \<Rightarrow> string" where
  "replace_pattern pre p r s = (if starts_with s p then expand_dollar pre p (drop (length p) s) r @ drop (length p) s
     else (case s of [] \<Rightarrow> [] | c # t \<Rightarrow> c # replace_pattern (pre @ [c]) p r t))"

definition restore :: "string \<Rightarrow> string list \<Rightarrow> string \<Rightarrow> string" where
  "restore kind bs h = fold (\<lambda>(i, b). replace_pattern [] (placeholder kind i) b) (enumerate 0 bs) h"

declare until_tag.simps [simp del] until_fence.simps [simp del] replace_pattern.simps [simp del]

section \<open>Blocks\<close>

record md =
  resultBlocks :: "string list"
  inTable :: bool
  tableHeader :: "string list"
  tableAlignments :: "string list"
  tableRows :: "string list list"
  inList :: bool
  listType :: string
  listItems :: "string list"
  inBlockquote :: bool
  blockquoteLines :: "string list"

definition md0 :: md where
  "md0 = \<lparr>resultBlocks = [], inTable = False, tableHeader = [], tableAlignments = [], tableRows = [], inList = False, listType = ''ul'',
     listItems = [], inBlockquote = False, blockquoteLines = []\<rparr>"

definition put_block :: "string \<Rightarrow> md \<Rightarrow> md" where
  "put_block b m = m\<lparr>resultBlocks := resultBlocks m @ [b]\<rparr>"

text \<open>The cells of a row; a cell beyond the alignments has no style.\<close>

definition cells_html :: "string \<Rightarrow> string list \<Rightarrow> string list \<Rightarrow> string" where
  "cells_html tg als cells = concat (map (\<lambda>(i, c). ''<'' @ tg @ (if i < length als \<and> als ! i \<noteq> [] then html '' style=^text-align:'' @ als ! i @ html ''^'' else []) @ ''>'' @
     formatInlineMarkdown c @ ''</'' @ tg @ ''>'') (enumerate 0 cells))"

definition flushTable :: "md \<Rightarrow> md" where
  "flushTable m = (if \<not> inTable m then m
     else (let m1 = (if tableHeader m = [] \<and> tableRows m = [] then m
         else put_block (html ''<div class=^table-responsive^><table class=^chat-table^>'' @
           (if tableHeader m = [] then [] else ''<thead><tr>'' @ cells_html ''th'' (tableAlignments m) (tableHeader m) @ ''</tr></thead>'') @
           (if tableRows m = [] then [] else ''<tbody>'' @ concat (map (\<lambda>row. ''<tr>'' @ cells_html ''td'' (tableAlignments m) row @ ''</tr>'') (tableRows m)) @ ''</tbody>'') @
           ''</table></div>'') m) in
       m1\<lparr>inTable := False, tableHeader := [], tableAlignments := [], tableRows := []\<rparr>))"

definition flushList :: "md \<Rightarrow> md" where
  "flushList m = (if \<not> inList m then m
     else (let m1 = (if listItems m = [] then m
         else put_block (''<'' @ listType m @ html '' class=^chat-list^>'' @ concat (map (\<lambda>i. ''<li>'' @ formatInlineMarkdown i @ ''</li>'') (listItems m)) @
           ''</'' @ listType m @ ''>'') m) in
       m1\<lparr>inList := False, listItems := []\<rparr>))"

definition flushBlockquote :: "md \<Rightarrow> md" where
  "flushBlockquote m = (if \<not> inBlockquote m then m
     else (let m1 = (if blockquoteLines m = [] then m
         else put_block (html ''<blockquote class=^chat-blockquote^>'' @ join ''<br>'' (map formatInlineMarkdown (blockquoteLines m)) @ ''</blockquote>'') m) in
       m1\<lparr>inBlockquote := False, blockquoteLines := []\<rparr>))"

definition isTableLine :: "string \<Rightarrow> bool" where
  "isTableLine l = (let t = trim l in starts_with t ''|'' \<and> (ends_with t ''|'' \<or> includes_str t ''|''))"

text \<open>A cell of a separator line, \<^verbatim>\<open>\s*:?-+:?\s*\<close>.\<close>

definition separator_cell :: "string \<Rightarrow> bool" where
  "separator_cell c = (let a = dropWhile is_ws c; b = (if starts_with a '':'' then tl a else a); d = dropWhile (\<lambda>x. x = CHR ''-'') b;
       e = (if starts_with d '':'' then tl d else d) in starts_with b ''-'' \<and> list_all is_ws e)"

definition isTableSeparator :: "string \<Rightarrow> bool" where
  "isTableSeparator l = (let t = trim l; cs = split_on (CHR ''|'') (tl t); ds = (if last cs = [] then butlast cs else cs) in
     starts_with t ''|'' \<and> 2 \<le> length ds \<and> list_all separator_cell ds)"

definition parseTableCells :: "string \<Rightarrow> string list" where
  "parseTableCells l = (let t = trim l; a = (if starts_with t ''|'' then tl t else t); b = (if ends_with a ''|'' then butlast a else a) in
     map trim (split_on (CHR ''|'') b))"

definition parseAlignments :: "string \<Rightarrow> string list" where
  "parseAlignments l = map (\<lambda>c. if starts_with c '':'' \<and> ends_with c '':'' then ''center'' else if ends_with c '':'' then ''right'' else ''left'') (parseTableCells l)"

definition heading :: "nat \<Rightarrow> string \<Rightarrow> string" where
  "heading n t = ''<h'' @ nat_str n @ html '' class=^chat-h'' @ nat_str n @ html ''^>'' @ formatInlineMarkdown (drop (Suc n) t) @ ''</h'' @ nat_str n @ ''>''"

definition heading_level :: "string \<Rightarrow> nat" where
  "heading_level t = (if starts_with t ''#### '' then 4 else if starts_with t ''### '' then 3 else if starts_with t ''## '' then 2
     else if starts_with t ''# '' then 1 else 0)"

definition is_rule :: "string \<Rightarrow> bool" where
  "is_rule t = (3 \<le> length t \<and> (list_all (\<lambda>c. c = CHR ''-'') t \<or> list_all (\<lambda>c. c = CHR ''*'') t \<or> list_all (\<lambda>c. c = CHR ''_'') t))"

text \<open>The text after the mark of an unordered or ordered list item.\<close>

definition bullet_item :: "string \<Rightarrow> string option" where
  "bullet_item t = (case t of c # w # r \<Rightarrow> if c \<in> {CHR ''-'', CHR ''*'', CHR ''+''} \<and> is_ws w then Some (dropWhile is_ws (w # r)) else None | _ \<Rightarrow> None)"

definition numbered_item :: "string \<Rightarrow> string option" where
  "numbered_item t = (let d = takeWhile is_digit t; r = dropWhile is_digit t in
     if d \<noteq> [] \<and> starts_with r ''.'' \<and> tl r \<noteq> [] \<and> is_ws (hd (tl r)) then Some (dropWhile is_ws (tl r)) else None)"

definition list_item :: "string \<Rightarrow> string \<Rightarrow> md \<Rightarrow> md" where
  "list_item ty t m = (let m1 = (if inList m \<and> listType m \<noteq> ty then flushList m else m) in
     m1\<lparr>inList := True, listType := ty, listItems := listItems m1 @ [t]\<rparr>)"

text \<open>A line outside tables.\<close>

definition plain_line :: "string \<Rightarrow> md \<Rightarrow> md" where
  "plain_line l m = (let t = trim l in
     if starts_with t ''>'' then (let m1 = flushList m; q = (case tl t of [] \<Rightarrow> [] | c # r \<Rightarrow> if is_ws c then r else c # r) in
         m1\<lparr>inBlockquote := True, blockquoteLines := blockquoteLines m1 @ [q]\<rparr>)
     else (let m2 = flushBlockquote m in
       if heading_level t \<noteq> 0 then put_block (heading (heading_level t) t) (flushList m2)
       else if is_rule t then put_block (html ''<hr class=^chat-hr^>'') (flushList m2)
       else (case bullet_item t of Some x \<Rightarrow> list_item ''ul'' x m2
         | None \<Rightarrow> (case numbered_item t of Some x \<Rightarrow> list_item ''ol'' x m2
             | None \<Rightarrow> put_block (if t = [] then html ''<div class=^chat-spacer^></div>'' else html ''<p class=^chat-p^>'' @ formatInlineMarkdown t @ ''</p>'') (flushList m2)))))"

definition table_start :: "string \<Rightarrow> string list \<Rightarrow> md \<Rightarrow> md" where
  "table_start l als m = m\<lparr>inTable := True, tableHeader := parseTableCells l, tableAlignments := als\<rparr>"

definition table_line :: "string \<Rightarrow> md \<Rightarrow> md" where
  "table_line l m = (if isTableSeparator l then m\<lparr>tableAlignments := parseAlignments l\<rparr> else m\<lparr>tableRows := tableRows m @ [parseTableCells l]\<rparr>)"

function md_lines :: "md \<Rightarrow> string list \<Rightarrow> md" where
  "md_lines m [] = m"
| "md_lines m (l # ls) =
     (if isTableLine l then (let m1 = flushBlockquote (flushList m) in
        if inTable m1 then md_lines (table_line l m1) ls
        else if ls \<noteq> [] \<and> isTableSeparator (hd ls) then md_lines (table_start l (parseAlignments (hd ls)) m1) (tl ls)
        else md_lines (table_start l (map (\<lambda>c. ''left'') (parseTableCells l)) m1) ls)
      else md_lines (plain_line l (flushTable m)) ls)"
  by pat_completeness auto
termination
  by (relation "measure (length \<circ> snd)") (auto simp: Let_def)

definition formatChatMarkdown :: "bool \<Rightarrow> string \<Rightarrow> string" where
  "formatChatMarkdown german t = (if t = [] then []
     else (case extract_all (think_match german) [] t of (p, thinkBlocks) \<Rightarrow>
       (case extract_all code_match [] p of (q, codeBlocks) \<Rightarrow>
         let m = flushBlockquote (flushList (flushTable (md_lines md0 (split_on (CHR 0x0A) q)))) in
         restore ''THINK'' thinkBlocks (restore ''CODE'' codeBlocks (concat (resultBlocks m))))))"

lemmas markdown_defs [js_defs] = escape_text_def delim_match_def url_match_def clean_url_def image_html_def image_match_def link_html_def link_match_def
  italic_tail_def italic_match_def replace_italic_def formatInlineMarkdown_def think_open_def think_close_def tag_prefix_def think_html_def
  placeholder_def think_match_def lang_char_def fence_def code_html_def code_match_def restore_def md0_def put_block_def cells_html_def flushTable_def
  flushList_def flushBlockquote_def isTableLine_def separator_cell_def isTableSeparator_def parseTableCells_def parseAlignments_def heading_def
  heading_level_def is_rule_def bullet_item_def numbered_item_def list_item_def plain_line_def table_start_def table_line_def formatChatMarkdown_def

section \<open>Markup of formatted text\<close>

definition inline_tags :: "string list" where
  "inline_tags = [''<code>'', ''</code>'', ''<strong>'', ''</strong>'', ''<em>'', ''</em>'', ''<del>'', ''</del>'']"

text \<open>Texts whose only angle brackets are those of the formatter's own tags.\<close>

inductive markup :: "string \<Rightarrow> bool" where
  markup_end: "markup []"
| markup_char: "c \<noteq> CHR ''<'' \<Longrightarrow> c \<noteq> CHR ''>'' \<Longrightarrow> markup s \<Longrightarrow> markup (c # s)"
| markup_tag: "t \<in> set inline_tags \<Longrightarrow> markup s \<Longrightarrow> markup (t @ s)"

definition mark_char :: "char \<Rightarrow> bool" where
  "mark_char c = (c = CHR 0x60 \<or> c = CHR ''*'' \<or> c = CHR ''_'' \<or> c = CHR 0x7E)"

lemma tag_shape: "t \<in> set inline_tags \<Longrightarrow> \<exists>u. t = CHR ''<'' # u @ [CHR ''>''] \<and> u \<noteq> [] \<and> (\<forall>c \<in> set t. \<not> mark_char c)"
  by (auto simp: inline_tags_def mark_char_def intro: exI [of _ "butlast (tl t)"])

lemma mark_not_angle: "mark_char c \<Longrightarrow> c \<noteq> CHR ''<'' \<and> c \<noteq> CHR ''>''"
  by (auto simp: mark_char_def)

lemma markup_append [intro]: "markup x \<Longrightarrow> markup y \<Longrightarrow> markup (x @ y)"
  by (induction rule: markup.induct) (auto intro: markup.intros)

lemma markup_plain: "CHR ''<'' \<notin> set x \<Longrightarrow> CHR ''>'' \<notin> set x \<Longrightarrow> markup x"
  by (induction x) (auto intro: markup.intros)

lemma markup_tagD: "t \<in> set inline_tags \<Longrightarrow> markup t"
  using markup_tag [OF _ markup_end] by simp

lemma markup_split:
  assumes "markup s" and "s = x @ c # y" and "mark_char c"
  shows "markup x \<and> markup y"
  using assms
proof (induction arbitrary: x rule: markup.induct)
  case (markup_char d s)
  show ?case
  proof (cases x)
    case Nil
    then show ?thesis using markup_char by (auto intro: markup.intros)
  next
    case (Cons d' x')
    then show ?thesis using markup_char by (auto intro: markup.intros)
  qed
next
  case (markup_tag t s)
  have nc: "c \<notin> set t" using tag_shape [OF markup_tag.hyps(1)] markup_tag.prems(2) by blast
  from markup_tag.prems(1) obtain u where "x = t @ u \<and> s = u @ c # y \<or> t = x @ u \<and> u @ s = c # y"
    by (auto simp: append_eq_append_conv2)
  then show ?case
  proof
    assume "x = t @ u \<and> s = u @ c # y"
    then show ?thesis using markup_tag by (auto intro: markup.intros)
  next
    assume t: "t = x @ u \<and> u @ s = c # y"
    then have "u = []" using nc by (cases u) auto
    then show ?thesis using t markup_tag by (auto intro: markup_tagD)
  qed
qed simp

lemma markup_strip: "markup (d @ s) \<Longrightarrow> list_all mark_char d \<Longrightarrow> markup s"
proof (induction d)
  case (Cons c d)
  then show ?case using markup_split [of "c # d @ s" "[]" c "d @ s"] by simp
qed simp

lemma markup_escape: "markup (escape_text t)"
  by (rule markup_plain) (auto simp: escape_text_def split: if_splits)

lemma replace_all_skip: "(\<And>c z. c \<in> set t \<Longrightarrow> m (c # z) = None) \<Longrightarrow> replace_all m (t @ s) = t @ replace_all m s"
  by (induction t) auto

lemma replace_all_none: "(\<And>z. set z \<subseteq> set s \<Longrightarrow> m z = None) \<Longrightarrow> replace_all m s = s"
proof (induction s)
  case (Cons c s)
  have "m (c # s) = None" by (rule Cons.prems) simp
  moreover have "replace_all m s = s" by (rule Cons.IH) (rule Cons.prems, auto)
  ultimately show ?case by simp
qed simp

lemma replace_all_markup:
  assumes tags: "\<And>c z. \<not> mark_char c \<Longrightarrow> m (c # z) = None"
    and hit: "\<And>z x r. markup z \<Longrightarrow> m z = Some (x, r) \<Longrightarrow> markup x \<and> markup r"
  shows "markup s \<Longrightarrow> markup (replace_all m s)"
proof (induction s rule: length_induct)
  case (1 s)
  from 1(2) show ?case
  proof cases
    case (markup_char c z)
    then have z: "markup (replace_all m z)" using 1 by auto
    show ?thesis
    proof (cases "m (c # z)")
      case None
      then show ?thesis using z markup_char by (auto intro: markup.intros)
    next
      case (Some xr)
      obtain x r where xr: "xr = (x, r)" by (cases xr)
      then have "markup x" "markup r" using hit [OF 1(2)] Some markup_char(1) by auto
      moreover have "length r \<le> length z \<Longrightarrow> markup (replace_all m r)" using 1(1) \<open>markup r\<close> markup_char(1) by auto
      ultimately show ?thesis using z Some xr markup_char by (auto intro: markup.intros)
    qed
  next
    case (markup_tag t z)
    have "replace_all m (t @ z) = t @ replace_all m z"
      by (rule replace_all_skip, rule tags) (use tag_shape [OF markup_tag(2)] in blast)
    moreover have "markup (replace_all m z)" using 1(1) markup_tag tag_shape [OF markup_tag(2)] by auto
    ultimately show ?thesis using markup_tag by (auto intro: markup.intros)
  qed (auto intro: markup.intros)
qed

lemma delim_match_Some:
  assumes "delim_match d c a b s = Some (y, r)" and "d = [c] \<or> d = [c, c]"
  shows "\<exists>x. y = a @ x @ b \<and> s = d @ x @ d @ r"
proof -
  let ?x = "takeWhile (\<lambda>y. y \<noteq> c) (drop (length d) s)" and ?r = "dropWhile (\<lambda>y. y \<noteq> c) (drop (length d) s)"
  have "starts_with s d" "starts_with ?r d" "y = a @ ?x @ b" "r = drop (length d) ?r"
    using assms(1) by (auto simp: delim_match_def Let_def split: if_splits)
  then have "s = d @ drop (length d) s" "?r = d @ r" by (auto simp: starts_with_take) (metis append_take_drop_id)+
  moreover have "drop (length d) s = ?x @ ?r" by simp
  ultimately have "s = d @ ?x @ d @ r" by (metis takeWhile_dropWhile_id)
  then show ?thesis using \<open>y = a @ ?x @ b\<close> by blast
qed

lemma delim_markup:
  assumes "d = [c] \<or> d = [c, c]" and "mark_char c" and "a \<in> set inline_tags" and "b \<in> set inline_tags" and "markup s"
  shows "markup (replace_all (delim_match d c a b) s)"
proof (rule replace_all_markup)
  show "delim_match d c a b (x # z) = None" if "\<not> mark_char x" for x z
    using that assms(1,2) by (auto simp: delim_match_def)
  show "markup y \<and> markup r" if z: "markup z" "delim_match d c a b z = Some (y, r)" for z y r
  proof -
    obtain x where x: "y = a @ x @ b" "z = d @ x @ d @ r" using delim_match_Some [OF z(2) assms(1)] by blast
    have d: "list_all mark_char d" using assms(1,2) by auto
    have "markup (x @ d @ r)" using markup_strip [OF _ d] z(1) x(2) by simp
    then have xy: "markup x" "markup (drop 1 d @ r)" using markup_split [of "x @ d @ r" x c "drop 1 d @ r"] assms(1,2) by auto
    then have "markup r" using markup_strip [of "drop 1 d" r] assms(1,2) by auto
    then show ?thesis using xy(1) x(1) assms(3,4) by (auto intro: markup_tagD)
  qed
qed (rule assms(5))

section \<open>Italics\<close>

text \<open>Formatting after a character that can precede an italic span.\<close>

definition after_char :: "string \<Rightarrow> string" where
  "after_char s = (case italic_tail s of Some (x, y, r) \<Rightarrow> ''<em>'' @ x @ ''</em>'' @ y @ replace_all (italic_match False) r
     | None \<Rightarrow> replace_all (italic_match False) s)"

lemma italic_tail_Some:
  assumes "italic_tail s = Some (x, y, r)"
  shows "s = CHR ''*'' # x @ CHR ''*'' # y @ r \<and> (y = [] \<and> r = [] \<or> (\<exists>c. y = [c]))"
proof -
  let ?x = "takeWhile (\<lambda>c. c \<noteq> CHR ''*'') (tl s)" and ?r = "dropWhile (\<lambda>c. c \<noteq> CHR ''*'') (tl s)"
  have s: "starts_with s ''*''" "x = ?x" "?r \<noteq> []" and y: "y = [] \<and> r = [] \<and> tl ?r = [] \<or> (\<exists>c. y = [c] \<and> tl ?r = c # r)"
    using assms by (auto simp: italic_tail_def Let_def split: if_splits list.splits)
  have "hd ?r = CHR ''*''" using s(3) hd_dropWhile [of "\<lambda>c. c \<noteq> CHR ''*''" "tl s"] by simp
  then have "?r = CHR ''*'' # tl ?r" using s(3) by (metis list.collapse)
  moreover have "s = CHR ''*'' # tl s" using s(1) by (cases s) auto
  moreover have "tl s = ?x @ ?r" by simp
  ultimately have "s = CHR ''*'' # x @ CHR ''*'' # tl ?r" using s(2) by metis
  then show ?thesis using y by auto
qed

lemma replace_italic_False:
  "replace_all (italic_match False) (c # s) = (if c = CHR ''*'' then c # replace_all (italic_match False) s else c # after_char s)"
proof (cases "c = CHR ''*'' \<or> italic_tail s = None")
  case True
  then show ?thesis by (auto simp: italic_match_def after_char_def)
next
  case False
  then obtain x y r where t: "italic_tail s = Some (x, y, r)" by auto
  then have "length r \<le> length s" using italic_tail_Some [OF t] by auto
  then show ?thesis using False t by (simp add: italic_match_def after_char_def)
qed

lemma after_char_other: "s \<noteq> [] \<Longrightarrow> hd s \<noteq> CHR ''*'' \<Longrightarrow> after_char s = replace_all (italic_match False) s"
  by (cases s) (simp_all add: after_char_def italic_tail_def)

lemma replace_italic_run:
  assumes "u \<noteq> []" and "CHR ''*'' \<notin> set u"
  shows "replace_all (italic_match False) (u @ s) = u @ after_char s"
  using assms
proof (induction u)
  case (Cons c u)
  show ?case
  proof (cases "u = []")
    case True
    then show ?thesis using Cons.prems replace_italic_False [of c s] by simp
  next
    case False
    then have "hd (u @ s) \<noteq> CHR ''*''" using Cons.prems by (cases u) auto
    then show ?thesis using Cons False replace_italic_False [of c "u @ s"] after_char_other [of "u @ s"] by simp
  qed
qed simp

lemma italic_markup: "markup s \<Longrightarrow> markup (replace_all (italic_match False) s) \<and> markup (after_char s)"
proof (induction s rule: length_induct)
  case (1 s)
  have IH: "markup z \<Longrightarrow> length z < length s \<Longrightarrow> markup (replace_all (italic_match False) z)" "markup z \<Longrightarrow> length z < length s \<Longrightarrow> markup (after_char z)" for z
    using 1(1) by blast+
  from 1(2) have R: "markup (replace_all (italic_match False) s)"
  proof cases
    case (markup_char c z)
    then show ?thesis using IH [of z] replace_italic_False [of c z] by (auto intro: markup.intros)
  next
    case (markup_tag t z)
    have "t \<noteq> []" "CHR ''*'' \<notin> set t" using tag_shape [OF markup_tag(2)] by (auto simp: mark_char_def)
    then show ?thesis using IH(2) [of z] replace_italic_run [of t z] markup_tag by (auto intro: markup.intros)
  qed (auto intro: markup.intros)
  have "markup (after_char s)"
  proof (cases "italic_tail s")
    case None
    then show ?thesis using R by (simp add: after_char_def)
  next
    case (Some w)
    obtain x y r where w: "w = (x, y, r)" by (cases w)
    then have s: "s = CHR ''*'' # x @ CHR ''*'' # y @ r" "y = [] \<and> r = [] \<or> (\<exists>c. y = [c])" using italic_tail_Some Some by blast+
    have "markup (x @ CHR ''*'' # y @ r)" using markup_strip [of "''*''"] 1(2) s(1) by (simp add: mark_char_def)
    then have x: "markup x" "markup (y @ r)" using markup_split [of _ x "CHR ''*''" "y @ r"] by (simp_all add: mark_char_def)
    have "markup (y @ replace_all (italic_match False) r)"
    proof (cases "y = []")
      case True
      then show ?thesis using s(2) by (simp add: markup_end)
    next
      case False
      then obtain c where c: "y = [c]" using s(2) by blast
      from x(2) c have "markup (c # r)" by simp
      then show ?thesis
      proof cases
        case markup_char
        then show ?thesis using IH(1) [of r] c s(1) by (auto intro: markup.intros)
      next
        case (markup_tag t z)
        obtain u where u: "t = CHR ''<'' # u @ [CHR ''>'']" "\<forall>c \<in> set t. \<not> mark_char c" using tag_shape [OF markup_tag(2)] by blast
        then have r: "c = CHR ''<''" "r = (u @ [CHR ''>'']) @ z" using markup_tag(1) by auto
        have "CHR ''*'' \<notin> set (u @ [CHR ''>''])" using u by (auto simp: mark_char_def)
        then have "replace_all (italic_match False) r = (u @ [CHR ''>'']) @ after_char z" using replace_italic_run [of "u @ [CHR ''>'']" z] r(2) by simp
        moreover have "markup (after_char z)" using IH(2) [of z] markup_tag r(2) s(1) c by auto
        ultimately show ?thesis using c r(1) u(1) markup.markup_tag [OF markup_tag(2)] by simp
      qed
    qed
    moreover have "markup ''<em>''" "markup ''</em>''" by (rule markup_tagD, simp add: inline_tags_def)+
    ultimately have "markup (''<em>'' @ x @ ''</em>'' @ y @ replace_all (italic_match False) r)" using x(1) by (blast intro: markup_append)
    then show ?thesis using Some w by (simp add: after_char_def)
  qed
  with R show ?case by blast
qed

lemma replace_italic_markup: "markup s \<Longrightarrow> markup (replace_italic s)"
proof (cases s)
  case (Cons c t)
  assume s: "markup s"
  have "replace_italic s = (if c = CHR ''*'' then after_char s else replace_all (italic_match False) s)"
  proof (cases "c = CHR ''*''")
    case True
    then show ?thesis using Cons by (simp add: replace_italic_def italic_match_def after_char_def italic_match_def split: option.split)
  next
    case False
    show ?thesis
    proof (cases "italic_tail t")
      case None
      then show ?thesis using Cons False by (simp add: replace_italic_def italic_match_def)
    next
      case (Some w)
      obtain x y r where "w = (x, y, r)" by (cases w)
      then show ?thesis using Cons False Some replace_italic_False [of c t] by (simp add: replace_italic_def italic_match_def after_char_def)
    qed
  qed
  then show ?thesis using italic_markup [OF s] by simp
qed (simp add: replace_italic_def)

lemma starts_with_set: "starts_with s p \<Longrightarrow> set p \<subseteq> set s"
  by (elim starts_withE) simp

lemma delim_chars:
  assumes "k \<notin> set a" and "k \<notin> set b" and "delim_match d c a b s = Some (y, r)" and "k \<notin> set s" and "d = [c] \<or> d = [c, c]"
  shows "k \<notin> set y \<and> k \<notin> set r"
  using delim_match_Some [OF assms(3,5)] assms(1,2,4) by auto

lemma replace_all_chars:
  assumes "\<And>s y r. m s = Some (y, r) \<Longrightarrow> k \<notin> set s \<Longrightarrow> k \<notin> set y \<and> k \<notin> set r"
  shows "k \<notin> set s \<Longrightarrow> k \<notin> set (replace_all m s)"
  using assms
proof (induction m s rule: replace_all.induct)
  case (2 m c s)
  show ?case
  proof (cases "m (c # s)")
    case None
    then show ?thesis using 2 by auto
  next
    case (Some w)
    then show ?thesis using 2 by (cases w) auto
  qed
qed simp

section \<open>Properties\<close>

text \<open>C19. Formatted text brings in no markup of its own: for a text without square brackets, whatever else it contains, every angle bracket
  of the formatted text belongs to one of the formatter's eight tags, so tags typed by a visitor or sent by a model are shown as
  text.\<close>

theorem inline_markup_safe:
  assumes "CHR ''['' \<notin> set t"
  shows "markup (formatInlineMarkdown t)"
proof -
  let ?c = "replace_all (delim_match [CHR 0x60] (CHR 0x60) ''<code>'' ''</code>'')"
  have "CHR ''['' \<notin> set (escape_text t)" using assms by (auto simp: escape_text_def split: if_splits)
  then have n: "CHR ''['' \<notin> set (?c (escape_text t))" by (rule replace_all_chars [rotated]) (rule delim_chars, auto)
  have "replace_all image_match (?c (escape_text t)) = ?c (escape_text t)"
    by (rule replace_all_none) (use n in \<open>auto simp: image_match_def dest!: starts_with_set split: if_splits\<close>)
  moreover have "replace_all link_match (?c (escape_text t)) = ?c (escape_text t)"
    by (rule replace_all_none) (use n in \<open>auto simp: link_match_def dest!: starts_with_set split: if_splits\<close>)
  moreover have "markup (?c (escape_text t))" by (rule delim_markup) (auto simp: mark_char_def inline_tags_def markup_escape)
  ultimately show ?thesis
    unfolding formatInlineMarkdown_def Let_def
    by (intro delim_markup replace_italic_markup) (simp_all add: mark_char_def inline_tags_def)
qed

theorem inline_markup_safe_witness:
  "markup (formatInlineMarkdown ''<script>*x*</script>'')"
  by (rule inline_markup_safe) simp

section \<open>Pictures\<close>

text \<open>Texts without the characters the formatter treats.\<close>

definition unmarked :: "string \<Rightarrow> bool" where
  "unmarked t = (set t \<inter> {CHR 0x60, CHR ''*'', CHR ''_'', CHR 0x7E, CHR ''&'', CHR ''<'', CHR ''>'', CHR ''['', CHR '']'', CHR 0x0A, CHR 0x0D} = {})"

lemma escape_text_id: "set t \<inter> {CHR ''&'', CHR ''<'', CHR ''>''} = {} \<Longrightarrow> escape_text t = t"
  by (induction t) (auto simp: escape_text_def)

lemma delim_replace_id: "\<not> includes_str s d \<Longrightarrow> replace_all (delim_match d c a b) s = s"
proof (induction s)
  case (Cons x s)
  then have "\<not> starts_with (x # s) d" by (metis append_Nil includes_iff starts_withE)
  moreover have "\<not> includes_str s d" using Cons.prems by (metis append_Cons includes_iff)
  ultimately show ?case using Cons.IH by (simp add: delim_match_def)
qed simp

lemma includes_count: "includes_str s d \<Longrightarrow> length (filter (\<lambda>x. x = c) d) \<le> length (filter (\<lambda>x. x = c) s)"
  by (auto simp: includes_iff)

lemma italic_id:
  assumes "CHR ''*'' \<notin> set s"
  shows "replace_italic s = s"
proof -
  have t: "italic_tail z = None" if "CHR ''*'' \<notin> set z" for z using that starts_with_set [of z "''*''"] by (auto simp: italic_tail_def)
  have "replace_all (italic_match False) z = z" if "CHR ''*'' \<notin> set z" for z
  proof (rule replace_all_none)
    fix y assume "set y \<subseteq> set z"
    then show "italic_match False y = None" using that t [of "tl y"] by (cases y) (auto simp: italic_match_def)
  qed
  then show ?thesis using assms t by (cases s) (auto simp: replace_italic_def italic_match_def)
qed

lemma url_match_https:
  assumes "u \<noteq> []" and "list_all (\<lambda>c. \<not> is_ws c \<and> c \<noteq> CHR '')'') u"
  shows "url_match [''https://'', ''http://'', ''data:image/''] (''https://'' @ u @ '')'') = Some (''https://'' @ u, [])"
proof -
  let ?p = "\<lambda>c. \<not> is_ws c \<and> c \<noteq> CHR '')''"
  have "takeWhile ?p (u @ '')'') = u" "dropWhile ?p (u @ '')'') = '')''" using assms(2) by (simp_all add: takeWhile_append2 dropWhile_append2 list_all_iff)
  then show ?thesis using assms(1) by (simp add: url_match_def Let_def)
qed

lemma image_tail_alt:
  assumes "url_match [''https://'', ''http://'', ''data:image/''] w = Some (u, [])" and "set alt \<inter> {CHR '']'', CHR 0x0A, CHR 0x0D} = {}"
  shows "image_tail (alt @ '']('' @ w) = Some (alt, u, [])"
  using assms(2) by (induction alt) (auto simp: assms(1))

lemma picture_formatted:
  assumes "unmarked alt" and "unmarked u" and "u \<noteq> []" and "list_all (\<lambda>c. \<not> is_ws c \<and> c \<noteq> CHR '')'') u"
  shows "formatInlineMarkdown (''!['' @ alt @ ''](https://'' @ u @ '')'') = image_html alt (''https://'' @ u)"
proof -
  let ?t = "''!['' @ alt @ ''](https://'' @ u @ '')''" and ?h = "image_html alt (''https://'' @ u)"
  note un = assms(1,2) [unfolded unmarked_def]
  have e: "escape_text ?t = ?t" by (rule escape_text_id) (use un in auto)
  have c: "replace_all (delim_match [CHR 0x60] (CHR 0x60) ''<code>'' ''</code>'') ?t = ?t"
    by (rule delim_replace_id) (use un includes_count [of ?t "[CHR 0x60]" "CHR 0x60"] in \<open>auto simp: filter_empty_conv\<close>)
  have cl: "clean_url (''https://'' @ u) = ''https://'' @ u" unfolding clean_url_def
    by (rule replace_all_none) (use un in \<open>auto dest!: starts_with_set\<close>)
  have "image_tail (alt @ '']('' @ (''https://'' @ u @ '')'')) = Some (alt, ''https://'' @ u, [])"
    by (rule image_tail_alt [OF url_match_https [OF assms(3,4)]]) (use un in auto)
  then have "image_match ?t = Some (?h, [])" using cl by (simp add: image_match_def)
  then have i: "replace_all image_match ?t = ?h" by simp
  have h: "set ?h \<inter> {CHR ''['', CHR ''*'', CHR 0x7E} = {}" using un by (auto simp: image_html_def html_def)
  have l: "replace_all link_match ?h = ?h"
    by (rule replace_all_none) (use h in \<open>auto simp: link_match_def dest!: starts_with_set split: if_splits\<close>)
  have "filter (\<lambda>x. x = CHR ''_'') alt = []" "filter (\<lambda>x. x = CHR ''_'') u = []" using un by (auto simp: filter_empty_conv)
  then have "length (filter (\<lambda>x. x = CHR ''_'') ?h) = 1" by (simp add: image_html_def html_def)
  then have "\<not> includes_str ?h ''__''" using includes_count [of ?h "''__''" "CHR ''_''"] by auto
  moreover have "\<not> includes_str ?h ''**''" "\<not> includes_str ?h [CHR 0x7E, CHR 0x7E]" using h by (auto simp: includes_iff)
  ultimately show ?thesis
    unfolding formatInlineMarkdown_def Let_def e c i l by (simp add: delim_replace_id italic_id h [simplified])
qed

text \<open>The description of a picture can bring in attributes: quotation marks are not escaped, so the description stands between the quotation
  marks of the attribute \<^verbatim>\<open>alt\<close> exactly as it was written, and one that contains a quotation mark ends the attribute and can add an event
  handler to the image element.\<close>

theorem picture_description_injects:
  assumes "unmarked alt" and "unmarked u" and "u \<noteq> []" and "list_all (\<lambda>c. \<not> is_ws c \<and> c \<noteq> CHR '')'') u"
  shows "\<exists>pre post. formatInlineMarkdown (''!['' @ alt @ ''](https://'' @ u @ '')'') = pre @ html ''<img src=^https://'' @ u @ html ''^ alt=^'' @ alt @ html ''^'' @ post"
proof -
  have "\<exists>pre post. image_html alt w = pre @ html ''<img src=^'' @ w @ html ''^ alt=^'' @ alt @ html ''^'' @ post" for w
    unfolding image_html_def
    by (rule exI [of _ "html ''<div class=^chat-image-wrap^ style=^margin: 0.9rem 0; text-align: center;^>~      <a href=^'' @ w @
        html ''^ target=^_blank^ rel=^noopener^ title=^Klicken f'' @ [CHR 0xC3, CHR 0xBC] @ html ''r Vollbild^>~        ''"]) (simp add: html_def)
  from this [of "''https://'' @ u"] show ?thesis using picture_formatted [OF assms] by (simp add: html_def)
qed

theorem picture_description_injects_witness:
  "\<exists>pre post. formatInlineMarkdown (''![x'' @ [CHR 0x22] @ '' onerror='' @ [CHR 0x22] @ ''alert(1)](https://h/p)'') = pre @ html ''alt=^x^ onerror=^alert(1)^'' @ post"
proof -
  let ?alt = "''x'' @ [CHR 0x22] @ '' onerror='' @ [CHR 0x22] @ ''alert(1)''"
  have "unmarked ?alt" "unmarked ''h/p''" "list_all (\<lambda>c. \<not> is_ws c \<and> c \<noteq> CHR '')'') ''h/p''" by (simp_all add: unmarked_def is_ws_def)
  from picture_description_injects [OF this(1,2) _ this(3)] obtain pre post
    where "formatInlineMarkdown (''!['' @ ?alt @ ''](https://'' @ ''h/p'' @ '')'') = pre @ html ''<img src=^https://'' @ ''h/p'' @ html ''^ alt=^'' @ ?alt @ html ''^'' @ post"
    by blast
  then have "formatInlineMarkdown (''!['' @ ?alt @ ''](https://'' @ ''h/p'' @ '')'') =
      (pre @ html ''<img src=^https://'' @ ''h/p'' @ html ''^ '') @ html ''alt=^x^ onerror=^alert(1)^'' @ post" by (simp add: html_def)
  then have "\<exists>p q. formatInlineMarkdown (''!['' @ ?alt @ ''](https://'' @ ''h/p'' @ '')'') = p @ html ''alt=^x^ onerror=^alert(1)^'' @ q" by blast
  then show ?thesis by simp
qed

section \<open>Code blocks\<close>

lemma extract_all_none: "(\<And>z i. set z \<subseteq> set s \<Longrightarrow> m i z = None) \<Longrightarrow> extract_all m bs s = (s, bs)"
proof (induction s)
  case (Cons c s)
  have "m (length bs) (c # s) = None" by (rule Cons.prems) simp
  moreover have "extract_all m bs s = (s, bs)" by (rule Cons.IH) (rule Cons.prems, auto)
  ultimately show ?case by simp
qed simp

lemma lower_char_angle: "lower_char x = CHR ''<'' \<longleftrightarrow> x = CHR ''<''" "lower_char x = CHR ''&'' \<longleftrightarrow> x = CHR ''&''"
  by (cases x; auto simp: lower_char_def is_upper_def of_char_Char split: if_splits)+

lemma lower_angle: "CHR ''<'' \<in> set (lower s) \<longleftrightarrow> CHR ''<'' \<in> set s" "CHR ''&'' \<in> set (lower s) \<longleftrightarrow> CHR ''&'' \<in> set s"
  by (metis (no_types, lifting) image_iff list.set_map lower_char_angle lower_def)+

lemma no_think: "CHR ''<'' \<notin> set z \<Longrightarrow> CHR ''&'' \<notin> set z \<Longrightarrow> think_match german i z = None"
  using starts_with_set [of "lower z" "''<think>''"] starts_with_set [of "lower z" "''&lt;think&gt;''"]
    lower_angle [of z]
  by (auto simp: think_match_def tag_prefix_def think_open_def)

lemma until_fence_code: "CHR 0x60 \<notin> set code \<Longrightarrow> until_fence (code @ fence) = Some (code, [])"
proof (induction code)
  case Nil
  show ?case by (simp add: until_fence.simps fence_def)
next
  case (Cons c code)
  then have "\<not> starts_with (c # code @ fence) fence" by (auto simp: fence_def)
  then show ?case using Cons by (simp add: until_fence.simps [of "c # code @ fence"])
qed

definition code_text :: "string \<Rightarrow> string" where
  "code_text code = fence @ [CHR 0x0A] @ code @ fence"

lemma code_text_extract:
  assumes "CHR 0x60 \<notin> set code"
  shows "extract_all code_match [] (code_text code) = (placeholder ''CODE'' 0, [code_html [] code])"
proof -
  have m: "code_match 0 (code_text code) = Some (placeholder ''CODE'' 0, [code_html [] code], [])"
    using until_fence_code [OF assms]
    by (simp add: code_match_def code_text_def fence_def lang_char_def is_upper_def is_lower_def is_digit_def Let_def)
  obtain c s where s: "code_text code = c # s" by (cases "code_text code") (auto simp: code_text_def fence_def)
  show ?thesis using m unfolding s by simp
qed

definition para_html :: "string \<Rightarrow> string" where
  "para_html t = html ''<p class=^chat-p^>'' @ t @ ''</p>''"

lemma placeholder_paragraph:
  "concat (resultBlocks (flushBlockquote (flushList (flushTable (md_lines md0 (split_on (CHR 0x0A) (placeholder ''CODE'' 0))))))) = para_html (placeholder ''CODE'' 0)"
  by code_simp

lemma restore_paragraph:
  "restore ''CODE'' [b] (para_html (placeholder ''CODE'' 0)) = para_html (expand_dollar (html ''<p class=^chat-p^>'') (placeholder ''CODE'' 0) ''</p>'' b)"
proof -
  have p: "placeholder ''CODE'' 0 = ''___CM_CODE_BLOCK_0___''" by code_simp
  have "html ''<p class=^chat-p^>'' = ''<p class='' @ [CHR 0x22] @ ''chat-p'' @ [CHR 0x22] @ ''>''" by code_simp
  then show ?thesis by (simp add: restore_def p para_html_def enumerate_eq_zip replace_pattern.simps)
qed

lemma expand_dollar_plain: "CHR 0x24 \<notin> set s \<Longrightarrow> expand_dollar pre hit post s = s"
  by (induction pre hit post s rule: expand_dollar.induct) auto

lemma code_text_shown:
  assumes "CHR 0x60 \<notin> set code" and "CHR ''<'' \<notin> set code" and "CHR ''&'' \<notin> set code"
  shows "formatChatMarkdown german (code_text code) =
    para_html (expand_dollar (html ''<p class=^chat-p^>'') (placeholder ''CODE'' 0) ''</p>'' (code_html [] code))"
proof -
  have "extract_all (think_match german) [] (code_text code) = (code_text code, [])"
    by (rule extract_all_none, rule no_think) (use assms in \<open>auto simp: code_text_def fence_def\<close>)
  moreover have "code_text code \<noteq> []" by (simp add: code_text_def fence_def)
  ultimately show ?thesis
    using code_text_extract [OF assms(1)] placeholder_paragraph restore_paragraph
    by (simp add: formatChatMarkdown_def Let_def) (simp add: restore_def)
qed



text \<open>Two reasoning blocks around a word are lost: their placeholders are themselves formatted, the underscores between them are taken for
  bold text, and neither block is put back.\<close>

theorem reasoning_blocks_lost:
  "formatChatMarkdown True ''<think>a</think>word<think>b</think>'' = para_html ''___CM_THINK_BLOCK_0_<strong>word</strong>_CM_THINK_BLOCK_1___''"
  by code_simp

end
