(* ===== verification/PortalPlayground.thy ===== *)
theory PortalPlayground
  imports PortalForms PortalMarkdown SelectorNotice
begin

text \<open>
  The playground chat of the public portal, \<^verbatim>\<open>src/portal/portal-core.js\<close> lines 2405 to 2412 and 2705 to 3108: the free quota, the chat with streamed answers,
  the single prompt, and the prompt suggestions. The chat is the list of its bubbles; sizes and scroll positions
  are not modelled. Times are parameters: \<open>now\<close> is \<^verbatim>\<open>Date.now()\<close> and \<open>tick\<close> is \<^verbatim>\<open>performance.now()\<close>, in milliseconds; \<open>date\<close> is \<^verbatim>\<open>Date.parse\<close>,
  \<^const>\<open>None\<close> for not-a-number. \<^verbatim>\<open>sendPlaygroundMessage\<close> is split where it waits: for the response and for each chunk of its body.
\<close>

section \<open>State\<close>

text \<open>The bubbles of the chat: the visitor's, an answer with the number of its element, and the greeting. \<open>aiBody\<close> is the bubble of the answer that is being written, unless the chat was
  cleared meanwhile; \<open>startTime\<close> belongs to the message under way.\<close>

datatype bubble = UserMsg string | AiMsg rat string | WelcomeMsg string

record playground = forms +
  playgroundChatHistory :: "(string \<times> string) list"
  teaserRequestsRemaining :: rat
  teaserResetAtMs :: rat
  isPlaygroundInferencing :: bool
  chat :: "bubble list"
  aiBody :: "nat option"
  startTime :: rat

section \<open>Quota\<close>

definition formatResetDuration :: "bool \<Rightarrow> rat \<Rightarrow> string" where
  "formatResetDuration german ms = (let total = max 0 (math_ceil (ms / 1000)); hours = total div 3600; minutes = math_ceil (of_int (total mod 3600) / 60) in
     if hours > 0 then int_str hours @ ''h '' @ int_str minutes @ ''m''
     else int_str (max 1 minutes) @ (if german then '' Min.'' else '' min''))"

definition quota_text :: "bool \<Rightarrow> rat \<Rightarrow> rat \<Rightarrow> rat \<Rightarrow> string" where
  "quota_text german remaining resetAt now = (if remaining \<le> 0 \<and> resetAt > now
     then (if german then ''Pause: '' else ''Paused: '') @ formatResetDuration german (resetAt - now)
     else rat_str remaining @ (if german then ('' Gratis-Anfragen '' @ [CHR 0xC3, CHR 0xBC] @ ''brig'') else '' Free Requests Left''))"

definition reset_time :: "(string \<Rightarrow> rat option) \<Rightarrow> rat \<Rightarrow> string \<Rightarrow> string \<Rightarrow> rat" where
  "reset_time date now resetSeconds resetAt =
     (case (if resetAt = [] then Some 0 else date resetAt) of
        Some a \<Rightarrow> if a \<noteq> 0 then a else (case parse_int (str_or resetSeconds ''0'') of Fin q \<Rightarrow> if q > 0 then now + q * 1000 else 0 | _ \<Rightarrow> 0)
      | None \<Rightarrow> (case parse_int (str_or resetSeconds ''0'') of Fin q \<Rightarrow> if q > 0 then now + q * 1000 else 0 | _ \<Rightarrow> 0))"

definition updateTeaserQuota :: "(string \<Rightarrow> rat option) \<Rightarrow> rat \<Rightarrow> jnum \<Rightarrow> string \<Rightarrow> string \<Rightarrow> 'a playground_scheme \<Rightarrow> 'a playground_scheme" where
  "updateTeaserQuota date now remaining resetSeconds resetAt s = (case remaining of
     Fin q \<Rightarrow> (let until = reset_time date now resetSeconds resetAt in
       on_elem ''pg-quota-text'' (set_text (quota_text (currentLang s = ''de'') q until now)) (s\<lparr>teaserRequestsRemaining := q, teaserResetAtMs := until\<rparr>))
   | _ \<Rightarrow> s)"

definition openTeaserConversionModal :: "'a browser_scheme \<Rightarrow> 'a browser_scheme" where
  "openTeaserConversionModal s = on_elem ''teaser-conversion-modal'' (\<lambda>e. add_class ''active'' (set_style ''display'' ''flex'' e)) s"

definition closeTeaserConversionModal :: "'a browser_scheme \<Rightarrow> 'a browser_scheme" where
  "closeTeaserConversionModal s = on_elem ''teaser-conversion-modal'' (\<lambda>e. remove_class ''active'' (set_style ''display'' ''none'' e)) s"

section \<open>The chat\<close>

fun bubble_html :: "bubble \<Rightarrow> string" where
  "bubble_html (UserMsg b) = (html ''~    <div class=^chat-msg chat-msg-user^>~      <div class=^chat-avatar^>'' @ [CHR 0xF0, CHR 0x9F, CHR 0x91, CHR 0xA4] @ html ''</div>~      <div class=^chat-bubble^>~        <div class=^chat-author^ style=^color: #c7d2fe;^>You</div>~        <div class=^chat-body^>'') @ b @ (html ''</div>~      </div>~    </div>~  '')"
| "bubble_html (AiMsg i b) = (html ''~    <div class=^chat-msg chat-msg-ai^>~      <div class=^chat-avatar^>'' @ [CHR 0xF0, CHR 0x9F, CHR 0xA4, CHR 0x96] @ html ''</div>~      <div class=^chat-bubble^>~        <div class=^chat-author^>ComputeMesh AI <span class=^chat-badge^>LIVE MESH</span></div>~        <div class=^chat-body^ id=^'') @ ''ai-msg-'' @ rat_str i @ (html ''^>'') @ b @ (html ''</div>~      </div>~    </div>~  '')"
| "bubble_html (WelcomeMsg b) = (html ''~      <div class=^chat-msg chat-msg-ai^>~        <div class=^chat-avatar^>'' @ [CHR 0xF0, CHR 0x9F, CHR 0xA4, CHR 0x96] @ html ''</div>~        <div class=^chat-bubble^>~          <div class=^chat-author^>ComputeMesh AI <span class=^chat-badge^>'') @ ''LIVE MESH'' @ (html ''</span></div>~          <div class=^chat-body^>'') @ b @ (html ''</div>~        </div>~      </div>~    '')"

definition stream_html :: "bubble list \<Rightarrow> string" where
  "stream_html bs = concat (map bubble_html bs)"

definition welcome_text :: "bool \<Rightarrow> string" where
  "welcome_text german = (if german
     then ''Willkommen bei ComputeMesh! Du kannst das Live-Gateway direkt hier mit 20 kostenlosen Anfragen pro 4-Stunden-Fenster ausprobieren. Stelle Programmierfragen, fasse Texte zusammen oder teste den Token-Durchsatz.''
     else ''Welcome to ComputeMesh! You can test the live gateway directly here with 20 free requests per 4-hour window. Ask a coding question, summarize text, or benchmark token throughput.'')"

definition clearPlaygroundChat :: "'a playground_scheme \<Rightarrow> 'a playground_scheme" where
  "clearPlaygroundChat s = (let german = (currentLang s = ''de'');
       s1 = (if page s ''playground-chat-stream'' = None then s else s\<lparr>chat := [WelcomeMsg (welcome_text german)], aiBody := None\<rparr>) in
     on_elem ''pg-metric-tokens'' (set_text ''0'') (on_elem ''pg-metric-latency'' (set_text ([CHR 0xE2, CHR 0x80, CHR 0x94] @ '' ms'')) (on_elem ''pg-metric-tps'' (set_text ([CHR 0xE2, CHR 0x80, CHR 0x94] @ '' tok/s''))
       (on_elem ''pg-metric-status'' (set_text (if german then ''Bereit'' else ''Ready'')) (s1\<lparr>playgroundChatHistory := []\<rparr>)))))"

definition QUICK_PROMPTS_de :: "(string \<times> string) list" where
  "QUICK_PROMPTS_de = [(''explain_mesh'', ''Was macht ComputeMesh einzigartig und wie funktioniert die dezentrale GPU-Inferenz?''),
     (''mcp_product_price'', (''F'' @ [CHR 0xC3, CHR 0xBC] @ ''hre einen Preisvergleich f'' @ [CHR 0xC3, CHR 0xBC] @ ''r das iPhone 16 Pro 256GB durch und zeige die besten H'' @ [CHR 0xC3, CHR 0xA4] @ ''ndler-Angebote mit Preisen und Ersparnis in einer Tabelle'')),
     (''mcp_image'', ''male ein bild aus den neuesten nachrichten''),
     (''mcp_weather'', (''Wie ist das aktuelle Wetter und die Temperatur in Berlin, M'' @ [CHR 0xC3, CHR 0xBC] @ ''nchen und Z'' @ [CHR 0xC3, CHR 0xBC] @ ''rich im Vergleich? bereite es in eine tabelle auf'')),
     (''mcp_nasdaq'', ''Zeige die 5 Top Gewinner und Verlierer an der NASDAQ in einer Tabelle''),
     (''mcp_bitcoin'', ''Wie steht der Bitcoin (BTC) und Ethereum (ETH) Kurs aktuell und was ist der 24h Trend?''),
     (''mcp_news'', ''Welche aktuellen Nachrichten und Schlagzeilen meldet die Tagesschau heute?''),
     (''python_fastapi'', ''Schreibe einen performanten Python-FastAPI-Endpunkt, der Requests an das OpenAI-kompatible /v1/chat/completions Gateway mit Streaming weiterleitet.''),
     (''mcp_math'', (''Berechne mit der Python-Sandbox: Wie viel Endkapital erhalte ich bei 10.000 '' @ [CHR 0xE2, CHR 0x82, CHR 0xAC] @ '' Startkapital nach 10 Jahren bei 7% j'' @ [CHR 0xC3, CHR 0xA4] @ ''hrlicher Rendite mit Zinseszins?'')),
     (''gpu_sharding'', (''Erkl'' @ [CHR 0xC3, CHR 0xA4] @ ''re wie Pipeline-Layer-Sharding gro'' @ [CHR 0xC3, CHR 0x9F] @ ''e KI-Modelle effizient '' @ [CHR 0xC3, CHR 0xBC] @ ''ber mehrere GPUs aufteilt.'')),
     (''compare_costs'', ''Wie viel Geld kann ich mit ComputeMesh im Vergleich zu AWS oder Azure sparen?'')]"

definition QUICK_PROMPTS_en :: "(string \<times> string) list" where
  "QUICK_PROMPTS_en = [(''explain_mesh'', ''What makes ComputeMesh unique and how does decentralized GPU inference work?''),
     (''mcp_product_price'', ''Perform a price comparison for the iPhone 16 Pro 256GB and display the best merchant offers with prices and savings in a table''),
     (''mcp_image'', ''paint an image based on the latest breaking news''),
     (''mcp_weather'', ''What is the current weather and temperature in Berlin, Munich, and Zurich in comparison? Prepare it in a table''),
     (''mcp_nasdaq'', ''Show the top 5 gainers and losers on the NASDAQ in a table''),
     (''mcp_bitcoin'', ''What is the current Bitcoin (BTC) and Ethereum (ETH) market quote and 24h price trend?''),
     (''mcp_news'', ''What are the latest breaking news and top headlines reported today?''),
     (''python_fastapi'', ''Write a high-performance Python FastAPI streaming endpoint using the OpenAI-compatible /v1/chat/completions gateway.''),
     (''mcp_math'', ''Calculate with the Python sandbox: What is the final capital on a $10,000 investment after 10 years at 7% annual compound interest?''),
     (''gpu_sharding'', ''Explain how pipeline layer sharding efficiently distributes large AI models across multiple GPUs.''),
     (''compare_costs'', ''How much money can I save with ComputeMesh compared to AWS or Azure?'')]"

definition quick_prompt :: "string \<Rightarrow> string \<Rightarrow> string" where
  "quick_prompt lang k = str_or (item_text (map_of (if lang = ''de'' then QUICK_PROMPTS_de else QUICK_PROMPTS_en) k)) (item_text (map_of QUICK_PROMPTS_en k))"

definition applyQuickPrompt :: "string \<Rightarrow> string \<Rightarrow> 'a portal_scheme \<Rightarrow> 'a portal_scheme" where
  "applyQuickPrompt nav k s = (let p = quick_prompt (getLang nav s) k in
     if p = [] \<or> currentLang s \<noteq> ''de'' \<and> \<not> can_read (localStorage s) then s else set_val ''playground-prompt-input'' p s)"

section \<open>A single prompt\<close>

definition message_json :: "string \<times> string \<Rightarrow> jsv" where
  "message_json m = Obj [(''role'', Str (fst m)), (''content'', Str (snd m))]"

definition first_of :: "jsv \<Rightarrow> jsv" where
  "first_of v = (case v of Arr (x # _) \<Rightarrow> x | _ \<Rightarrow> safe_prop v ''0'')"

definition prompt_answer :: "jsv \<Rightarrow> jsv" where
  "prompt_answer d = js_or (safe_prop (safe_prop (first_of (safe_prop d ''choices'')) ''message'') ''content'')
     (js_or (safe_prop (safe_prop d ''message'') ''content'') (Str []))"

text \<open>\<open>thrown\<close> is the message of an exception for a reply that is \<^verbatim>\<open>null\<close>; \<open>reason\<close> is the status text.\<close>

definition prompt_outcome :: "string \<Rightarrow> string \<Rightarrow> fetched \<Rightarrow> string + string" where
  "prompt_outcome thrown reason f = (case f of Rejected m \<Rightarrow> Inl m
     | Resp r \<Rightarrow> let d = (case rjson r of None \<Rightarrow> Obj [] | Some d \<Rightarrow> d) in
         if d = Null then Inl thrown
         else if \<not> ok r then Inl (to_str (js_or (safe_prop (safe_prop d ''error'') ''message'') (js_or (safe_prop d ''error'') (Str reason))))
         else Inr (to_str (prompt_answer d)))"

definition runPlaygroundPrompt :: "server \<Rightarrow> string \<Rightarrow> string \<Rightarrow> rat \<Rightarrow> 'a portal_scheme \<Rightarrow> 'a portal_scheme" where
  "runPlaygroundPrompt srv thrown reason elapsed s =
     (case (page s ''playground-model'', page s ''playground-input'', page s ''playground-output'') of
       (Some m, Some i, Some out) \<Rightarrow>
         if disabled m \<or> val m = [] \<or> trim (val i) = [] then s
         else (let german = (currentLang s = ''de'');
             s1 = on_elem ''playground-output'' (set_text (if german then ''Gateway wird angefragt...'' else ''Contacting gateway...''))
               (on_elem ''playground-stats'' (set_text (if german then (''Anfrage l'' @ [CHR 0xC3, CHR 0xA4] @ ''uft...'') else ''Running request...''))
                 (on_elem ''playground-btn'' (\<lambda>b. b\<lparr>disabled := True\<rparr>) s));
             rq = json_post ''/v1/chat/completions'' [] (Obj [(''model'', Str (val m)), (''messages'', Arr [message_json (''user'', trim (val i))]), (''stream'', Bool False)]) in
           case do_fetch srv rq s1 of (f, s2) \<Rightarrow>
             on_elem ''playground-btn'' (\<lambda>b. b\<lparr>disabled := False\<rparr>) (case prompt_outcome thrown reason f of
               Inr a \<Rightarrow> on_elem ''playground-stats'' (set_text (int_str (math_round elapsed) @ '' ms''))
                 (on_elem ''playground-output'' (set_text (str_or a (if german then ''Keine Antwort erhalten.'' else ''No response received.''))) s2)
             | Inl m \<Rightarrow> on_elem ''playground-stats'' (set_text (if german then ''Fehlgeschlagen'' else ''Failed''))
                 (on_elem ''playground-output'' (set_text (if german then ''Gateway-Anfrage fehlgeschlagen: '' @ str_or m ''unbekannter Fehler''
                    else ''Gateway request failed: '' @ str_or m ''unknown error'')) s2)))
     | _ \<Rightarrow> s)"

section \<open>Sending a message\<close>

definition quota_blocked :: "rat \<Rightarrow> 'a playground_scheme \<Rightarrow> bool" where
  "quota_blocked now s = (teaserRequestsRemaining s \<le> 0 \<and> teaserResetAtMs s > now)"

definition last_six :: "'b list \<Rightarrow> 'b list" where
  "last_six xs = drop (length xs - 6) xs"

definition chat_request :: "string \<Rightarrow> (string \<times> string) list \<Rightarrow> request" where
  "chat_request model h = json_post ''/v1/chat/completions'' [(''X-ComputeMesh-Client'', ''web-playground-v1.2.40'')]
     (Obj [(''model'', Str model), (''messages'', Arr (map message_json (last_six h))), (''stream'', Bool True), (''temperature'', Num (Fin (7 / 10)))])"

definition cursor_html :: string where
  "cursor_html = html ''<span class=^chat-cursor^></span>''"

definition metric :: "string \<Rightarrow> string \<Rightarrow> 'a browser_scheme \<Rightarrow> 'a browser_scheme" where
  "metric i t s = on_elem i (set_text t) s"

definition chat_status :: "string \<Rightarrow> string list \<Rightarrow> 'a browser_scheme \<Rightarrow> 'a browser_scheme" where
  "chat_status t cs s = on_elem ''pg-metric-status'' (\<lambda>e. (set_text t e)\<lparr>classes := cs\<rparr>) s"

definition show_chat :: "'a browser_scheme \<Rightarrow> 'a browser_scheme" where
  "show_chat s = on_elem ''pg-studio-meta'' (\<lambda>e. e\<lparr>hidden := True\<rparr>) (on_elem ''pg-clear-chat-btn'' (\<lambda>e. e\<lparr>hidden := False\<rparr>)
     (on_elem ''pg-quick-prompts'' (\<lambda>e. e\<lparr>hidden := True\<rparr>) (on_elem ''playground-live-metrics'' (\<lambda>e. e\<lparr>hidden := False\<rparr>)
       (s\<lparr>page := (page s)(''pg-welcome'' := None)\<rparr>))))"

definition lock_chat :: "'a playground_scheme \<Rightarrow> 'a playground_scheme" where
  "lock_chat s = chat_status ''Routing Mesh...'' [''pg-metric-val''] (metric ''pg-send-btn-text'' (if currentLang s = ''de'' then ''Generiere...'' else ''Inferencing...'')
     (on_elem ''playground-send-btn'' (\<lambda>b. b\<lparr>disabled := True\<rparr>) (s\<lparr>isPlaygroundInferencing := True\<rparr>)))"

definition chat_wf :: "'a browser_scheme \<Rightarrow> bool" where
  "chat_wf s = (page s ''playground-prompt-input'' \<noteq> None \<and> page s ''playground-model-select'' \<noteq> None \<and> page s ''playground-chat-stream'' \<noteq> None)"

definition prompt_of :: "'a browser_scheme \<Rightarrow> string" where
  "prompt_of s = trim (elem_val ''playground-prompt-input'' s)"

definition model_chosen :: "'a browser_scheme \<Rightarrow> bool" where
  "model_chosen s = (case page s ''playground-model-select'' of None \<Rightarrow> False | Some e \<Rightarrow> \<not> disabled e \<and> val e \<noteq> [])"

definition sendPlaygroundMessage :: "rat \<times> rat \<Rightarrow> 'a playground_scheme \<Rightarrow> 'a playground_scheme \<times> bool" where
  "sendPlaygroundMessage tm s = (case tm of (now, tick) \<Rightarrow>
     if isPlaygroundInferencing s \<or> \<not> chat_wf s \<or> prompt_of s = [] \<or> \<not> model_chosen s then (s, False)
     else if quota_blocked now s then (openTeaserConversionModal s, False)
     else (let h = playgroundChatHistory s @ [(''user'', prompt_of s)];
         s1 = show_chat (set_val ''playground-prompt-input'' [] s);
         s2 = lock_chat (s1\<lparr>chat := chat s @ [UserMsg (formatChatMarkdown (currentLang s = ''de'') (prompt_of s)), AiMsg now cursor_html],
            aiBody := Some (length (chat s) + 1), playgroundChatHistory := h, startTime := tick\<rparr>) in
       (issue (chat_request (elem_val ''playground-model-select'' s) h) s2, True)))"

fun with_body :: "string \<Rightarrow> bubble \<Rightarrow> bubble" where
  "with_body h (AiMsg i b) = AiMsg i h"
| "with_body h b = b"

definition set_ai_body :: "string \<Rightarrow> 'a playground_scheme \<Rightarrow> 'a playground_scheme" where
  "set_ai_body h s = (case aiBody s of None \<Rightarrow> s | Some i \<Rightarrow> s\<lparr>chat := (chat s)[i := with_body h (chat s ! i)]\<rparr>)"

definition error_html :: "string \<Rightarrow> string" where
  "error_html m = html ''<span style=^color: #f87171;^>'' @ m @ ''</span>''"

section \<open>The response\<close>

definition header_text :: "response \<Rightarrow> string \<Rightarrow> string" where
  "header_text r k = item_text (rheaders r k)"

definition count_quota :: "(string \<Rightarrow> rat option) \<Rightarrow> rat \<Rightarrow> response \<Rightarrow> 'a playground_scheme \<Rightarrow> 'a playground_scheme" where
  "count_quota date now r s = (let h = header_text r ''X-ComputeMesh-Teaser-Remaining'' in
     if h \<noteq> [] then updateTeaserQuota date now (parse_int h) (str_or (header_text r ''X-ComputeMesh-Teaser-Reset-Seconds'') ''0'') (header_text r ''X-ComputeMesh-Teaser-Reset-At'') s
     else (let n = max 0 (teaserRequestsRemaining s - 1) in updateTeaserQuota date now (Fin n) [] [] (s\<lparr>teaserRequestsRemaining := n\<rparr>)))"

definition retry_after :: "response \<Rightarrow> jsv \<Rightarrow> rat" where
  "retry_after r e = (case parse_int (to_str (js_or (Str (header_text r ''Retry-After'')) (js_or (safe_prop (safe_prop e ''teaser'') ''retry_after_seconds'') (Str ''0'')))) of
     Fin q \<Rightarrow> q | _ \<Rightarrow> 0)"

definition limit_text :: "bool \<Rightarrow> rat \<Rightarrow> string" where
  "limit_text german ra = (let d = formatResetDuration german ((if ra = 0 then 3600 else ra) * 1000) in
     if german then ''Kostenloses Demo-Limit erreicht. Deine Anfragen werden in '' @ d @ '' automatisch freigeschaltet.''
     else ''Free demo limit reached. Your requests refresh automatically in '' @ d @ ''.'')"

definition limit_reached :: "rat \<Rightarrow> response \<Rightarrow> jsv \<Rightarrow> 'a playground_scheme \<Rightarrow> 'a playground_scheme" where
  "limit_reached now r e s = (let ra = retry_after r e; s1 = (if ra > 0 then s\<lparr>teaserResetAtMs := now + ra * 1000\<rparr> else s);
       m = to_str (js_or (safe_prop e ''message'') (js_or (safe_prop (safe_prop e ''error'') ''message'') (Str (limit_text (currentLang s = ''de'') ra)))) in
     openTeaserConversionModal (set_ai_body (error_html m) s1))"

definition chat_failed :: "string \<Rightarrow> 'a playground_scheme \<Rightarrow> 'a playground_scheme" where
  "chat_failed m s = chat_status (if currentLang s = ''de'' then ''Fehler'' else ''Error'') [''pg-metric-val''] (set_ai_body (error_html (''Connection error: '' @ m)) s)"

definition unlock_chat :: "'a playground_scheme \<Rightarrow> 'a playground_scheme" where
  "unlock_chat s = metric ''pg-send-btn-text'' (if currentLang s = ''de'' then ''Prompt senden'' else ''Send Prompt'')
     (on_elem ''playground-send-btn'' (\<lambda>b. b\<lparr>disabled := False\<rparr>) (s\<lparr>isPlaygroundInferencing := False\<rparr>))"

section \<open>The streamed answer\<close>

record stream =
  buffer :: string
  rawAiText :: string
  tokenCount :: nat
  firstTokenTime :: rat

definition stream0 :: stream where
  "stream0 = \<lparr>buffer = [], rawAiText = [], tokenCount = 0, firstTokenTime = 0\<rparr>"

text \<open>The text a line of the stream adds, if any; malformed data is skipped.\<close>

definition delta_of :: "string \<Rightarrow> string option" where
  "delta_of d = (case json_parse d of None \<Rightarrow> None
     | Some v \<Rightarrow> let c = safe_prop (safe_prop (first_of (safe_prop v ''choices'')) ''delta'') ''content'' in if truthy c then Some (to_str c) else None)"

definition tps_text :: "nat \<Rightarrow> rat \<Rightarrow> string" where
  "tps_text n sec = to_fixed 1 (of_nat n / max sec (1 / 20)) @ '' tok/s''"

definition feed_delta :: "rat \<Rightarrow> string option \<Rightarrow> stream \<times> 'a playground_scheme \<Rightarrow> stream \<times> 'a playground_scheme" where
  "feed_delta tick d x = (case (d, x) of (None, _) \<Rightarrow> x
     | (Some t, st, s) \<Rightarrow>
       (let st1 = (if firstTokenTime st = 0 then st\<lparr>firstTokenTime := tick\<rparr> else st);
            s1 = (if firstTokenTime st = 0 then metric ''pg-metric-latency'' (int_str (math_round (tick - startTime s)) @ '' ms'') s else s);
            st2 = st1\<lparr>rawAiText := rawAiText st @ t, tokenCount := tokenCount st + 1\<rparr>;
            t0 = (if firstTokenTime st1 = 0 then startTime s else firstTokenTime st1) in
        (st2, metric ''pg-metric-tokens'' (nat_str (tokenCount st2)) (metric ''pg-metric-tps'' (tps_text (tokenCount st2) ((tick - t0) / 1000))
          (set_ai_body (formatChatMarkdown (currentLang s = ''de'') (rawAiText st2) @ cursor_html) s1)))))"

fun feed_lines :: "rat \<Rightarrow> string list \<Rightarrow> stream \<times> 'a playground_scheme \<Rightarrow> stream \<times> 'a playground_scheme" where
  "feed_lines tick [] x = x"
| "feed_lines tick (l # ls) x = (let t = trim l in
     if \<not> starts_with t ''data: '' then feed_lines tick ls x
     else if drop 6 t = ''[DONE]'' then x
     else feed_lines tick ls (feed_delta tick (delta_of (drop 6 t)) x))"

definition feed_chunk :: "rat \<Rightarrow> string \<Rightarrow> stream \<times> 'a playground_scheme \<Rightarrow> stream \<times> 'a playground_scheme" where
  "feed_chunk tick c x = (let parts = split_on (CHR 0x0A) (buffer (fst x) @ c) in
     feed_lines tick (butlast parts) ((fst x)\<lparr>buffer := last parts\<rparr>, snd x))"

definition finish_answer :: "rat \<Rightarrow> stream \<times> 'a playground_scheme \<Rightarrow> 'a playground_scheme" where
  "finish_answer tick x = (case x of (st, s) \<Rightarrow> let sec = of_int (math_round ((tick - startTime s) / 10)) / 100;
       s1 = set_ai_body (formatChatMarkdown (currentLang s = ''de'') (rawAiText st)) s in
     metric ''pg-metric-tokens'' (nat_str (tokenCount st)) (metric ''pg-metric-tps'' (tps_text (tokenCount st) sec)
       (chat_status (if currentLang s = ''de'' then ''Abgeschlossen'' else ''Completed'') [''pg-metric-val'', ''emerald'']
         (s1\<lparr>playgroundChatHistory := playgroundChatHistory s1 @ [(''assistant'', rawAiText st)]\<rparr>))))"

text \<open>What the response does before its body is read: the outcome, or \<^const>\<open>None\<close> when the body is to be read.\<close>

definition response_head :: "(string \<Rightarrow> rat option) \<Rightarrow> rat \<Rightarrow> string \<Rightarrow> response \<Rightarrow> 'a playground_scheme \<Rightarrow> 'a playground_scheme option" where
  "response_head date now thrown r s =
     (if status r = 402 \<or> status r = 429 then (let e = (case rjson r of None \<Rightarrow> Obj [] | Some e \<Rightarrow> e) in
         Some (if e = Null then chat_failed thrown s else limit_reached now r e s))
      else if \<not> ok r then Some (set_ai_body (error_html (''Inference error ('' @ nat_str (status r) @ ''): '' @ rtext r)) s)
      else None)"

datatype body_end = Finished | Broken string

text \<open>The outcome of a message: the chunks of the body with their times, how the body ends and when.\<close>

record outcome =
  at_ms :: rat
  fetch_result :: fetched
  chunks :: "(rat \<times> string) list"
  body_end :: body_end
  end_tick :: rat

definition playground_reply :: "(string \<Rightarrow> rat option) \<Rightarrow> string \<Rightarrow> outcome \<Rightarrow> 'a playground_scheme \<Rightarrow> 'a playground_scheme" where
  "playground_reply date thrown oc s = unlock_chat (case fetch_result oc of
     Rejected m \<Rightarrow> chat_failed m s
   | Resp r \<Rightarrow> let s1 = count_quota date (at_ms oc) r s in
       (case response_head date (at_ms oc) thrown r s1 of Some s2 \<Rightarrow> s2
        | None \<Rightarrow> let x = fold (\<lambda>(t, c). feed_chunk t c) (chunks oc) (stream0, s1) in
            (case body_end oc of Finished \<Rightarrow> finish_answer (end_tick oc) x | Broken m \<Rightarrow> chat_failed m (snd x))))"

lemmas playground_defs [js_defs] = formatResetDuration_def quota_text_def reset_time_def updateTeaserQuota_def openTeaserConversionModal_def
  closeTeaserConversionModal_def stream_html_def welcome_text_def clearPlaygroundChat_def QUICK_PROMPTS_de_def QUICK_PROMPTS_en_def
  quick_prompt_def applyQuickPrompt_def message_json_def first_of_def prompt_answer_def prompt_outcome_def runPlaygroundPrompt_def
  quota_blocked_def last_six_def chat_request_def cursor_html_def metric_def chat_status_def show_chat_def lock_chat_def chat_wf_def prompt_of_def
  model_chosen_def sendPlaygroundMessage_def set_ai_body_def error_html_def header_text_def count_quota_def retry_after_def limit_text_def
  limit_reached_def chat_failed_def unlock_chat_def stream0_def delta_of_def tps_text_def feed_delta_def feed_chunk_def finish_answer_def
  response_head_def playground_reply_def

section \<open>Frames\<close>

text \<open>The required elements of the chat are never removed.\<close>

definition chat_dom :: "'a browser_scheme \<Rightarrow> bool \<times> bool \<times> bool" where
  "chat_dom s = (page s ''playground-prompt-input'' = None, page s ''playground-model-select'' = None, page s ''playground-chat-stream'' = None)"

lemma chat_wf_dom: "chat_wf s \<longleftrightarrow> chat_dom s = (False, False, False)"
  by (auto simp: chat_wf_def chat_dom_def)

lemma upd_elem_None [simp]: "upd_elem i f d j = None \<longleftrightarrow> d j = None"
  by (cases "i = j") (auto simp: upd_elem_def split: option.split)

lemma chat_dom_page: "(\<And>j. page t j = None \<longleftrightarrow> page s j = None) \<Longrightarrow> chat_dom t = chat_dom s"
  by (simp add: chat_dom_def)

lemma set_ai_body_frame [simp]:
  "page (set_ai_body h s) = page s" "isPlaygroundInferencing (set_ai_body h s) = isPlaygroundInferencing s"
  "playgroundChatHistory (set_ai_body h s) = playgroundChatHistory s" "sent (set_ai_body h s) = sent s"
  by (simp_all add: set_ai_body_def split: option.split)

lemma metric_frame [simp]:
  "page (metric i t s) j = None \<longleftrightarrow> page s j = None" "isPlaygroundInferencing (metric i t p) = isPlaygroundInferencing p"
  "playgroundChatHistory (metric i t p) = playgroundChatHistory p" "sent (metric i t s) = sent s"
  by (simp_all add: metric_def)

lemma chat_status_frame [simp]:
  "page (chat_status t cs s) j = None \<longleftrightarrow> page s j = None" "isPlaygroundInferencing (chat_status t cs p) = isPlaygroundInferencing p"
  "playgroundChatHistory (chat_status t cs p) = playgroundChatHistory p" "sent (chat_status t cs s) = sent s"
  by (simp_all add: chat_status_def)

lemma chat_failed_frame [simp]:
  "page (chat_failed m s) j = None \<longleftrightarrow> page s j = None" "playgroundChatHistory (chat_failed m s) = playgroundChatHistory s"
  "isPlaygroundInferencing (chat_failed m s) = isPlaygroundInferencing s"
  by (simp_all add: chat_failed_def)

lemma quota_frame [simp]:
  "page (count_quota date now r s) j = None \<longleftrightarrow> page s j = None" "playgroundChatHistory (count_quota date now r s) = playgroundChatHistory s"
  "isPlaygroundInferencing (count_quota date now r s) = isPlaygroundInferencing s"
  by (auto simp: count_quota_def updateTeaserQuota_def Let_def split: jnum.split)

lemma response_head_frame:
  assumes "response_head date now thrown r s = Some t"
  shows "page t j = None \<longleftrightarrow> page s j = None" "playgroundChatHistory t = playgroundChatHistory s" "isPlaygroundInferencing t = isPlaygroundInferencing s"
  using assms by (auto simp: response_head_def limit_reached_def openTeaserConversionModal_def Let_def split: if_splits)

lemma feed_delta_frame [simp]:
  "page (snd (feed_delta tick d x)) j = None \<longleftrightarrow> page (snd x) j = None"
  "playgroundChatHistory (snd (feed_delta tick d x)) = playgroundChatHistory (snd x)"
  by (cases x; simp add: feed_delta_def Let_def split: option.split)+

lemma feed_lines_frame [simp]:
  "page (snd (feed_lines tick ls x)) j = None \<longleftrightarrow> page (snd x) j = None"
  "playgroundChatHistory (snd (feed_lines tick ls x)) = playgroundChatHistory (snd x)"
  by (induction tick ls x rule: feed_lines.induct) (auto simp: Let_def)

lemma feed_chunks_frame [simp]:
  "page (snd (fold (\<lambda>(t, c). feed_chunk t c) cs x)) j = None \<longleftrightarrow> page (snd x) j = None"
  "playgroundChatHistory (snd (fold (\<lambda>(t, c). feed_chunk t c) cs x)) = playgroundChatHistory (snd x)"
  by (induction cs arbitrary: x) (auto simp: feed_chunk_def Let_def)

lemma playground_reply_page: "page (playground_reply date thrown oc s) j = None \<longleftrightarrow> page s j = None"
proof -
  have u: "page (unlock_chat t) j = None \<longleftrightarrow> page t j = None" for t :: "'a playground_scheme" by (simp add: unlock_chat_def)
  have f: "page (finish_answer tick x) j = None \<longleftrightarrow> page (snd x) j = None" for tick and x :: "stream \<times> 'a playground_scheme"
    by (cases x) (simp add: finish_answer_def Let_def)
  show ?thesis unfolding playground_reply_def u Let_def
    by (auto simp: f response_head_frame(1) split: fetched.split option.split body_end.split)
qed

section \<open>One message at a time\<close>

inductive chat_other :: "'a playground_scheme \<Rightarrow> 'a playground_scheme \<Rightarrow> bool" where
  chat_typed: "chat_other s (set_val i v s)"
| chat_cleared: "chat_other s (clearPlaygroundChat s)"
| chat_suggested: "chat_other s (applyQuickPrompt nav k s)"
| chat_closed: "chat_other s (closeTeaserConversionModal s)"
| chat_spoken: "chat_other s (s\<lparr>currentLang := l\<rparr>)"

lemma chat_other_frame:
  assumes "chat_other s t"
  shows "chat_dom t = chat_dom s" "isPlaygroundInferencing t = isPlaygroundInferencing s"
  using assms
  by (induction rule: chat_other.induct)
    (auto simp: chat_dom_def clearPlaygroundChat_def applyQuickPrompt_def closeTeaserConversionModal_def Let_def)

lemma send_cases:
  obtains (refused) t where "sendPlaygroundMessage (now, tick) s = (t, False)" "chat_dom t = chat_dom s" "sent t = sent s"
      "isPlaygroundInferencing t = isPlaygroundInferencing s" "playgroundChatHistory t = playgroundChatHistory s"
  | (sends) t where "sendPlaygroundMessage (now, tick) s = (t, True)" "chat_dom t = chat_dom s" "\<not> isPlaygroundInferencing s" "isPlaygroundInferencing t"
      "chat_wf s" "prompt_of s \<noteq> []" "\<not> quota_blocked now s" "playgroundChatHistory t = playgroundChatHistory s @ [(''user'', prompt_of s)]"
      "sent t = sent s @ [chat_request (elem_val ''playground-model-select'' s) (playgroundChatHistory t)]"
proof (cases "isPlaygroundInferencing s \<or> \<not> chat_wf s \<or> prompt_of s = [] \<or> \<not> model_chosen s \<or> quota_blocked now s")
  case True
  then show ?thesis
    by (intro refused [of "fst (sendPlaygroundMessage (now, tick) s)"]) (auto simp: sendPlaygroundMessage_def openTeaserConversionModal_def chat_dom_def)
next
  case False
  show ?thesis
    by (rule sends [of "fst (sendPlaygroundMessage (now, tick) s)"])
      (use False in \<open>auto simp: sendPlaygroundMessage_def lock_chat_def show_chat_def issue_def chat_dom_def Let_def\<close>)
qed

interpretation playground: single_flight chat_wf isPlaygroundInferencing sendPlaygroundMessage "playground_reply date thrown" chat_other
proof
  fix s :: "'a playground_scheme" and x :: "rat \<times> rat" and r t
  assume s: "chat_wf s"
  obtain now tick where x: "x = (now, tick)" by (cases x)
  show "chat_wf (fst (sendPlaygroundMessage x s))"
    using s unfolding x by (cases rule: send_cases [of now tick s]) (auto simp: chat_wf_dom)
  show "snd (sendPlaygroundMessage x s) \<Longrightarrow> \<not> isPlaygroundInferencing s \<and> isPlaygroundInferencing (fst (sendPlaygroundMessage x s))"
    unfolding x by (cases rule: send_cases [of now tick s]) auto
  show "\<not> snd (sendPlaygroundMessage x s) \<Longrightarrow> isPlaygroundInferencing (fst (sendPlaygroundMessage x s)) = isPlaygroundInferencing s"
    unfolding x by (cases rule: send_cases [of now tick s]) auto
  show "chat_wf (playground_reply date thrown r s)" using s by (simp add: chat_wf_def playground_reply_page)
  show "\<not> isPlaygroundInferencing (playground_reply date thrown r s)" by (simp add: playground_reply_def unlock_chat_def)
  show "chat_other s t \<Longrightarrow> chat_wf t" using s by (simp add: chat_wf_dom chat_other_frame)
  show "chat_other s t \<Longrightarrow> isPlaygroundInferencing t = isPlaygroundInferencing s" by (simp add: chat_other_frame)
qed

section \<open>The answer as a function of the stream\<close>

definition line_text :: "string \<Rightarrow> string" where
  "line_text l = (if starts_with (trim l) ''data: '' then item_text (delta_of (drop 6 (trim l))) else [])"

definition done_line :: "string \<Rightarrow> bool" where
  "done_line l = (trim l = ''data: [DONE]'')"

text \<open>After the line that ends the answer no line adds text.\<close>

definition ends_once :: "string list \<Rightarrow> bool" where
  "ends_once ls = sorted_wrt (\<lambda>a b. done_line a \<longrightarrow> line_text b = []) ls"

definition stream_lines :: "string \<Rightarrow> string list" where
  "stream_lines s = butlast (split_on (CHR 0x0A) s)"

lemma done_line_data: "done_line l \<longleftrightarrow> starts_with (trim l) ''data: '' \<and> drop 6 (trim l) = ''[DONE]''"
  by (auto simp: done_line_def elim!: starts_withE)

lemma done_line_text: "done_line l \<Longrightarrow> line_text l = []"
proof -
  have "delta_of ''[DONE]'' = None" by code_simp
  then show "done_line l \<Longrightarrow> line_text l = []" by (auto simp: line_text_def done_line_def item_text_def)
qed

lemma feed_delta_raw [simp]:
  "rawAiText (fst (feed_delta tick d x)) = rawAiText (fst x) @ item_text d" "buffer (fst (feed_delta tick d x)) = buffer (fst x)"
  by (cases x; simp add: feed_delta_def Let_def item_text_def split: option.split)+

lemma feed_lines_raw:
  "rawAiText (fst (feed_lines tick ls x)) = rawAiText (fst x) @ concat (map line_text (takeWhile (\<lambda>l. \<not> done_line l) ls))"
proof (induction tick ls x rule: feed_lines.induct)
  case (2 tick l ls x)
  then show ?case by (cases "starts_with (trim l) ''data: ''"; cases "drop 6 (trim l) = ''[DONE]''") (auto simp: Let_def done_line_data line_text_def)
qed simp

lemma feed_lines_buffer: "buffer (fst (feed_lines tick ls x)) = buffer (fst x)"
  by (induction tick ls x rule: feed_lines.induct) (auto simp: Let_def)

lemma ends_once_takeWhile: "ends_once ls \<Longrightarrow> concat (map line_text (takeWhile (\<lambda>l. \<not> done_line l) ls)) = concat (map line_text ls)"
proof (induction ls)
  case (Cons l ls)
  then show ?case by (cases "done_line l") (auto simp: ends_once_def done_line_text)
qed simp

lemma stream_lines_append: "stream_lines (s @ u) = stream_lines s @ stream_lines (last (split_on (CHR 0x0A) s) @ u)"
proof -
  have "CHR 0x0A \<notin> set (last (split_on (CHR 0x0A) s))" by (rule split_on_last_no_sep)
  then have "split_on (CHR 0x0A) (last (split_on (CHR 0x0A) s) @ u) = (last (split_on (CHR 0x0A) s) @ hd (split_on (CHR 0x0A) u)) # tl (split_on (CHR 0x0A) u)"
    by (subst split_on_append) simp
  moreover have "split_on (CHR 0x0A) (s @ u) = butlast (split_on (CHR 0x0A) s) @ (last (split_on (CHR 0x0A) s) @ hd (split_on (CHR 0x0A) u)) # tl (split_on (CHR 0x0A) u)"
    by (rule split_on_append)
  ultimately show ?thesis by (simp add: stream_lines_def butlast_append)
qed

lemma feed_chunks_raw:
  assumes "ends_once (stream_lines (buffer (fst x) @ concat (map snd cs)))" and "CHR 0x0A \<notin> set (buffer (fst x))"
  shows "rawAiText (fst (fold (\<lambda>(t, c). feed_chunk t c) cs x)) = rawAiText (fst x) @ concat (map line_text (stream_lines (buffer (fst x) @ concat (map snd cs))))"
  using assms
proof (induction cs arbitrary: x)
  case Nil
  then show ?case by (simp add: stream_lines_def)
next
  case (Cons p cs)
  obtain t c where p: "p = (t, c)" by (cases p)
  let ?b = "buffer (fst x)" and ?l = "last (split_on (CHR 0x0A) (buffer (fst x) @ c))"
  let ?x = "feed_chunk t c x"
  have sl: "stream_lines (?b @ concat (map snd (p # cs))) = stream_lines (?b @ c) @ stream_lines (?l @ concat (map snd cs))"
    using stream_lines_append [of "?b @ c"] p by simp
  have e: "ends_once (stream_lines (?b @ c))" "ends_once (stream_lines (?l @ concat (map snd cs)))"
    using Cons.prems(1) unfolding sl by (simp_all add: ends_once_def sorted_wrt_append)
  have x: "buffer (fst ?x) = ?l" "rawAiText (fst ?x) = rawAiText (fst x) @ concat (map line_text (stream_lines (?b @ c)))"
    using ends_once_takeWhile [OF e(1)] by (simp_all add: feed_chunk_def Let_def feed_lines_raw feed_lines_buffer stream_lines_def)
  have "CHR 0x0A \<notin> set ?l" by (rule split_on_last_no_sep)
  then have "rawAiText (fst (fold (\<lambda>(t, c). feed_chunk t c) cs ?x)) = rawAiText (fst ?x) @ concat (map line_text (stream_lines (buffer (fst ?x) @ concat (map snd cs))))"
    using Cons.IH [of ?x] e(2) x(1) by simp
  then show ?case unfolding sl using x p by simp
qed

section \<open>Properties\<close>


definition playground0 :: playground where
  "playground0 = forms.extend (forms0\<lparr>page := [''playground-prompt-input'' \<mapsto> blank\<lparr>val := '' hi ''\<rparr>, ''playground-model-select'' \<mapsto> blank\<lparr>val := ''m''\<rparr>,
       ''playground-chat-stream'' \<mapsto> blank]\<rparr>)
     \<lparr>playgroundChatHistory = [], teaserRequestsRemaining = 20, teaserResetAtMs = 0, isPlaygroundInferencing = False, chat = [], aiBody = None, startTime = 0\<rparr>"

lemma playground0_simps: "chat_wf playground0" "\<not> isPlaygroundInferencing playground0" "prompt_of playground0 = ''hi''" "model_chosen playground0"
  "playgroundChatHistory playground0 = []" "sent playground0 = []" "\<not> quota_blocked now playground0"
  by (simp_all add: playground0_def forms.defs forms0_def market.defs market0_def portal.defs portal0_def browser.defs chat_wf_def prompt_of_def elem_val_def
      model_chosen_def quota_blocked_def blank_def trim_def trim_left_def trim_right_def is_ws_def)



definition hello_outcome :: outcome where
  "hello_outcome = \<lparr>at_ms = 10, fetch_result = Resp \<lparr>status = 200, ctype = ''text/event-stream'', rheaders = Map.empty, rtext = []\<rparr>,
     chunks = [(20, ''da''), (30, html ''ta: {^choices^:[{^delta^:{^content^:^ok^}}]}~data: [DO''), (40, html ''NE]~~'')], body_end = Finished, end_tick = 50\<rparr>"


lemma playground_reply_history:
  "playgroundChatHistory (playground_reply date thrown oc s) = playgroundChatHistory s \<or>
   (\<exists>a. playgroundChatHistory (playground_reply date thrown oc s) = playgroundChatHistory s @ [(''assistant'', a)])"
proof -
  have f: "playgroundChatHistory (finish_answer tick x) = playgroundChatHistory (snd x) @ [(''assistant'', rawAiText (fst x))]"
    for tick and x :: "stream \<times> 'a playground_scheme" by (cases x) (simp add: finish_answer_def Let_def)
  have u: "playgroundChatHistory (unlock_chat t) = playgroundChatHistory t" for t :: "'a playground_scheme" by (simp add: unlock_chat_def)
  show ?thesis unfolding playground_reply_def u Let_def
    by (auto simp: f response_head_frame(2) split: fetched.split option.split body_end.split)
qed

definition answered :: "outcome \<Rightarrow> bool" where
  "answered oc = (body_end oc = Finished \<and> (case fetch_result oc of Resp r \<Rightarrow> ok r | Rejected _ \<Rightarrow> False))"

lemma unanswered_history: "\<not> answered oc \<Longrightarrow> playgroundChatHistory (playground_reply date thrown oc s) = playgroundChatHistory s"
proof -
  assume "\<not> answered oc"
  have u: "playgroundChatHistory (unlock_chat t) = playgroundChatHistory t" for t :: "'a playground_scheme" by (simp add: unlock_chat_def)
  have h: "\<not> ok r \<Longrightarrow> \<exists>t'. response_head date now thrown r t = Some t'" for now r and t :: "'a playground_scheme" by (simp add: response_head_def Let_def)
  show ?thesis
  proof (cases "fetch_result oc")
    case (Resp r)
    then show ?thesis using \<open>\<not> answered oc\<close> h [of r "at_ms oc" "count_quota date (at_ms oc) r s"]
      by (cases "response_head date (at_ms oc) thrown r (count_quota date (at_ms oc) r s)"; cases "body_end oc")
        (auto simp: playground_reply_def u Let_def answered_def dest: response_head_frame(2))
  qed (simp add: playground_reply_def u)
qed

text \<open>A prompt stays in the conversation even if it is not answered: a message adds the prompt to the conversation when it is sent, its answer
  follows only when the response is successful and complete, and after a failure the next message repeats the unanswered prompt
  to the gateway before its own.\<close>

theorem unanswered_prompt_repeated:
  assumes "sendPlaygroundMessage (now, tick) s = (t, True)" and "\<not> answered oc" and "u = playground_reply date thrown oc t"
    and "v = set_val ''playground-prompt-input'' p u" and "sendPlaygroundMessage (now', tick') v = (w, True)"
  shows "playgroundChatHistory u = playgroundChatHistory s @ [(''user'', prompt_of s)] \<and>
    sent w = sent v @ [chat_request (elem_val ''playground-model-select'' v) (playgroundChatHistory s @ [(''user'', prompt_of s), (''user'', prompt_of v)])]"
proof -
  have t: "playgroundChatHistory t = playgroundChatHistory s @ [(''user'', prompt_of s)]"
    using assms(1) by (cases rule: send_cases [of now tick s]) auto
  then have u: "playgroundChatHistory u = playgroundChatHistory s @ [(''user'', prompt_of s)]" using unanswered_history [OF assms(2), of date thrown t] assms(3) by simp
  then have v: "playgroundChatHistory v = playgroundChatHistory s @ [(''user'', prompt_of s)]" using assms(4) by simp
  have "sent w = sent v @ [chat_request (elem_val ''playground-model-select'' v) (playgroundChatHistory v @ [(''user'', prompt_of v)])]"
    using assms(5) by (cases rule: send_cases [of now' tick' v]) auto
  then show ?thesis using u v by simp
qed

definition lost_outcome :: outcome where
  "lost_outcome = hello_outcome\<lparr>fetch_result := Rejected ''offline''\<rparr>"

theorem unanswered_prompt_repeated_witness:
  "playgroundChatHistory (playground_reply (\<lambda>d. None) [] lost_outcome (fst (sendPlaygroundMessage (5, 1) playground0))) = [(''user'', ''hi'')]"
proof -
  let ?t = "fst (sendPlaygroundMessage (5, 1) playground0)"
  let ?u = "playground_reply (\<lambda>d. None) [] lost_outcome ?t"
  let ?v = "set_val ''playground-prompt-input'' ''again'' ?u"
  have t: "sendPlaygroundMessage (5, 1) playground0 = (?t, True)" using playground0_simps by (simp add: sendPlaygroundMessage_def Let_def)
  have l: "\<not> answered lost_outcome" by (simp add: answered_def lost_outcome_def)
  have "snd (sendPlaygroundMessage (6, 2) ?v)"
    by (simp add: sendPlaygroundMessage_def Let_def playground0_def forms.defs forms0_def market.defs market0_def portal.defs portal0_def browser.defs chat_wf_def
        prompt_of_def elem_val_def model_chosen_def quota_blocked_def blank_def trim_def trim_left_def trim_right_def is_ws_def playground_reply_def lost_outcome_def
        hello_outcome_def unlock_chat_def chat_failed_def set_ai_body_def metric_def chat_status_def lock_chat_def show_chat_def issue_def)
  then have "sendPlaygroundMessage (6, 2) ?v = (fst (sendPlaygroundMessage (6, 2) ?v), True)" by (simp add: prod_eq_iff)
  from unanswered_prompt_repeated [OF t l refl refl this] show ?thesis using playground0_simps(3,5) by simp
qed

text \<open>The waiting time shown is never too short and less than a minute too long: the hours and minutes printed cover the time to wait,
  exceed it by less than one minute and one second, and the minutes are at most sixty.\<close>

theorem reset_duration_bounds:
  assumes "0 < ms"
  shows "\<exists>h m. formatResetDuration german ms = (if h > 0 then int_str h @ ''h '' @ int_str m @ ''m'' else int_str (max 1 m) @ (if german then '' Min.'' else '' min'')) \<and>
    0 \<le> h \<and> 0 \<le> m \<and> m \<le> 60 \<and> ms \<le> of_int (h * 3600 + m * 60) * 1000 \<and> of_int (h * 3600 + m * 60) * 1000 < ms + 61000"
proof -
  define total where "total = max 0 (math_ceil (ms / 1000))"
  define h where "h = total div 3600"
  define r where "r = total mod 3600"
  define m where "m = math_ceil (of_int r / 60 :: rat)"
  have ceil: "of_int (math_ceil q) - 1 < q \<and> q \<le> of_int (math_ceil q)" for q :: rat
    by (simp add: math_ceil_def ceiling_def [symmetric]) linarith
  have t: "0 \<le> total" "ms \<le> of_int total * 1000" "of_int total * 1000 < ms + 1000"
    using ceil [of "ms / 1000"] assms by (auto simp: total_def max_def field_simps split: if_splits)
  have hr: "total = h * 3600 + r" "0 \<le> r" "r < 3600" "0 \<le> h" using t(1) by (simp_all add: h_def r_def pos_imp_zdiv_nonneg_iff)
  have "of_int r \<le> (of_int m * 60 :: rat)" "(of_int m - 1) * 60 < (of_int r :: rat)" using ceil [of "of_int r / 60"] by (simp_all add: m_def field_simps)
  then have "(of_int r :: rat) \<le> of_int (m * 60)" "(of_int ((m - 1) * 60) :: rat) < of_int r" by simp_all
  then have mr: "r \<le> m * 60" "(m - 1) * 60 < r" by (simp_all only: of_int_le_iff of_int_less_iff)
  have "m * 60 - 60 < r" using mr(2) by (simp add: algebra_simps)
  then have "total \<le> h * 3600 + m * 60" "h * 3600 + m * 60 < total + 60" "0 \<le> m" "m \<le> 60" using mr(1) hr by linarith+
  moreover from this have "(of_int total :: rat) \<le> of_int (h * 3600 + m * 60)" "(of_int (h * 3600 + m * 60) :: rat) < of_int (total + 60)"
    by (simp_all only: of_int_le_iff of_int_less_iff)
  then have "ms \<le> of_int (h * 3600 + m * 60) * 1000" "of_int (h * 3600 + m * 60) * 1000 < ms + 61000"
    using t(2,3) by simp_all
  moreover have "formatResetDuration german ms = (if h > 0 then int_str h @ ''h '' @ int_str m @ ''m'' else int_str (max 1 m) @ (if german then '' Min.'' else '' min''))"
    by (simp add: formatResetDuration_def total_def h_def r_def m_def Let_def)
  ultimately show ?thesis using hr(4) by blast
qed

theorem reset_duration_bounds_witness:
  "\<exists>h m. formatResetDuration False 3599000 = (if h > 0 then int_str h @ ''h '' @ int_str m @ ''m'' else int_str (max 1 m) @ '' min'') \<and> m \<le> 60"
proof -
  obtain h m where "formatResetDuration False 3599000 = (if h > 0 then int_str h @ ''h '' @ int_str m @ ''m'' else int_str (max 1 m) @ (if False then '' Min.'' else '' min''))" "m \<le> 60"
    using reset_duration_bounds [of 3599000 False] by fastforce
  then show ?thesis by (intro exI [of _ h] exI [of _ m]) simp
qed

end
