(* ===== verification/PortalInit.thy ===== *)
theory PortalInit
  imports PortalPlayground
begin

text \<open>
  The live figures of the public portal and its start, \<^verbatim>\<open>src/portal/portal-core.js\<close> lines 3110 to 3216. The periodic repetition of the two loaders is not modelled:
  each repetition is another call.
\<close>

section \<open>Live figures\<close>

record mesh_stats =
  stat_source :: jsv
  totalVramGb :: jnum
  activeGpus :: jnum
  totalNodes :: jnum
  totalTflops :: jnum

text \<open>\<^verbatim>\<open>Number(o.a !== undefined ? o.a : (o.b !== undefined ? o.b : 0))\<close>.\<close>

definition figure :: "jsv \<Rightarrow> string list \<Rightarrow> jnum" where
  "figure v ks = (case find (\<lambda>k. safe_prop v k \<noteq> Undef) ks of None \<Rightarrow> Fin 0 | Some k \<Rightarrow> to_num (safe_prop v k))"

definition parseMeshTelemetryPayload :: "jsv \<Rightarrow> mesh_stats option" where
  "parseMeshTelemetryPayload d = (if \<not> truthy d \<or> \<not> is_object d then None
     else (let gm = safe_prop d ''global_mesh'' in
       if truthy gm \<and> is_object gm then Some \<lparr>stat_source = js_or (safe_prop gm ''source'') (js_or (safe_prop d ''source'') (Str ''authenticated_registry'')),
         totalVramGb = figure gm [''total_vram_gb''], activeGpus = figure gm [''total_gpus_active'', ''active_gpus''],
         totalNodes = figure gm [''total_nodes_online'', ''total_nodes''], totalTflops = figure gm [''total_compute_tflops'', ''total_tflops'']\<rparr>
       else Some \<lparr>stat_source = js_or (safe_prop d ''source'') (Str ''authenticated_cluster''),
         totalVramGb = figure d [''total_vram_gb''], activeGpus = figure d [''active_gpus'', ''total_gpus_active''],
         totalNodes = figure d [''total_nodes'', ''total_nodes_online''], totalTflops = figure d [''total_tflops'', ''total_compute_tflops'']\<rparr>))"

text \<open>\<^verbatim>\<open>x.toLocaleString(locale, ...)\<close> with exactly one decimal: groups of three digits, and the separators of the locale.\<close>

function group_digits :: "string \<Rightarrow> string \<Rightarrow> string" where
  "group_digits sep s = (if length s \<le> 3 then s else group_digits sep (take (length s - 3) s) @ sep @ drop (length s - 3) s)"
  by auto
termination
  by (relation "measure (length \<circ> snd)") auto

declare group_digits.simps [simp del]

definition locale_number :: "bool \<Rightarrow> jnum \<Rightarrow> string" where
  "locale_number german n = (case n of
     Fin q \<Rightarrow> (let t = to_fixed 1 \<bar>q\<bar> in (if q < 0 then ''-'' else []) @
         group_digits (if german then ''.'' else '','') (butlast (butlast t)) @ (if german then '','' else ''.'') @ [last t])
   | PInf \<Rightarrow> [CHR 0xE2, CHR 0x88, CHR 0x9E] | NInf \<Rightarrow> (''-'' @ [CHR 0xE2, CHR 0x88, CHR 0x9E]) | NaN \<Rightarrow> ''NaN'')"

definition count_word :: "jnum \<Rightarrow> string \<Rightarrow> string \<Rightarrow> string \<Rightarrow> string" where
  "count_word n one many state = num_str n @ '' '' @ (if n = Fin 1 then one else many) @ '' '' @ state"

text \<open>\<^const>\<open>None\<close>: reading the stored language throws.\<close>

definition updateMeshTelemetryTicker :: "string \<Rightarrow> mesh_stats \<Rightarrow> 'a portal_scheme \<Rightarrow> 'a portal_scheme option" where
  "updateMeshTelemetryTicker nav st s = (if currentLang s \<noteq> ''de'' \<and> \<not> can_read (localStorage s) then None
     else (let german = (currentLang s = ''de'' \<or> stored (localStorage s) lang_key = ''de''); isDe = (getLang nav s = ''de'');
         tf = (case totalTflops st of Fin q \<Rightarrow> if q > 0 then locale_number german (Fin q) @ '' TFLOPS'' else (if isDe then ''Nicht gemessen'' else ''Not measured'')
           | _ \<Rightarrow> (if isDe then ''Nicht gemessen'' else ''Not measured'')) in
       Some (metric ''portal-ticker-nodes'' (count_word (totalNodes st) ''Node'' ''Nodes'' (if isDe then ''aktiv'' else ''active''))
         (metric ''portal-ticker-tflops'' tf
           (metric ''portal-ticker-gpus'' (count_word (activeGpus st) ''GPU'' ''GPUs'' ''online'')
             (metric ''portal-ticker-vram'' (locale_number german (totalVramGb st) @ '' GB'') s))))))"

definition telemetry_endpoints :: "string list" where
  "telemetry_endpoints = [''/api/v1/mesh/stats'', ''/mesh/stats'', ''/api/status'']"

definition usable_stats :: "fetched \<Rightarrow> mesh_stats option" where
  "usable_stats f = (case f of Rejected _ \<Rightarrow> None
     | Resp r \<Rightarrow> if ok r then (case rjson r of None \<Rightarrow> None | Some d \<Rightarrow> parseMeshTelemetryPayload d) else None)"

fun try_endpoints :: "server \<Rightarrow> string \<Rightarrow> string list \<Rightarrow> 'a portal_scheme \<Rightarrow> 'a portal_scheme" where
  "try_endpoints srv nav [] s = s"
| "try_endpoints srv nav (e # es) s = (case do_fetch srv (get_request e) s of (f, s1) \<Rightarrow>
     (case usable_stats f of None \<Rightarrow> try_endpoints srv nav es s1
      | Some st \<Rightarrow> (case updateMeshTelemetryTicker nav st s1 of None \<Rightarrow> try_endpoints srv nav es s1 | Some s2 \<Rightarrow> s2)))"

definition fetchMeshTelemetry :: "server \<Rightarrow> string \<Rightarrow> 'a portal_scheme \<Rightarrow> 'a portal_scheme" where
  "fetchMeshTelemetry srv nav s = try_endpoints srv nav telemetry_endpoints s"

section \<open>Start of the portal\<close>

record portal_page = playground +
  portalInitialized :: bool

definition url_action :: "location \<Rightarrow> 'a browser_scheme \<Rightarrow> 'a browser_scheme" where
  "url_action loc s = (if query loc ''action'' = Some ''deposit'' then openDepositModal s
     else if query loc ''action'' = Some ''register'' then openModal (if query loc ''role'' = Some ''provider'' then ''provider'' else ''consumer'') s
     else s)"

definition saved_key :: "'a forms_scheme \<Rightarrow> 'a forms_scheme" where
  "saved_key s = (if \<not> can_read (localStorage s) then s
     else (let k = stored (localStorage s) ''cm_api_key'' in if k \<noteq> [] then updateCodeSnippetsWithKey k s else fst (renderPlaygroundSnippet s)))"

text \<open>\<open>hooks\<close> are the hooks of the language switch, see \<^const>\<open>switchLanguage\<close>; the highlighting of the navigation is \<^const>\<open>nav_active\<close>.\<close>

definition initPortal :: "translations_table \<Rightarrow> server \<Rightarrow> url_parser \<Rightarrow> (string \<Rightarrow> portal_page \<Rightarrow> portal_page) \<Rightarrow> location \<Rightarrow> browser_locale \<Rightarrow> string \<Rightarrow>
    i18n_elem list \<times> portal_page \<Rightarrow> i18n_elem list \<times> portal_page" where
  "initPortal tr srv parser hooks loc bl nav x = (case x of (xs, s) \<Rightarrow>
     if portalInitialized s then x
     else (case detectInitialLanguage loc bl (s\<lparr>portalInitialized := True\<rparr>) of (lang, s1) \<Rightarrow>
       (case switchLanguage tr srv parser hooks lang (xs, s1) of (ys, s2) \<Rightarrow>
         (ys, saved_key (loadRealMarketplaceData srv parser nav (loadLiveModelCatalog srv (fetchMeshTelemetry srv nav
            (loadLivePricing srv (url_action loc (updateAuthStateUI tr s2))))))))))"

lemmas portal_init_defs [js_defs] = figure_def parseMeshTelemetryPayload_def locale_number_def count_word_def updateMeshTelemetryTicker_def
  telemetry_endpoints_def usable_stats_def fetchMeshTelemetry_def url_action_def saved_key_def initPortal_def

section \<open>Lemmas\<close>

lemma ticker_shown:
  assumes "updateMeshTelemetryTicker nav st s = Some t" and "page s ''portal-ticker-gpus'' = Some e"
  shows "\<exists>e'. page t ''portal-ticker-gpus'' = Some e' \<and> content e' = Text (count_word (activeGpus st) ''GPU'' ''GPUs'' ''online'')"
  using assms by (auto simp: updateMeshTelemetryTicker_def metric_def Let_def split: if_splits)

lemma ticker_sent: "updateMeshTelemetryTicker nav st s = Some t \<Longrightarrow> sent t = sent s"
  by (auto simp: updateMeshTelemetryTicker_def metric_def Let_def split: if_splits)

lemma ticker_readable: "can_read (localStorage s) \<Longrightarrow> \<exists>t. updateMeshTelemetryTicker nav st s = Some t"
  by (simp add: updateMeshTelemetryTicker_def Let_def)

text \<open>The replies to the requests for the endpoints \<open>es\<close>, made one after the other.\<close>

fun telemetry_replies :: "server \<Rightarrow> request list \<Rightarrow> string list \<Rightarrow> fetched list" where
  "telemetry_replies srv sofar [] = []"
| "telemetry_replies srv sofar (e # es) = srv sofar (get_request e) # telemetry_replies srv (sofar @ [get_request e]) es"

lemma try_endpoints_skip:
  assumes "\<forall>f \<in> set (telemetry_replies srv (sent s) es). usable_stats f = None"
  shows "try_endpoints srv nav (es @ ds) s = try_endpoints srv nav ds (s\<lparr>sent := sent s @ map get_request es\<rparr>)"
  using assms
proof (induction es arbitrary: s)
  case (Cons e es)
  then show ?case using Cons.IH [of "s\<lparr>sent := sent s @ [get_request e]\<rparr>"] by (simp add: do_fetch_def)
qed simp

section \<open>Properties\<close>

text \<open>The live figures come from the first endpoint that delivers an object: the endpoints are asked one after the other, none after the first usable
  reply, the number of graphics cards shown is the one of that reply, and without a usable reply the figures stay as they are.\<close>

theorem telemetry_first_usable:
  assumes "can_read (localStorage s)" and "page s ''portal-ticker-gpus'' = Some e"
  shows "(\<forall>es d ds st. telemetry_endpoints = es @ d # ds \<longrightarrow> (\<forall>f \<in> set (telemetry_replies srv (sent s) es). usable_stats f = None) \<longrightarrow>
      usable_stats (srv (sent s @ map get_request es) (get_request d)) = Some st \<longrightarrow>
      sent (fetchMeshTelemetry srv nav s) = sent s @ map get_request (es @ [d]) \<and>
      (\<exists>e'. page (fetchMeshTelemetry srv nav s) ''portal-ticker-gpus'' = Some e' \<and> content e' = Text (count_word (activeGpus st) ''GPU'' ''GPUs'' ''online''))) \<and>
    ((\<forall>f \<in> set (telemetry_replies srv (sent s) telemetry_endpoints). usable_stats f = None) \<longrightarrow> page (fetchMeshTelemetry srv nav s) = page s)"
proof (intro conjI allI impI)
  fix es d ds st
  assume a: "telemetry_endpoints = es @ d # ds" "\<forall>f \<in> set (telemetry_replies srv (sent s) es). usable_stats f = None"
    "usable_stats (srv (sent s @ map get_request es) (get_request d)) = Some st"
  let ?s = "s\<lparr>sent := sent s @ map get_request (es @ [d])\<rparr>"
  obtain t where t: "updateMeshTelemetryTicker nav st ?s = Some t" using ticker_readable [of ?s] assms(1) by auto
  have f: "fetchMeshTelemetry srv nav s = t"
    using try_endpoints_skip [OF a(2), of nav "d # ds"] a(3) t unfolding fetchMeshTelemetry_def a(1) by (simp add: do_fetch_def)
  show "sent (fetchMeshTelemetry srv nav s) = sent s @ map get_request (es @ [d])" using ticker_sent [OF t] f by simp
  show "\<exists>e'. page (fetchMeshTelemetry srv nav s) ''portal-ticker-gpus'' = Some e' \<and> content e' = Text (count_word (activeGpus st) ''GPU'' ''GPUs'' ''online'')"
    using ticker_shown [OF t] assms(2) f by simp
next
  assume "\<forall>f \<in> set (telemetry_replies srv (sent s) telemetry_endpoints). usable_stats f = None"
  from try_endpoints_skip [OF this, of nav "[]"] show "page (fetchMeshTelemetry srv nav s) = page s" by (simp add: fetchMeshTelemetry_def)
qed

definition telemetry_server :: server where
  "telemetry_server old rq = (if url rq = ''/mesh/stats'' then Resp \<lparr>status = 200, ctype = ''application/json'', rheaders = Map.empty,
     rtext = html ''{^total_gpus_active^:1}''\<rparr> else Rejected ''offline'')"

theorem telemetry_first_usable_witness:
  "sent (fetchMeshTelemetry telemetry_server ''de'' (portal0\<lparr>page := [''portal-ticker-gpus'' \<mapsto> blank]\<rparr>)) = map get_request [''/api/v1/mesh/stats'', ''/mesh/stats'']"
proof -
  let ?s = "portal0\<lparr>page := [''portal-ticker-gpus'' \<mapsto> blank]\<rparr>"
  have s: "can_read (localStorage ?s)" "page ?s ''portal-ticker-gpus'' = Some blank" "sent ?s = []" by (simp_all add: portal0_def browser.defs)
  have "usable_stats (telemetry_server [get_request ''/api/v1/mesh/stats''] (get_request ''/mesh/stats'')) \<noteq> None" by code_simp
  then obtain st where "usable_stats (telemetry_server ([] @ map get_request [''/api/v1/mesh/stats'']) (get_request ''/mesh/stats'')) = Some st" by auto
  moreover have "\<forall>f \<in> set (telemetry_replies telemetry_server [] [''/api/v1/mesh/stats'']). usable_stats f = None"
    by (simp add: telemetry_server_def get_request_def usable_stats_def)
  moreover have "telemetry_endpoints = [''/api/v1/mesh/stats''] @ ''/mesh/stats'' # [''/api/status'']" by (simp add: telemetry_endpoints_def)
  ultimately show ?thesis using telemetry_first_usable [OF s(1,2), of telemetry_server "''de''"] unfolding s(3) by fastforce
qed

end
