(* ===== verification/PortalStaticTexts.thy ===== *)
theory PortalStaticTexts
  imports JsWeb
begin

text \<open>
  The tables of \<^verbatim>\<open>src/portal/portal.js\<close>: the titles and descriptions of the pages (lines 10 to 101) and the German texts of the English texts that carry no
  translation key (lines 103 to 386), in the order of the source, as the UTF-8 bytes of their characters.
\<close>

section \<open>Tables\<close>

record page_meta =
  m_title :: string
  m_desc :: string

definition STATIC_TEXT_DE_1 :: "(string \<times> string) list" where
  "STATIC_TEXT_DE_1 =
   [(''Engineering Preview'', ''Engineering-Vorschau''),
    (''Legal'', ''Rechtliches''),
    (''Privacy'', ''Datenschutz''),
    (''Terms'', ''AGB''),
    (''Network Status'', ''Systemstatus''),
    (''Register / API Key'', ''Registrieren / API-Key''),
    (''Many graphics cards. One AI network.'', ''Viele Grafikkarten. Ein KI-Netzwerk.''),
    (''AI should not only run in huge data centers.'', ''KI soll nicht nur in riesigen Rechenzentren laufen.''),
    (''ComputeMesh connects idle graphics cards.'', ''ComputeMesh verbindet freie Grafikkarten.''),
    (''Try the playground'', ''Playground testen''),
    (''Offer hardware'', ''Hardware anbieten''),
    (''Unavailable'', (''Nicht verf'' @ [CHR 0xC3, CHR 0xBC] @ ''gbar'')),
    (''Clear Chat'', ''Chat leeren''),
    (''Configured third-party model via ComputeMesh'', (''Konfiguriertes Drittanbieter-Modell '' @ [CHR 0xC3, CHR 0xBC] @ ''ber ComputeMesh'')),
    (''View account/provider options'', ''Konto-/Provider-Optionen ansehen''),
    (''Readiness boundary:'', ''Reifegrenze:''),
    (''TTFT note:'', ''TTFT-Hinweis:''),
    (''Generated key:'', (''Generierter Schl'' @ [CHR 0xC3, CHR 0xBC] @ ''ssel:'')),
    (''Your API Key:'', ''Dein API-Key:''),
    (''Select deposit amount:'', (''Einzahlungsbetrag ausw'' @ [CHR 0xC3, CHR 0xA4] @ ''hlen:'')),
    ((''Proceed to configured Checkout '' @ [CHR 0xE2, CHR 0x86, CHR 0x92]), (''Weiter zum konfigurierten Checkout '' @ [CHR 0xE2, CHR 0x86, CHR 0x92])),
    (''Architecture'', ''Architektur''),
    (''API Integration'', ''API-Integration''),
    (''GitHub Repository'', ''GitHub-Repository''),
    (''Technical Docs'', ''Technische Docs''),
    (''Engineering Status'', ''Engineering-Status''),
    (''Measured Benchmarks'', ''Gemessene Benchmarks''),
    (''Terms of Service'', ''Nutzungsbedingungen''),
    (''Privacy Policy'', (''Datenschutzerkl'' @ [CHR 0xC3, CHR 0xA4] @ ''rung'')),
    (''Back to Home'', (''Zur'' @ [CHR 0xC3, CHR 0xBC] @ ''ck zur Startseite'')),
    (''Technical status:'', ''Technischer Status:''),
    (''Registering...'', (''Registrierung l'' @ [CHR 0xC3, CHR 0xA4] @ ''uft...'')),
    (''Enter your prompt here...'', ''Prompt hier eingeben...''),
    (''Germany (DE)'', ''Deutschland (DE)''),
    (''Austria (AT)'', ([CHR 0xC3, CHR 0x96] @ ''sterreich (AT)'')),
    (''Switzerland (CH)'', ''Schweiz (CH)''),
    (''France (FR)'', ''Frankreich (FR)''),
    (''Netherlands (NL)'', ''Niederlande (NL)''),
    (''Sweden (SE)'', ''Schweden (SE)''),
    (''Norway (NO)'', ''Norwegen (NO)''),
    (''Finland (FI)'', ''Finnland (FI)''),
    (''Denmark (DK)'', (''D'' @ [CHR 0xC3, CHR 0xA4] @ ''nemark (DK)'')),
    (''Poland (PL)'', ''Polen (PL)''),
    (''Italy (IT)'', ''Italien (IT)''),
    (''Spain (ES)'', ''Spanien (ES)''),
    (''Ireland (IE)'', ''Irland (IE)''),
    (''Belgium (BE)'', ''Belgien (BE)''),
    (([CHR 0xF0, CHR 0x9F, CHR 0x87, CHR 0xA9, CHR 0xF0, CHR 0x9F, CHR 0x87, CHR 0xAA] @ '' Germany (DE)''), ([CHR 0xF0, CHR 0x9F, CHR 0x87, CHR 0xA9, CHR 0xF0, CHR 0x9F, CHR 0x87, CHR 0xAA] @ '' Deutschland (DE)'')),
    (([CHR 0xF0, CHR 0x9F, CHR 0x87, CHR 0xA6, CHR 0xF0, CHR 0x9F, CHR 0x87, CHR 0xB9] @ '' Austria (AT)''), ([CHR 0xF0, CHR 0x9F, CHR 0x87, CHR 0xA6, CHR 0xF0, CHR 0x9F, CHR 0x87, CHR 0xB9] @ '' '' @ [CHR 0xC3, CHR 0x96] @ ''sterreich (AT)'')),
    (([CHR 0xF0, CHR 0x9F, CHR 0x87, CHR 0xA8, CHR 0xF0, CHR 0x9F, CHR 0x87, CHR 0xAD] @ '' Switzerland (CH)''), ([CHR 0xF0, CHR 0x9F, CHR 0x87, CHR 0xA8, CHR 0xF0, CHR 0x9F, CHR 0x87, CHR 0xAD] @ '' Schweiz (CH)'')),
    (([CHR 0xF0, CHR 0x9F, CHR 0x87, CHR 0xAB, CHR 0xF0, CHR 0x9F, CHR 0x87, CHR 0xB7] @ '' France (FR)''), ([CHR 0xF0, CHR 0x9F, CHR 0x87, CHR 0xAB, CHR 0xF0, CHR 0x9F, CHR 0x87, CHR 0xB7] @ '' Frankreich (FR)'')),
    (([CHR 0xF0, CHR 0x9F, CHR 0x87, CHR 0xB3, CHR 0xF0, CHR 0x9F, CHR 0x87, CHR 0xB1] @ '' Netherlands (NL)''), ([CHR 0xF0, CHR 0x9F, CHR 0x87, CHR 0xB3, CHR 0xF0, CHR 0x9F, CHR 0x87, CHR 0xB1] @ '' Niederlande (NL)'')),
    (([CHR 0xF0, CHR 0x9F, CHR 0x8C, CHR 0x8D] @ '' Other EU/EEA Country''), ([CHR 0xF0, CHR 0x9F, CHR 0x8C, CHR 0x8D] @ '' Anderes EU/EWR-Land'')),
    (''-- Nodes active'', ''-- Nodes aktiv''),
    (''Check current status'', (''Aktuellen Zustand pr'' @ [CHR 0xC3, CHR 0xBC] @ ''fen'')),
    (''Loading live model catalog...'', ''Der Live-Modellkatalog wird geladen...''),
    (''Loading live models...'', ''Live-Modelle werden geladen...''),
    (''Current operational status must be confirmed by the live API'', (''Aktueller Betriebszustand muss durch die Live-API best'' @ [CHR 0xC3, CHR 0xA4] @ ''tigt werden'')),
    (''Unverified'', (''Ungepr'' @ [CHR 0xC3, CHR 0xBC] @ ''ft'')),
    (''Proof pending'', ''Nachweis offen''),
    (''Subject to online verification'', (''Nur nach Online-Pr'' @ [CHR 0xC3, CHR 0xBC] @ ''fung'')),
    (''Legal Notice / Provider Identification'', ''Impressum / Anbieterkennzeichnung''),
    ((''Information pursuant to '' @ [CHR 0xC2, CHR 0xA7] @ '' 5 DDG. Information pursuant to the MStV applies additionally only insofar as the service contains journalistic-editorial offerings and the statutory requirements are met.''), (''Angaben nach '' @ [CHR 0xC2, CHR 0xA7] @ '' 5 DDG. Angaben nach dem MStV gelten zus'' @ [CHR 0xC3, CHR 0xA4] @ ''tzlich nur, soweit der Dienst journalistisch-redaktionelle Angebote enth'' @ [CHR 0xC3, CHR 0xA4] @ ''lt und die gesetzlichen Voraussetzungen erf'' @ [CHR 0xC3, CHR 0xBC] @ ''llt sind.'')),
    (''Service Provider'', ''Diensteanbieter''),
    (''Germany'', ''Deutschland''),
    (''Contact'', ''Kontakt''),
    (''Phone:'', ''Telefon:''),
    (''Register and VAT Information'', ''Register- und Umsatzsteuerangaben''),
    ((''VAT identification number pursuant to '' @ [CHR 0xC2, CHR 0xA7] @ '' 27a UStG: Available upon request.''), (''Umsatzsteuer-Identifikationsnummer gem'' @ [CHR 0xC3, CHR 0xA4, CHR 0xC3, CHR 0x9F] @ '' '' @ [CHR 0xC2, CHR 0xA7] @ '' 27a UStG: Auf Anfrage.'')),
    (''Responsibility for Own Content'', (''Verantwortlichkeit f'' @ [CHR 0xC3, CHR 0xBC] @ ''r eigene Inhalte'')),
    (''The service provider is responsible for its own content under general laws. Statutory liability privileges and obligations for third-party or user-generated content are governed by applicable law, in particular the Digital Services Act and the DDG. This legal notice does not establish any broader voluntary disclaimer of liability.'', (''Der Diensteanbieter ist f'' @ [CHR 0xC3, CHR 0xBC] @ ''r eigene Inhalte nach den allgemeinen Gesetzen verantwortlich. Gesetzliche Haftungsprivilegien und Pflichten f'' @ [CHR 0xC3, CHR 0xBC] @ ''r fremde bzw. nutzergenerierte Inhalte richten sich nach dem jeweils anwendbaren Recht, insbesondere dem Digital Services Act und dem DDG. Dieses Impressum begr'' @ [CHR 0xC3, CHR 0xBC] @ ''ndet keinen weitergehenden freiwilligen Haftungsausschluss.'')),
    (''External Links'', ''Externe Links''),
    (''Links may lead to offerings of independent third parties. The respective third-party provider is responsible for its offering. Any liability of the service provider is governed by statutory provisions; a blanket exclusion of mandatory statutory responsibility is not intended.'', (''Links k'' @ [CHR 0xC3, CHR 0xB6] @ ''nnen zu Angeboten unabh'' @ [CHR 0xC3, CHR 0xA4] @ ''ngiger Dritter f'' @ [CHR 0xC3, CHR 0xBC] @ ''hren. Der jeweilige Drittanbieter ist f'' @ [CHR 0xC3, CHR 0xBC] @ ''r sein Angebot verantwortlich. Eine Haftung des Diensteanbieters richtet sich nach den gesetzlichen Vorschriften; ein pauschaler Ausschluss zwingender gesetzlicher Verantwortlichkeit ist nicht beabsichtigt.'')),
    (''AI Outputs'', ''KI-Ausgaben''),
    (''ComputeMesh may facilitate technical access to AI/model outputs or orchestrate compute capacity. AI outputs can be incorrect, fabricated, incomplete, outdated, unlawful, or unsuitable for a specific purpose. Users must independently verify outputs. Contractual risk allocation and legally permissible limitations of liability are set out in the'', (''ComputeMesh kann den technischen Zugang zu KI-/Modellausgaben vermitteln oder Rechenleistung orchestrieren. KI-Ausgaben k'' @ [CHR 0xC3, CHR 0xB6] @ ''nnen falsch, erfunden, unvollst'' @ [CHR 0xC3, CHR 0xA4] @ ''ndig, veraltet, rechtswidrig oder f'' @ [CHR 0xC3, CHR 0xBC] @ ''r einen konkreten Zweck ungeeignet sein. Nutzer m'' @ [CHR 0xC3, CHR 0xBC] @ ''ssen Ausgaben eigenst'' @ [CHR 0xC3, CHR 0xA4] @ ''ndig pr'' @ [CHR 0xC3, CHR 0xBC] @ ''fen. Die vertragliche Risikoverteilung und die rechtlich zul'' @ [CHR 0xC3, CHR 0xA4] @ ''ssigen Haftungsbeschr'' @ [CHR 0xC3, CHR 0xA4] @ ''nkungen ergeben sich aus den'')),
    (''; mandatory statutory liability remains unaffected.'', (''; zwingende gesetzliche Haftung bleibt unber'' @ [CHR 0xC3, CHR 0xBC] @ ''hrt.'')),
    (''Copyright and Trademarks'', ''Urheberrecht und Kennzeichen''),
    (''Own content and software are subject to applicable copyright and license law. Open-source components are subject to their respective licenses. The designation ComputeMesh and other identifiers may not be used in a manner that suggests a non-existent business affiliation, authorization, or origin.'', (''Eigene Inhalte und Software unterliegen dem jeweils anwendbaren Urheber- und Lizenzrecht. Open-Source-Bestandteile unterliegen ihren jeweiligen Lizenzen. Die Bezeichnung ComputeMesh und sonstige Kennzeichen d'' @ [CHR 0xC3, CHR 0xBC] @ ''rfen nicht so verwendet werden, dass eine nicht bestehende gesch'' @ [CHR 0xC3, CHR 0xA4] @ ''ftliche Verbindung, Autorisierung oder Herkunft suggeriert wird.'')),
    (''Data Protection'', ''Datenschutz''),
    (''Information on the processing of personal data can be found in the'', ''Informationen zur Verarbeitung personenbezogener Daten stehen in der''),
    ((''Terms of Service '' @ [CHR 0xE2, CHR 0x80, CHR 0x94] @ '' Business Users''), (''Nutzungsbedingungen '' @ [CHR 0xE2, CHR 0x80, CHR 0x94] @ '' Gesch'' @ [CHR 0xC3, CHR 0xA4] @ ''ftskunden'')),
    ((''Effective: 27 August 2026 '' @ [CHR 0xC2, CHR 0xB7] @ '' Version 2.1 '' @ [CHR 0xC2, CHR 0xB7] @ '' Current contract text for portal account registration''), (''G'' @ [CHR 0xC3, CHR 0xBC] @ ''ltig ab: 27. August 2026 '' @ [CHR 0xC2, CHR 0xB7] @ '' Version 2.1 '' @ [CHR 0xC2, CHR 0xB7] @ '' Aktueller Vertragstext f'' @ [CHR 0xC3, CHR 0xBC] @ ''r die Portal-Kontoregistrierung'')),
    (''1. Operator, scope and B2B restriction'', (''1. Betreiber, Geltungsbereich und B2B-Beschr'' @ [CHR 0xC3, CHR 0xA4] @ ''nkung'')),
    ((html ''ComputeMesh is operated by Herbert Daniel Frede, trading as InetConnector.com (^Operator^). Commercial account registration, paid API services and provider participation are currently offered only to entrepreneurs/business users (Unternehmer), not consumers (Verbraucher). By registering, you confirm business-user status and authority to bind the represented entity.''), (html ''ComputeMesh wird von Herbert Daniel Frede, handelnd als InetConnector.com (^Betreiber^), betrieben. Kommerzielle Kontoregistrierung, kostenpflichtige API-Dienste und Provider-Teilnahme werden derzeit nur Unternehmern/Gesch'' @ [CHR 0xC3, CHR 0xA4] @ ''ftskunden, nicht Verbrauchern, angeboten. Mit der Registrierung best'' @ [CHR 0xC3, CHR 0xA4] @ ''tigst du deinen Gesch'' @ [CHR 0xC3, CHR 0xA4] @ ''ftskundenstatus und die Berechtigung, die vertretene Einheit zu binden.'')),
    (''2. Contract formation and versioned acceptance'', ''2. Vertragsschluss und versionierte Zustimmung''),
    (''Portal credentials are issued only after explicit electronic acceptance of these Terms, acknowledgement of the Privacy Policy and confirmation of business-user status. The Service records the accepted Terms version and acceptance timestamp with the account/API-key record. Version 2.1 is required by the current registration endpoint. Material changes to continuing paid terms will be handled in a legally sufficient manner.'', (''Portal-Zugangsdaten werden nur nach ausdr'' @ [CHR 0xC3, CHR 0xBC] @ ''cklicher elektronischer Annahme dieser Bedingungen, Kenntnisnahme der Datenschutzerkl'' @ [CHR 0xC3, CHR 0xA4] @ ''rung und Best'' @ [CHR 0xC3, CHR 0xA4] @ ''tigung des Gesch'' @ [CHR 0xC3, CHR 0xA4] @ ''ftskundenstatus ausgegeben. Der Dienst speichert die akzeptierte AGB-Version und den Zustimmungszeitpunkt beim Konto/API-Key-Datensatz. Version 2.1 ist f'' @ [CHR 0xC3, CHR 0xBC] @ ''r den aktuellen Registrierungsendpunkt erforderlich. Wesentliche '' @ [CHR 0xC3, CHR 0x84] @ ''nderungen fortlaufender kostenpflichtiger Bedingungen werden rechtlich ausreichend behandelt.'')),
    (''3. Nature of the Service and AI-output risk'', ''3. Art des Dienstes und Risiko von KI-Ausgaben''),
    (''ComputeMesh is an orchestration and compute-infrastructure layer. Inference can be performed by third-party software, models, runtime endpoints and independent compute providers. AI output is probabilistic and may be inaccurate, incomplete, fabricated (hallucinated), biased, offensive, insecure, obsolete, inconsistent or otherwise unsuitable. No output is warranted to be true, complete, lawful, unique, non-infringing, reproducible or fit for a particular purpose. The Service does not provide medical, legal, financial, tax, safety, engineering or other professional advice.'', (''ComputeMesh ist eine Orchestrierungs- und Compute-Infrastrukturschicht. Inferenz kann durch Drittanbieter-Software, Modelle, Runtime-Endpunkte und unabh'' @ [CHR 0xC3, CHR 0xA4] @ ''ngige Compute-Provider ausgef'' @ [CHR 0xC3, CHR 0xBC] @ ''hrt werden. KI-Ausgaben sind probabilistisch und k'' @ [CHR 0xC3, CHR 0xB6] @ ''nnen ungenau, unvollst'' @ [CHR 0xC3, CHR 0xA4] @ ''ndig, erfunden (halluziniert), voreingenommen, anst'' @ [CHR 0xC3, CHR 0xB6, CHR 0xC3, CHR 0x9F] @ ''ig, unsicher, veraltet, widerspr'' @ [CHR 0xC3, CHR 0xBC] @ ''chlich oder anderweitig ungeeignet sein. Es wird nicht zugesichert, dass Ausgaben wahr, vollst'' @ [CHR 0xC3, CHR 0xA4] @ ''ndig, rechtm'' @ [CHR 0xC3, CHR 0xA4, CHR 0xC3, CHR 0x9F] @ ''ig, einzigartig, nicht rechtsverletzend, reproduzierbar oder f'' @ [CHR 0xC3, CHR 0xBC] @ ''r einen bestimmten Zweck geeignet sind. Der Dienst erbringt keine medizinische, rechtliche, finanzielle, steuerliche, sicherheitsbezogene, technische oder sonstige fachliche Beratung.'')),
    (''4. Human verification and regulated use'', (''4. Menschliche Pr'' @ [CHR 0xC3, CHR 0xBC] @ ''fung und regulierte Nutzung'')),
    (''You are responsible for prompts, inputs, configuration, model selection, review, interpretation and downstream use. You must independently verify output before relying on it. Unverified output must not be the sole basis for decisions affecting life, health, physical safety, legal rights, credit, employment, education, essential services or similarly high-impact matters. Production-critical, regulated or safety-critical use requires appropriate legal/technical assessment and, where necessary, a separate written agreement. You remain responsible for your own duties under the EU AI Act, GDPR and sector-specific law; mandatory duties imposed directly on the Operator remain unaffected.'', (''Du bist verantwortlich f'' @ [CHR 0xC3, CHR 0xBC] @ ''r Prompts, Eingaben, Konfiguration, Modellauswahl, Pr'' @ [CHR 0xC3, CHR 0xBC] @ ''fung, Interpretation und nachgelagerte Nutzung. Du musst Ausgaben unabh'' @ [CHR 0xC3, CHR 0xA4] @ ''ngig pr'' @ [CHR 0xC3, CHR 0xBC] @ ''fen, bevor du dich darauf verl'' @ [CHR 0xC3, CHR 0xA4] @ ''sst. Ungepr'' @ [CHR 0xC3, CHR 0xBC] @ ''fte Ausgaben d'' @ [CHR 0xC3, CHR 0xBC] @ ''rfen nicht alleinige Grundlage f'' @ [CHR 0xC3, CHR 0xBC] @ ''r Entscheidungen sein, die Leben, Gesundheit, k'' @ [CHR 0xC3, CHR 0xB6] @ ''rperliche Sicherheit, Rechtspositionen, Kredit, Besch'' @ [CHR 0xC3, CHR 0xA4] @ ''ftigung, Bildung, wesentliche Dienste oder '' @ [CHR 0xC3, CHR 0xA4] @ ''hnlich weitreichende Angelegenheiten betreffen. Produktionskritische, regulierte oder sicherheitskritische Nutzung erfordert eine angemessene rechtliche/technische Bewertung und gegebenenfalls eine gesonderte schriftliche Vereinbarung. Du bleibst f'' @ [CHR 0xC3, CHR 0xBC] @ ''r deine eigenen Pflichten nach EU AI Act, DSGVO und sektorspezifischem Recht verantwortlich; zwingende Pflichten des Betreibers bleiben unber'' @ [CHR 0xC3, CHR 0xBC] @ ''hrt.'')),
    (''5. Availability, failures and distributed infrastructure'', (''5. Verf'' @ [CHR 0xC3, CHR 0xBC] @ ''gbarkeit, Ausf'' @ [CHR 0xC3, CHR 0xA4] @ ''lle und verteilte Infrastruktur'')),
    (''Unless an individually agreed written SLA states otherwise, there is no guarantee of uptime, latency, throughput, token rate, TTFT, model or hardware availability, capacity, successful completion, recovery, compatibility or uninterrupted operation. Jobs may fail, time out, be cancelled, retried, reassigned or produce no usable result. Provider machines, networks, drivers, GPUs, model runtimes, hosting, power, DNS, certificates and payment processors may fail or change. Preview, alpha, beta, research or experimental features may be changed or withdrawn.'', (''Soweit kein individuell vereinbartes schriftliches SLA etwas anderes regelt, gibt es keine Garantie f'' @ [CHR 0xC3, CHR 0xBC] @ ''r Uptime, Latenz, Durchsatz, Tokenrate, TTFT, Modell- oder Hardwareverf'' @ [CHR 0xC3, CHR 0xBC] @ ''gbarkeit, Kapazit'' @ [CHR 0xC3, CHR 0xA4] @ ''t, erfolgreichen Abschluss, Wiederherstellung, Kompatibilit'' @ [CHR 0xC3, CHR 0xA4] @ ''t oder unterbrechungsfreien Betrieb. Jobs k'' @ [CHR 0xC3, CHR 0xB6] @ ''nnen fehlschlagen, ablaufen, abgebrochen, wiederholt, neu zugewiesen werden oder kein nutzbares Ergebnis erzeugen. Provider-Maschinen, Netzwerke, Treiber, GPUs, Modell-Runtimes, Hosting, Stromversorgung, DNS, Zertifikate und Zahlungsdienstleister k'' @ [CHR 0xC3, CHR 0xB6] @ ''nnen ausfallen oder sich '' @ [CHR 0xC3, CHR 0xA4] @ ''ndern. Preview-, Alpha-, Beta-, Forschungs- oder experimentelle Funktionen k'' @ [CHR 0xC3, CHR 0xB6] @ ''nnen ge'' @ [CHR 0xC3, CHR 0xA4] @ ''ndert oder zur'' @ [CHR 0xC3, CHR 0xBC] @ ''ckgezogen werden.'')),
    (''6. Accounts, credentials and acceptable use'', (''6. Konten, Zugangsdaten und zul'' @ [CHR 0xC3, CHR 0xA4] @ ''ssige Nutzung'')),
    (''You must protect API/provider keys and systems under your control and report compromise. You may not bypass security, metering, rate limits, identity checks, attestations, fraud controls or capacity controls. Unlawful activity, malware, unauthorized access, rights infringement, deceptive impersonation, prohibited AI practices, illegal surveillance, sanctions/export-control evasion and processing without required rights or legal bases are prohibited. The Operator may suspend or refuse workloads for security, abuse, compliance, sanctions or non-payment reasons.'', (''Du musst API-/Provider-Keys und Systeme unter deiner Kontrolle sch'' @ [CHR 0xC3, CHR 0xBC] @ ''tzen und Kompromittierungen melden. Du darfst Sicherheit, Metering, Rate Limits, Identit'' @ [CHR 0xC3, CHR 0xA4] @ ''tspr'' @ [CHR 0xC3, CHR 0xBC] @ ''fungen, Attestierungen, Fraud-Kontrollen oder Kapazit'' @ [CHR 0xC3, CHR 0xA4] @ ''tskontrollen nicht umgehen. Rechtswidrige Aktivit'' @ [CHR 0xC3, CHR 0xA4] @ ''ten, Malware, unbefugter Zugriff, Rechtsverletzungen, t'' @ [CHR 0xC3, CHR 0xA4] @ ''uschende Identit'' @ [CHR 0xC3, CHR 0xA4] @ ''tsvort'' @ [CHR 0xC3, CHR 0xA4] @ ''uschung, verbotene KI-Praktiken, illegale '' @ [CHR 0xC3, CHR 0x9C] @ ''berwachung, Sanktions-/Exportkontrollumgehung und Verarbeitung ohne erforderliche Rechte oder Rechtsgrundlagen sind untersagt. Der Betreiber kann Workloads aus Sicherheits-, Missbrauchs-, Compliance-, Sanktions- oder Nichtzahlungsgr'' @ [CHR 0xC3, CHR 0xBC] @ ''nden aussetzen oder ablehnen.'')),
    (''7. Customer content, confidentiality and data processing'', ''7. Kundeninhalte, Vertraulichkeit und Datenverarbeitung''),
    (''You retain rights you hold in inputs and grant the Operator the limited rights necessary to transmit, process, route, meter, secure and troubleshoot inputs and outputs. Full prompts/messages may be transmitted to the configured inference runtime and, in distributed execution, workload data or derived execution data may be processed by participating compute resources. You warrant that you possess all necessary rights and lawful bases. Do not submit trade secrets, personal data, special-category data, professional secrets or other highly confidential data unless the deployment, contracts and safeguards are suitable. Where the Operator acts as processor for a business customer, a separate Art. 28 GDPR data-processing agreement may be required.'', (''Du beh'' @ [CHR 0xC3, CHR 0xA4] @ ''ltst Rechte an deinen Eingaben und r'' @ [CHR 0xC3, CHR 0xA4] @ ''umst dem Betreiber die beschr'' @ [CHR 0xC3, CHR 0xA4] @ ''nkten Rechte ein, die zur '' @ [CHR 0xC3, CHR 0x9C] @ ''bertragung, Verarbeitung, Weiterleitung, Messung, Sicherung und Fehlerbehebung von Eingaben und Ausgaben notwendig sind. Vollst'' @ [CHR 0xC3, CHR 0xA4] @ ''ndige Prompts/Nachrichten k'' @ [CHR 0xC3, CHR 0xB6] @ ''nnen an die konfigurierte Inferenz-Runtime '' @ [CHR 0xC3, CHR 0xBC] @ ''bertragen werden; bei verteilter Ausf'' @ [CHR 0xC3, CHR 0xBC] @ ''hrung k'' @ [CHR 0xC3, CHR 0xB6] @ ''nnen Workload-Daten oder abgeleitete Ausf'' @ [CHR 0xC3, CHR 0xBC] @ ''hrungsdaten durch teilnehmende Compute-Ressourcen verarbeitet werden. Du versicherst, '' @ [CHR 0xC3, CHR 0xBC] @ ''ber alle erforderlichen Rechte und Rechtsgrundlagen zu verf'' @ [CHR 0xC3, CHR 0xBC] @ ''gen. '' @ [CHR 0xC3, CHR 0x9C] @ ''bermittle keine Gesch'' @ [CHR 0xC3, CHR 0xA4] @ ''ftsgeheimnisse, personenbezogenen Daten, besonderen Kategorien personenbezogener Daten, Berufsgeheimnisse oder sonstigen hochvertraulichen Daten, sofern Deployment, Vertr'' @ [CHR 0xC3, CHR 0xA4] @ ''ge und Schutzma'' @ [CHR 0xC3, CHR 0x9F] @ ''nahmen nicht geeignet sind. Soweit der Betreiber als Auftragsverarbeiter f'' @ [CHR 0xC3, CHR 0xBC] @ ''r einen Gesch'' @ [CHR 0xC3, CHR 0xA4] @ ''ftskunden handelt, kann eine gesonderte Auftragsverarbeitungsvereinbarung nach Art. 28 DSGVO erforderlich sein.'')),
    (''8. Independent hardware providers'', (''8. Unabh'' @ [CHR 0xC3, CHR 0xA4] @ ''ngige Hardware-Provider'')),
    (''Providers are independent economic operators, not employees or agents. They are responsible for lawful hardware operation, energy, connectivity, taxes, licenses and security. They must not falsify identity, hardware, telemetry, benchmarks, availability, evidence or output, extract customer data, interfere with jobs or circumvent metering/verification. Provider eligibility, workload allocation and earnings are never guaranteed.'', (''Provider sind unabh'' @ [CHR 0xC3, CHR 0xA4] @ ''ngige wirtschaftliche Betreiber, keine Arbeitnehmer oder Vertreter. Sie sind verantwortlich f'' @ [CHR 0xC3, CHR 0xBC] @ ''r rechtm'' @ [CHR 0xC3, CHR 0xA4, CHR 0xC3, CHR 0x9F] @ ''igen Hardwarebetrieb, Energie, Konnektivit'' @ [CHR 0xC3, CHR 0xA4] @ ''t, Steuern, Lizenzen und Sicherheit. Sie d'' @ [CHR 0xC3, CHR 0xBC] @ ''rfen Identit'' @ [CHR 0xC3, CHR 0xA4] @ ''t, Hardware, Telemetrie, Benchmarks, Verf'' @ [CHR 0xC3, CHR 0xBC] @ ''gbarkeit, Evidenz oder Ausgaben nicht f'' @ [CHR 0xC3, CHR 0xA4] @ ''lschen, keine Kundendaten extrahieren, Jobs nicht st'' @ [CHR 0xC3, CHR 0xB6] @ ''ren und Metering/Verifikation nicht umgehen. Provider-Eignung, Workload-Zuweisung und Einnahmen werden niemals garantiert.'')),
    (''9. Provider balances and payouts'', ''9. Provider-Guthaben und Auszahlungen''),
    (''Provider payable balances arise only from jobs accepted by applicable metering, verification and settlement rules. A displayed balance is an accounting record, not a bank deposit, e-money account or investment. Payout can be delayed or withheld while fraud, duplicate execution, disputes, chargebacks, sanctions, KYC, payment-provider restrictions or reversals are investigated. Payout is subject to cleared customer funds, current thresholds, supported currency, configured payout services, provider eligibility and law. No minimum utilization, income or payout date is guaranteed.'', (''Auszahlbare Provider-Guthaben entstehen nur aus Jobs, die nach den geltenden Metering-, Verifikations- und Settlement-Regeln akzeptiert wurden. Ein angezeigtes Guthaben ist ein Buchhaltungsdatensatz, keine Bankeinlage, kein E-Geld-Konto und keine Anlage. Auszahlungen k'' @ [CHR 0xC3, CHR 0xB6] @ ''nnen verz'' @ [CHR 0xC3, CHR 0xB6] @ ''gert oder einbehalten werden, w'' @ [CHR 0xC3, CHR 0xA4] @ ''hrend Betrug, doppelte Ausf'' @ [CHR 0xC3, CHR 0xBC] @ ''hrung, Streitf'' @ [CHR 0xC3, CHR 0xA4] @ ''lle, R'' @ [CHR 0xC3, CHR 0xBC] @ ''ckbuchungen, Sanktionen, KYC, Zahlungsdienstleisterbeschr'' @ [CHR 0xC3, CHR 0xA4] @ ''nkungen oder R'' @ [CHR 0xC3, CHR 0xBC] @ ''ckabwicklungen untersucht werden. Auszahlung setzt freigegebene Kundengelder, aktuelle Schwellen, unterst'' @ [CHR 0xC3, CHR 0xBC] @ ''tzte W'' @ [CHR 0xC3, CHR 0xA4] @ ''hrung, konfigurierte Auszahlungsdienste, Provider-Eignung und Recht voraus. Mindestnutzung, Einkommen oder Auszahlungstermin werden nicht garantiert.'')),
    (''10. Free and promotional credits'', ''10. Kostenlose und Werbe-Credits''),
    (''Free, test, promotional or development credits, including registration credits, are non-cash service allocations. Unless expressly agreed otherwise, they are non-transferable, non-interest-bearing and not redeemable for cash. They may be limited, corrected or withdrawn if issued in error, abused, duplicated, required for security/compliance or when the relevant preview program ends. Promotional customer credits do not by themselves create provider cash-payout obligations.'', (''Kostenlose, Test-, Werbe- oder Entwicklungs-Credits einschlie'' @ [CHR 0xC3, CHR 0x9F] @ ''lich Registrierungs-Credits sind bargeldlose Dienstzuweisungen. Soweit nicht ausdr'' @ [CHR 0xC3, CHR 0xBC] @ ''cklich anders vereinbart, sind sie nicht '' @ [CHR 0xC3, CHR 0xBC] @ ''bertragbar, unverzinslich und nicht gegen Geld einl'' @ [CHR 0xC3, CHR 0xB6] @ ''sbar. Sie k'' @ [CHR 0xC3, CHR 0xB6] @ ''nnen beschr'' @ [CHR 0xC3, CHR 0xA4] @ ''nkt, korrigiert oder zur'' @ [CHR 0xC3, CHR 0xBC] @ ''ckgezogen werden, wenn sie irrt'' @ [CHR 0xC3, CHR 0xBC] @ ''mlich ausgegeben, missbraucht oder dupliziert wurden, aus Sicherheits-/Compliance-Gr'' @ [CHR 0xC3, CHR 0xBC] @ ''nden erforderlich ist oder das jeweilige Preview-Programm endet. Werbe-Credits von Kunden begr'' @ [CHR 0xC3, CHR 0xBC] @ ''nden f'' @ [CHR 0xC3, CHR 0xBC] @ ''r sich genommen keine Barauszahlungspflichten gegen'' @ [CHR 0xC3, CHR 0xBC] @ ''ber Providern.'')),
    (''11. Fees, Stripe and taxes'', ''11. Entgelte, Stripe und Steuern''),
    ((html ''Actual prices, platform fees, revenue shares and thresholds are those presented by the applicable live quote/order/checkout or individually agreed terms. Website calculators and research comparisons are not binding quotes or income guarantees. Payments may use Stripe Checkout and provider onboarding/payouts may use Stripe Connect, subject to Stripe`s KYC, fraud, sanctions, reserve, currency and eligibility rules. Each party remains responsible for its own tax obligations.''), (''Tats'' @ [CHR 0xC3, CHR 0xA4] @ ''chliche Preise, Plattformgeb'' @ [CHR 0xC3, CHR 0xBC] @ ''hren, Umsatzanteile und Schwellen sind diejenigen, die im jeweiligen Live-Angebot, Auftrag, Checkout oder in individuell vereinbarten Bedingungen dargestellt sind. Webseiten-Rechner und Forschungsvergleiche sind keine verbindlichen Angebote oder Einkommensgarantien. Zahlungen k'' @ [CHR 0xC3, CHR 0xB6] @ ''nnen Stripe Checkout und Provider-Onboarding/-Auszahlungen Stripe Connect nutzen, jeweils vorbehaltlich der KYC-, Betrugs-, Sanktions-, Reserve-, W'' @ [CHR 0xC3, CHR 0xA4] @ ''hrungs- und Eignungsregeln von Stripe. Jede Partei bleibt f'' @ [CHR 0xC3, CHR 0xBC] @ ''r ihre eigenen Steuerpflichten verantwortlich.'')),
    (''12. No warranties'', (''12. Keine Gew'' @ [CHR 0xC3, CHR 0xA4] @ ''hrleistungen'')),
    (''Except for individually agreed characteristics and to the maximum extent permitted by law, the Operator gives no warranty or guarantee concerning AI-output accuracy or quality, fitness for purpose, non-infringement, uninterrupted availability, economic results, security against every attack, provider conduct, third-party services or continuing compatibility with hardware, drivers, SDKs, models or upstream projects.'', (''Au'' @ [CHR 0xC3, CHR 0x9F] @ ''er f'' @ [CHR 0xC3, CHR 0xBC] @ ''r individuell vereinbarte Beschaffenheiten und im gesetzlich gr'' @ [CHR 0xC3, CHR 0xB6, CHR 0xC3, CHR 0x9F] @ ''tm'' @ [CHR 0xC3, CHR 0xB6] @ ''glichen Umfang '' @ [CHR 0xC3, CHR 0xBC] @ ''bernimmt der Betreiber keine Gew'' @ [CHR 0xC3, CHR 0xA4] @ ''hrleistung oder Garantie f'' @ [CHR 0xC3, CHR 0xBC] @ ''r Genauigkeit oder Qualit'' @ [CHR 0xC3, CHR 0xA4] @ ''t von KI-Ausgaben, Zweckgeeignetheit, Nichtverletzung von Rechten, unterbrechungsfreie Verf'' @ [CHR 0xC3, CHR 0xBC] @ ''gbarkeit, wirtschaftliche Ergebnisse, Sicherheit gegen jeden Angriff, Provider-Verhalten, Drittanbieterdienste oder fortlaufende Kompatibilit'' @ [CHR 0xC3, CHR 0xA4] @ ''t mit Hardware, Treibern, SDKs, Modellen oder Upstream-Projekten.'')),
    (''13. Limitation of liability'', (''13. Haftungsbeschr'' @ [CHR 0xC3, CHR 0xA4] @ ''nkung'')),
    (''Nothing excludes or limits liability where prohibited by law. Liability remains unlimited for intent, gross negligence, culpable injury to life/body/health, mandatory product-liability law, fraudulently concealed defects and expressly assumed guarantees.'', (''Nichts schlie'' @ [CHR 0xC3, CHR 0x9F] @ ''t oder beschr'' @ [CHR 0xC3, CHR 0xA4] @ ''nkt Haftung, soweit dies gesetzlich verboten ist. Unbeschr'' @ [CHR 0xC3, CHR 0xA4] @ ''nkte Haftung besteht f'' @ [CHR 0xC3, CHR 0xBC] @ ''r Vorsatz, grobe Fahrl'' @ [CHR 0xC3, CHR 0xA4] @ ''ssigkeit, schuldhafte Verletzung von Leben/K'' @ [CHR 0xC3, CHR 0xB6] @ ''rper/Gesundheit, zwingendes Produkthaftungsrecht, arglistig verschwiegene M'' @ [CHR 0xC3, CHR 0xA4] @ ''ngel und ausdr'' @ [CHR 0xC3, CHR 0xBC] @ ''cklich '' @ [CHR 0xC3, CHR 0xBC] @ ''bernommene Garantien.'')),
    (''For ordinary negligence, the Operator is liable only for breach of a material contractual obligation (Kardinalpflicht), and then only for foreseeable damage typical for this type of contract. To the extent legally permissible in B2B transactions, aggregate liability for ordinary negligence is limited to the net fees paid by the affected customer for the affected Service during the twelve months preceding the event.'', (''Bei einfacher Fahrl'' @ [CHR 0xC3, CHR 0xA4] @ ''ssigkeit haftet der Betreiber nur bei Verletzung einer wesentlichen Vertragspflicht (Kardinalpflicht), und dann nur f'' @ [CHR 0xC3, CHR 0xBC] @ ''r den vertragstypischen, vorhersehbaren Schaden. Soweit in B2B-Gesch'' @ [CHR 0xC3, CHR 0xA4] @ ''ften rechtlich zul'' @ [CHR 0xC3, CHR 0xA4] @ ''ssig, ist die Gesamthaftung f'' @ [CHR 0xC3, CHR 0xBC] @ ''r einfache Fahrl'' @ [CHR 0xC3, CHR 0xA4] @ ''ssigkeit auf die Nettoentgelte begrenzt, die der betroffene Kunde f'' @ [CHR 0xC3, CHR 0xBC] @ ''r den betroffenen Dienst in den zw'' @ [CHR 0xC3, CHR 0xB6] @ ''lf Monaten vor dem Ereignis gezahlt hat.'')),
    ((html ''Subject to those mandatory carve-outs, the Operator is not liable for indirect or consequential loss, lost profit, revenue, business opportunity, anticipated savings, goodwill or data, nor for losses caused by reliance on unverified AI output, customer prompts/configuration, independent-provider misconduct, third-party models/services, external networks, power failure, force majeure or unauthorized use outside the Operator`s reasonable control.''), (''Vorbehaltlich dieser zwingenden Ausnahmen haftet der Betreiber nicht f'' @ [CHR 0xC3, CHR 0xBC] @ ''r indirekte Sch'' @ [CHR 0xC3, CHR 0xA4] @ ''den oder Folgesch'' @ [CHR 0xC3, CHR 0xA4] @ ''den, entgangenen Gewinn, Umsatz, Gesch'' @ [CHR 0xC3, CHR 0xA4] @ ''ftschancen, erwartete Einsparungen, Goodwill oder Daten sowie nicht f'' @ [CHR 0xC3, CHR 0xBC] @ ''r Sch'' @ [CHR 0xC3, CHR 0xA4] @ ''den durch Vertrauen auf ungepr'' @ [CHR 0xC3, CHR 0xBC] @ ''fte KI-Ausgaben, Kundenprompts/-konfiguration, Fehlverhalten unabh'' @ [CHR 0xC3, CHR 0xA4] @ ''ngiger Provider, Drittanbieter-Modelle/-Dienste, externe Netzwerke, Stromausfall, h'' @ [CHR 0xC3, CHR 0xB6] @ ''here Gewalt oder unbefugte Nutzung au'' @ [CHR 0xC3, CHR 0x9F] @ ''erhalb zumutbarer Kontrolle des Betreibers.'')),
    (''14. Business-user indemnification'', (''14. Freistellung durch Gesch'' @ [CHR 0xC3, CHR 0xA4] @ ''ftskunden'')),
    ((html ''To the extent permitted by law, a business user shall indemnify the Operator against third-party claims and reasonable legal-defense costs arising from the user`s unlawful input/use, infringement of third-party rights, privacy/AI-regulatory violations attributable to the user, or deployment/publication of output, except to the extent caused by the Operator`s own legally attributable breach. Mandatory duties imposed directly on the Operator are not shifted by this clause.''), (''Soweit gesetzlich zul'' @ [CHR 0xC3, CHR 0xA4] @ ''ssig, stellt ein Gesch'' @ [CHR 0xC3, CHR 0xA4] @ ''ftskunde den Betreiber von Anspr'' @ [CHR 0xC3, CHR 0xBC] @ ''chen Dritter und angemessenen Rechtsverteidigungskosten frei, die aus rechtswidrigen Eingaben/Nutzungen des Nutzers, Verletzung von Rechten Dritter, dem Nutzer zurechenbaren Datenschutz-/KI-Regulierungsverst'' @ [CHR 0xC3, CHR 0xB6, CHR 0xC3, CHR 0x9F] @ ''en oder Deployment/Ver'' @ [CHR 0xC3, CHR 0xB6] @ ''ffentlichung von Ausgaben entstehen, au'' @ [CHR 0xC3, CHR 0x9F] @ ''er soweit sie durch eine dem Betreiber rechtlich zurechenbare Pflichtverletzung verursacht wurden. Dem Betreiber unmittelbar auferlegte zwingende Pflichten werden durch diese Klausel nicht verschoben.'')),
    (''15. Open source, suspension and changes'', (''15. Open Source, Sperrung und '' @ [CHR 0xC3, CHR 0x84] @ ''nderungen'')),
    (''Open-source components remain subject to their licenses. Public source availability grants no rights in private control-plane code, confidential data or trademarks beyond applicable licenses. The Operator may suspend access for security, abuse prevention, compliance, sanctions, maintenance or non-payment. Accrued rights and mandatory retention/accounting duties survive where applicable.'', (''Open-Source-Komponenten unterliegen weiterhin ihren jeweiligen Lizenzen. '' @ [CHR 0xC3, CHR 0x96] @ ''ffentliche Quellverf'' @ [CHR 0xC3, CHR 0xBC] @ ''gbarkeit gew'' @ [CHR 0xC3, CHR 0xA4] @ ''hrt '' @ [CHR 0xC3, CHR 0xBC] @ ''ber anwendbare Lizenzen hinaus keine Rechte an privatem Control-Plane-Code, vertraulichen Daten oder Marken. Der Betreiber kann Zugriff aus Sicherheits-, Missbrauchspr'' @ [CHR 0xC3, CHR 0xA4] @ ''ventions-, Compliance-, Sanktions-, Wartungs- oder Nichtzahlungsgr'' @ [CHR 0xC3, CHR 0xBC] @ ''nden aussetzen. Entstandene Rechte und zwingende Aufbewahrungs-/Buchhaltungspflichten bleiben, soweit anwendbar, bestehen.'')),
    (''16. Governing law, venue and severability'', ''16. Anwendbares Recht, Gerichtsstand und Salvatorisches''),
    ((html ''German law applies, excluding the CISG, to the extent legally effective. For merchants, legal persons under public law and special funds under public law, the Operator`s place of business is the agreed venue where permitted. Mandatory venues remain unaffected. Individually negotiated terms prevail over these Terms. If a provision is invalid, statutory rules apply in its place.''), (''Es gilt deutsches Recht unter Ausschluss des UN-Kaufrechts, soweit rechtlich wirksam. F'' @ [CHR 0xC3, CHR 0xBC] @ ''r Kaufleute, juristische Personen des '' @ [CHR 0xC3, CHR 0xB6] @ ''ffentlichen Rechts und '' @ [CHR 0xC3, CHR 0xB6] @ ''ffentlich-rechtliche Sonderverm'' @ [CHR 0xC3, CHR 0xB6] @ ''gen ist der Gesch'' @ [CHR 0xC3, CHR 0xA4] @ ''ftssitz des Betreibers der vereinbarte Gerichtsstand, soweit zul'' @ [CHR 0xC3, CHR 0xA4] @ ''ssig. Zwingende Gerichtsst'' @ [CHR 0xC3, CHR 0xA4] @ ''nde bleiben unber'' @ [CHR 0xC3, CHR 0xBC] @ ''hrt. Individuell ausgehandelte Bedingungen gehen diesen Bedingungen vor. Ist eine Bestimmung unwirksam, gelten an ihrer Stelle die gesetzlichen Regeln.'')),
    (''17. Evidence and contact'', ''17. Nachweise und Kontakt''),
    (''Electronic records of Terms version, acceptance time, account identifiers, payment/settlement records and security events may be retained to evidence contract formation, performance, abuse prevention and legal claims in accordance with the Privacy Policy and applicable law. Contact details are in the'', (''Elektronische Aufzeichnungen zu AGB-Version, Zustimmungszeitpunkt, Konto-Identifikatoren, Zahlungs-/Settlement-Datens'' @ [CHR 0xC3, CHR 0xA4] @ ''tzen und Sicherheitsereignissen k'' @ [CHR 0xC3, CHR 0xB6] @ ''nnen zum Nachweis von Vertragsschluss, Leistungserbringung, Missbrauchspr'' @ [CHR 0xC3, CHR 0xA4] @ ''vention und Rechtsanspr'' @ [CHR 0xC3, CHR 0xBC] @ ''chen gem'' @ [CHR 0xC3, CHR 0xA4, CHR 0xC3, CHR 0x9F] @ '' Datenschutzerkl'' @ [CHR 0xC3, CHR 0xA4] @ ''rung und anwendbarem Recht aufbewahrt werden. Kontaktdaten stehen im'')),
    (''; privacy information is in the'', ''; Datenschutzinformationen stehen in der''),
    (''Privacy Policy / Datenschutzhinweise'', (''Datenschutzerkl'' @ [CHR 0xC3, CHR 0xA4] @ ''rung'')),
    ((''Effective: 27 August 2026 '' @ [CHR 0xC2, CHR 0xB7] @ '' Version 2.1 '' @ [CHR 0xC2, CHR 0xB7] @ '' This notice must remain synchronized with the deployed system and processor contracts.''), (''G'' @ [CHR 0xC3, CHR 0xBC] @ ''ltig ab: 27. August 2026 '' @ [CHR 0xC2, CHR 0xB7] @ '' Version 2.1 '' @ [CHR 0xC2, CHR 0xB7] @ '' Diese Hinweise m'' @ [CHR 0xC3, CHR 0xBC] @ ''ssen mit dem deployten System und den Auftragsverarbeitervertr'' @ [CHR 0xC3, CHR 0xA4] @ ''gen synchron bleiben.'')),
    (''1. Controller'', ''1. Verantwortlicher''),
    ((''Controller (Verantwortlicher): Herbert Daniel Frede, InetConnector.com, Bismarckstra'' @ [CHR 0xC3, CHR 0x9F] @ ''e 6, 97209 Veitsh'' @ [CHR 0xC3, CHR 0xB6] @ ''chheim, Germany. Email: privacy@inetconnector.com. Further contact details are in the''), (''Verantwortlicher: Herbert Daniel Frede, InetConnector.com, Bismarckstra'' @ [CHR 0xC3, CHR 0x9F] @ ''e 6, 97209 Veitsh'' @ [CHR 0xC3, CHR 0xB6] @ ''chheim, Deutschland. E-Mail: privacy@inetconnector.com. Weitere Kontaktdaten stehen im'')),
    (''. This is the privacy contact address and is not represented as a formally appointed Data Protection Officer unless such an appointment is separately published.'', (''. Dies ist die Datenschutz-Kontaktadresse und wird nicht als f'' @ [CHR 0xC3, CHR 0xB6] @ ''rmlich bestellter Datenschutzbeauftragter dargestellt, sofern eine solche Bestellung nicht gesondert ver'' @ [CHR 0xC3, CHR 0xB6] @ ''ffentlicht wird.'')),
    (''2. Data categories actually used by the current codebase'', (''2. Vom aktuellen Codebestand tats'' @ [CHR 0xC3, CHR 0xA4] @ ''chlich genutzte Datenkategorien'')),
    (''Depending on use, ComputeMesh may process account/contact data such as email address; API/account identifiers and credential metadata; Terms/privacy acceptance version and timestamp; IP address and request/security metadata for rate limiting and abuse prevention; provider node identifiers, public cryptographic identifiers, hardware inventory, runtime/benchmark/availability telemetry and verification evidence; optional provider payout wallet metadata; billing, Stripe Checkout/Connect identifiers, webhook and settlement metadata; support communications; and prompts/messages plus generated responses to the extent required to perform inference.'', (''Je nach Nutzung kann ComputeMesh Konto-/Kontaktdaten wie E-Mail-Adresse, API-/Konto-Identifikatoren und Zugangsdaten-Metadaten, AGB-/Datenschutz-Zustimmungsversion und Zeitstempel, IP-Adresse und Anfrage-/Sicherheitsmetadaten f'' @ [CHR 0xC3, CHR 0xBC] @ ''r Rate-Limiting und Missbrauchspr'' @ [CHR 0xC3, CHR 0xA4] @ ''vention, Provider-Node-Identifikatoren, '' @ [CHR 0xC3, CHR 0xB6] @ ''ffentliche kryptografische Identifikatoren, Hardware-Inventar, Runtime-/Benchmark-/Verf'' @ [CHR 0xC3, CHR 0xBC] @ ''gbarkeitstelemetrie und Verifikationsevidenz, optionale Provider-Auszahlungswallet-Metadaten, Billing-, Stripe-Checkout/Connect-Identifikatoren, Webhook- und Settlement-Metadaten, Support-Kommunikation sowie Prompts/Nachrichten und generierte Antworten verarbeiten, soweit dies zur Durchf'' @ [CHR 0xC3, CHR 0xBC] @ ''hrung der Inferenz erforderlich ist.'')),
    (''3. Purposes and legal bases'', ''3. Zwecke und Rechtsgrundlagen''),
    (''Data is processed to provide/administer accounts and the Service, route and execute workloads, verify provider execution, meter/bill customers and settle providers, provide support, prevent abuse/fraud, secure the network, comply with legal/accounting obligations and establish or defend legal claims. Depending on the activity the legal basis is Art. 6(1)(b) GDPR, Art. 6(1)(c) GDPR, Art. 6(1)(f) GDPR or Art. 6(1)(a) GDPR where consent is actually required. Contract/privacy acknowledgement at registration is not used to convert processing that requires another legal basis into consent.'', (''Daten werden verarbeitet, um Konten und den Dienst bereitzustellen/zu verwalten, Workloads zu routen und auszuf'' @ [CHR 0xC3, CHR 0xBC] @ ''hren, Provider-Ausf'' @ [CHR 0xC3, CHR 0xBC] @ ''hrung zu verifizieren, Kunden zu messen/abzurechnen und Provider abzurechnen, Support zu leisten, Missbrauch/Betrug zu verhindern, das Netzwerk zu sichern, rechtliche/Buchhaltungspflichten zu erf'' @ [CHR 0xC3, CHR 0xBC] @ ''llen und Rechtsanspr'' @ [CHR 0xC3, CHR 0xBC] @ ''che zu begr'' @ [CHR 0xC3, CHR 0xBC] @ ''nden oder zu verteidigen. Je nach T'' @ [CHR 0xC3, CHR 0xA4] @ ''tigkeit ist Rechtsgrundlage Art. 6 Abs. 1 lit. b DSGVO, Art. 6 Abs. 1 lit. c DSGVO, Art. 6 Abs. 1 lit. f DSGVO oder Art. 6 Abs. 1 lit. a DSGVO, soweit Einwilligung tats'' @ [CHR 0xC3, CHR 0xA4] @ ''chlich erforderlich ist. Vertrags-/Datenschutzbest'' @ [CHR 0xC3, CHR 0xA4] @ ''tigung bei Registrierung wird nicht genutzt, um Verarbeitung, die eine andere Rechtsgrundlage ben'' @ [CHR 0xC3, CHR 0xB6] @ ''tigt, in Einwilligung umzudeuten.'')),
    (''4. Controller/processor roles and business-customer content'', (''4. Rollen als Verantwortlicher/Auftragsverarbeiter und Gesch'' @ [CHR 0xC3, CHR 0xA4] @ ''ftskundeninhalte'')),
    (''For account administration, billing, security and platform-operation data, the Operator may act as controller. Where ComputeMesh processes inference content solely on documented instructions of a business customer, the Operator may act as processor and an Art. 28 GDPR data-processing agreement (DPA/AVV) is required before production processing of personal data. Customers remain responsible for determining their own lawful basis and transparency duties. Subprocessors used for processor activities must be contractually bound consistently with Art. 28 GDPR.'', (''F'' @ [CHR 0xC3, CHR 0xBC] @ ''r Konto-Verwaltung, Abrechnung, Sicherheit und Plattformbetriebsdaten kann der Betreiber als Verantwortlicher handeln. Soweit ComputeMesh Inferenzinhalte ausschlie'' @ [CHR 0xC3, CHR 0x9F] @ ''lich nach dokumentierten Weisungen eines Gesch'' @ [CHR 0xC3, CHR 0xA4] @ ''ftskunden verarbeitet, kann der Betreiber als Auftragsverarbeiter handeln; vor produktiver Verarbeitung personenbezogener Daten ist eine Vereinbarung zur Auftragsverarbeitung nach Art. 28 DSGVO (DPA/AVV) erforderlich. Kunden bleiben f'' @ [CHR 0xC3, CHR 0xBC] @ ''r ihre eigene Rechtsgrundlage und Transparenzpflichten verantwortlich. Unterauftragsverarbeiter m'' @ [CHR 0xC3, CHR 0xBC] @ ''ssen f'' @ [CHR 0xC3, CHR 0xBC] @ ''r Auftragsverarbeitert'' @ [CHR 0xC3, CHR 0xA4] @ ''tigkeiten vertragsgem'' @ [CHR 0xC3, CHR 0xA4, CHR 0xC3, CHR 0x9F] @ '' nach Art. 28 DSGVO gebunden werden.'')),
    (''5. AI prompts and outputs'', ''5. KI-Prompts und Ausgaben''),
    ((html ''ComputeMesh is designed to minimize persistent storage of prompt/output content in the inference path, but it does not promise an absolute ^zero log^ condition. Full prompts/messages can be transmitted to the configured inference runtime and distributed compute resources required to perform the request. Metadata, evidence and error/security data may be retained. Content is not represented as being used for model training unless separately disclosed. Do not submit special-category data, professional secrets, credentials, trade secrets or other highly confidential data unless the deployment, DPA, access controls and legal basis are appropriate.''), (html ''ComputeMesh ist darauf ausgelegt, dauerhafte Speicherung von Prompt-/Output-Inhalten im Inferenzpfad zu minimieren, verspricht aber keinen absoluten ^Zero Log^-Zustand. Vollst'' @ [CHR 0xC3, CHR 0xA4] @ ''ndige Prompts/Nachrichten k'' @ [CHR 0xC3, CHR 0xB6] @ ''nnen an die konfigurierte Inferenz-Runtime und an verteilte Compute-Ressourcen '' @ [CHR 0xC3, CHR 0xBC] @ ''bertragen werden, die zur Ausf'' @ [CHR 0xC3, CHR 0xBC] @ ''hrung der Anfrage erforderlich sind. Metadaten, Evidenz sowie Fehler-/Sicherheitsdaten k'' @ [CHR 0xC3, CHR 0xB6] @ ''nnen aufbewahrt werden. Inhalte werden nicht als f'' @ [CHR 0xC3, CHR 0xBC] @ ''r Modelltraining verwendet dargestellt, sofern dies nicht gesondert offengelegt ist. '' @ [CHR 0xC3, CHR 0x9C] @ ''bermittle keine besonderen Kategorien personenbezogener Daten, Berufsgeheimnisse, Zugangsdaten, Gesch'' @ [CHR 0xC3, CHR 0xA4] @ ''ftsgeheimnisse oder sonstigen hochvertraulichen Daten, sofern Deployment, AVV, Zugriffskontrollen und Rechtsgrundlage nicht geeignet sind.'')),
    (''6. Distributed providers and recipients'', (''6. Verteilte Provider und Empf'' @ [CHR 0xC3, CHR 0xA4] @ ''nger'')),
    (''Where necessary, data may be processed by hosting/infrastructure providers, payment providers, support/communications providers, professional advisers and authorities where legally required. Distributed compute providers may technically process workload data required for assigned jobs. Provider access is intended to be restricted through identity, control-plane and evidence mechanisms, but no distributed system eliminates every confidentiality or security risk. Business customers must select an appropriate deployment and provider/data-residency policy for their use case.'', (''Soweit erforderlich, k'' @ [CHR 0xC3, CHR 0xB6] @ ''nnen Daten durch Hosting-/Infrastrukturprovider, Zahlungsdienstleister, Support-/Kommunikationsdienstleister, professionelle Berater und gesetzlich zust'' @ [CHR 0xC3, CHR 0xA4] @ ''ndige Beh'' @ [CHR 0xC3, CHR 0xB6] @ ''rden verarbeitet werden. Verteilte Compute-Provider k'' @ [CHR 0xC3, CHR 0xB6] @ ''nnen technisch Workload-Daten verarbeiten, die f'' @ [CHR 0xC3, CHR 0xBC] @ ''r zugewiesene Jobs erforderlich sind. Provider-Zugriff soll durch Identit'' @ [CHR 0xC3, CHR 0xA4] @ ''ts-, Control-Plane- und Evidenzmechanismen beschr'' @ [CHR 0xC3, CHR 0xA4] @ ''nkt werden, aber kein verteiltes System eliminiert jedes Vertraulichkeits- oder Sicherheitsrisiko. Gesch'' @ [CHR 0xC3, CHR 0xA4] @ ''ftskunden m'' @ [CHR 0xC3, CHR 0xBC] @ ''ssen ein f'' @ [CHR 0xC3, CHR 0xBC] @ ''r ihren Anwendungsfall geeignetes Deployment und eine passende Provider-/Datenresidenz-Richtlinie w'' @ [CHR 0xC3, CHR 0xA4] @ ''hlen.'')),
    (''7. Payments and Stripe'', ''7. Zahlungen und Stripe''),
    (''Customer payments may be processed through Stripe Checkout and provider onboarding/payouts through Stripe Connect where configured. ComputeMesh stores or reconciles identifiers and metadata such as checkout/session, customer, payment-intent, connected-account, webhook-event, transfer and settlement records. Hosted payment interfaces are intended to prevent ComputeMesh from receiving raw card credentials. Stripe may process payment, KYC, sanctions and anti-fraud data under its applicable roles and privacy information. Billing/accounting records are retained where required by tax, commercial or accounting law.'', (''Kundenzahlungen k'' @ [CHR 0xC3, CHR 0xB6] @ ''nnen, soweit konfiguriert, '' @ [CHR 0xC3, CHR 0xBC] @ ''ber Stripe Checkout und Provider-Onboarding/-Auszahlungen '' @ [CHR 0xC3, CHR 0xBC] @ ''ber Stripe Connect verarbeitet werden. ComputeMesh speichert oder gleicht Identifikatoren und Metadaten wie Checkout-/Session-, Customer-, Payment-Intent-, Connected-Account-, Webhook-Event-, Transfer- und Settlement-Datens'' @ [CHR 0xC3, CHR 0xA4] @ ''tze ab. Gehostete Zahlungsoberfl'' @ [CHR 0xC3, CHR 0xA4] @ ''chen sollen verhindern, dass ComputeMesh rohe Kartendaten erh'' @ [CHR 0xC3, CHR 0xA4] @ ''lt. Stripe kann Zahlungs-, KYC-, Sanktions- und Betrugspr'' @ [CHR 0xC3, CHR 0xA4] @ ''ventionsdaten gem'' @ [CHR 0xC3, CHR 0xA4, CHR 0xC3, CHR 0x9F] @ '' seinen jeweiligen Rollen und Datenschutzhinweisen verarbeiten. Abrechnungs-/Buchhaltungsdaten werden aufbewahrt, soweit Steuer-, Handels- oder Buchhaltungsrecht dies verlangt.'')),
    (''8. Provider identity, telemetry and payout data'', (''8. Provider-Identit'' @ [CHR 0xC3, CHR 0xA4] @ ''t, Telemetrie und Auszahlungsdaten'')),
    (''For hardware providers ComputeMesh may process node identity, public keys, IP/network metadata, hardware characteristics, runtime build information, benchmarks, availability/heartbeat telemetry, assigned-job and verification evidence, earnings, settlement status and payout destination metadata. Provider private keys are intended to remain on the provider device. Providers are responsible for safeguarding keys.'', (''F'' @ [CHR 0xC3, CHR 0xBC] @ ''r Hardware-Provider kann ComputeMesh Node-Identit'' @ [CHR 0xC3, CHR 0xA4] @ ''t, '' @ [CHR 0xC3, CHR 0xB6] @ ''ffentliche Schl'' @ [CHR 0xC3, CHR 0xBC] @ ''ssel, IP-/Netzwerkmetadaten, Hardwareeigenschaften, Runtime-Build-Informationen, Benchmarks, Verf'' @ [CHR 0xC3, CHR 0xBC] @ ''gbarkeits-/Heartbeat-Telemetrie, zugewiesene Jobs und Verifikationsevidenz, Einnahmen, Settlement-Status und Auszahlungsziel-Metadaten verarbeiten. Private Provider-Schl'' @ [CHR 0xC3, CHR 0xBC] @ ''ssel sollen auf dem Provider-Ger'' @ [CHR 0xC3, CHR 0xA4] @ ''t verbleiben. Provider sind f'' @ [CHR 0xC3, CHR 0xBC] @ ''r den Schutz ihrer Schl'' @ [CHR 0xC3, CHR 0xBC] @ ''ssel verantwortlich.'')),
    (''9. Browser storage, cookies and TDDDG'', ''9. Browser-Speicher, Cookies und TDDDG''),
    (''The current portal client stores the selected language preference in browser'', (''Der aktuelle Portal-Client speichert die ausgew'' @ [CHR 0xC3, CHR 0xA4] @ ''hlte Spracheinstellung im Browser'')),
    (''under'', ''unter'')]"

definition STATIC_TEXT_DE_2 :: "(string \<times> string) list" where
  "STATIC_TEXT_DE_2 =
   [((''This preference is used to provide the expressly requested language behavior and is treated as technically necessary functionality. The current audited portal does not require advertising or behavioral-tracking cookies for core operation. Non-essential analytics, advertising pixels, fingerprinting or comparable access to terminal-device information must not be enabled without a legally valid consent mechanism and updated disclosure where '' @ [CHR 0xC2, CHR 0xA7] @ '' 25 TDDDG or GDPR requires consent.''), (''Diese Einstellung wird verwendet, um das ausdr'' @ [CHR 0xC3, CHR 0xBC] @ ''cklich gew'' @ [CHR 0xC3, CHR 0xBC] @ ''nschte Sprachverhalten bereitzustellen, und wird als technisch notwendige Funktion behandelt. Das aktuell gepr'' @ [CHR 0xC3, CHR 0xBC] @ ''fte Portal ben'' @ [CHR 0xC3, CHR 0xB6] @ ''tigt f'' @ [CHR 0xC3, CHR 0xBC] @ ''r den Kernbetrieb keine Werbe- oder Verhaltens-Tracking-Cookies. Nicht notwendige Analytics, Werbepixel, Fingerprinting oder vergleichbarer Zugriff auf Endger'' @ [CHR 0xC3, CHR 0xA4] @ ''teinformationen d'' @ [CHR 0xC3, CHR 0xBC] @ ''rfen nicht ohne rechtlich g'' @ [CHR 0xC3, CHR 0xBC] @ ''ltigen Einwilligungsmechanismus und aktualisierte Hinweise aktiviert werden, soweit '' @ [CHR 0xC2, CHR 0xA7] @ '' 25 TDDDG oder DSGVO eine Einwilligung verlangen.'')),
    ((''. This preference is used to provide the expressly requested language behavior and is treated as technically necessary functionality. The current audited portal does not require advertising or behavioral-tracking cookies for core operation. Non-essential analytics, advertising pixels, fingerprinting or comparable access to terminal-device information must not be enabled without a legally valid consent mechanism and updated disclosure where '' @ [CHR 0xC2, CHR 0xA7] @ '' 25 TDDDG or GDPR requires consent.''), (''. Diese Einstellung wird verwendet, um das ausdr'' @ [CHR 0xC3, CHR 0xBC] @ ''cklich gew'' @ [CHR 0xC3, CHR 0xBC] @ ''nschte Sprachverhalten bereitzustellen, und wird als technisch notwendige Funktion behandelt. Das aktuell gepr'' @ [CHR 0xC3, CHR 0xBC] @ ''fte Portal ben'' @ [CHR 0xC3, CHR 0xB6] @ ''tigt f'' @ [CHR 0xC3, CHR 0xBC] @ ''r den Kernbetrieb keine Werbe- oder Verhaltens-Tracking-Cookies. Nicht notwendige Analytics, Werbepixel, Fingerprinting oder vergleichbarer Zugriff auf Endger'' @ [CHR 0xC3, CHR 0xA4] @ ''teinformationen d'' @ [CHR 0xC3, CHR 0xBC] @ ''rfen nicht ohne rechtlich g'' @ [CHR 0xC3, CHR 0xBC] @ ''ltigen Einwilligungsmechanismus und aktualisierte Hinweise aktiviert werden, soweit '' @ [CHR 0xC2, CHR 0xA7] @ '' 25 TDDDG oder DSGVO eine Einwilligung verlangen.'')),
    (''10. Server/security logs and IP addresses'', ''10. Server-/Sicherheitslogs und IP-Adressen''),
    (''IP addresses and request/security information may be processed for rate limiting, security, troubleshooting, abuse/fraud prevention and legal defense. Application-level logging may differ by deployed reverse proxy, hosting environment and security tooling. No blanket promise is made that every infrastructure component is log-free. Production operators must document actual log sources and configure proportionate retention.'', (''IP-Adressen und Anfrage-/Sicherheitsinformationen k'' @ [CHR 0xC3, CHR 0xB6] @ ''nnen f'' @ [CHR 0xC3, CHR 0xBC] @ ''r Rate-Limiting, Sicherheit, Fehlerbehebung, Missbrauchs-/Betrugspr'' @ [CHR 0xC3, CHR 0xA4] @ ''vention und Rechtsverteidigung verarbeitet werden. Application-Level-Logging kann je nach deploytem Reverse Proxy, Hosting-Umgebung und Security-Tooling abweichen. Es wird nicht pauschal zugesagt, dass jede Infrastrukturkomponente logfrei ist. Produktionsbetreiber m'' @ [CHR 0xC3, CHR 0xBC] @ ''ssen tats'' @ [CHR 0xC3, CHR 0xA4] @ ''chliche Logquellen dokumentieren und verh'' @ [CHR 0xC3, CHR 0xA4] @ ''ltnism'' @ [CHR 0xC3, CHR 0xA4, CHR 0xC3, CHR 0x9F] @ ''ige Aufbewahrung konfigurieren.'')),
    (''11. Retention and deletion'', (''11. Aufbewahrung und L'' @ [CHR 0xC3, CHR 0xB6] @ ''schung'')),
    (''Personal data is retained only as long as necessary for the relevant purpose and thereafter only where statutory retention or legal-claim requirements apply. Account and Terms-acceptance evidence may be retained for the contractual relationship and applicable limitation periods; billing/accounting and payment records for statutory commercial/tax periods; security/rate-limit data for a proportionate operational/security period; provider telemetry/evidence for verification, fraud handling and settlement; support/legal records as necessary. Production deployments must maintain a documented retention schedule and deletion process; legal holds override routine deletion only to the extent necessary.'', (''Personenbezogene Daten werden nur so lange aufbewahrt, wie es f'' @ [CHR 0xC3, CHR 0xBC] @ ''r den jeweiligen Zweck erforderlich ist, und danach nur, soweit gesetzliche Aufbewahrungs- oder Rechtsanspruchserfordernisse gelten. Konto- und AGB-Zustimmungsnachweise k'' @ [CHR 0xC3, CHR 0xB6] @ ''nnen f'' @ [CHR 0xC3, CHR 0xBC] @ ''r die Vertragsbeziehung und anwendbare Verj'' @ [CHR 0xC3, CHR 0xA4] @ ''hrungsfristen aufbewahrt werden; Abrechnungs-/Buchhaltungs- und Zahlungsdaten f'' @ [CHR 0xC3, CHR 0xBC] @ ''r gesetzliche handels-/steuerrechtliche Fristen; Sicherheits-/Rate-Limit-Daten f'' @ [CHR 0xC3, CHR 0xBC] @ ''r einen verh'' @ [CHR 0xC3, CHR 0xA4] @ ''ltnism'' @ [CHR 0xC3, CHR 0xA4, CHR 0xC3, CHR 0x9F] @ ''igen Betriebs-/Sicherheitszeitraum; Provider-Telemetrie/Evidenz f'' @ [CHR 0xC3, CHR 0xBC] @ ''r Verifikation, Betrugsbearbeitung und Settlement; Support-/Rechtsunterlagen soweit erforderlich. Produktionsdeployments m'' @ [CHR 0xC3, CHR 0xBC] @ ''ssen einen dokumentierten Aufbewahrungsplan und L'' @ [CHR 0xC3, CHR 0xB6] @ ''schprozess pflegen; Legal Holds '' @ [CHR 0xC3, CHR 0xBC] @ ''bersteuern Routinel'' @ [CHR 0xC3, CHR 0xB6] @ ''schung nur soweit erforderlich.'')),
    (''12. International transfers'', (''12. Internationale '' @ [CHR 0xC3, CHR 0x9C] @ ''bermittlungen'')),
    (''Some processors or subprocessors may process data outside the EEA. Where Chapter V GDPR applies, transfers must rely on a valid adequacy decision, approved Standard Contractual Clauses or another lawful mechanism, supplemented by additional safeguards where required. The actual production subprocessor list and transfer mechanism must be maintained and made available as legally required.'', (''Einige Auftragsverarbeiter oder Unterauftragsverarbeiter k'' @ [CHR 0xC3, CHR 0xB6] @ ''nnen Daten au'' @ [CHR 0xC3, CHR 0x9F] @ ''erhalb des EWR verarbeiten. Soweit Kapitel V DSGVO gilt, m'' @ [CHR 0xC3, CHR 0xBC] @ ''ssen '' @ [CHR 0xC3, CHR 0x9C] @ ''bermittlungen auf einem g'' @ [CHR 0xC3, CHR 0xBC] @ ''ltigen Angemessenheitsbeschluss, genehmigten Standardvertragsklauseln oder einem anderen rechtm'' @ [CHR 0xC3, CHR 0xA4, CHR 0xC3, CHR 0x9F] @ ''igen Mechanismus beruhen, erg'' @ [CHR 0xC3, CHR 0xA4] @ ''nzt durch zus'' @ [CHR 0xC3, CHR 0xA4] @ ''tzliche Schutzma'' @ [CHR 0xC3, CHR 0x9F] @ ''nahmen, soweit erforderlich. Die tats'' @ [CHR 0xC3, CHR 0xA4] @ ''chliche Produktionsliste der Unterauftragsverarbeiter und der '' @ [CHR 0xC3, CHR 0x9C] @ ''bermittlungsmechanismus m'' @ [CHR 0xC3, CHR 0xBC] @ ''ssen gepflegt und rechtlich erforderlich bereitgestellt werden.'')),
    (''13. Security measures'', (''13. Sicherheitsma'' @ [CHR 0xC3, CHR 0x9F] @ ''nahmen'')),
    (''ComputeMesh uses or is designed to use measures appropriate to risk, including authenticated transport, access control, cryptographic identities, encryption for selected sensitive metadata, key isolation, rate limiting, network restrictions, audit/evidence records, backup/recovery controls and security testing. No Internet or distributed-compute system is completely secure. The Operator and processors must maintain, review and test technical and organizational measures consistent with Art. 32 GDPR.'', (''ComputeMesh nutzt oder ist darauf ausgelegt, risikogerechte Ma'' @ [CHR 0xC3, CHR 0x9F] @ ''nahmen einzusetzen, darunter authentifizierter Transport, Zugriffskontrolle, kryptografische Identit'' @ [CHR 0xC3, CHR 0xA4] @ ''ten, Verschl'' @ [CHR 0xC3, CHR 0xBC] @ ''sselung ausgew'' @ [CHR 0xC3, CHR 0xA4] @ ''hlter sensibler Metadaten, Schl'' @ [CHR 0xC3, CHR 0xBC] @ ''sselisolierung, Rate Limiting, Netzwerkbeschr'' @ [CHR 0xC3, CHR 0xA4] @ ''nkungen, Audit-/Evidenzaufzeichnungen, Backup-/Recovery-Kontrollen und Sicherheitstests. Kein Internet- oder Distributed-Compute-System ist vollst'' @ [CHR 0xC3, CHR 0xA4] @ ''ndig sicher. Betreiber und Auftragsverarbeiter m'' @ [CHR 0xC3, CHR 0xBC] @ ''ssen technische und organisatorische Ma'' @ [CHR 0xC3, CHR 0x9F] @ ''nahmen gem'' @ [CHR 0xC3, CHR 0xA4, CHR 0xC3, CHR 0x9F] @ '' Art. 32 DSGVO pflegen, pr'' @ [CHR 0xC3, CHR 0xBC] @ ''fen und testen.'')),
    (''14. Data-subject rights'', ''14. Betroffenenrechte''),
    (''Subject to statutory requirements, individuals may have rights of access (Art. 15), rectification (Art. 16), erasure (Art. 17), restriction (Art. 18), data portability (Art. 20), objection (Art. 21) and withdrawal of consent with future effect (Art. 7(3)). Requests may be sent to privacy@inetconnector.com. Identity verification may be required where necessary. You also have the right to lodge a complaint with the competent data-protection supervisory authority.'', (''Vorbehaltlich gesetzlicher Voraussetzungen k'' @ [CHR 0xC3, CHR 0xB6] @ ''nnen Personen Rechte auf Auskunft (Art. 15), Berichtigung (Art. 16), L'' @ [CHR 0xC3, CHR 0xB6] @ ''schung (Art. 17), Einschr'' @ [CHR 0xC3, CHR 0xA4] @ ''nkung (Art. 18), Daten'' @ [CHR 0xC3, CHR 0xBC] @ ''bertragbarkeit (Art. 20), Widerspruch (Art. 21) und Widerruf einer Einwilligung mit Wirkung f'' @ [CHR 0xC3, CHR 0xBC] @ ''r die Zukunft (Art. 7 Abs. 3) haben. Anfragen k'' @ [CHR 0xC3, CHR 0xB6] @ ''nnen an privacy@inetconnector.com gesendet werden. Eine Identit'' @ [CHR 0xC3, CHR 0xA4] @ ''tspr'' @ [CHR 0xC3, CHR 0xBC] @ ''fung kann, soweit erforderlich, verlangt werden. Au'' @ [CHR 0xC3, CHR 0x9F] @ ''erdem besteht das Recht, Beschwerde bei der zust'' @ [CHR 0xC3, CHR 0xA4] @ ''ndigen Datenschutzaufsichtsbeh'' @ [CHR 0xC3, CHR 0xB6] @ ''rde einzulegen.'')),
    (''15. Automated decision-making'', ''15. Automatisierte Entscheidungsfindung''),
    (''Inference produces automated AI output. The Operator does not intend its own account administration to make solely automated decisions producing legal or similarly significant effects within Art. 22 GDPR unless separately disclosed and lawfully implemented. Customers using ComputeMesh output in their own decision systems must assess their own GDPR and AI Act obligations.'', (''Inferenz erzeugt automatisierte KI-Ausgaben. Der Betreiber beabsichtigt nicht, in der eigenen Kontoverwaltung ausschlie'' @ [CHR 0xC3, CHR 0x9F] @ ''lich automatisierte Entscheidungen mit rechtlicher oder '' @ [CHR 0xC3, CHR 0xA4] @ ''hnlich erheblicher Wirkung im Sinne von Art. 22 DSGVO zu treffen, sofern dies nicht gesondert offengelegt und rechtm'' @ [CHR 0xC3, CHR 0xA4, CHR 0xC3, CHR 0x9F] @ ''ig implementiert wird. Kunden, die ComputeMesh-Ausgaben in eigenen Entscheidungssystemen nutzen, m'' @ [CHR 0xC3, CHR 0xBC] @ ''ssen ihre eigenen DSGVO- und AI-Act-Pflichten pr'' @ [CHR 0xC3, CHR 0xBC] @ ''fen.'')),
    (''16. Accountability and records'', ''16. Rechenschaftspflicht und Dokumentation''),
    (''Before commercial production processing of personal data, the Operator must keep the applicable record of processing activities, processor/subprocessor register, DPAs, transfer safeguards, retention schedule, incident/breach procedures and technical-organizational-measures documentation aligned with the deployed system. A data-protection impact assessment must be performed where Art. 35 GDPR requires one because processing is likely to result in a high risk to individuals.'', (''Vor kommerzieller produktiver Verarbeitung personenbezogener Daten muss der Betreiber Verzeichnis von Verarbeitungst'' @ [CHR 0xC3, CHR 0xA4] @ ''tigkeiten, Auftragsverarbeiter-/Unterauftragsverarbeiterregister, AVVs, '' @ [CHR 0xC3, CHR 0x9C] @ ''bermittlungsschutzma'' @ [CHR 0xC3, CHR 0x9F] @ ''nahmen, Aufbewahrungsplan, Incident-/Breach-Prozesse und Dokumentation technischer und organisatorischer Ma'' @ [CHR 0xC3, CHR 0x9F] @ ''nahmen mit dem deployten System abgleichen und pflegen. Eine Datenschutz-Folgenabsch'' @ [CHR 0xC3, CHR 0xA4] @ ''tzung ist durchzuf'' @ [CHR 0xC3, CHR 0xBC] @ ''hren, soweit Art. 35 DSGVO sie verlangt, weil die Verarbeitung voraussichtlich ein hohes Risiko f'' @ [CHR 0xC3, CHR 0xBC] @ ''r Personen zur Folge hat.'')),
    (''17. Changes'', (''17. '' @ [CHR 0xC3, CHR 0x84] @ ''nderungen'')),
    (''This notice may be updated when processing, law, providers or architecture changes. Material changes will be published appropriately. The deployed code/configuration, processing records, contracts and this notice must be reviewed together after material changes.'', (''Diese Hinweise k'' @ [CHR 0xC3, CHR 0xB6] @ ''nnen aktualisiert werden, wenn sich Verarbeitung, Recht, Provider oder Architektur '' @ [CHR 0xC3, CHR 0xA4] @ ''ndern. Wesentliche '' @ [CHR 0xC3, CHR 0x84] @ ''nderungen werden angemessen ver'' @ [CHR 0xC3, CHR 0xB6] @ ''ffentlicht. Deployter Code/Konfiguration, Verarbeitungsdokumentation, Vertr'' @ [CHR 0xC3, CHR 0xA4] @ ''ge und diese Hinweise m'' @ [CHR 0xC3, CHR 0xBC] @ ''ssen nach wesentlichen '' @ [CHR 0xC3, CHR 0x84] @ ''nderungen gemeinsam gepr'' @ [CHR 0xC3, CHR 0xBC] @ ''ft werden.'')),
    (''Select project'', (''Projekt ausw'' @ [CHR 0xC3, CHR 0xA4] @ ''hlen'')),
    (''New Chat / Task'', ''Neuer Chat / Aufgabe''),
    (''Local Workspaces (mifcoms)'', ''Lokale Workspaces (mifcoms)''),
    (''+ Add'', (''+ Hinzuf'' @ [CHR 0xC3, CHR 0xBC] @ ''gen'')),
    (''Loading workspaces from mifcoms...'', ''Lade Workspaces von mifcoms...''),
    (''No sessions'', ''Keine Sitzungen''),
    ((''Connected '' @ [CHR 0xE2, CHR 0x80, CHR 0xA2] @ '' Ready''), (''Verbunden '' @ [CHR 0xE2, CHR 0x80, CHR 0xA2] @ '' Bereit'')),
    (''New Chat'', ''Neuer Chat''),
    (''Rename session'', ''Sitzung umbenennen''),
    (''Delete session'', (''Sitzung l'' @ [CHR 0xC3, CHR 0xB6] @ ''schen'')),
    (([CHR 0xE2, CHR 0x9A, CHR 0xA1] @ '' ComputeMesh Codex Remote Control''), ([CHR 0xE2, CHR 0x9A, CHR 0xA1] @ '' ComputeMesh Codex Fernsteuerung'')),
    (''Work with Codex on mifcoms'', ''Mit Codex auf mifcoms arbeiten''),
    (''Connected to'', ''Verbunden mit''),
    (''. Select a local project from the sidebar or start a task directly.'', (''. W'' @ [CHR 0xC3, CHR 0xA4] @ ''hle ein lokales Projekt aus der Seitenleiste oder starte direkt eine Aufgabe.'')),
    (([CHR 0xF0, CHR 0x9F, CHR 0x93, CHR 0x8A] @ '' Check Git status''), ([CHR 0xF0, CHR 0x9F, CHR 0x93, CHR 0x8A] @ '' Git-Status pr'' @ [CHR 0xC3, CHR 0xBC] @ ''fen'')),
    (([CHR 0xF0, CHR 0x9F, CHR 0xA7, CHR 0xAA] @ '' Run local tests''), ([CHR 0xF0, CHR 0x9F, CHR 0xA7, CHR 0xAA] @ '' Lokale Tests ausf'' @ [CHR 0xC3, CHR 0xBC] @ ''hren'')),
    (([CHR 0xF0, CHR 0x9F, CHR 0x94, CHR 0x8D] @ '' Analyze code''), ([CHR 0xF0, CHR 0x9F, CHR 0x94, CHR 0x8D] @ '' Code analysieren'')),
    (''Approve for me'', (''F'' @ [CHR 0xC3, CHR 0xBC] @ ''r mich genehmigen'')),
    (([CHR 0xF0, CHR 0x9F, CHR 0x9B, CHR 0xA1, CHR 0xEF, CHR 0xB8, CHR 0x8F] @ '' Approve for me (Interactive)''), ([CHR 0xF0, CHR 0x9F, CHR 0x9B, CHR 0xA1, CHR 0xEF, CHR 0xB8, CHR 0x8F] @ '' F'' @ [CHR 0xC3, CHR 0xBC] @ ''r mich genehmigen (Interaktiv)'')),
    (([CHR 0xE2, CHR 0x9A, CHR 0xA1] @ '' Run automatically (Autonomous)''), ([CHR 0xE2, CHR 0x9A, CHR 0xA1] @ '' Automatisch ausf'' @ [CHR 0xC3, CHR 0xBC] @ ''hren (Autonom)'')),
    (([CHR 0xF0, CHR 0x9F, CHR 0x94, CHR 0x92] @ '' Read-only access (Read-Only)''), ([CHR 0xF0, CHR 0x9F, CHR 0x94, CHR 0x92] @ '' Nur Lesezugriff (Read-Only)'')),
    (''No project selected'', (''Kein Projekt gew'' @ [CHR 0xC3, CHR 0xA4] @ ''hlt'')),
    (''View changes'', ([CHR 0xC3, CHR 0x84] @ ''nderungen anzeigen'')),
    (''Inference Hardware'', ''Inferenz-Hardware''),
    (''Create / register local project on mifcoms'', ''Lokales Projekt auf mifcoms anlegen / registrieren''),
    (''Create & register project'', ''Projekt anlegen & registrieren''),
    (''Cancel'', ''Abbrechen''),
    (''Close'', (''Schlie'' @ [CHR 0xC3, CHR 0x9F] @ ''en'')),
    (''Project Changes & Git Diffs'', (''Projekt-'' @ [CHR 0xC3, CHR 0x84] @ ''nderungen & Git Diffs'')),
    (''No pending changes for the active session.'', (''Keine ausstehenden '' @ [CHR 0xC3, CHR 0x84] @ ''nderungen f'' @ [CHR 0xC3, CHR 0xBC] @ ''r die aktive Sitzung vorhanden.'')),
    (''Project Details'', ''Projekt-Details''),
    (([CHR 0xE2, CHR 0x9A, CHR 0xA0, CHR 0xEF, CHR 0xB8, CHR 0x8F] @ '' Delete physical directory''), ([CHR 0xE2, CHR 0x9A, CHR 0xA0, CHR 0xEF, CHR 0xB8, CHR 0x8F] @ '' Physisches Verzeichnis l'' @ [CHR 0xC3, CHR 0xB6] @ ''schen'')),
    (''WARNING: This action permanently deletes the folder and all files inside it from disk!'', (''ACHTUNG: Dieser Vorgang l'' @ [CHR 0xC3, CHR 0xB6] @ ''scht den Ordner und alle darin enthaltenen Dateien unwiderruflich von der Festplatte!'')),
    (''To confirm, please type the exact name of the project:'', (''Zur Best'' @ [CHR 0xC3, CHR 0xA4] @ ''tigung tippe bitte den exakten Namen des Projekts ein:'')),
    (''Permanently delete'', (''Unwiderruflich l'' @ [CHR 0xC3, CHR 0xB6] @ ''schen'')),
    (''Search project...'', ''Projekt suchen...''),
    (''Enter exact project name'', ''Exakten Projektnamen eingeben''),
    (([CHR 0xE2, CHR 0x9C, CHR 0x85] @ '' Enable all''), ([CHR 0xE2, CHR 0x9C, CHR 0x85] @ '' Alle aktivieren'')),
    (([CHR 0xE2, CHR 0x9D, CHR 0x8C] @ '' Disable all''), ([CHR 0xE2, CHR 0x9D, CHR 0x8C] @ '' Alle deaktivieren'')),
    (''Saved per fleet'', ''Gespeichert pro Flotte''),
    (''Enter a project name or absolute path. If the directory does not exist yet, the project folder will be automatically created locally on your machine in'', ''Gib einen Projektnamen oder absoluten Pfad ein. Wenn das Verzeichnis noch nicht existiert, wird der Projektordner automatisch lokal auf deinem Rechner in''),
    (''physically created, initialized with README.md and Git.'', ''physisch angelegt, mit README.md und Git initialisiert.''),
    (''All inference pipelines, API keys, provider node heartbeats and tunnels of this fleet are blocked (HTTP 403 Forbidden). For clarification and unblocking, please contact'', (''Alle Inferenz-Pipelines, API-Keys, Provider-Node-Heartbeats und Tunnel dieser Flotte sind blockiert (HTTP 403 Forbidden). Zur Kl'' @ [CHR 0xC3, CHR 0xA4] @ ''rung und Freigabe wende dich bitte an'')),
    (''75% of all inference fees'', (''75% aller Inferenzgeb'' @ [CHR 0xC3, CHR 0xBC] @ ''hren'')),
    ('', executed on your provided GPU servers. Payouts are transferred automatically or on demand via Stripe Express securely directly to your bank account.'', ('', die auf deinen bereitgestellten GPU-Servern ausgef'' @ [CHR 0xC3, CHR 0xBC] @ ''hrt werden. Auszahlungen werden automatisch oder auf Knopfdruck '' @ [CHR 0xC3, CHR 0xBC] @ ''ber Stripe Express sicher direkt auf dein Bankkonto '' @ [CHR 0xC3, CHR 0xBC] @ ''berwiesen.'')),
    (''Actual Ledger Balance'', (''Tats'' @ [CHR 0xC3, CHR 0xA4] @ ''chliches Ledger-Guthaben'')),
    (([CHR 0xF0, CHR 0x9F, CHR 0x94, CHR 0x92] @ '' 100% verified double-entry ledger (no fictitious numbers)''), ([CHR 0xF0, CHR 0x9F, CHR 0x94, CHR 0x92] @ '' 100% verifizierter Double-Entry-Ledger (keine fiktiven Zahlen)'')),
    (''Minimum amount for instant or batch payout'', (''Mindestbetrag f'' @ [CHR 0xC3, CHR 0xBC] @ ''r Sofort- oder Sammelauszahlung'')),
    (''Direct transfer to your bank account'', (''Direkt'' @ [CHR 0xC3, CHR 0xBC] @ ''berweisung auf dein Bankkonto'')),
    (([CHR 0xF0, CHR 0x9F, CHR 0x94, CHR 0x84] @ '' Check status''), ([CHR 0xF0, CHR 0x9F, CHR 0x94, CHR 0x84] @ '' Status pr'' @ [CHR 0xC3, CHR 0xBC] @ ''fen'')),
    (''Scan this barcode directly with the'', ''Scanne diesen Barcode direkt mit der''),
    (''on your smartphone. Your phone will be paired immediately with your fleet without manual password entry!'', ''auf deinem Smartphone. Dein Handy wird sofort ohne manuelle Passworteingabe mit deiner Flotte gekoppelt!''),
    (''All API calls with your Owner Key ('', ''Alle API-Aufrufe mit deinem Owner Key (''),
    (''without fees directly via your own hardware.'', (''ohne Geb'' @ [CHR 0xC3, CHR 0xBC] @ ''hren direkt '' @ [CHR 0xC3, CHR 0xBC] @ ''ber deine eigene Hardware.'')),
    (''Whenever your GPU is idle, the network provides unused VRAM to paying customers. You receive'', (''Sobald deine GPU im Leerlauf ist, stellt das Netzwerk ungenutzten VRAM zahlenden Kunden bereit. Du erh'' @ [CHR 0xC3, CHR 0xA4] @ ''ltst'')),
    (''Universal Tool Compatibility'', (''Universelle Tool-Kompatibilit'' @ [CHR 0xC3, CHR 0xA4] @ ''t'')),
    (''Drop-in replacement for OpenAI in'', (''Drop-In Ersatz f'' @ [CHR 0xC3, CHR 0xBC] @ ''r OpenAI in'')),
    (''and the'', ''und der''),
    (''Your Personal API Connection Details'', (''Deine pers'' @ [CHR 0xC3, CHR 0xB6] @ ''nlichen API-Verbindungsdaten'')),
    (''Your API / Owner Key (Free for you):'', (''Dein API / Owner Key (Kostenlos f'' @ [CHR 0xC3, CHR 0xBC] @ ''r dich):'')),
    (''The scripts already automatically include your personal'', (''Die Skripte enthalten bereits automatisch deinen pers'' @ [CHR 0xC3, CHR 0xB6] @ ''nlichen'')),
    (''and connect your Ollama service directly to your fleet.'', ''und verbinden deinen Ollama-Dienst direkt mit deiner Flotte.''),
    (''1-Click Start with Mesh-Pool & Tray Daemon'', ''1-Klick Start mit Mesh-Pool & Tray Daemon''),
    (''Automatic background daemon for servers'', (''Automatischer Hintergrund-Daemon f'' @ [CHR 0xC3, CHR 0xBC] @ ''r Server'')),
    (''On-Device MiniCPM5-2B AI, LAN Discovery & Battery Guard'', (''On-Device MiniCPM5-2B KI, LAN-Discovery & Akku-W'' @ [CHR 0xC3, CHR 0xA4] @ ''chter'')),
    (([CHR 0xF0, CHR 0x9F, CHR 0x93, CHR 0xB7] @ '' Scan with smartphone:''), ([CHR 0xF0, CHR 0x9F, CHR 0x93, CHR 0xB7] @ '' Mit Smartphone scannen:'')),
    (''Resets Ollama to default standalone (127.0.0.1)'', ''Setzt Ollama auf Standard-Standalone (127.0.0.1)''),
    (([CHR 0xE2, CHR 0x9A, CHR 0xA1] @ '' Run directly via terminal (cURL & PowerShell)''), ([CHR 0xE2, CHR 0x9A, CHR 0xA1] @ '' Direkt per Terminal ausf'' @ [CHR 0xC3, CHR 0xBC] @ ''hren (cURL & PowerShell)'')),
    (''With the'', ''Mit dem''),
    (''your private GPU fleet becomes a dynamic AI agent. When you execute requests with your Owner Key, the model can access external data in real time or invoke custom MCP servers.'', (''wird deine private GPU-Flotte zum dynamischen KI-Agenten. Wenn du Anfragen mit deinem Owner Key ausf'' @ [CHR 0xC3, CHR 0xBC] @ ''hrst, kann das Modell in Echtzeit auf externe Daten zugreifen oder eigene MCP-Server ansteuern.'')),
    (''/20 tools active for this fleet'', (''/20 Tools aktiv f'' @ [CHR 0xC3, CHR 0xBC] @ ''r diese Flotte'')),
    (''Live Stock Quotes & Crypto'', (''Live-B'' @ [CHR 0xC3, CHR 0xB6] @ ''rsenkurse & Krypto'')),
    (''Real-time Yahoo Finance & CoinGecko quotes for stocks (NVDA, AAPL, MSFT), crypto (BTC, ETH, SOL) and commodities.'', (''Echtzeit Yahoo Finance & CoinGecko Kurse f'' @ [CHR 0xC3, CHR 0xBC] @ ''r Aktien (NVDA, AAPL, MSFT), Krypto (BTC, ETH, SOL) und Rohstoffe.'')),
    (''Breaking news and headlines in real time (Tech, AI, Business, Crypto, Tagesschau or keyword search).'', ''Aktuelle Meldungen und Schlagzeilen in Echtzeit (Tech, KI, Wirtschaft, Krypto, Tagesschau oder Stichwort-Suche).''),
    (''Real-time weather, temperature, humidity, wind and WMO conditions via Open-Meteo & wttr.in for any location.'', (''Echtzeit-Wetter, Temperatur, Luftfeuchtigkeit, Wind und WMO-Bedingungen via Open-Meteo & wttr.in f'' @ [CHR 0xC3, CHR 0xBC] @ ''r jeden Ort.'')),
    (''Precise mathematical calculations, formulas, compound interest, statistics & algorithms in the isolated AST sandbox.'', (''Pr'' @ [CHR 0xC3, CHR 0xA4] @ ''zise mathematische Berechnungen, Formeln, Zinseszins, Statistik & Algorithmen im isolierten AST-Sandbox.'')),
    (''Wikipedia & Encyclopedia'', (''Wikipedia & Enzyklop'' @ [CHR 0xC3, CHR 0xA4] @ ''die'')),
    (''In-depth summaries, definitions, historical data and biographies directly via the official Wikipedia API.'', (''Fundierte Zusammenfassungen, Definitionen, historische Daten und Biografien direkt '' @ [CHR 0xC3, CHR 0xBC] @ ''ber die offizielle Wikipedia-API.'')),
    (''Country & Geo Database'', (''L'' @ [CHR 0xC3, CHR 0xA4] @ ''nder- & Geodatenbank'')),
    (''Capitals, populations, official languages, currencies, neighboring countries and time zones of all states worldwide via REST Countries.'', (''Hauptst'' @ [CHR 0xC3, CHR 0xA4] @ ''dte, Einwohnerzahlen, Amtssprachen, W'' @ [CHR 0xC3, CHR 0xA4] @ ''hrungen, Nachbarl'' @ [CHR 0xC3, CHR 0xA4] @ ''nder und Zeitzonen aller Staaten weltweit via REST Countries.'')),
    (''World Bank & Macroeconomics'', (''Weltbank & Makro'' @ [CHR 0xC3, CHR 0xB6] @ ''konomie'')),
    (''Official data on gross domestic product (GDP), inflation, life expectancy, CO2 emissions and population across decades.'', (''Offizielle Daten zu Bruttoinlandsprodukt (BIP), Inflation, Lebenserwartung, CO2-Emissionen und Bev'' @ [CHR 0xC3, CHR 0xB6] @ ''lkerung '' @ [CHR 0xC3, CHR 0xBC] @ ''ber Jahrzehnte.'')),
    (''Full search for latest scientific preprints, AI/ML research, physics, math and computer science abstracts.'', (''Vollst'' @ [CHR 0xC3, CHR 0xA4] @ ''ndige Suche nach neuesten wissenschaftlichen Preprints, KI-/ML-Forschung, Physik, Mathe und Informatik-Abstracts.'')),
    (''Ingredients, allergens, Nutri-Score (A-E), Eco-Score and nutrition tables by product name or EAN barcode (Open Food Facts).'', (''Inhaltsstoffe, Allergene, Nutri-Score (A-E), Eco-Score und N'' @ [CHR 0xC3, CHR 0xA4] @ ''hrwerttabellen per Produktname oder EAN-Barcode (Open Food Facts).'')),
    (''Packages & CVE Security'', ''Pakete & CVE-Sicherheit''),
    (''Audit PyPI, NPM and Rust packages, versions, licenses and direct matching of known vulnerabilities via OSV.dev.'', (''Pr'' @ [CHR 0xC3, CHR 0xBC] @ ''fung von PyPI-, NPM- und Rust-Paketen, Versionen, Lizenzen und direkter Abgleich bekannter Sicherheitsl'' @ [CHR 0xC3, CHR 0xBC] @ ''cken via OSV.dev.'')),
    (''Molecular formulas, molecular weights, IUPAC names, SMILES and properties of substances via NIH PubChem.'', ''Summenformeln, Molekulargewichte, IUPAC-Namen, SMILES und Eigenschaften von Stoffen via NIH PubChem.''),
    (''Dictionary & Phonetics'', (''W'' @ [CHR 0xC3, CHR 0xB6] @ ''rterbuch & Lautschrift'')),
    (''Word definitions, phonetics, parts of speech, example sentences and synonyms via Free Dictionary API.'', (''Wortdefinitionen, Lautschrift (Phonetics), Wortarten, Beispiels'' @ [CHR 0xC3, CHR 0xA4] @ ''tze und Synonyme via Free Dictionary API.'')),
    (''Live departure times of Deutsche Bahn (ICE, RE, S-Bahn), platforms, destinations and real-time delays via HAFAS.'', (''Live-Abfahrtszeiten der Deutschen Bahn (ICE, RE, S-Bahn), Gleise, Zielbahnh'' @ [CHR 0xC3, CHR 0xB6] @ ''fe und Echtzeit-Versp'' @ [CHR 0xC3, CHR 0xA4] @ ''tungen via HAFAS.'')),
    (''Currency & Crypto Converter'', (''W'' @ [CHR 0xC3, CHR 0xA4] @ ''hrungs- & Krypto-Rechner'')),
    (''Exact time across all time zones worldwide, calendar weeks and public German holidays per federal state.'', ''Genaue Uhrzeit aller Zeitzonen weltweit, Kalenderwochen und gesetzliche deutsche Feiertage pro Bundesland.''),
    (''Calculation of linear distance, compass bearing, geo-coordinates and driving distance/duration between locations worldwide.'', ''Berechnung von Luftlinie, Himmelsrichtung, Geokoordinaten und Fahrtstrecke/Fahrzeit zwischen Orten weltweit.''),
    (''Direct internet research via DuckDuckGo HTML & Bing RSS with intelligent text cleaning and snippet synthesis.'', ''Direkte Internet-Recherche via DuckDuckGo HTML & Bing RSS mit intelligenter Textbereinigung und Snippet-Synthese.''),
    (''Automatic extraction and formatting of online articles, blog posts and developer documentation.'', (''Automatisches Auslesen und Formatieren von Online-Artikeln, Blogbeitr'' @ [CHR 0xC3, CHR 0xA4] @ ''gen und Entwickler-Dokumentationen.'')),
    (''Secure DNS check, HTTP status & SSL certificate validity of public domains with SSRF firewall (Owner Only).'', (''Sichere DNS-Pr'' @ [CHR 0xC3, CHR 0xBC] @ ''fung, HTTP-Status & SSL-Zertifikatslaufzeit '' @ [CHR 0xC3, CHR 0xB6] @ ''ffentlicher Domains mit SSRF-Schutzwall (Owner Only).'')),
    (''Sovereign Playwright MCP Browser & Web Automation Sandbox'', (''Souver'' @ [CHR 0xC3, CHR 0xA4] @ ''ner Playwright MCP-Browser & Web-Automation Sandbox'')),
    ((''Fully isolated Playwright browser environment in a hardened MicroVM/sandbox. Built for autonomous web tasks, research, portal interactions, form filling, script execution, file uploads & downloads '' @ [CHR 0xE2, CHR 0x80, CHR 0x93] @ '' controlled by your user instructions with zero-trust protection.''), (''Vollst'' @ [CHR 0xC3, CHR 0xA4] @ ''ndig isolierte Playwright-Browser-Umgebung in einer abgesicherten MicroVM/Sandbox. Entwickelt f'' @ [CHR 0xC3, CHR 0xBC] @ ''r beliebige autonome Web-Aufgaben, Recherchen, Portal-Interaktionen, Formularbef'' @ [CHR 0xC3, CHR 0xBC] @ ''llungen, Script-Ausf'' @ [CHR 0xC3, CHR 0xBC] @ ''hrungen, Datei-Uploads & Downloads '' @ [CHR 0xE2, CHR 0x80, CHR 0x93] @ '' gesteuert durch deine Benutzeranweisungen mit absolutem Zero-Trust Schutz.'')),
    (''Open internet access by default ('', (''Standardm'' @ [CHR 0xC3, CHR 0xA4, CHR 0xC3, CHR 0x9F] @ ''ig offener Internetzugriff ('')),
    ('') for universal web tasks. Optionally restrictable to custom domain whitelists.'', ('') f'' @ [CHR 0xC3, CHR 0xBC] @ ''r universelle Web-Aufgaben. Optional einschr'' @ [CHR 0xC3, CHR 0xA4] @ ''nkbar auf benutzerdefinierte Domain-Whitelists.'')),
    (''No unauthorized external control. Access exclusively via HMAC-SHA256 signature of your local fleet key ('', (''Keine unbefugte externe Steuerung. Zugriff ausschlie'' @ [CHR 0xC3, CHR 0x9F] @ ''lich '' @ [CHR 0xC3, CHR 0xBC] @ ''ber HMAC-SHA256 Signatur deines lokalen Flottenschl'' @ [CHR 0xC3, CHR 0xBC] @ ''ssels ('')),
    ('') for arbitrary documents, PDFs, media & datasets with strict traversal protection.'', ('') f'' @ [CHR 0xC3, CHR 0xBC] @ ''r beliebige Dokumente, PDFs, Medien & Datens'' @ [CHR 0xC3, CHR 0xA4] @ ''tze mit striktem Traversal-Schutz.'')),
    (''Critical or irreversible actions (orders, payments, deletions, submissions) require explicit prior confirmation with a cryptographic request token.'', (''Kritische oder unwiderrufliche Aktionen (Bestellungen, Zahlungen, L'' @ [CHR 0xC3, CHR 0xB6] @ ''schvorg'' @ [CHR 0xC3, CHR 0xA4] @ ''nge, Einreichungen) erfordern vorab eine explizite Best'' @ [CHR 0xC3, CHR 0xA4] @ ''tigung mit kryptografischem Request-Token.'')),
    (''ComputeMesh AI Chat (Dedicated Interface)'', (''ComputeMesh AI-Chat (Dedizierte Oberfl'' @ [CHR 0xC3, CHR 0xA4] @ ''che)'')),
    (''Full-featured, modern chat interface for your local GPU fleet and remote nodes. Open the chat in its own clean window for maximum workspace.'', (''Vollwertige, moderne Chat-Oberfl'' @ [CHR 0xC3, CHR 0xA4] @ ''che f'' @ [CHR 0xC3, CHR 0xBC] @ ''r deine lokale GPU-Flotte und Remote-Nodes. '' @ [CHR 0xC3, CHR 0x96] @ ''ffne den Chat im eigenen sauberen Fenster f'' @ [CHR 0xC3, CHR 0xBC] @ ''r maximale Arbeitsfl'' @ [CHR 0xC3, CHR 0xA4] @ ''che.'')),
    (([CHR 0xF0, CHR 0x9F, CHR 0x9A, CHR 0x80] @ '' Open AI Chat in Dedicated Window''), ([CHR 0xF0, CHR 0x9F, CHR 0x9A, CHR 0x80] @ '' AI-Chat im eigenen Fenster '' @ [CHR 0xC3, CHR 0xB6] @ ''ffnen'')),
    (''Independent, physically separated emergency stop and positive authorization subsystem with multi-tenant isolation (fail-closed default state).'', (''Unabh'' @ [CHR 0xC3, CHR 0xA4] @ ''ngiges, physisch getrenntes Not-Aus- und Positiv-Autorisierungs-Subsystem mit Multi-Tenant-Isolation (Fail-Closed Default State).''))]"

definition STATIC_TEXT_DE_3 :: "(string \<times> string) list" where
  "STATIC_TEXT_DE_3 =
   [(''As a fleet operator, you have full sovereignty over your own GPU nodes and servers. A fleet emergency stop halts and protects your hardware'', (''Als Flottenbetreiber hast du die volle Hoheit '' @ [CHR 0xC3, CHR 0xBC] @ ''ber deine eigenen GPU-Knoten und Server. Ein Flotten-Not-Aus stoppt und sch'' @ [CHR 0xC3, CHR 0xBC] @ ''tzt deine Hardware'')),
    (''. The global mesh network, other providers and other tenants continue running'', ''. Das weltweite Mesh-Netzwerk, andere Provider und andere Mieter laufen''),
    (''. The global platform emergency stop is cryptographically reserved exclusively for the system owner (inetconnector / Stripe Account Owner) via physical DiskStation master key management.'', (''. Der globale Plattform-Not-Aus ist kryptografisch ausschlie'' @ [CHR 0xC3, CHR 0x9F] @ ''lich dem System-Inhaber (inetconnector / Stripe Account Owner) '' @ [CHR 0xC3, CHR 0xBC] @ ''ber die physische DiskStation-Master-Schl'' @ [CHR 0xC3, CHR 0xBC] @ ''sselverwaltung vorbehalten.'')),
    (''Clicking Emergency Stop immediately revokes all cryptographic execution leases of your fleet, terminates inference process trees of your nodes and disconnects local tunnels. Other fleets in the mesh remain completely unaffected.'', (''Ein Klick auf Not-Aus entzieht sofort alle kryptographischen Ausf'' @ [CHR 0xC3, CHR 0xBC] @ ''hrungs-Leases deiner Flotte, beendet Inferenz-Prozessb'' @ [CHR 0xC3, CHR 0xA4] @ ''ume deiner Knoten und trennt lokale Tunnel. Andere Flotten im Mesh bleiben v'' @ [CHR 0xC3, CHR 0xB6] @ ''llig unber'' @ [CHR 0xC3, CHR 0xBC] @ ''hrt.'')),
    (([CHR 0xF0, CHR 0x9F, CHR 0x94, CHR 0x84] @ '' Check / renew lease''), ([CHR 0xF0, CHR 0x9F, CHR 0x94, CHR 0x84] @ '' Lease pr'' @ [CHR 0xC3, CHR 0xBC] @ ''fen / erneuern'')),
    (''Valid for your registered fleet'', (''G'' @ [CHR 0xC3, CHR 0xBC] @ ''ltig f'' @ [CHR 0xC3, CHR 0xBC] @ ''r deine registrierte Flotte'')),
    (([CHR 0xE2, CHR 0x80, CHR 0x94] @ '' Immediate Emergency Stop for all nodes (Master-Authorized)''), ([CHR 0xE2, CHR 0x80, CHR 0x94] @ '' Sofortiger Not-Aus f'' @ [CHR 0xC3, CHR 0xBC] @ ''r alle Nodes (Master-Autorisiert)'')),
    (([CHR 0xE2, CHR 0x80, CHR 0x94] @ '' Complete security architecture, multi-tenant isolation & emergency operating manual''), ([CHR 0xE2, CHR 0x80, CHR 0x94] @ '' Vollst'' @ [CHR 0xC3, CHR 0xA4] @ ''ndige Sicherheitsarchitektur, Multi-Tenant Isolation & Notfall-Betriebsanleitung'')),
    (''Exclusive administration and security tools for the platform owner (inetconnector / Stripe Account Holder).'', (''Exklusive Verwaltungs- und Sicherheits-Werkzeuge f'' @ [CHR 0xC3, CHR 0xBC] @ ''r den Plattform-Inhaber (inetconnector / Stripe Account Holder).'')),
    (''Enter Master Admin Key'', (''Master-Admin-Schl'' @ [CHR 0xC3, CHR 0xBC] @ ''ssel eingeben'')),
    (''Authenticate with your'', ''Authentifiziere dich mit deinem''),
    (''Persistently blocks a fleet in SQLite and immediately triggers the in-memory killswitch. All nodes and API keys of this fleet are blocked instantaneously.'', (''Sperrt eine Flotte persistent in SQLite und l'' @ [CHR 0xC3, CHR 0xB6] @ ''st sofort den In-Memory-Killswitch aus. Alle Nodes und API-Keys dieser Flotte werden augenblicklich blockiert.'')),
    (''Target Account / Owner ID (facc_... or acct_...):'', ''Ziel-Account / Owner-ID (facc_... oder acct_...):''),
    (''Reason for suspension:'', ''Grund der Sperre:''),
    (''Real-time synchronization with the master database'', ''Echtzeit-Synchronisation mit der Master-Datenbank'')]"

definition PAGE_META_I18N :: "((string \<times> string) \<times> page_meta) list" where
  "PAGE_META_I18N =
   [((''/'', ''en''), \<lparr>m_title = (''ComputeMesh '' @ [CHR 0xE2, CHR 0x80, CHR 0x94] @ '' AI compute from idle graphics cards''), m_desc = ''ComputeMesh connects idle graphics cards into an AI compute network. Test requests through one gateway, register hardware as a provider, and see what already works today.''\<rparr>),
    ((''/'', ''de''), \<lparr>m_title = (''ComputeMesh '' @ [CHR 0xE2, CHR 0x80, CHR 0x94] @ '' KI-Rechenleistung aus freien Grafikkarten''), m_desc = (''ComputeMesh verbindet freie Grafikkarten zu einem KI-Rechennetzwerk. KI-Anfragen '' @ [CHR 0xC3, CHR 0xBC] @ ''ber ein Gateway testen, Hardware als Provider registrieren und sehen, was heute schon funktioniert.'')\<rparr>),
    ((''/downloads'', ''en''), \<lparr>m_title = (''Downloads & Software Hub '' @ [CHR 0xE2, CHR 0x80, CHR 0x94] @ '' ComputeMesh''), m_desc = ''Official downloads for ComputeMesh Windows background service & tray app, Android client, Linux daemon, and NodeOS mining rig appliance.''\<rparr>),
    ((''/downloads'', ''de''), \<lparr>m_title = (''Downloads & Software-Hub '' @ [CHR 0xE2, CHR 0x80, CHR 0x94] @ '' ComputeMesh''), m_desc = (''Offizielle Downloads f'' @ [CHR 0xC3, CHR 0xBC] @ ''r ComputeMesh Windows System-Tray-Client, Android-Client, Linux-Daemon und NodeOS Mining-Rig-Appliance.'')\<rparr>),
    ((''/docs'', ''en''), \<lparr>m_title = (''Developer Documentation '' @ [CHR 0xE2, CHR 0x80, CHR 0x94] @ '' ComputeMesh''), m_desc = ''Developer documentation for the ComputeMesh gateway, provider and distributed-inference paths.''\<rparr>),
    ((''/docs'', ''de''), \<lparr>m_title = (''Entwickler-Dokumentation '' @ [CHR 0xE2, CHR 0x80, CHR 0x94] @ '' ComputeMesh''), m_desc = (''Entwickler-Dokumentation f'' @ [CHR 0xC3, CHR 0xBC] @ ''r die ComputeMesh-Gateway-, Provider- und Distributed-Inference-Pfade.'')\<rparr>),
    ((''/status'', ''en''), \<lparr>m_title = (''System & Network Status '' @ [CHR 0xE2, CHR 0x80, CHR 0x94] @ '' ComputeMesh''), m_desc = ''Current operational and validation status for ComputeMesh.''\<rparr>),
    ((''/status'', ''de''), \<lparr>m_title = (''System- & Netzwerkstatus '' @ [CHR 0xE2, CHR 0x80, CHR 0x94] @ '' ComputeMesh''), m_desc = ''Aktueller Betriebs- und Validierungsstatus von ComputeMesh.''\<rparr>),
    ((''/benchmarks'', ''en''), \<lparr>m_title = (''Measured Benchmarks '' @ [CHR 0xE2, CHR 0x80, CHR 0x94] @ '' ComputeMesh''), m_desc = ''Recorded ComputeMesh engineering benchmark evidence with explicit hardware/runtime scope and measurement limitations.''\<rparr>),
    ((''/benchmarks'', ''de''), \<lparr>m_title = (''Gemessene Benchmarks '' @ [CHR 0xE2, CHR 0x80, CHR 0x94] @ '' ComputeMesh''), m_desc = ''Aufgezeichnete ComputeMesh-Engineering-Benchmark-Evidenz mit explizitem Hardware-/Runtime-Umfang und Messgrenzen.''\<rparr>),
    ((''/contact'', ''en''), \<lparr>m_title = (''Contact & Support '' @ [CHR 0xE2, CHR 0x80, CHR 0x94] @ '' ComputeMesh''), m_desc = ''Contact ComputeMesh support for developer API integration, billing, enterprise compute, and hardware provider onboarding.''\<rparr>),
    ((''/contact'', ''de''), \<lparr>m_title = (''Kontakt & Support '' @ [CHR 0xE2, CHR 0x80, CHR 0x94] @ '' ComputeMesh''), m_desc = (''ComputeMesh-Support f'' @ [CHR 0xC3, CHR 0xBC] @ ''r Entwickler-API-Integration, Abrechnung, Enterprise-Compute und Hardware-Provider-Onboarding kontaktieren.'')\<rparr>),
    ((''/terms'', ''en''), \<lparr>m_title = (''Terms of Service '' @ [CHR 0xE2, CHR 0x80, CHR 0x94] @ '' ComputeMesh''), m_desc = ''ComputeMesh B2B Terms of Service and AI-specific risk allocation.''\<rparr>),
    ((''/terms'', ''de''), \<lparr>m_title = (''Nutzungsbedingungen '' @ [CHR 0xE2, CHR 0x80, CHR 0x94] @ '' ComputeMesh''), m_desc = ''ComputeMesh B2B-Nutzungsbedingungen und KI-spezifische Risikoverteilung.''\<rparr>),
    ((''/privacy'', ''en''), \<lparr>m_title = (''Privacy Policy '' @ [CHR 0xE2, CHR 0x80, CHR 0x94] @ '' ComputeMesh''), m_desc = ''GDPR privacy information for ComputeMesh.''\<rparr>),
    ((''/privacy'', ''de''), \<lparr>m_title = (''Datenschutzerkl'' @ [CHR 0xC3, CHR 0xA4] @ ''rung '' @ [CHR 0xE2, CHR 0x80, CHR 0x94] @ '' ComputeMesh''), m_desc = (''DSGVO-Datenschutzhinweise f'' @ [CHR 0xC3, CHR 0xBC] @ ''r ComputeMesh.'')\<rparr>),
    ((''/impressum'', ''en''), \<lparr>m_title = (''Legal Notice (Impressum) '' @ [CHR 0xE2, CHR 0x80, CHR 0x94] @ '' ComputeMesh''), m_desc = ''Legal notice for ComputeMesh and InetConnector.com.''\<rparr>),
    ((''/impressum'', ''de''), \<lparr>m_title = (''Impressum '' @ [CHR 0xE2, CHR 0x80, CHR 0x94] @ '' ComputeMesh''), m_desc = (''Anbieterkennzeichnung f'' @ [CHR 0xC3, CHR 0xBC] @ ''r ComputeMesh und InetConnector.com.'')\<rparr>)]"


definition STATIC_TEXT_DE :: "(string \<times> string) list" where
  "STATIC_TEXT_DE = STATIC_TEXT_DE_1 @ STATIC_TEXT_DE_2 @ STATIC_TEXT_DE_3"

end
