(* ===== verification/PortalStatic.thy ===== *)
theory PortalStatic
  imports PortalInit PortalTexts PortalStaticTexts PageTree
begin

text \<open>
  The controller of the public pages, \<^verbatim>\<open>src/portal/portal.js\<close>: the translation of the texts, attributes and values that carry no translation key, the
  metadata of the pages, the notices and links it adds, and the hooks it installs. The registration of the same file is
  in \<open>PortalForms\<close>. The page is a tree of elements and text nodes. Elements that the handlers of the portal address by their id are kept apart in the
  field \<open>page\<close>; of these, the functions below treat the text areas named by \<open>textareas\<close>, the output of the playground, the model list and the registration controls.
  \<^verbatim>\<open>plainText\<close>, which has the browser parse a markup text, is the parameter \<open>plain\<close>.
\<close>

section \<open>The reversed table\<close>

text \<open>\<^verbatim>\<open>Object.fromEntries\<close> of the reversed entries: of two entries with the same German text the last one counts.\<close>

definition STATIC_TEXT_EN :: "(string \<times> string) list" where
  "STATIC_TEXT_EN = assign [] (map (\<lambda>(en, de). (de, en)) STATIC_TEXT_DE)"

definition ANDROID_APK_URL :: string where
  "ANDROID_APK_URL = ''https://mesh.inetconnector.com/downloads/ComputeMesh-Android.apk''"

section \<open>Texts\<close>

text \<open>\<^verbatim>\<open>replace(/\s+/g, ' ')\<close>; the flag says that the previous character was white space.\<close>

fun collapse_ws :: "bool \<Rightarrow> string \<Rightarrow> string" where
  "collapse_ws b [] = []"
| "collapse_ws b (c # cs) = (if is_ws c then (if b then collapse_ws True cs else CHR 0x20 # collapse_ws True cs) else c # collapse_ws False cs)"

definition normalizeText :: "string \<Rightarrow> string" where
  "normalizeText s = trim (collapse_ws False s)"

text \<open>\<open>keys\<close> are the keys of \<^verbatim>\<open>translations.en\<close> in their order.\<close>

definition portal_entry :: "(string \<Rightarrow> string) \<Rightarrow> translations_table \<Rightarrow> string \<Rightarrow> string \<Rightarrow> (string \<rightharpoonup> string) \<Rightarrow> string \<rightharpoonup> string" where
  "portal_entry plain tr lang k m = (case (tr ''en'' k, tr ''de'' k) of
     (Some en, Some de) \<Rightarrow> (let from = plain (if lang = ''de'' then en else de); to = plain (if lang = ''de'' then de else en) in
        if from \<noteq> [] \<and> to \<noteq> [] \<and> from \<noteq> to then m(from \<mapsto> to) else m)
   | _ \<Rightarrow> m)"

definition getStaticMap :: "(string \<Rightarrow> string) \<Rightarrow> string list \<Rightarrow> translations_table \<Rightarrow> string \<Rightarrow> string \<rightharpoonup> string" where
  "getStaticMap plain keys tr lang = fold (\<lambda>(from, to) m. m(normalizeText from \<mapsto> to)) (if lang = ''de'' then STATIC_TEXT_DE else STATIC_TEXT_EN)
     (fold (portal_entry plain tr lang) keys Map.empty)"

section \<open>The page\<close>

definition untranslated :: "string list" where
  "untranslated = [''script'', ''style'', ''pre'', ''code'', ''textarea'', ''input'']"

definition translate_string :: "(string \<rightharpoonup> string) \<Rightarrow> string \<Rightarrow> string" where
  "translate_string m s = (let n = normalizeText s in
     if n = [] then s
     else (case m n of None \<Rightarrow> s
       | Some t \<Rightarrow> if t = [] \<or> t = n then s else takeWhile is_ws s @ t @ rev (takeWhile is_ws (rev s))))"

fun translateTextNodes :: "(string \<rightharpoonup> string) \<Rightarrow> dnode \<Rightarrow> dnode" where
  "translateTextNodes m (TextNode s) = TextNode (translate_string m s)"
| "translateTextNodes m (Element t as v ks) = (if t \<in> set untranslated then Element t as v ks else Element t as v (map (translateTextNodes m) ks))"

definition translate_name :: "(string \<rightharpoonup> string) \<Rightarrow> string \<Rightarrow> (string \<times> string) list \<Rightarrow> (string \<times> string) list" where
  "translate_name m a as = (case map_of as a of None \<Rightarrow> as
     | Some v \<Rightarrow> (case m (normalizeText v) of None \<Rightarrow> as | Some t \<Rightarrow> if t = [] then as else set_field a t as))"

fun translateStaticAttributes :: "(string \<rightharpoonup> string) \<Rightarrow> dnode \<Rightarrow> dnode" where
  "translateStaticAttributes m (TextNode s) = TextNode s"
| "translateStaticAttributes m (Element t as v ks) =
     Element t (translate_name m ''title'' (translate_name m ''placeholder'' as)) v (map (translateStaticAttributes m) ks)"

definition translate_value :: "(string \<rightharpoonup> string) \<Rightarrow> string \<Rightarrow> string" where
  "translate_value m v = (case m (normalizeText v) of None \<Rightarrow> v | Some t \<Rightarrow> if t = [] then v else t)"

fun translate_areas :: "(string \<rightharpoonup> string) \<Rightarrow> dnode \<Rightarrow> dnode" where
  "translate_areas m (TextNode s) = TextNode s"
| "translate_areas m (Element t as v ks) = Element t as (if t = ''textarea'' then translate_value m v else v) (map (translate_areas m) ks)"

text \<open>A download link to the Android app; \<open>l_card\<close>: the number of the card it is in.\<close>

record apk_link =
  l_href :: string
  l_rel :: string
  l_download :: bool
  l_i18n :: string
  l_card :: "nat option"

text \<open>An entry of the menu of applications in the header.\<close>

record app_link =
  a_href :: string
  a_title :: string
  a_sub :: string

text \<open>\<open>metas\<close>: the contents of the metadata elements by their selector; \<open>ld\<close>: the structured data of the page; \<open>studio\<close>: the page has a playground;
  \<open>direct_links\<close>: the cards that show the address of the app; \<open>site_header\<close>: the page has the header, with its menu of applications; \<open>hooked\<close>: \<^verbatim>\<open>setupModalHooks\<close> has replaced the handlers.\<close>

record static_page = portal_page +
  docTitle :: string
  metas :: "string \<rightharpoonup> string"
  ld :: "string option"
  tree :: dnode
  textareas :: "string list"
  studio :: bool
  apk_links :: "apk_link list"
  direct_links :: "(nat \<times> string) list"
  hooked :: bool
  site_header :: bool
  app_menu :: "app_link list option"
  nav_links :: "(string \<times> bool) list"

definition desc_selectors :: "string list" where
  "desc_selectors = [(html ''meta[name=^description^]''), (html ''meta[property=^og:description^]''), (html ''meta[name=^twitter:description^]'')]"

definition title_selectors :: "string list" where
  "title_selectors = [(html ''meta[property=^og:title^]''), (html ''meta[name=^twitter:title^]'')]"

definition set_meta :: "string \<Rightarrow> string \<Rightarrow> (string \<rightharpoonup> string) \<Rightarrow> string \<rightharpoonup> string" where
  "set_meta v k m = (if m k = None then m else m(k \<mapsto> v))"

definition ld_text :: "string \<Rightarrow> string \<Rightarrow> string" where
  "ld_text desc t = (case json_parse (str_or t ''{}'') of
     Some (Obj kvs) \<Rightarrow> stringify (Obj (set_field ''description'' (Str desc) kvs))
   | Some (Arr xs) \<Rightarrow> stringify (Arr xs)
   | _ \<Rightarrow> t)"

definition syncPortalMetadata :: "string \<Rightarrow> location \<Rightarrow> 'a static_page_scheme \<Rightarrow> 'a static_page_scheme" where
  "syncPortalMetadata lang loc s = (case map_of PAGE_META_I18N (clean_path (pathname loc), lang) of None \<Rightarrow> s
     | Some m \<Rightarrow> s\<lparr>docTitle := m_title m, metas := fold (set_meta (m_title m)) title_selectors (fold (set_meta (m_desc m)) desc_selectors (metas s)),
         ld := map_option (ld_text (m_desc m)) (ld s)\<rparr>)"

definition translateFormValues :: "(string \<rightharpoonup> string) \<Rightarrow> 'a static_page_scheme \<Rightarrow> 'a static_page_scheme" where
  "translateFormValues m s = on_elem ''playground-output'' (\<lambda>e. case m (normalizeText (text_of e)) of None \<Rightarrow> e | Some t \<Rightarrow> if t = [] then e else set_text t e)
     (fold (\<lambda>i. on_elem i (\<lambda>e. e\<lparr>val := translate_value m (val e)\<rparr>)) (textareas s) (s\<lparr>tree := translate_areas m (tree s)\<rparr>))"

definition vision_label :: "bool \<Rightarrow> string" where
  "vision_label german = (if german then (''Qwen 2.5 VL 7B (Vision / Bildanalyse '' @ [CHR 0xE2, CHR 0x80, CHR 0x93] @ '' keine Bildgenerierung)'') else (''Qwen 2.5 VL 7B (Vision / image analysis '' @ [CHR 0xE2, CHR 0x80, CHR 0x93] @ '' not image generation)''))"

fun relabel :: "string \<Rightarrow> string \<Rightarrow> node list \<Rightarrow> node list" where
  "relabel v t [] = []"
| "relabel v t (n # ns) = (if (case map_of (attrs n) ''value'' of Some w \<Rightarrow> w | None \<Rightarrow> label n) = v then Node (tag n) (cls n) (attrs n) t (kids n) # ns else n # relabel v t ns)"

definition clarifyVisionCapabilities :: "string \<Rightarrow> 'a portal_scheme \<Rightarrow> 'a portal_scheme" where
  "clarifyVisionCapabilities nav s = (if \<not> lang_known s then s
     else on_elem ''playground-model-select'' (\<lambda>e. case content e of
         Kids ns \<Rightarrow> e\<lparr>content := Kids (relabel ''qwen2.5-vl:7b'' (vision_label (getLang nav s = ''de'')) ns)\<rparr> | _ \<Rightarrow> e) s)"

definition static_lang :: "string \<Rightarrow> string \<Rightarrow> 'a portal_scheme \<Rightarrow> string" where
  "static_lang nav lang s = (if lang = ''de'' \<or> lang = ''en'' then lang else getLang nav s)"

definition syncPortalStaticLanguage :: "(string \<Rightarrow> string) \<Rightarrow> string list \<Rightarrow> translations_table \<Rightarrow> location \<Rightarrow> string \<Rightarrow> string \<Rightarrow> 'a static_page_scheme \<Rightarrow> 'a static_page_scheme" where
  "syncPortalStaticLanguage plain keys tr loc nav lang s =
     (if lang \<noteq> ''de'' \<and> lang \<noteq> ''en'' \<and> \<not> lang_known s then s
      else (let l = static_lang nav lang s; m = getStaticMap plain keys tr l; s1 = syncPortalMetadata l loc s;
          s2 = s1\<lparr>tree := translateStaticAttributes m (translateTextNodes m (tree s1))\<rparr> in
        clarifyVisionCapabilities nav (syncProviderControls nav (translateFormValues m s2))))"

section \<open>Additions to the page\<close>

definition safety_notice :: "bool \<Rightarrow> string" where
  "safety_notice german = (if german then ([CHR 0xF0, CHR 0x9F, CHR 0x9B, CHR 0xA1, CHR 0xEF, CHR 0xB8, CHR 0x8F] @ html '' <strong style=^color:#cbd5e1^>Bild-KI Sicherheit:</strong> Vision-Modelle analysieren Bilder, erzeugen aber keine. Eine separate Bildgenerierung wird nur mit verpflichtender Prompt- und Output-Moderation, Minderj'' @ [CHR 0xC3, CHR 0xA4] @ ''hrigenschutz, Deepfake-Schutz und KI-Herkunftskennzeichnung freigeschaltet.'') else ([CHR 0xF0, CHR 0x9F, CHR 0x9B, CHR 0xA1, CHR 0xEF, CHR 0xB8, CHR 0x8F] @ html '' <strong style=^color:#cbd5e1^>Image AI safety:</strong> Vision models analyze images; they do not render images. Separate image generation is enabled only with mandatory prompt/output moderation, minor protection, deepfake safeguards and AI-origin provenance.''))"

definition safety_style :: string where
  "safety_style = ''margin-top:1rem;padding:0.85rem 1rem;border:1px solid rgba(56,189,248,.24);border-radius:10px;background:rgba(15,23,42,.55);font-size:.82rem;line-height:1.5;color:#94a3b8;''"

definition installImageSafetyNotice :: "string \<Rightarrow> 'a static_page_scheme \<Rightarrow> 'a static_page_scheme" where
  "installImageSafetyNotice nav s = (if \<not> studio s \<or> page s ''cm-image-safety-notice'' \<noteq> None \<or> \<not> lang_known s then s
     else s\<lparr>page := (page s)(''cm-image-safety-notice'' \<mapsto> set_html (safety_notice (getLang nav s = ''de'')) (set_style ''cssText'' safety_style blank))\<rparr>)"

definition apk_reference :: "apk_link \<Rightarrow> apk_link" where
  "apk_reference l = l\<lparr>l_href := ANDROID_APK_URL, l_rel := ''noopener''\<rparr>"

definition installAndroidDownloadLink :: "'a static_page_scheme \<Rightarrow> 'a static_page_scheme" where
  "installAndroidDownloadLink s = (let s1 = s\<lparr>apk_links := map apk_reference (apk_links s)\<rparr> in
     case List.find (\<lambda>l. l_download l \<or> l_i18n l = ''dl_android_btn'') (apk_links s1) of None \<Rightarrow> s1
     | Some l \<Rightarrow> (case l_card l of None \<Rightarrow> s1
         | Some c \<Rightarrow> if c \<in> fst ` set (direct_links s1) then s1 else s1\<lparr>direct_links := direct_links s1 @ [(c, ANDROID_APK_URL)]\<rparr>))"

text \<open>The hooks replace \<^verbatim>\<open>openModal\<close> by \<open>openModal_hook\<close> and the registration by \<open>compliantRegistration\<close>; a storage that cannot be read ends the function at
  the first use of the language.\<close>

definition setupModalHooks :: "(string \<Rightarrow> string) \<Rightarrow> string list \<Rightarrow> translations_table \<Rightarrow> location \<Rightarrow> string \<Rightarrow> 'a static_page_scheme \<Rightarrow> 'a static_page_scheme" where
  "setupModalHooks plain keys tr loc nav s = (let s1 = s\<lparr>hooked := True\<rparr> in
     if \<not> lang_known s then s1
     else (let s2 = installAndroidDownloadLink (installImageSafetyNotice nav (clarifyVisionCapabilities nav (syncProviderControls nav s1))) in
       syncPortalStaticLanguage plain keys tr loc nav (getLang nav s2) s2))"

text \<open>The start: \<^verbatim>\<open>portal-core.js\<close> is there already, or it is loaded, at most twice; \<open>loads\<close> are the outcomes of these attempts.\<close>

fun load_core :: "nat \<Rightarrow> bool list \<Rightarrow> bool" where
  "load_core 0 loads = False"
| "load_core (Suc n) [] = False"
| "load_core (Suc n) (loaded # loads) = (loaded \<or> load_core n loads)"

definition start_portal :: "bool \<Rightarrow> bool list \<Rightarrow> (string \<Rightarrow> string) \<Rightarrow> string list \<Rightarrow> translations_table \<Rightarrow> location \<Rightarrow> string \<Rightarrow> 'a static_page_scheme \<Rightarrow> 'a static_page_scheme" where
  "start_portal present loads plain keys tr loc nav s = (if present \<or> load_core 2 loads then setupModalHooks plain keys tr loc nav s else s)"

section \<open>Suggested prompts\<close>

text \<open>\<open>dict\<close>: the table a page or \<^verbatim>\<open>portal-core.js\<close> has defined, if any.\<close>

definition QUICK_PROMPTS_FALLBACK :: "(string \<times> (string \<times> string) list) list" where
  "QUICK_PROMPTS_FALLBACK = [(''de'', QUICK_PROMPTS_de), (''en'', QUICK_PROMPTS_en)]"

definition dict_prompt :: "(string \<times> (string \<times> string) list) list \<Rightarrow> string \<Rightarrow> string \<Rightarrow> string" where
  "dict_prompt dict l k = (case map_of dict l of None \<Rightarrow> [] | Some t \<Rightarrow> item_text (map_of t k))"

definition composer_height :: "int \<Rightarrow> string" where
  "composer_height scrollHeight = int_str (min (max scrollHeight 60) 140) @ ''px''"

definition applyQuickPrompt_hook :: "(string \<times> (string \<times> string) list) list option \<Rightarrow> int \<Rightarrow> string \<Rightarrow> string \<Rightarrow> 'a portal_scheme \<Rightarrow> 'a portal_scheme" where
  "applyQuickPrompt_hook dict scrollHeight nav k s = (if \<not> lang_known s then s
     else (let d = (case dict of Some t \<Rightarrow> t | None \<Rightarrow> QUICK_PROMPTS_FALLBACK); p = str_or (dict_prompt d (getLang nav s) k) (dict_prompt d ''en'' k) in
       if p = [] then s
       else on_elem ''playground-prompt-input'' (\<lambda>e. (set_style ''height'' (composer_height scrollHeight) e)\<lparr>val := p\<rparr>) s))"

section \<open>Header and small handlers of the portal\<close>

text \<open>The remaining functions of \<^verbatim>\<open>portal-core.js\<close>.\<close>

definition causamind_link :: "translations_table \<Rightarrow> string \<Rightarrow> app_link" where
  "causamind_link tr lang = \<lparr>a_href = ''https://trade.inetconnector.com/'', a_title = item_text (tr lang ''nav_app_causamind''), a_sub = item_text (tr lang ''nav_app_causamind_sub'')\<rparr>"

definition ensureCausaMindMenuItem :: "translations_table \<Rightarrow> 'a static_page_scheme \<Rightarrow> 'a static_page_scheme" where
  "ensureCausaMindMenuItem tr s = (case app_menu s of None \<Rightarrow> s
     | Some ls \<Rightarrow> if list_ex (\<lambda>l. includes_str (a_href l) ''trade.inetconnector.com'') ls then s
         else (let item = causamind_link tr (known_lang (currentLang s)); front = takeWhile (\<lambda>l. \<not> includes_str (a_href l) ''today.inetconnector.com'') ls;
             rest = dropWhile (\<lambda>l. \<not> includes_str (a_href l) ''today.inetconnector.com'') ls in
           s\<lparr>app_menu := Some (case rest of [] \<Rightarrow> ls @ [item] | today # others \<Rightarrow> front @ today # item # others)\<rparr>))"

text \<open>\<open>nav_links\<close>: the addresses of the navigation and whether they are marked as the current page.\<close>

definition initUnifiedPortalHeader :: "translations_table \<Rightarrow> location \<Rightarrow> 'a static_page_scheme \<Rightarrow> 'a static_page_scheme" where
  "initUnifiedPortalHeader tr loc s = (if \<not> site_header s then s
     else (let s1 = ensureCausaMindMenuItem tr s in
       updateAuthStateUI tr (s1\<lparr>nav_links := map (\<lambda>(h, a). (h, case nav_active (pathname loc) h of None \<Rightarrow> a | Some b \<Rightarrow> b)) (nav_links s1)\<rparr>)))"

definition openWebUI :: "'a browser_scheme \<Rightarrow> 'a browser_scheme" where
  "openWebUI s = navigate (Open ''https://ai.inetconnector.com/'') s"

definition handlePlaygroundKey :: "string \<Rightarrow> bool \<Rightarrow> rat \<times> rat \<Rightarrow> 'a playground_scheme \<Rightarrow> 'a playground_scheme \<times> bool" where
  "handlePlaygroundKey k shift tm s = (if k = ''Enter'' \<and> \<not> shift then sendPlaygroundMessage tm s else (s, False))"

definition resizePlaygroundComposer :: "string \<Rightarrow> int \<Rightarrow> 'a browser_scheme \<Rightarrow> 'a browser_scheme" where
  "resizePlaygroundComposer i scrollHeight s = on_elem i (set_style ''height'' (int_str (min (max scrollHeight 82) 190) @ ''px'')) s"

definition deployMarketplaceOffer :: "string \<Rightarrow> 'a portal_scheme \<Rightarrow> 'a portal_scheme" where
  "deployMarketplaceOffer i s = selectModelInPlayground i s"

definition copyMarketCommand :: "bool \<Rightarrow> string \<Rightarrow> 'a portal_scheme \<Rightarrow> 'a portal_scheme" where
  "copyMarketCommand granted i s = copyModelApiSnippet granted i s"

text \<open>The characters of a text, as their bytes.\<close>

definition utf8_more :: "char \<Rightarrow> nat" where
  "utf8_more c = (let n = (of_char c :: nat) in if n < 192 then 0 else if n < 224 then 1 else if n < 240 then 2 else 3)"

function utf8_chars :: "string \<Rightarrow> string list" where
  "utf8_chars [] = []"
| "utf8_chars (c # cs) = (c # take (utf8_more c) cs) # utf8_chars (drop (utf8_more c) cs)"
  by pat_completeness auto
termination
  by (relation "measure length") auto

text \<open>\<open>pictographic\<close> is the Unicode property \<^verbatim>\<open>Extended_Pictographic\<close>; the regional indicators, the variation selector and the joiner are removed as well.\<close>

definition decoration :: "(string \<Rightarrow> bool) \<Rightarrow> string \<Rightarrow> bool" where
  "decoration pictographic ch = (pictographic ch \<or> ch = [CHR 0xEF, CHR 0xB8, CHR 0x8F] \<or> ch = [CHR 0xE2, CHR 0x80, CHR 0x8D] \<or>
     length ch = 4 \<and> take 3 ch = [CHR 0xF0, CHR 0x9F, CHR 0x87] \<and> 166 \<le> (of_char (ch ! 3) :: nat) \<and> (of_char (ch ! 3) :: nat) \<le> 191)"

definition plain_chars :: "(string \<Rightarrow> bool) \<Rightarrow> string \<Rightarrow> string" where
  "plain_chars pictographic t = concat (filter (\<lambda>ch. \<not> decoration pictographic ch) (utf8_chars t))"

fun plain_texts :: "(string \<Rightarrow> bool) \<Rightarrow> dnode \<Rightarrow> dnode" where
  "plain_texts pc (TextNode t) = TextNode (plain_chars pc t)"
| "plain_texts pc (Element t as v ks) = (if t = ''script'' \<or> t = ''style'' then Element t as v ks else Element t as v (map (plain_texts pc) ks))"

definition chrome_root :: "dnode \<Rightarrow> bool" where
  "chrome_root x = (let cs = split_on (CHR '' '') (item_text (get_attr ''class'' x)) in has_tag [''header''] x \<and> ''site-header'' \<in> set cs \<or> ''hero'' \<in> set cs \<or> has_tag [''footer''] x)"

fun plain_chrome :: "(string \<Rightarrow> bool) \<Rightarrow> dnode \<Rightarrow> dnode" where
  "plain_chrome pc (TextNode t) = TextNode t"
| "plain_chrome pc (Element t as v ks) = (if chrome_root (Element t as v ks) then plain_texts pc (Element t as v ks) else Element t as v (map (plain_chrome pc) ks))"

definition plainPortalChrome :: "(string \<Rightarrow> bool) \<Rightarrow> 'a static_page_scheme \<Rightarrow> 'a static_page_scheme" where
  "plainPortalChrome pc s = s\<lparr>tree := plain_chrome pc (tree s)\<rparr>"

lemmas static_defs [js_defs] = STATIC_TEXT_EN_def ANDROID_APK_URL_def normalizeText_def portal_entry_def getStaticMap_def untranslated_def translate_string_def
  translate_name_def translate_value_def desc_selectors_def title_selectors_def set_meta_def ld_text_def syncPortalMetadata_def
  translateFormValues_def vision_label_def clarifyVisionCapabilities_def static_lang_def syncPortalStaticLanguage_def safety_notice_def safety_style_def
  installImageSafetyNotice_def apk_reference_def installAndroidDownloadLink_def setupModalHooks_def start_portal_def dict_prompt_def composer_height_def applyQuickPrompt_hook_def
  causamind_link_def ensureCausaMindMenuItem_def initUnifiedPortalHeader_def openWebUI_def handlePlaygroundKey_def resizePlaygroundComposer_def deployMarketplaceOffer_def copyMarketCommand_def utf8_more_def
  decoration_def plain_chars_def chrome_root_def plainPortalChrome_def

section \<open>Normal texts\<close>

definition clean_text :: "string \<Rightarrow> bool" where
  "clean_text t = (t \<noteq> [] \<and> \<not> is_ws (hd t) \<and> \<not> is_ws (last t) \<and> collapse_ws False t = t)"

lemma collapse_append: "collapse_ws b (s @ r) = collapse_ws b s @ collapse_ws (if s = [] then b else is_ws (last s)) r"
  by (induction b s rule: collapse_ws.induct) auto

lemma is_ws_space [simp]: "is_ws (CHR 0x20)"
  by (simp add: is_ws_def)

lemma set_collapse: "set (collapse_ws b u) \<subseteq> insert (CHR 0x20) (set u)"
  by (induction b u rule: collapse_ws.induct) auto

lemma collapse_blank: "\<forall>c \<in> set u. is_ws c \<Longrightarrow> \<forall>c \<in> set (collapse_ws b u). is_ws c"
  using set_collapse [of b u] is_ws_space by blast

lemma collapse_start: "t \<noteq> [] \<Longrightarrow> \<not> is_ws (hd t) \<Longrightarrow> collapse_ws b t = collapse_ws False t"
  by (cases t) auto

lemma normalize_pad:
  assumes "\<forall>c \<in> set u. is_ws c" "\<forall>c \<in> set v. is_ws c" "clean_text t"
  shows "normalizeText (u @ t @ v) = t"
proof -
  have t: "t \<noteq> []" "\<not> is_ws (hd t)" "\<not> is_ws (last t)" "collapse_ws False t = t"
    using assms(3) by (simp_all add: clean_text_def)
  have "collapse_ws False (u @ t @ v) = collapse_ws False u @ t @ collapse_ws False v"
    using t collapse_start [OF t(1,2)] by (simp add: collapse_append)
  then show ?thesis
    using trim_pad [OF collapse_blank [OF assms(1)] collapse_blank [OF assms(2)] t(1-3)] by (simp add: normalizeText_def)
qed

lemma normalize_clean: "clean_text t \<Longrightarrow> normalizeText t = t"
  using normalize_pad [of "[]" "[]" t] by simp

lemma takeWhile_pad:
  assumes "\<forall>c \<in> set u. is_ws c" "t \<noteq> []" "\<not> is_ws (hd t)"
  shows "takeWhile is_ws (u @ t @ v) = u"
proof -
  have "takeWhile is_ws (t @ v) = []"
    using assms(2,3) by (cases t) simp_all
  then show ?thesis
    using assms(1) by (simp add: takeWhile_append2)
qed

lemma translate_pad:
  assumes "\<forall>c \<in> set u. is_ws c" "\<forall>c \<in> set v. is_ws c" "clean_text t" "m t = Some t'" "t' \<noteq> []"
  shows "translate_string m (u @ t @ v) = u @ t' @ v"
proof -
  have t: "t \<noteq> []" "\<not> is_ws (hd t)" "\<not> is_ws (last t)"
    using assms(3) by (simp_all add: clean_text_def)
  have "takeWhile is_ws (rev (u @ t @ v)) = rev v"
    using takeWhile_pad [of "rev v" "rev t" "rev u"] assms(2) t by (simp add: hd_rev)
  then show ?thesis
    using assms t takeWhile_pad [OF assms(1) t(1,2)] normalize_pad [OF assms(1-3)] by (simp add: translate_string_def Let_def)
qed

section \<open>The maps of the two languages\<close>

lemma set_set_field: "set (set_field k v kvs) \<subseteq> insert (k, v) (set kvs)"
  by (induction k v kvs rule: set_field.induct) auto

lemma set_assign: "set (assign a b) \<subseteq> set a \<union> set b"
proof (induction b arbitrary: a)
  case (Cons p b)
  then show ?case
    using set_set_field [of "fst p" "snd p" a] by (cases p) (fastforce simp: assign_def)
qed (simp add: assign_def)

lemma assign_snoc: "k \<notin> fst ` set (assign a b) \<Longrightarrow> assign a (b @ [(k, v)]) = assign a b @ [(k, v)]"
  by (simp add: assign_def set_field_new)

lemma static_map_last:
  assumes "es = xs @ [(f, t)]" "normalizeText f = f"
  shows "fold (\<lambda>(from, to) m. m(normalizeText from \<mapsto> to)) es m0 f = Some t"
  using assms by simp

definition last_entry :: "string \<times> string" where
  "last_entry = (''Real-time synchronization with the master database'', ''Echtzeit-Synchronisation mit der Master-Datenbank'')"

lemma static_split: "STATIC_TEXT_DE = (STATIC_TEXT_DE_1 @ STATIC_TEXT_DE_2 @ butlast STATIC_TEXT_DE_3) @ [last_entry]"
  by (simp add: STATIC_TEXT_DE_def STATIC_TEXT_DE_3_def last_entry_def)

lemma last_german_new:
  "snd last_entry \<notin> set (map snd STATIC_TEXT_DE_1)" "snd last_entry \<notin> set (map snd STATIC_TEXT_DE_2)" "snd last_entry \<notin> set (map snd (butlast STATIC_TEXT_DE_3))"
  unfolding STATIC_TEXT_DE_1_def STATIC_TEXT_DE_2_def STATIC_TEXT_DE_3_def last_entry_def list.map snd_conv by simp_all

lemma last_entry_maps:
  "getStaticMap plain keys tr ''de'' (fst last_entry) = Some (snd last_entry)" "getStaticMap plain keys tr ''en'' (snd last_entry) = Some (fst last_entry)"
proof -
  let ?xs = "STATIC_TEXT_DE_1 @ STATIC_TEXT_DE_2 @ butlast STATIC_TEXT_DE_3" and ?flip = "\<lambda>(en, de). (de, en)"
  have clean: "normalizeText (fst last_entry) = fst last_entry" "normalizeText (snd last_entry) = snd last_entry"
    by code_simp+
  have de: "STATIC_TEXT_DE = ?xs @ [(fst last_entry, snd last_entry)]"
    using static_split by simp
  show "getStaticMap plain keys tr ''de'' (fst last_entry) = Some (snd last_entry)"
    using static_map_last [OF de clean(1)] by (simp add: getStaticMap_def)
  have "snd last_entry \<notin> fst ` set (assign [] (map ?flip ?xs))"
  proof
    assume "snd last_entry \<in> fst ` set (assign [] (map ?flip ?xs))"
    then have "snd last_entry \<in> fst ` set (map ?flip ?xs)"
      using set_assign [of "[]" "map ?flip ?xs"] by auto
    then have "snd last_entry \<in> set (map snd ?xs)"
      by (simp add: image_image image_Un case_prod_beta)
    then show False
      using last_german_new by (simp only: map_append set_append Un_iff) blast
  qed
  then have "assign [] (map ?flip ?xs @ [(snd last_entry, fst last_entry)]) = assign [] (map ?flip ?xs) @ [(snd last_entry, fst last_entry)]"
    by (rule assign_snoc)
  then have "STATIC_TEXT_EN = assign [] (map ?flip ?xs) @ [(snd last_entry, fst last_entry)]"
    unfolding STATIC_TEXT_EN_def by (subst de) (simp only: map_append list.map split)
  from static_map_last [OF this clean(2)] show "getStaticMap plain keys tr ''en'' (snd last_entry) = Some (fst last_entry)"
    by (simp add: getStaticMap_def)
qed

section \<open>Properties\<close>

text \<open>A page whose texts are each translated by one language and back by the other, or by neither; \<open>md\<close> and \<open>me\<close> are the maps of the two languages.\<close>

inductive restorable :: "(string \<rightharpoonup> string) \<Rightarrow> (string \<rightharpoonup> string) \<Rightarrow> dnode \<Rightarrow> bool" for md me where
  translated: "clean_text e \<Longrightarrow> clean_text d \<Longrightarrow> md e = Some d \<Longrightarrow> me d = Some e \<Longrightarrow> \<forall>c \<in> set u. is_ws c \<Longrightarrow> \<forall>c \<in> set v. is_ws c \<Longrightarrow>
     restorable md me (TextNode (u @ e @ v))"
| unknown: "md (normalizeText s) = None \<Longrightarrow> me (normalizeText s) = None \<Longrightarrow> restorable md me (TextNode s)"
| skipped: "t \<in> set untranslated \<Longrightarrow> restorable md me (Element t as v ks)"
| inner: "(\<And>k. k \<in> set ks \<Longrightarrow> restorable md me k) \<Longrightarrow> restorable md me (Element t as v ks)"

text \<open>What is left of a page without its texts.\<close>

fun skeleton :: "dnode \<Rightarrow> dnode" where
  "skeleton (TextNode s) = TextNode []"
| "skeleton (Element t as v ks) = Element t as v (map skeleton ks)"

lemma skeleton_translate: "skeleton (translateTextNodes m x) = skeleton x"
  by (induction m x rule: translateTextNodes.induct) auto

lemma translate_restored: "restorable md me x \<Longrightarrow> translateTextNodes me (translateTextNodes md x) = x"
proof (induction rule: restorable.induct)
  case (translated e d u v)
  then have "e \<noteq> []" "d \<noteq> []"
    by (simp_all add: clean_text_def)
  with translated show ?case
    by (simp add: translate_pad)
next
  case (inner ks t as v)
  then have "map (translateTextNodes me \<circ> translateTextNodes md) ks = ks"
    by (intro map_idI) simp
  then show ?case
    by simp
qed (auto simp: translate_string_def Let_def)



text \<open>The reversed table is not the inverse of the table: two English texts have the same German text, so one of them is not restored.\<close>

theorem reversed_table_ambiguous:
  "{(''Privacy'', ''Datenschutz''), (''Data Protection'', ''Datenschutz'')} \<subseteq> set STATIC_TEXT_DE \<and>
    (\<exists>e \<in> {''Privacy'', ''Data Protection''}. map_of STATIC_TEXT_EN ''Datenschutz'' \<noteq> Some e)"
proof -
  have "STATIC_TEXT_DE_1 ! 2 = (''Privacy'', ''Datenschutz'')" "STATIC_TEXT_DE_1 ! 78 = (''Data Protection'', ''Datenschutz'')" "length STATIC_TEXT_DE_1 = 141"
    unfolding STATIC_TEXT_DE_1_def by simp_all
  then have "{(''Privacy'', ''Datenschutz''), (''Data Protection'', ''Datenschutz'')} \<subseteq> set STATIC_TEXT_DE_1"
    using nth_mem [of 2 STATIC_TEXT_DE_1] nth_mem [of 78 STATIC_TEXT_DE_1] by simp
  then show ?thesis
    by (auto simp: STATIC_TEXT_DE_def)
qed

end
