(* ===== verification/PacmanSound.thy ===== *)
theory PacmanSound
  imports JsWeb
begin

text \<open>
  The sounds of the arcade game, \<^verbatim>\<open>src/portal/apps/pacman/game.js\<close> lines 70 to 180. The audio context is the browser's; what the game does with it is the list of the tones it
  has started, each with the values and times handed to the oscillator and to the gain. The clock of the context, \<open>currentTime\<close>, moves only between two tasks of the script.
  A delayed tone is a pending timeout. Numbers are exact rationals, times of the context are in seconds, delays in milliseconds.
\<close>

section \<open>State\<close>

datatype ctx_state = Suspended | Running

text \<open>The arguments of \<^verbatim>\<open>playChipTone\<close>.\<close>

record chip =
  freq :: rat
  duration :: rat
  wave :: string
  gainVal :: rat
  pitchSlideTo :: "rat option"

text \<open>A started tone: the value at a time, the value that is approached exponentially and the time when it is reached, for pitch and for volume; start and end.\<close>

record tone =
  osc_type :: string
  pitch_from :: "rat \<times> rat"
  pitch_to :: "(rat \<times> rat) option"
  gain_from :: "rat \<times> rat"
  gain_to :: "rat \<times> rat"
  starts :: rat
  stops :: rat

text \<open>\<open>constructor\<close> is \<^verbatim>\<open>window.AudioContext || window.webkitAudioContext\<close>: \<^const>\<open>None\<close> when the browser has neither, otherwise the state a new context is in. \<open>resumes\<close> counts the
  calls of \<^verbatim>\<open>resume\<close>.\<close>

record audio =
  constructor :: "ctx_state option"
  audioCtx :: "ctx_state option"
  currentTime :: rat
  resumes :: nat
  wakaToggle :: bool
  tones :: "tone list"
  tone_timers :: "(rat \<times> chip) list"

definition audio0 :: "ctx_state option \<Rightarrow> audio" where
  "audio0 c = \<lparr>constructor = c, audioCtx = None, currentTime = 0, resumes = 0, wakaToggle = False, tones = [], tone_timers = []\<rparr>"

section \<open>The context\<close>

text \<open>\<^const>\<open>None\<close>: calling the missing constructor throws.\<close>

definition initAudio :: "audio \<Rightarrow> audio option" where
  "initAudio a = (case (case audioCtx a of None \<Rightarrow> constructor a | Some c \<Rightarrow> Some c) of None \<Rightarrow> None
     | Some c \<Rightarrow> Some (a\<lparr>audioCtx := Some c, resumes := (if c = Suspended then resumes a + 1 else resumes a)\<rparr>))"

text \<open>What the browser does by itself: time passes, and a context that was asked to resume starts running.\<close>

definition audio_elapse :: "rat \<Rightarrow> audio \<Rightarrow> audio" where
  "audio_elapse d a = (if audioCtx a = Some Running then a\<lparr>currentTime := currentTime a + max 0 d\<rparr> else a)"

definition audio_resumed :: "audio \<Rightarrow> audio" where
  "audio_resumed a = (if audioCtx a = Some Suspended \<and> 0 < resumes a then a\<lparr>audioCtx := Some Running\<rparr> else a)"

section \<open>Tones\<close>

definition tone_of :: "rat \<Rightarrow> chip \<Rightarrow> tone" where
  "tone_of t c = \<lparr>osc_type = wave c, pitch_from = (freq c, t),
     pitch_to = map_option (\<lambda>p. (max 20 p, t + duration c)) (pitchSlideTo c), gain_from = (gainVal c, t), gain_to = (1 / 10000, t + duration c),
     starts = t, stops = t + duration c\<rparr>"

definition playChipTone :: "chip \<Rightarrow> audio \<Rightarrow> audio" where
  "playChipTone c a = (if audioCtx a = None then a else a\<lparr>tones := tones a @ [tone_of (currentTime a) c]\<rparr>)"

definition chip_tone :: "rat \<Rightarrow> rat \<Rightarrow> string \<Rightarrow> rat \<Rightarrow> chip" where
  "chip_tone f d w g = \<lparr>freq = f, duration = d, wave = w, gainVal = g, pitchSlideTo = None\<rparr>"

definition slide_tone :: "rat \<Rightarrow> rat \<Rightarrow> string \<Rightarrow> rat \<Rightarrow> rat \<Rightarrow> chip" where
  "slide_tone f d w g p = (chip_tone f d w g)\<lparr>pitchSlideTo := Some p\<rparr>"

text \<open>\<^verbatim>\<open>xs.forEach((x, idx) => setTimeout(() => playChipTone(f(x)), idx * step))\<close>, when there is a context.\<close>

definition later :: "(rat \<times> chip) list \<Rightarrow> audio \<Rightarrow> audio" where
  "later ts a = (if audioCtx a = None then a else a\<lparr>tone_timers := tone_timers a @ ts\<rparr>)"

definition evenly :: "rat \<Rightarrow> chip list \<Rightarrow> (rat \<times> chip) list" where
  "evenly step cs = map (\<lambda>(i, c). (of_nat i * step, c)) (enumerate 0 cs)"

text \<open>A timeout of a delayed tone fires.\<close>

definition tone_timeout :: "nat \<Rightarrow> audio \<Rightarrow> audio" where
  "tone_timeout i a = (if i < length (tone_timers a)
     then playChipTone (snd (tone_timers a ! i)) (a\<lparr>tone_timers := take i (tone_timers a) @ drop (Suc i) (tone_timers a)\<rparr>) else a)"

section \<open>The sounds\<close>

definition playWaka :: "audio \<Rightarrow> audio" where
  "playWaka a = (let b = a\<lparr>wakaToggle := \<not> wakaToggle a\<rparr> in
     if wakaToggle b then playChipTone (slide_tone 360 (8 / 100) ''triangle'' (15 / 100) 520) b
     else playChipTone (slide_tone 520 (8 / 100) ''square'' (12 / 100) 340) b)"

definition playPowerPelletSound :: "audio \<Rightarrow> audio" where
  "playPowerPelletSound a = playChipTone (slide_tone 750 (12 / 100) ''sawtooth'' (14 / 100) 450) a"

definition playEatGhostSound :: "audio \<Rightarrow> audio" where
  "playEatGhostSound a = later (evenly 45 (map (\<lambda>f. chip_tone f (7 / 100) ''square'' (18 / 100)) [300, 520, 780, 1100])) a"

definition melody :: "(rat \<times> rat) list" where
  "melody = [(49388 / 100, 12 / 100), (98777 / 100, 12 / 100), (73999 / 100, 12 / 100), (62225 / 100, 12 / 100), (98777 / 100, 10 / 100),
     (73999 / 100, 14 / 100), (62225 / 100, 22 / 100), (52325 / 100, 12 / 100), (10465 / 10, 12 / 100), (78399 / 100, 12 / 100), (65925 / 100, 12 / 100),
     (10465 / 10, 10 / 100), (78399 / 100, 14 / 100), (65925 / 100, 24 / 100)]"

text \<open>The notes with their delays; \<open>d\<close> is the running \<^verbatim>\<open>delay\<close>.\<close>

fun sequence :: "rat \<Rightarrow> (rat \<times> rat) list \<Rightarrow> (rat \<times> chip) list" where
  "sequence d [] = []"
| "sequence d ((f, t) # ns) = (d, chip_tone f t ''square'' (16 / 100)) # sequence (d + t * 1000 + 20) ns"

definition playIntroMusic :: "audio \<Rightarrow> audio" where
  "playIntroMusic a = later (sequence 0 melody) a"

definition playDeathSound :: "audio \<Rightarrow> audio" where
  "playDeathSound a = later (evenly 65 (map (\<lambda>f. slide_tone f (8 / 100) ''sawtooth'' (16 / 100) (f * 9 / 10))
     [587, 554, 523, 493, 466, 440, 415, 392, 370, 349, 330, 311, 293, 220, 140])) a"

definition playRoundWinSound :: "audio \<Rightarrow> audio" where
  "playRoundWinSound a = later (evenly 110 (map (\<lambda>f. chip_tone f (16 / 100) ''square'' (18 / 100)) [52325 / 100, 65925 / 100, 78399 / 100, 1046 + 1 / 2, 131851 / 100])) a"

definition playKonamiFanfare :: "audio \<Rightarrow> audio" where
  "playKonamiFanfare a = later (evenly 80 (map (\<lambda>f. chip_tone f (14 / 100) ''square'' (22 / 100)) [330, 392, 659, 523, 587, 784])) a"

section \<open>Every tone is one the audio interface accepts\<close>

text \<open>The interface refuses an exponential approach to or from a value that is not positive, a time before the start of the context, and an end before the start.\<close>

definition tone_ok :: "tone \<Rightarrow> bool" where
  "tone_ok t = (osc_type t \<in> {''square'', ''triangle'', ''sawtooth''} \<and> 0 < fst (pitch_from t) \<and> 0 < fst (gain_from t) \<and> 0 < fst (gain_to t) \<and>
     (case pitch_to t of None \<Rightarrow> True | Some p \<Rightarrow> 0 < fst p \<and> snd p = stops t) \<and>
     0 \<le> starts t \<and> starts t < stops t \<and> snd (pitch_from t) = starts t \<and> snd (gain_from t) = starts t \<and> snd (gain_to t) = stops t)"

definition chip_ok :: "chip \<Rightarrow> bool" where
  "chip_ok c = (wave c \<in> {''square'', ''triangle'', ''sawtooth''} \<and> 0 < freq c \<and> 0 < duration c \<and> 0 < gainVal c)"

definition audio_ok :: "audio \<Rightarrow> bool" where
  "audio_ok a = (0 \<le> currentTime a \<and> list_all tone_ok (tones a) \<and> list_all (\<lambda>x. 0 \<le> fst x \<and> chip_ok (snd x)) (tone_timers a) \<and>
     (audioCtx a = None \<longrightarrow> tones a = [] \<and> tone_timers a = []))"

lemma tone_of_ok: "chip_ok c \<Longrightarrow> 0 \<le> t \<Longrightarrow> tone_ok (tone_of t c)"
  by (cases "pitchSlideTo c") (auto simp: tone_ok_def tone_of_def chip_ok_def)

lemma audio_ok0 [simp]: "audio_ok (audio0 c)"
  by (simp add: audio_ok_def audio0_def)

lemma audio_ok_init: "audio_ok a \<Longrightarrow> initAudio a = Some b \<Longrightarrow> audio_ok b"
  by (auto simp: audio_ok_def initAudio_def split: option.splits)

lemma audio_ok_elapse: "audio_ok a \<Longrightarrow> audio_ok (audio_elapse d a)"
  by (simp add: audio_ok_def audio_elapse_def)

lemma audio_ok_resumed: "audio_ok a \<Longrightarrow> audio_ok (audio_resumed a)"
  by (simp add: audio_ok_def audio_resumed_def)

lemma audio_ok_play: "audio_ok a \<Longrightarrow> chip_ok c \<Longrightarrow> audio_ok (playChipTone c a)"
  by (auto simp: audio_ok_def playChipTone_def intro: tone_of_ok)

lemma audio_ok_later: "audio_ok a \<Longrightarrow> list_all (\<lambda>x. 0 \<le> fst x \<and> chip_ok (snd x)) ts \<Longrightarrow> audio_ok (later ts a)"
  by (auto simp: audio_ok_def later_def)

lemma evenly_ok: "0 \<le> step \<Longrightarrow> list_all chip_ok cs \<Longrightarrow> list_all (\<lambda>x. 0 \<le> fst x \<and> chip_ok (snd x)) (evenly step cs)"
  by (auto simp: evenly_def list_all_iff enumerate_eq_zip dest: set_zip_rightD)

lemma sequence_ok:
  assumes "0 \<le> d" "list_all (\<lambda>(f, t). 0 < f \<and> 0 < t) ns"
  shows "list_all (\<lambda>x. 0 \<le> fst x \<and> chip_ok (snd x)) (sequence d ns)"
  using assms by (induction d ns rule: sequence.induct) (auto simp: chip_ok_def chip_tone_def)

lemma audio_ok_timeout:
  assumes "audio_ok a"
  shows "audio_ok (tone_timeout i a)"
proof (cases "i < length (tone_timers a)")
  case True
  let ?b = "a\<lparr>tone_timers := take i (tone_timers a) @ drop (Suc i) (tone_timers a)\<rparr>"
  have all: "list_all (\<lambda>x. 0 \<le> fst x \<and> chip_ok (snd x)) (tone_timers a)"
    using assms by (simp add: audio_ok_def)
  then have "list_all (\<lambda>x. 0 \<le> fst x \<and> chip_ok (snd x)) (tone_timers ?b)"
    by (auto simp: list_all_iff dest: in_set_takeD in_set_dropD)
  then have "audio_ok ?b"
    using assms by (auto simp: audio_ok_def)
  moreover have "chip_ok (snd (tone_timers a ! i))"
    using all True by (simp add: list_all_length)
  ultimately show ?thesis
    using True by (simp add: tone_timeout_def audio_ok_play)
qed (use assms in \<open>simp add: tone_timeout_def\<close>)

lemma audio_ok_sounds:
  assumes "audio_ok a"
  shows "audio_ok (playWaka a)" "audio_ok (playPowerPelletSound a)" "audio_ok (playEatGhostSound a)" "audio_ok (playIntroMusic a)" "audio_ok (playDeathSound a)"
    "audio_ok (playRoundWinSound a)" "audio_ok (playKonamiFanfare a)"
proof -
  have "audio_ok (a\<lparr>wakaToggle := w\<rparr>)" for w
    using assms by (simp add: audio_ok_def)
  then show "audio_ok (playWaka a)"
    by (auto simp: playWaka_def Let_def chip_ok_def chip_tone_def slide_tone_def intro!: audio_ok_play)
  show "audio_ok (playPowerPelletSound a)"
    using assms by (auto simp: playPowerPelletSound_def chip_ok_def chip_tone_def slide_tone_def intro!: audio_ok_play)
  show "audio_ok (playIntroMusic a)"
    unfolding playIntroMusic_def by (rule audio_ok_later [OF assms], rule sequence_ok) (simp_all add: melody_def)
qed (use assms in \<open>auto simp: playEatGhostSound_def playDeathSound_def playRoundWinSound_def playKonamiFanfare_def chip_ok_def chip_tone_def slide_tone_def
    intro!: audio_ok_later evenly_ok\<close>)

text \<open>The notes of the opening melody follow each other with a pause of 20 ms.\<close>

lemma sequence_gaps:
  "sorted_wrt (\<lambda>x y. fst x + duration (snd x) * 1000 + 20 \<le> fst y) (sequence d ns)" if "list_all (\<lambda>n. 0 \<le> snd n) ns"
proof -
  have later: "\<forall>x \<in> set (sequence d ns). d \<le> fst x" if "list_all (\<lambda>n. 0 \<le> snd n) ns" for d ns
    using that
  proof (induction d ns rule: sequence.induct)
    case (2 d f t ns)
    then have "d \<le> d + t * 1000 + 20" "\<forall>x \<in> set (sequence (d + t * 1000 + 20) ns). d + t * 1000 + 20 \<le> fst x"
      by auto
    then show ?case
      by (auto intro: order_trans)
  qed simp
  show ?thesis
    using that later by (induction d ns rule: sequence.induct) (auto simp: chip_tone_def)
qed

end
