(* ===== verification/PacmanCanvas.thy ===== *)
theory PacmanCanvas
  imports JsPrelude
begin

text \<open>
  The drawing context of the arcade game, \<^verbatim>\<open>canvas.getContext('2d')\<close> in \<^verbatim>\<open>src/portal/apps/pacman/game.ops'\<close>. A drawing routine ops the list of its operations, executed one by
  one like the instructions of a stack machine: the drawing state (colours, line width, shadow, movement of the coordinates) can be saved on a stack and restored; the current path ops not part of it.
  The picture ops the list of what was painted, the latest last. Coordinates are exact rationals and angles are multiples of pi.
\<close>

section \<open>The context\<close>

datatype motion = Translate rat rat | Rotate rat

datatype seg = Arc rat rat rat rat rat | LineTo rat rat

record pen =
  fillStyle :: string
  strokeStyle :: string
  lineWidth :: rat
  shadowColor :: string
  shadowBlur :: rat
  motions :: "motion list"

text \<open>What is painted: with which pen, and where. A point of a path is moved when it is added to the path.\<close>

datatype mark = FilledRect pen rat rat rat rat | StrokedRect pen rat rat rat rat | FilledPath pen "(motion list \<times> seg) list"

record canvas =
  pen :: pen
  saved :: "pen list"
  path :: "(motion list \<times> seg) list"
  marks :: "mark list"

definition pen0 :: pen where
  "pen0 = \<lparr>fillStyle = ''#000000'', strokeStyle = ''#000000'', lineWidth = 1, shadowColor = ''rgba(0, 0, 0, 0)'', shadowBlur = 0, motions = []\<rparr>"

definition canvas0 :: canvas where
  "canvas0 = \<lparr>pen = pen0, saved = [], path = [], marks = []\<rparr>"

section \<open>Operations\<close>

datatype op = Save | Restore | Move motion | SetFill string | SetStroke string | SetWidth rat | SetShadow string | SetBlur rat
  | FillRect rat rat rat rat | StrokeRect rat rat rat rat | BeginPath | Add seg | FillPath

fun exec1 :: "op \<Rightarrow> canvas \<Rightarrow> canvas" where
  "exec1 Save cv = cv\<lparr>saved := pen cv # saved cv\<rparr>"
| "exec1 Restore cv = (case saved cv of [] \<Rightarrow> cv | p # ps \<Rightarrow> cv\<lparr>pen := p, saved := ps\<rparr>)"
| "exec1 (Move m) cv = cv\<lparr>pen := (pen cv)\<lparr>motions := motions (pen cv) @ [m]\<rparr>\<rparr>"
| "exec1 (SetFill t) cv = cv\<lparr>pen := (pen cv)\<lparr>fillStyle := t\<rparr>\<rparr>"
| "exec1 (SetStroke t) cv = cv\<lparr>pen := (pen cv)\<lparr>strokeStyle := t\<rparr>\<rparr>"
| "exec1 (SetWidth w) cv = cv\<lparr>pen := (pen cv)\<lparr>lineWidth := w\<rparr>\<rparr>"
| "exec1 (SetShadow t) cv = cv\<lparr>pen := (pen cv)\<lparr>shadowColor := t\<rparr>\<rparr>"
| "exec1 (SetBlur w) cv = cv\<lparr>pen := (pen cv)\<lparr>shadowBlur := w\<rparr>\<rparr>"
| "exec1 (FillRect x y w h) cv = cv\<lparr>marks := marks cv @ [FilledRect (pen cv) x y w h]\<rparr>"
| "exec1 (StrokeRect x y w h) cv = cv\<lparr>marks := marks cv @ [StrokedRect (pen cv) x y w h]\<rparr>"
| "exec1 BeginPath cv = cv\<lparr>path := []\<rparr>"
| "exec1 (Add g) cv = cv\<lparr>path := path cv @ [(motions (pen cv), g)]\<rparr>"
| "exec1 FillPath cv = cv\<lparr>marks := marks cv @ [FilledPath (pen cv) (path cv)]\<rparr>"

definition exec :: "op list \<Rightarrow> canvas \<Rightarrow> canvas" where
  "exec ops cv = fold exec1 ops cv"

lemma exec_simps [simp]:
  "exec [] cv = cv" "exec (i # ops) cv = exec ops (exec1 i cv)" "exec (ops @ ops') cv = exec ops' (exec ops cv)"
  by (simp_all add: exec_def)

section \<open>Blocks between saving and restoring\<close>

fun stack_op :: "op \<Rightarrow> bool" where
  "stack_op Save = True"
| "stack_op Restore = True"
| "stack_op _ = False"

lemma saved_exec: "list_all (\<lambda>i. \<not> stack_op i) ops \<Longrightarrow> saved (exec ops cv) = saved cv"
proof (induction ops arbitrary: cv)
  case (Cons i ops)
  then have "saved (exec1 i cv) = saved cv"
    by (cases i) auto
  with Cons show ?case
    by simp
qed simp

text \<open>Whatever is set inside a block, the drawing state after it is the one before it.\<close>

definition block :: "op list \<Rightarrow> op list" where
  "block ops = Save # ops @ [Restore]"

lemma block_state:
  assumes "list_all (\<lambda>i. \<not> stack_op i) ops"
  shows "pen (exec (block ops) cv) = pen cv" "saved (exec (block ops) cv) = saved cv"
  using saved_exec [OF assms, of "exec1 Save cv"] by (simp_all add: block_def)

text \<open>A drawing state in which nothing moves, blurs or shades what is painted next.\<close>

definition plain :: "canvas \<Rightarrow> bool" where
  "plain cv = (saved cv = [] \<and> motions (pen cv) = [] \<and> shadowBlur (pen cv) = 0 \<and> shadowColor (pen cv) = shadowColor pen0)"

fun colour_op :: "op \<Rightarrow> bool" where
  "colour_op (SetFill _) = True"
| "colour_op (SetStroke _) = True"
| "colour_op (SetWidth _) = True"
| "colour_op (FillRect _ _ _ _) = True"
| "colour_op (StrokeRect _ _ _ _) = True"
| "colour_op BeginPath = True"
| "colour_op (Add _) = True"
| "colour_op FillPath = True"
| "colour_op _ = False"

lemma plain_exec: "list_all colour_op ops \<Longrightarrow> plain (exec ops cv) = plain cv"
proof (induction ops arbitrary: cv)
  case (Cons i ops)
  then have "plain (exec1 i cv) = plain cv"
    by (cases i) (auto simp: plain_def)
  with Cons show ?case
    by simp
qed simp

lemma plain_block: "list_all (\<lambda>i. \<not> stack_op i) ops \<Longrightarrow> plain (exec (block ops) cv) = plain cv"
  by (simp add: plain_def block_state)

lemma plain_blocks: "list_all (\<lambda>i. \<not> stack_op i) (concat blocks) \<Longrightarrow> plain (exec (concat (map block blocks)) cv) = plain cv"
  by (induction blocks arbitrary: cv) (auto simp: plain_block simp del: exec_simps(2))

lemma plain_canvas0 [simp]: "plain canvas0"
  by (simp add: plain_def canvas0_def pen0_def)

section \<open>What ops painted\<close>

text \<open>The operations only add to the picture.\<close>

definition painted :: "op list \<Rightarrow> canvas \<Rightarrow> mark list" where
  "painted ops cv = drop (length (marks cv)) (marks (exec ops cv))"

lemma marks_grow: "\<exists>ms. marks (exec ops cv) = marks cv @ ms"
proof (induction ops arbitrary: cv)
  case (Cons i ops)
  have "\<exists>ms. marks (exec1 i cv) = marks cv @ ms"
    by (cases i) (auto split: list.split)
  with Cons [of "exec1 i cv"] show ?case
    by auto
qed simp

lemma marks_exec: "marks (exec ops cv) = marks cv @ painted ops cv"
  using marks_grow [of ops cv] by (auto simp: painted_def)

lemma painted_append: "painted (ops @ ops') cv = painted ops cv @ painted ops' (exec ops cv)"
  using marks_exec [of "ops @ ops'" cv] marks_exec [of ops cv] marks_exec [of ops' "exec ops cv"] by simp

lemma painted_Nil [simp]: "painted [] cv = []"
  by (simp add: painted_def)

end
