(* ===== verification/PacmanGame.thy ===== *)
theory PacmanGame
  imports PacmanSound PacmanCanvas
begin

text \<open>
  The arcade game of the portal, \<^verbatim>\<open>src/portal/apps/pacman/game.js\<close>: the maze, the movement of Pac-Man and of the ghosts, the rounds, the hidden code,
  the input handlers, and what each of them plays and draws (\<open>PacmanSound\<close>, \<open>PacmanCanvas\<close>). Numbers are exact rationals. Distances are compared by their squares.
  The high score is stored in a storage that accepts writing. The numbers \<^verbatim>\<open>Math.random()\<close> gives for a ghost are the parameter \<open>rnd\<close>, the values of \<^verbatim>\<open>Date.now()\<close> while a frame is
  drawn the parameter \<open>date\<close>. The timeout that starts the next round and the requested animation frames are pending events.
\<close>

section \<open>The maze\<close>

type_synonym grid = "int list list"

definition TILE :: rat where
  "TILE = 12"

definition COLS :: int where
  "COLS = 28"

definition ROWS :: int where
  "ROWS = 31"

definition ORIGINAL_MAP :: grid where
  "ORIGINAL_MAP =
    [[1, 1, 1, 1, 1, 1, 1, 1, 1, 1, 1, 1, 1, 1, 1, 1, 1, 1, 1, 1, 1, 1, 1, 1, 1, 1, 1, 1],
     [1, 2, 2, 2, 2, 2, 2, 2, 2, 2, 2, 2, 2, 1, 1, 2, 2, 2, 2, 2, 2, 2, 2, 2, 2, 2, 2, 1],
     [1, 2, 1, 1, 1, 1, 2, 1, 1, 1, 1, 1, 2, 1, 1, 2, 1, 1, 1, 1, 1, 2, 1, 1, 1, 1, 2, 1],
     [1, 3, 1, 1, 1, 1, 2, 1, 1, 1, 1, 1, 2, 1, 1, 2, 1, 1, 1, 1, 1, 2, 1, 1, 1, 1, 3, 1],
     [1, 2, 1, 1, 1, 1, 2, 1, 1, 1, 1, 1, 2, 1, 1, 2, 1, 1, 1, 1, 1, 2, 1, 1, 1, 1, 2, 1],
     [1, 2, 2, 2, 2, 2, 2, 2, 2, 2, 2, 2, 2, 2, 2, 2, 2, 2, 2, 2, 2, 2, 2, 2, 2, 2, 2, 1],
     [1, 2, 1, 1, 1, 1, 2, 1, 1, 2, 1, 1, 1, 1, 1, 1, 1, 1, 2, 1, 1, 2, 1, 1, 1, 1, 2, 1],
     [1, 2, 1, 1, 1, 1, 2, 1, 1, 2, 1, 1, 1, 1, 1, 1, 1, 1, 2, 1, 1, 2, 1, 1, 1, 1, 2, 1],
     [1, 2, 2, 2, 2, 2, 2, 1, 1, 2, 2, 2, 2, 1, 1, 2, 2, 2, 2, 1, 1, 2, 2, 2, 2, 2, 2, 1],
     [1, 1, 1, 1, 1, 1, 2, 1, 1, 1, 1, 1, 0, 1, 1, 0, 1, 1, 1, 1, 1, 2, 1, 1, 1, 1, 1, 1],
     [0, 0, 0, 0, 0, 1, 2, 1, 1, 1, 1, 1, 0, 1, 1, 0, 1, 1, 1, 1, 1, 2, 1, 0, 0, 0, 0, 0],
     [0, 0, 0, 0, 0, 1, 2, 1, 1, 0, 0, 0, 0, 0, 0, 0, 0, 0, 0, 1, 1, 2, 1, 0, 0, 0, 0, 0],
     [0, 0, 0, 0, 0, 1, 2, 1, 1, 0, 1, 1, 1, 5, 5, 1, 1, 1, 0, 1, 1, 2, 1, 0, 0, 0, 0, 0],
     [1, 1, 1, 1, 1, 1, 2, 1, 1, 0, 1, 4, 4, 4, 4, 4, 4, 1, 0, 1, 1, 2, 1, 1, 1, 1, 1, 1],
     [0, 0, 0, 0, 0, 0, 2, 0, 0, 0, 1, 4, 4, 4, 4, 4, 4, 1, 0, 0, 0, 2, 0, 0, 0, 0, 0, 0],
     [1, 1, 1, 1, 1, 1, 2, 1, 1, 0, 1, 4, 4, 4, 4, 4, 4, 1, 0, 1, 1, 2, 1, 1, 1, 1, 1, 1],
     [0, 0, 0, 0, 0, 1, 2, 1, 1, 0, 1, 1, 1, 1, 1, 1, 1, 1, 0, 1, 1, 2, 1, 0, 0, 0, 0, 0],
     [0, 0, 0, 0, 0, 1, 2, 1, 1, 0, 0, 0, 0, 0, 0, 0, 0, 0, 0, 1, 1, 2, 1, 0, 0, 0, 0, 0],
     [0, 0, 0, 0, 0, 1, 2, 1, 1, 0, 1, 1, 1, 1, 1, 1, 1, 1, 0, 1, 1, 2, 1, 0, 0, 0, 0, 0],
     [1, 1, 1, 1, 1, 1, 2, 1, 1, 0, 1, 1, 1, 1, 1, 1, 1, 1, 0, 1, 1, 2, 1, 1, 1, 1, 1, 1],
     [1, 2, 2, 2, 2, 2, 2, 2, 2, 2, 2, 2, 2, 1, 1, 2, 2, 2, 2, 2, 2, 2, 2, 2, 2, 2, 2, 1],
     [1, 2, 1, 1, 1, 1, 2, 1, 1, 1, 1, 1, 2, 1, 1, 2, 1, 1, 1, 1, 1, 2, 1, 1, 1, 1, 2, 1],
     [1, 2, 1, 1, 1, 1, 2, 1, 1, 1, 1, 1, 2, 1, 1, 2, 1, 1, 1, 1, 1, 2, 1, 1, 1, 1, 2, 1],
     [1, 3, 2, 2, 1, 1, 2, 2, 2, 2, 2, 2, 2, 0, 0, 2, 2, 2, 2, 2, 2, 2, 1, 1, 2, 2, 3, 1],
     [1, 1, 1, 2, 1, 1, 2, 1, 1, 2, 1, 1, 1, 1, 1, 1, 1, 1, 2, 1, 1, 2, 1, 1, 2, 1, 1, 1],
     [1, 1, 1, 2, 1, 1, 2, 1, 1, 2, 1, 1, 1, 1, 1, 1, 1, 1, 2, 1, 1, 2, 1, 1, 2, 1, 1, 1],
     [1, 2, 2, 2, 2, 2, 2, 1, 1, 2, 2, 2, 2, 1, 1, 2, 2, 2, 2, 1, 1, 2, 2, 2, 2, 2, 2, 1],
     [1, 2, 1, 1, 1, 1, 1, 1, 1, 1, 1, 1, 2, 1, 1, 2, 1, 1, 1, 1, 1, 1, 1, 1, 1, 1, 2, 1],
     [1, 2, 1, 1, 1, 1, 1, 1, 1, 1, 1, 1, 2, 1, 1, 2, 1, 1, 1, 1, 1, 1, 1, 1, 1, 1, 2, 1],
     [1, 2, 2, 2, 2, 2, 2, 2, 2, 2, 2, 2, 2, 2, 2, 2, 2, 2, 2, 2, 2, 2, 2, 2, 2, 2, 2, 1],
     [1, 1, 1, 1, 1, 1, 1, 1, 1, 1, 1, 1, 1, 1, 1, 1, 1, 1, 1, 1, 1, 1, 1, 1, 1, 1, 1, 1]]"

definition cell :: "grid \<Rightarrow> int \<Rightarrow> int \<Rightarrow> int" where
  "cell g c r = g ! nat r ! nat c"

definition is_pellet :: "int \<Rightarrow> bool" where
  "is_pellet t = (t = 2 \<or> t = 3)"

definition countPellets :: "grid \<Rightarrow> int" where
  "countPellets g = int (length (filter is_pellet (concat g)))"

definition isTileWalkable :: "grid \<Rightarrow> int \<Rightarrow> int \<Rightarrow> bool \<Rightarrow> bool \<Rightarrow> bool" where
  "isTileWalkable g c r isGhost inHouse = (if c < 0 \<or> COLS \<le> c then True else if r < 0 \<or> ROWS \<le> r then False
     else (let t = cell g c r in if t = 1 then False else if t = 4 then inHouse else if t = 5 then isGhost else True))"

definition tile_of :: "rat \<Rightarrow> int" where
  "tile_of x = \<lfloor>x / TILE\<rfloor>"

definition center_of :: "int \<Rightarrow> rat" where
  "center_of c = of_int c * TILE + TILE / 2"

section \<open>State\<close>

text \<open>Angles are multiples of pi.\<close>

record pac =
  px :: rat
  py :: rat
  dirX :: int
  dirY :: int
  desiredDirX :: int
  desiredDirY :: int
  rotation :: rat
  mouthAngle :: rat
  mouthDir :: int

record ghost =
  g_name :: string
  g_color :: string
  gx :: rat
  gy :: rat
  gdirX :: int
  gdirY :: int
  inHouse :: bool
  releaseDelay :: rat
  targetX :: rat
  targetY :: rat

text \<open>\<open>roundEnds\<close>: the pending timeouts that start a round; \<open>frames\<close>: the requested animation frames.\<close>

record game = browser +
  grid :: "int list list"
  score :: int
  highScore :: jnum
  lives :: int
  level :: int
  gameOver :: bool
  gameRunning :: bool
  roundTransition :: bool
  frightenedTimer :: rat
  invulnerableTimer :: rat
  konamiActivated :: bool
  totalPellets :: int
  initialPelletCount :: int
  lastFrameTime :: rat
  roundTimer :: rat
  pacman :: pac
  ghosts :: "ghost list"
  konamiIndex :: nat
  touchStartX :: rat
  touchStartY :: rat
  roundEnds :: nat
  frames :: nat
  audio :: audio
  canvas :: canvas

definition pacman0 :: pac where
  "pacman0 = \<lparr>px = 27 / 2 * TILE + TILE / 2, py = 23 * TILE + TILE / 2, dirX = -1, dirY = 0, desiredDirX = -1, desiredDirY = 0,
     rotation = 1, mouthAngle = 1 / 5, mouthDir = 1\<rparr>"

definition mk_ghost :: "string \<Rightarrow> string \<Rightarrow> rat \<Rightarrow> rat \<Rightarrow> int \<Rightarrow> int \<Rightarrow> bool \<Rightarrow> rat \<Rightarrow> ghost" where
  "mk_ghost n col x y dx dy h d = \<lparr>g_name = n, g_color = col, gx = x * TILE, gy = y * TILE, gdirX = dx, gdirY = dy, inHouse = h, releaseDelay = d, targetX = 0, targetY = 0\<rparr>"

definition ghosts0 :: "ghost list" where
  "ghosts0 = [mk_ghost ''blinky'' ''#ef4444'' (27 / 2) 11 (-1) 0 False 0, mk_ghost ''pinky'' ''#ec4899'' (27 / 2) 14 0 (-1) True (7 / 2),
     mk_ghost ''inky'' ''#06b6d4'' (23 / 2) 14 0 (-1) True 8, mk_ghost ''clyde'' ''#f97316'' (31 / 2) 14 0 (-1) True 14]"

definition place :: "ghost \<Rightarrow> ghost \<Rightarrow> ghost" where
  "place h g = g\<lparr>gx := gx h, gy := gy h, inHouse := inHouse h, gdirX := gdirX h, gdirY := gdirY h\<rparr>"

text \<open>The release delays are not reset.\<close>

definition resetPositions :: "'a game_scheme \<Rightarrow> 'a game_scheme" where
  "resetPositions s = s\<lparr>pacman := (pacman s)\<lparr>px := px pacman0, py := py pacman0, dirX := -1, dirY := 0, desiredDirX := -1, desiredDirY := 0, rotation := 1\<rparr>,
     roundTimer := 0, invulnerableTimer := 120, ghosts := map2 place ghosts0 (ghosts s)\<rparr>"

section \<open>Speeds\<close>

definition pacmanSpeed :: "'a game_scheme \<Rightarrow> rat" where
  "pacmanSpeed s = 2 + min (of_int (level s - 1) / 10) 1 + (if konamiActivated s then 6 / 5 else 0)"

definition ghostSpeed :: "'a game_scheme \<Rightarrow> rat" where
  "ghostSpeed s = 6 / 5 + min (of_int (level s - 1) / 10) 1"

definition frightenedDuration :: "'a game_scheme \<Rightarrow> rat" where
  "frightenedDuration s = max (450 - of_int (level s - 1) * 35) 200"

section \<open>Display and sound\<close>

abbreviation play :: "(audio \<Rightarrow> audio) \<Rightarrow> 'a game_scheme \<Rightarrow> 'a game_scheme" where
  "play f s \<equiv> s\<lparr>audio := f (audio s)\<rparr>"

abbreviation draw :: "op list \<Rightarrow> 'a game_scheme \<Rightarrow> 'a game_scheme" where
  "draw ops s \<equiv> s\<lparr>canvas := exec ops (canvas s)\<rparr>"

text \<open>A handler that begins with \<^verbatim>\<open>initAudio()\<close>: it ends there when that throws.\<close>

definition with_audio :: "('a game_scheme \<Rightarrow> 'a game_scheme) \<Rightarrow> 'a game_scheme \<Rightarrow> 'a game_scheme" where
  "with_audio f s = (case initAudio (audio s) of None \<Rightarrow> s | Some a \<Rightarrow> f (s\<lparr>audio := a\<rparr>))"

definition FRUIT_ICONS :: "string list" where
  "FRUIT_ICONS = [[CHR 0xF0, CHR 0x9F, CHR 0x8D, CHR 0x92], [CHR 0xF0, CHR 0x9F, CHR 0x8D, CHR 0x93], [CHR 0xF0, CHR 0x9F, CHR 0x8D, CHR 0x8A], [CHR 0xF0, CHR 0x9F, CHR 0x8D, CHR 0x8E], [CHR 0xF0, CHR 0x9F, CHR 0x8D, CHR 0x88], [CHR 0xF0, CHR 0x9F, CHR 0x94, CHR 0x94], [CHR 0xF0, CHR 0x9F, CHR 0x94, CHR 0x91]]"

definition repeat_str :: "nat \<Rightarrow> string \<Rightarrow> string" where
  "repeat_str n t = concat (replicate n t)"

definition updateHUD :: "'a game_scheme \<Rightarrow> 'a game_scheme" where
  "updateHUD s = (let s1 = on_elem ''scoreVal'' (set_text (int_str (score s))) s;
       s2 = (if num_less (highScore s) (Fin (of_int (score s))) then put_local ''pacman_highscore'' (int_str (score s)) (s1\<lparr>highScore := Fin (of_int (score s))\<rparr>) else s1);
       s3 = on_elem ''livesVal'' (set_text (repeat_str (nat (max 0 (lives s))) ([CHR 0xE2, CHR 0x9D, CHR 0xA4, CHR 0xEF, CHR 0xB8, CHR 0x8F] @ '' ''))) (on_elem ''highScoreVal'' (set_text (num_str (highScore s2))) s2) in
     on_elem ''levelVal'' (set_text (''RUNDE '' @ int_str (level s) @ '' '' @ FRUIT_ICONS ! nat (min (level s - 1) 6))) s3)"

definition show_banner :: "string \<Rightarrow> 'a game_scheme \<Rightarrow> 'a game_scheme" where
  "show_banner t s = on_elem ''konamiBanner'' (\<lambda>e. set_text t (set_style ''display'' ''block'' e)) s"

section \<open>Pac-Man\<close>

definition set_dir :: "int \<Rightarrow> int \<Rightarrow> pac \<Rightarrow> pac" where
  "set_dir dx dy p = p\<lparr>dirX := dx, dirY := dy\<rparr>"

definition clear_desired :: "pac \<Rightarrow> pac" where
  "clear_desired p = p\<lparr>desiredDirX := 0, desiredDirY := 0\<rparr>"

definition to_center :: "int \<Rightarrow> int \<Rightarrow> pac \<Rightarrow> pac" where
  "to_center c r p = p\<lparr>px := center_of c, py := center_of r\<rparr>"

definition walkable :: "grid \<Rightarrow> int \<Rightarrow> int \<Rightarrow> bool" where
  "walkable g c r = isTileWalkable g c r False False"

text \<open>The buffered direction; \<open>c\<close> and \<open>r\<close> are the tile of Pac-Man at the beginning of the frame.\<close>

definition steer :: "grid \<Rightarrow> rat \<Rightarrow> int \<Rightarrow> int \<Rightarrow> pac \<Rightarrow> pac" where
  "steer g mdist c r p = (if desiredDirX p = 0 \<and> desiredDirY p = 0 then p
     else if desiredDirX p = - dirX p \<and> desiredDirY p = - dirY p then clear_desired (set_dir (desiredDirX p) (desiredDirY p) p)
     else if walkable g (c + desiredDirX p) (r + desiredDirY p) \<and>
         (px p - center_of c)\<^sup>2 + (py p - center_of r)\<^sup>2 \<le> (max (mdist * 3 / 2) 6)\<^sup>2
       then clear_desired (set_dir (desiredDirX p) (desiredDirY p) (to_center c r p))
     else p)"

definition past_center :: "int \<Rightarrow> int \<Rightarrow> pac \<Rightarrow> bool" where
  "past_center c r p = (0 < dirX p \<and> center_of c \<le> px p \<or> dirX p < 0 \<and> px p \<le> center_of c \<or>
     0 < dirY p \<and> center_of r \<le> py p \<or> dirY p < 0 \<and> py p \<le> center_of r \<or> dirX p = 0 \<and> dirY p = 0)"

definition open_turns :: "grid \<Rightarrow> int \<Rightarrow> int \<Rightarrow> pac \<Rightarrow> (int \<times> int) list" where
  "open_turns g c r p = filter (\<lambda>(dx, dy). walkable g (c + dx) (r + dy)) (if dirX p \<noteq> 0 then [(0, -1), (0, 1)] else [(-1, 0), (1, 0)])"

definition corner :: "grid \<Rightarrow> int \<Rightarrow> int \<Rightarrow> pac \<Rightarrow> pac" where
  "corner g c r p = (if walkable g (c + dirX p) (r + dirY p) \<or> \<not> past_center c r p then p
     else (let q = to_center c r p in
       if (desiredDirX p \<noteq> 0 \<or> desiredDirY p \<noteq> 0) \<and> walkable g (c + desiredDirX p) (r + desiredDirY p)
       then clear_desired (set_dir (desiredDirX p) (desiredDirY p) q)
       else (case open_turns g c r p of [] \<Rightarrow> set_dir 0 0 q | (dx, dy) # _ \<Rightarrow> set_dir dx dy q)))"

definition wrap_x :: "rat \<Rightarrow> rat" where
  "wrap_x x = (let y = (if x < 0 then of_int (COLS - 1) * TILE else x) in if y > of_int (COLS - 1) * TILE then 0 else y)"

definition advance :: "rat \<Rightarrow> rat \<Rightarrow> int \<Rightarrow> int \<Rightarrow> int \<Rightarrow> pac \<Rightarrow> pac" where
  "advance mdist delta lv c r p = (if dirX p = 0 \<and> dirY p = 0 then p
     else (let x = (if dirX p = 0 then center_of c else px p + of_int (dirX p) * mdist); y = (if dirX p \<noteq> 0 then center_of r else py p + of_int (dirY p) * mdist);
         angle = mouthAngle p + 3 / 100 * of_int (mouthDir p) * delta * (1 + of_int lv / 10) in
       p\<lparr>px := wrap_x x, py := y,
         rotation := (if dirY p < 0 then - 1 / 2 else if 0 < dirY p then 1 / 2 else if dirX p < 0 then 1 else if 0 < dirX p then 0 else rotation p),
         mouthAngle := angle, mouthDir := (if angle > 9 / 20 \<or> angle < 1 / 20 then - mouthDir p else mouthDir p)\<rparr>))"

definition clear_cell :: "int \<Rightarrow> int \<Rightarrow> grid \<Rightarrow> grid" where
  "clear_cell c r g = g[nat r := (g ! nat r)[nat c := 0]]"

definition eat :: "'a game_scheme \<Rightarrow> 'a game_scheme" where
  "eat s = (let c = tile_of (px (pacman s)); r = tile_of (py (pacman s)) in
     if 0 \<le> c \<and> c < COLS \<and> 0 \<le> r \<and> r < ROWS then
       (if cell (grid s) c r = 2 then updateHUD (play playWaka (s\<lparr>grid := clear_cell c r (grid s), score := score s + 10, totalPellets := totalPellets s - 1\<rparr>))
        else if cell (grid s) c r = 3 then updateHUD (play playPowerPelletSound (s\<lparr>grid := clear_cell c r (grid s), score := score s + 50, totalPellets := totalPellets s - 1,
            frightenedTimer := frightenedDuration s\<rparr>))
        else s)
     else s)"

definition finish_round :: "'a game_scheme \<Rightarrow> 'a game_scheme" where
  "finish_round s = (if totalPellets s \<le> 0 \<and> \<not> roundTransition s
     then show_banner (([CHR 0xE2, CHR 0x9A, CHR 0xA1] @ '' RUNDE '') @ int_str (level s + 1) @ ('' ERREICHT! TEMPO ERH'' @ [CHR 0xC3, CHR 0x96] @ ''HT '' @ [CHR 0xF0, CHR 0x9F, CHR 0x9A, CHR 0x80])) (play playRoundWinSound (s\<lparr>roundTransition := True, level := level s + 1, roundEnds := roundEnds s + 1\<rparr>))
     else s)"

definition new_round :: "'a game_scheme \<Rightarrow> 'a game_scheme" where
  "new_round s = resetPositions (s\<lparr>grid := ORIGINAL_MAP, totalPellets := countPellets ORIGINAL_MAP, initialPelletCount := countPellets ORIGINAL_MAP\<rparr>)"

text \<open>The timeout at the end of a round.\<close>

definition round_timeout :: "'a game_scheme \<Rightarrow> 'a game_scheme" where
  "round_timeout s = (if roundEnds s = 0 then s
     else (let s1 = (new_round s)\<lparr>roundTransition := False, roundEnds := roundEnds s - 1\<rparr>;
           s2 = (if konamiActivated s then s1 else on_elem ''konamiBanner'' (set_style ''display'' ''none'') s1) in updateHUD s2))"

definition updatePacman :: "rat \<Rightarrow> 'a game_scheme \<Rightarrow> 'a game_scheme" where
  "updatePacman delta s = (let mdist = pacmanSpeed s * delta; p = pacman s; c = tile_of (px p); r = tile_of (py p);
       s1 = s\<lparr>invulnerableTimer := (if 0 < invulnerableTimer s then invulnerableTimer s - delta else invulnerableTimer s),
         pacman := advance mdist delta (level s) c r (corner (grid s) c r (steer (grid s) mdist c r p))\<rparr> in
     finish_round (eat s1))"

section \<open>Ghosts\<close>

definition release :: "rat \<Rightarrow> 'a game_scheme \<Rightarrow> ghost \<Rightarrow> ghost" where
  "release delta s g = (if roundTimer s \<ge> releaseDelay g \<or> of_int (initialPelletCount s - totalPellets s) \<ge> releaseDelay g * 5
     then (let y = gy g - 1 / 2 * delta in if y \<le> 11 * TILE then g\<lparr>gy := y, inHouse := False, gdirX := -1, gdirY := 0\<rparr> else g\<lparr>gy := y\<rparr>)
     else g)"

definition sq_dist :: "rat \<Rightarrow> rat \<Rightarrow> rat \<Rightarrow> rat \<Rightarrow> rat" where
  "sq_dist a b x y = (a - x)\<^sup>2 + (b - y)\<^sup>2"

definition aim :: "(string \<Rightarrow> rat \<times> rat) \<Rightarrow> 'a game_scheme \<Rightarrow> ghost \<Rightarrow> ghost" where
  "aim rnd s g = (let p = pacman s in
     if 0 < frightenedTimer s then g\<lparr>targetX := of_int \<lfloor>fst (rnd (g_name g)) * of_int COLS\<rfloor> * TILE, targetY := of_int \<lfloor>snd (rnd (g_name g)) * of_int ROWS\<rfloor> * TILE\<rparr>
     else if g_name g = ''blinky'' then g\<lparr>targetX := px p, targetY := py p\<rparr>
     else if g_name g = ''pinky'' then g\<lparr>targetX := px p + of_int (dirX p) * 4 * TILE, targetY := py p + of_int (dirY p) * 4 * TILE\<rparr>
     else if g_name g = ''inky'' then (let b = ghosts s ! 0 in g\<lparr>targetX := px p + (px p - gx b), targetY := py p + (py p - gy b)\<rparr>)
     else if g_name g = ''clyde'' then (if sq_dist (gx g) (gy g) (px p) (py p) > (8 * TILE)\<^sup>2 then g\<lparr>targetX := px p, targetY := py p\<rparr>
         else g\<lparr>targetX := 0, targetY := of_int (ROWS - 1) * TILE\<rparr>)
     else g)"

definition valid_dirs :: "grid \<Rightarrow> ghost \<Rightarrow> (int \<times> int) list" where
  "valid_dirs m g = filter (\<lambda>(dx, dy). \<not> (dx = - gdirX g \<and> dy = - gdirY g) \<and> isTileWalkable m (tile_of (gx g) + dx) (tile_of (gy g) + dy) True (inHouse g))
     [(1, 0), (-1, 0), (0, 1), (0, -1)]"

text \<open>The source sorts the directions by their distance to the target; the sort is stable and only the first is used.\<close>

definition choose_dir :: "grid \<Rightarrow> ghost \<Rightarrow> ghost" where
  "choose_dir m g = (case sort_key (\<lambda>(dx, dy). sq_dist (gx g + of_int dx * TILE) (gy g + of_int dy * TILE) (targetX g) (targetY g)) (valid_dirs m g) of
     [] \<Rightarrow> g | (dx, dy) # _ \<Rightarrow> g\<lparr>gdirX := dx, gdirY := dy\<rparr>)"

definition glide :: "rat \<Rightarrow> ghost \<Rightarrow> ghost" where
  "glide speed g = g\<lparr>gx := wrap_x (gx g + of_int (gdirX g) * speed), gy := gy g + of_int (gdirY g) * speed\<rparr>"

definition touches :: "ghost \<Rightarrow> pac \<Rightarrow> bool" where
  "touches g p = (sq_dist (gx g + TILE / 2) (gy g + TILE / 2) (px p) (py p) < (TILE * 11 / 20)\<^sup>2)"

definition die :: "'a game_scheme \<Rightarrow> 'a game_scheme" where
  "die s = (let s1 = updateHUD (play playDeathSound (s\<lparr>lives := lives s - 1\<rparr>)) in
     if lives s1 \<le> 0 then on_elem ''btnStart'' (set_text ''NEUSTART'') (on_elem ''overlayTitle'' (set_text ''GAME OVER'')
         (on_elem ''overlayMessage'' (set_style ''display'' ''flex'') (s1\<lparr>gameOver := True, gameRunning := False\<rparr>)))
     else resetPositions s1)"

definition collide :: "nat \<Rightarrow> 'a game_scheme \<Rightarrow> 'a game_scheme" where
  "collide i s = (let g = ghosts s ! i in
     if touches g (pacman s) \<and> invulnerableTimer s \<le> 0 then
       (if 0 < frightenedTimer s then updateHUD (play playEatGhostSound (s\<lparr>score := score s + 200 * level s,
            ghosts := (ghosts s)[i := g\<lparr>gx := 27 / 2 * TILE, gy := 14 * TILE, inHouse := True, releaseDelay := roundTimer s + 4\<rparr>]\<rparr>))
        else if \<not> konamiActivated s then die s else s)
     else s)"

definition updateGhost :: "(string \<Rightarrow> rat \<times> rat) \<Rightarrow> rat \<Rightarrow> rat \<Rightarrow> nat \<Rightarrow> 'a game_scheme \<Rightarrow> 'a game_scheme" where
  "updateGhost rnd delta speed i s = (let g = ghosts s ! i in
     if inHouse g then s\<lparr>ghosts := (ghosts s)[i := release delta s g]\<rparr>
     else collide i (s\<lparr>ghosts := (ghosts s)[i := glide speed (choose_dir (grid s) (aim rnd s g))]\<rparr>))"

definition updateGhosts :: "(string \<Rightarrow> rat \<times> rat) \<Rightarrow> rat \<Rightarrow> 'a game_scheme \<Rightarrow> 'a game_scheme" where
  "updateGhosts rnd delta s = (if roundTransition s then s
     else (let s1 = s\<lparr>roundTimer := roundTimer s + delta / 60, frightenedTimer := (if 0 < frightenedTimer s then frightenedTimer s - delta else frightenedTimer s)\<rparr>;
         speed = (if 0 < frightenedTimer s1 then ghostSpeed s1 * 9 / 20 else ghostSpeed s1) * delta in
       fold (updateGhost rnd delta speed) [0..<length (ghosts s1)] s1))"

section \<open>Drawing\<close>

text \<open>The times \<^verbatim>\<open>Date.now()\<close> reads while a frame is drawn: at a power pellet, at Pac-Man and at a ghost.\<close>

record draw_times =
  at_tile :: "int \<Rightarrow> int \<Rightarrow> int"
  at_pacman :: int
  at_ghost :: "string \<Rightarrow> int"

definition background_ops :: "op list" where
  "background_ops = [SetFill ''#03050c'', FillRect 0 0 (of_int COLS * TILE) (of_int ROWS * TILE)]"

definition disc_ops :: "string \<Rightarrow> rat \<Rightarrow> rat \<Rightarrow> rat \<Rightarrow> op list" where
  "disc_ops col x y rad = [SetFill col, BeginPath, Add (Arc x y rad 0 2), FillPath]"

definition tile_ops :: "int \<Rightarrow> int \<Rightarrow> rat \<Rightarrow> rat \<Rightarrow> op list" where
  "tile_ops ms tile x y =
     (if tile = 1 then [SetFill ''#0a1128'', SetStroke ''#2563eb'', SetWidth (3 / 2), FillRect x y TILE TILE, StrokeRect (x + 1 / 2) (y + 1 / 2) (TILE - 1) (TILE - 1)]
      else if tile = 2 then disc_ops ''#ffb897'' (x + TILE / 2) (y + TILE / 2) (9 / 5)
      else if tile = 3 then disc_ops (if ms mod 400 < 200 then ''#fbbf24'' else ''#fff'') (x + TILE / 2) (y + TILE / 2) (21 / 5)
      else if tile = 5 then [SetFill ''#f472b6'', FillRect x (y + TILE / 2 - 3 / 2) TILE 3]
      else [])"

definition drawMap :: "draw_times \<Rightarrow> grid \<Rightarrow> op list" where
  "drawMap date g = concat (map (\<lambda>r. concat (map (\<lambda>c. tile_ops (at_tile date c r) (cell g c r) (of_int c * TILE) (of_int r * TILE)) [0..COLS - 1])) [0..ROWS - 1])"

definition drawPacman :: "draw_times \<Rightarrow> 'a game_scheme \<Rightarrow> op list" where
  "drawPacman date s = (let p = pacman s; m = mouthAngle p in
     if 0 < invulnerableTimer s \<and> at_pacman date div 100 mod 2 = 0 then []
     else block ([Move (Translate (px p) (py p)), Move (Rotate (rotation p)), SetFill (if konamiActivated s then ''#f59e0b'' else ''#fbbf24'')] @
       (if konamiActivated s then [SetShadow ''#f59e0b'', SetBlur 12] else []) @
       [BeginPath, Add (Arc 0 0 (11 / 2) m (2 - m)), Add (LineTo 0 0), FillPath]))"

definition ghost_color :: "draw_times \<Rightarrow> rat \<Rightarrow> ghost \<Rightarrow> string" where
  "ghost_color date timer g = (if 0 < timer then (if timer < 120 \<and> at_ghost date (g_name g) div 150 mod 2 = 0 then ''#ffffff'' else ''#2563eb'') else g_color g)"

definition ghost_ops :: "draw_times \<Rightarrow> rat \<Rightarrow> ghost \<Rightarrow> op list" where
  "ghost_ops date timer g = (let h = TILE / 2; ex = of_int (gdirX g) * 4 / 5; ey = of_int (gdirY g) * 4 / 5 in
     [Move (Translate (gx g) (gy g)), SetFill (ghost_color date timer g), BeginPath, Add (Arc h (h - 3 / 2) (24 / 5) 1 0), Add (LineTo (h + 24 / 5) (h + 5)),
      Add (LineTo (h - 24 / 5) (h + 5)), FillPath,
      SetFill ''#ffffff'', BeginPath, Add (Arc (h - 9 / 5) (h - 3 / 2) (8 / 5) 0 2), Add (Arc (h + 9 / 5) (h - 3 / 2) (8 / 5) 0 2), FillPath,
      SetFill ''#000000'', BeginPath, Add (Arc (h - 9 / 5 + ex) (h - 3 / 2 + ey) (9 / 10) 0 2), Add (Arc (h + 9 / 5 + ex) (h - 3 / 2 + ey) (9 / 10) 0 2), FillPath])"

definition drawGhosts :: "draw_times \<Rightarrow> 'a game_scheme \<Rightarrow> op list" where
  "drawGhosts date s = concat (map (\<lambda>g. block (ghost_ops date (frightenedTimer s) g)) (ghosts s))"

section \<open>Frames and input\<close>

definition frame_delta :: "rat \<Rightarrow> 'a game_scheme \<Rightarrow> rat" where
  "frame_delta now s = min ((now - lastFrameTime s) / 1000) (1 / 20) * 60"

text \<open>The callback of an animation frame.\<close>

definition gameLoop :: "(string \<Rightarrow> rat \<times> rat) \<Rightarrow> draw_times \<Rightarrow> rat \<Rightarrow> 'a game_scheme \<Rightarrow> 'a game_scheme" where
  "gameLoop rnd date now s = (if frames s = 0 then s else let s0 = s\<lparr>frames := frames s - 1\<rparr> in
     if \<not> gameRunning s0 then s0
     else (let delta = frame_delta now s0; s1 = draw (background_ops @ drawMap date (grid s0)) (s0\<lparr>lastFrameTime := now\<rparr>);
         s2 = updateGhosts rnd delta (updatePacman delta s1); s3 = draw (drawGhosts date s2) (draw (drawPacman date s2) s2) in
       s3\<lparr>frames := frames s3 + 1\<rparr>))"

definition KONAMI_CODE :: "string list" where
  "KONAMI_CODE = [''ArrowUp'', ''ArrowUp'', ''ArrowDown'', ''ArrowDown'', ''ArrowLeft'', ''ArrowRight'', ''ArrowLeft'', ''ArrowRight'', ''b'', ''a'']"

definition activateKonamiMode :: "'a game_scheme \<Rightarrow> 'a game_scheme" where
  "activateKonamiMode s = updateHUD (play playKonamiFanfare (show_banner (([CHR 0xF0, CHR 0x9F, CHR 0x8C, CHR 0x9F] @ '' KONAMI GOD MODE: 30 LEBEN & HYPER TURBO SPEED! '' @ [CHR 0xF0, CHR 0x9F, CHR 0x8C, CHR 0x9F])) (s\<lparr>konamiActivated := True, lives := 30\<rparr>)))"

definition checkKonami :: "string \<Rightarrow> 'a game_scheme \<Rightarrow> 'a game_scheme" where
  "checkKonami k s = (if lower k = lower (KONAMI_CODE ! konamiIndex s)
     then (if konamiIndex s + 1 = length KONAMI_CODE then (activateKonamiMode (s\<lparr>konamiIndex := konamiIndex s + 1\<rparr>))\<lparr>konamiIndex := 0\<rparr>
       else s\<lparr>konamiIndex := konamiIndex s + 1\<rparr>)
     else s\<lparr>konamiIndex := 0\<rparr>)"

definition queueDirection :: "int \<times> int \<Rightarrow> 'a game_scheme \<Rightarrow> 'a game_scheme" where
  "queueDirection d s = with_audio (\<lambda>t. t\<lparr>pacman := (pacman t)\<lparr>desiredDirX := fst d, desiredDirY := snd d\<rparr>\<rparr>) s"

definition key_dir :: "string \<Rightarrow> (int \<times> int) option" where
  "key_dir k = (if k \<in> {''ArrowUp'', ''w'', ''W''} then Some (0, -1) else if k \<in> {''ArrowDown'', ''s'', ''S''} then Some (0, 1)
     else if k \<in> {''ArrowLeft'', ''a'', ''A''} then Some (-1, 0) else if k \<in> {''ArrowRight'', ''d'', ''D''} then Some (1, 0) else None)"

definition keydown :: "string \<Rightarrow> 'a game_scheme \<Rightarrow> 'a game_scheme" where
  "keydown k s = with_audio (\<lambda>t. case key_dir k of None \<Rightarrow> checkKonami k t | Some d \<Rightarrow> queueDirection d (checkKonami k t)) s"

definition swipe_dir :: "rat \<Rightarrow> rat \<Rightarrow> (int \<times> int) option" where
  "swipe_dir dx dy = (if \<bar>dx\<bar> > \<bar>dy\<bar> then (if dx > 15 then Some (1, 0) else if dx < -15 then Some (-1, 0) else None)
     else (if dy > 15 then Some (0, 1) else if dy < -15 then Some (0, -1) else None))"

definition touchstart :: "rat \<Rightarrow> rat \<Rightarrow> 'a game_scheme \<Rightarrow> 'a game_scheme" where
  "touchstart x y s = with_audio (\<lambda>t. t\<lparr>touchStartX := x, touchStartY := y\<rparr>) s"

definition touchend :: "rat \<Rightarrow> rat \<Rightarrow> 'a game_scheme \<Rightarrow> 'a game_scheme" where
  "touchend x y s = (case swipe_dir (x - touchStartX s) (y - touchStartY s) of None \<Rightarrow> s | Some d \<Rightarrow> queueDirection d s)"

definition begin_game :: "rat \<Rightarrow> 'a game_scheme \<Rightarrow> 'a game_scheme" where
  "begin_game now s = (on_elem ''overlayMessage'' (set_style ''display'' ''none'') (updateHUD (new_round (s\<lparr>score := 0, level := 1,
     lives := (if konamiActivated s then 30 else 5), gameOver := False, gameRunning := True, roundTransition := False\<rparr>))))\<lparr>lastFrameTime := now, frames := frames s + 1\<rparr>"

text \<open>The start button.\<close>

definition start_game :: "rat \<Rightarrow> 'a game_scheme \<Rightarrow> 'a game_scheme" where
  "start_game now s = with_audio (\<lambda>t. begin_game now (play playIntroMusic t)) s"

text \<open>The state when the page has loaded; a stored high score that is not a number stays not-a-number. \<open>au\<close> is the audio constructor.\<close>

definition load_game :: "rat \<Rightarrow> ctx_state option \<Rightarrow> browser \<Rightarrow> game" where
  "load_game now au b = updateHUD (browser.extend b
     \<lparr>grid = ORIGINAL_MAP, score = 0, highScore = parse_int (str_or (stored (localStorage b) ''pacman_highscore'') ''0''), lives = 5, level = 1, gameOver = False,
      gameRunning = False, roundTransition = False, frightenedTimer = 0, invulnerableTimer = 0, konamiActivated = False,
      totalPellets = countPellets ORIGINAL_MAP, initialPelletCount = countPellets ORIGINAL_MAP, lastFrameTime = now, roundTimer = 0, pacman = pacman0,
      ghosts = ghosts0, konamiIndex = 0, touchStartX = 0, touchStartY = 0, roundEnds = 0, frames = 0, audio = audio0 au, canvas = canvas0\<rparr>)"


section \<open>Runs of the game\<close>

text \<open>What can happen to the page after it has loaded: a frame, the end of a round, a key, one of the on-screen buttons, a swipe, the start button; for the sounds, a delayed tone, the
  resumption of the context and the passing of its time. \<open>F s now\<close> restricts the frames.\<close>

inductive played :: "(game \<Rightarrow> rat \<Rightarrow> bool) \<Rightarrow> game \<Rightarrow> bool" for F where
  load: "played F (load_game now au b)"
| frame: "played F s \<Longrightarrow> F s now \<Longrightarrow> played F (gameLoop rnd date now s)"
| timeout: "played F s \<Longrightarrow> played F (round_timeout s)"
| key: "played F s \<Longrightarrow> played F (keydown k s)"
| pad: "played F s \<Longrightarrow> d \<in> {(0, -1), (0, 1), (-1, 0), (1, 0)} \<Longrightarrow> played F (queueDirection d s)"
| pad_code: "played F s \<Longrightarrow> k \<in> {''a'', ''b''} \<Longrightarrow> played F (checkKonami k s)"
| touch: "played F s \<Longrightarrow> played F (touchstart x y s)"
| swipe: "played F s \<Longrightarrow> played F (touchend x y s)"
| start: "played F s \<Longrightarrow> played F (start_game now s)"
| tone: "played F s \<Longrightarrow> played F (play (tone_timeout i) s)"
| resumed: "played F s \<Longrightarrow> played F (play audio_resumed s)"
| elapse: "played F s \<Longrightarrow> played F (play (audio_elapse d) s)"

section \<open>The maze during a game\<close>

text \<open>A maze of the game is the original one with some pellets eaten.\<close>

definition eaten_from :: "int \<Rightarrow> int \<Rightarrow> bool" where
  "eaten_from t0 t = (t = t0 \<or> is_pellet t0 \<and> t = 0)"

definition maze :: "grid \<Rightarrow> bool" where
  "maze g = list_all2 (list_all2 eaten_from) ORIGINAL_MAP g"

named_theorems game_ops

lemmas [game_ops] = updateHUD_def Let_def put_local_def show_banner_def

lemma updateHUD_fields [simp]:
  "grid (updateHUD s) = grid s" "score (updateHUD s) = score s" "lives (updateHUD s) = lives s" "level (updateHUD s) = level s"
  "gameOver (updateHUD s) = gameOver s" "gameRunning (updateHUD s) = gameRunning s" "roundTransition (updateHUD s) = roundTransition s"
  "frightenedTimer (updateHUD s) = frightenedTimer s" "invulnerableTimer (updateHUD s) = invulnerableTimer s" "konamiActivated (updateHUD s) = konamiActivated s"
  "totalPellets (updateHUD s) = totalPellets s" "initialPelletCount (updateHUD s) = initialPelletCount s" "pacman (updateHUD s) = pacman s"
  "ghosts (updateHUD s) = ghosts s" "konamiIndex (updateHUD s) = konamiIndex s" "roundEnds (updateHUD s) = roundEnds s" "roundTimer (updateHUD s) = roundTimer s"
  "lastFrameTime (updateHUD s) = lastFrameTime s" "audio (updateHUD s) = audio s" "canvas (updateHUD s) = canvas s" "frames (updateHUD s) = frames s"
  by (auto simp: game_ops)

lemma countPellets_rows: "countPellets g = int (\<Sum>row\<leftarrow>g. length (filter is_pellet row))"
  by (simp add: countPellets_def length_concat filter_concat comp_def)

lemma filter_update_less:
  assumes "i < length xs" "P (xs ! i)" "\<not> P y"
  shows "Suc (length (filter P (xs[i := y]))) = length (filter P xs)"
  using assms by (induction xs arbitrary: i) (auto split: nat.split simp: less_Suc_eq_0_disj)

lemma clear_cell_count:
  assumes "nat r < length g" "nat c < length (g ! nat r)" "is_pellet (cell g c r)"
  shows "countPellets (clear_cell c r g) = countPellets g - 1"
proof -
  let ?n = "\<lambda>row. length (filter is_pellet row)" and ?row = "(g ! nat r)[nat c := 0]"
  have less: "Suc (?n ?row) = ?n (g ! nat r)"
    using assms by (intro filter_update_less) (auto simp: cell_def is_pellet_def)
  have "?n (g ! nat r) \<le> sum_list (map ?n g)"
    using assms(1) by (intro member_le_sum_list) auto
  moreover have "sum_list (map ?n (clear_cell c r g)) = sum_list (map ?n g) + ?n ?row - ?n (g ! nat r)"
    using assms(1) by (simp add: clear_cell_def map_update sum_list_update)
  ultimately show ?thesis
    using less by (simp add: countPellets_rows)
qed

lemma maze_dims:
  assumes "maze g"
  shows "length g = 31" "r < 31 \<Longrightarrow> length (g ! r) = 28"
proof -
  have rows: "length ORIGINAL_MAP = 31 \<and> (\<forall>row\<in>set ORIGINAL_MAP. length row = 28)"
    by code_simp
  then show "length g = 31"
    using assms by (simp add: maze_def list_all2_lengthD)
  show "r < 31 \<Longrightarrow> length (g ! r) = 28"
    using assms rows by (auto simp: maze_def list_all2_conv_all_nth)
qed

lemma maze_cell:
  assumes "maze g" "0 \<le> c" "c < COLS" "0 \<le> r" "r < ROWS"
  shows "eaten_from (cell ORIGINAL_MAP c r) (cell g c r)"
  using assms maze_dims [OF assms(1)] by (auto simp: maze_def cell_def COLS_def ROWS_def list_all2_conv_all_nth)

lemma maze_clear_cell:
  assumes "maze g" "0 \<le> c" "c < COLS" "0 \<le> r" "r < ROWS" "is_pellet (cell g c r)"
  shows "maze (clear_cell c r g)"
proof -
  have "eaten_from (ORIGINAL_MAP ! nat r ! nat c) 0"
    using maze_cell [OF assms(1-5)] assms(6) by (auto simp: eaten_from_def cell_def is_pellet_def)
  moreover have "list_all2 eaten_from (ORIGINAL_MAP ! nat r) (g ! nat r)"
    using assms maze_dims [OF assms(1)] by (auto simp: maze_def ROWS_def list_all2_conv_all_nth)
  ultimately have "list_all2 eaten_from ((ORIGINAL_MAP ! nat r)[nat c := ORIGINAL_MAP ! nat r ! nat c]) ((g ! nat r)[nat c := 0])"
    by (rule list_all2_update_cong [rotated])
  then have "list_all2 (list_all2 eaten_from) (ORIGINAL_MAP[nat r := ORIGINAL_MAP ! nat r]) (g[nat r := (g ! nat r)[nat c := 0]])"
    using assms(1) by (intro list_all2_update_cong) (auto simp: maze_def)
  then show ?thesis
    by (simp add: maze_def clear_cell_def)
qed

lemma maze_original [simp]: "maze ORIGINAL_MAP"
  by (auto simp: maze_def list.rel_refl eaten_from_def intro!: list.rel_refl)

lemma walkable_maze:
  assumes "maze g"
  shows "walkable g c r = walkable ORIGINAL_MAP c r"
proof (cases "c < 0 \<or> COLS \<le> c \<or> r < 0 \<or> ROWS \<le> r")
  case False
  then have "eaten_from (cell ORIGINAL_MAP c r) (cell g c r)"
    using assms by (intro maze_cell) auto
  with False show ?thesis
    by (auto simp: walkable_def isTileWalkable_def eaten_from_def is_pellet_def Let_def)
qed (auto simp: walkable_def isTileWalkable_def)

section \<open>The invariant of the game\<close>

text \<open>The maze is an eaten original, the pellet counter counts it, the ghosts are the four, the code index is valid, a running game has lives left, and a round
  transition has a pending timeout that ends it.\<close>

definition game_ok :: "'a game_scheme \<Rightarrow> bool" where
  "game_ok s = (maze (grid s) \<and> totalPellets s = countPellets (grid s) \<and> initialPelletCount s = countPellets ORIGINAL_MAP \<and>
     map g_name (ghosts s) = map g_name ghosts0 \<and> konamiIndex s < length KONAMI_CODE \<and> 1 \<le> level s \<and>
     (gameRunning s \<longrightarrow> 0 < lives s \<and> \<not> gameOver s) \<and> (roundTransition s \<longrightarrow> 0 < roundEnds s))"

lemma game_ok_updateHUD [simp]: "game_ok (updateHUD s) = game_ok s"
  by (simp add: game_ok_def)

lemma game_ok_page [simp]: "game_ok (s\<lparr>page := p\<rparr>) = game_ok s"
  by (simp add: game_ok_def)

lemma names_place:
  assumes "map g_name gs = map g_name ghosts0"
  shows "map g_name (map2 place ghosts0 gs) = map g_name ghosts0"
proof -
  have "map g_name (map2 place hs gs) = map g_name gs" if "length hs = length gs" for hs
    using that by (induction hs gs rule: list_induct2) (auto simp: place_def)
  then show ?thesis
    using assms by (metis length_map)
qed

lemma names_update: "i < length gs \<Longrightarrow> g_name h = g_name (gs ! i) \<Longrightarrow> map g_name (gs[i := h]) = map g_name gs"
  by (simp add: map_update list_update_same_conv)

lemma game_ok_resetPositions [simp]: "game_ok s \<Longrightarrow> game_ok (resetPositions s)"
  by (simp add: game_ok_def resetPositions_def names_place del: map_map)

lemma game_ok_eat:
  assumes "game_ok s"
  shows "game_ok (eat s)"
proof -
  let ?c = "tile_of (px (pacman s))" and ?r = "tile_of (py (pacman s))"
  have "maze (grid s)"
    using assms by (simp add: game_ok_def)
  note dims = maze_dims [OF this]
  have "maze (clear_cell ?c ?r (grid s)) \<and> countPellets (clear_cell ?c ?r (grid s)) = totalPellets s - 1"
    if "0 \<le> ?c" "?c < COLS" "0 \<le> ?r" "?r < ROWS" "is_pellet (cell (grid s) ?c ?r)"
    using that assms dims by (auto simp: game_ok_def COLS_def ROWS_def intro!: maze_clear_cell clear_cell_count)
  then show ?thesis
    using assms by (auto simp: eat_def game_ok_def is_pellet_def Let_def)
qed

lemma game_ok_finish_round: "game_ok s \<Longrightarrow> game_ok (finish_round s)"
  by (auto simp: finish_round_def show_banner_def game_ok_def)

lemma game_ok_updatePacman: "game_ok s \<Longrightarrow> game_ok (updatePacman delta s)"
  unfolding updatePacman_def Let_def
  by (intro game_ok_finish_round game_ok_eat) (simp add: game_ok_def)

lemma game_ok_die: "game_ok s \<Longrightarrow> game_ok (die s)"
  by (cases "lives s \<le> 1") (auto simp: die_def Let_def game_ok_def resetPositions_def names_place simp del: map_map)

lemma game_ok_set_ghost:
  assumes "game_ok s" "i < length (ghosts s)" "g_name h = g_name (ghosts s ! i)"
  shows "game_ok (s\<lparr>ghosts := (ghosts s)[i := h]\<rparr>)"
  using assms by (simp add: game_ok_def names_update)

lemma game_ok_collide: "game_ok s \<Longrightarrow> i < length (ghosts s) \<Longrightarrow> game_ok (collide i s)"
  using game_ok_set_ghost [of s i "(ghosts s ! i)\<lparr>gx := 27 / 2 * TILE, gy := 14 * TILE, inHouse := True, releaseDelay := roundTimer s + 4\<rparr>"]
  by (auto simp: collide_def Let_def game_ok_die) (simp_all add: game_ok_def)

lemma ghost_moves_name [simp]:
  "g_name (release delta s g) = g_name g" "g_name (aim rnd s g) = g_name g" "g_name (choose_dir m g) = g_name g" "g_name (glide v g) = g_name g"
  by (auto simp: release_def aim_def choose_dir_def glide_def Let_def split: list.split)

lemma game_ok_updateGhost: "game_ok s \<Longrightarrow> i < length (ghosts s) \<Longrightarrow> game_ok (updateGhost rnd delta v i s)"
  unfolding updateGhost_def Let_def by (auto intro!: game_ok_set_ghost game_ok_collide)

lemma game_ok_ghosts: "game_ok s \<Longrightarrow> length (ghosts s) = 4"
  using map_eq_imp_length_eq [of g_name "ghosts s" g_name ghosts0] by (simp add: game_ok_def ghosts0_def)

lemma ghosts_fold:
  assumes "game_ok s" "set js \<subseteq> {..<4}"
  shows "game_ok (fold (updateGhost rnd delta v) js s)"
  using assms by (induction js arbitrary: s) (auto simp: game_ok_ghosts game_ok_updateGhost)

lemma game_ok_updateGhosts: "game_ok s \<Longrightarrow> game_ok (updateGhosts rnd delta s)"
  unfolding updateGhosts_def Let_def using game_ok_ghosts [of s]
  by (auto intro!: ghosts_fold) (simp_all add: game_ok_def)

lemma game_ok_new_round [simp]: "game_ok s \<Longrightarrow> game_ok (new_round s)"
  unfolding new_round_def by (rule game_ok_resetPositions) (simp add: game_ok_def)

lemma game_ok_media [simp]:
  "game_ok (s\<lparr>audio := a\<rparr>) = game_ok s" "game_ok (s\<lparr>canvas := cv\<rparr>) = game_ok s" "game_ok (s\<lparr>frames := n\<rparr>) = game_ok s" "game_ok (s\<lparr>lastFrameTime := now\<rparr>) = game_ok s"
  "game_ok (s\<lparr>touchStartX := x, touchStartY := y\<rparr>) = game_ok s"
  by (simp_all add: game_ok_def)

lemma game_ok_gameLoop: "game_ok s \<Longrightarrow> game_ok (gameLoop rnd date now s)"
  by (simp add: gameLoop_def Let_def game_ok_updateGhosts game_ok_updatePacman)

lemma game_ok_with_audio: "game_ok s \<Longrightarrow> (\<And>t. game_ok t \<Longrightarrow> game_ok (f t)) \<Longrightarrow> game_ok (with_audio f s)"
  by (simp add: with_audio_def split: option.split)

lemma game_ok_round_timeout: "game_ok s \<Longrightarrow> game_ok (round_timeout s)"
proof -
  assume ok: "game_ok s"
  have "game_ok ((new_round s)\<lparr>roundTransition := False, roundEnds := roundEnds s - 1\<rparr>)"
    using game_ok_new_round [OF ok] by (simp add: game_ok_def)
  with ok show ?thesis
    by (simp add: round_timeout_def Let_def)
qed

lemma game_ok_checkKonami: "game_ok s \<Longrightarrow> game_ok (checkKonami k s)"
  by (auto simp: checkKonami_def activateKonamiMode_def show_banner_def game_ok_def Let_def)

lemma game_ok_queueDirection: "game_ok s \<Longrightarrow> game_ok (queueDirection d s)"
  unfolding queueDirection_def by (rule game_ok_with_audio) (simp_all add: game_ok_def)

lemma game_ok_begin_game:
  assumes "game_ok s"
  shows "game_ok (begin_game now s)"
proof -
  let ?t = "s\<lparr>score := 0, level := 1, lives := (if konamiActivated s then 30 else 5), gameOver := False, gameRunning := True, roundTransition := False\<rparr>"
  have "game_ok (new_round ?t)"
    using assms by (intro game_ok_new_round) (simp add: game_ok_def)
  then show ?thesis
    by (simp add: begin_game_def game_ok_def)
qed

lemma game_ok_start_game: "game_ok s \<Longrightarrow> game_ok (start_game now s)"
  unfolding start_game_def by (rule game_ok_with_audio) (simp_all add: game_ok_begin_game)

lemma game_ok_keydown: "game_ok s \<Longrightarrow> game_ok (keydown k s)"
  unfolding keydown_def by (rule game_ok_with_audio) (auto simp: game_ok_checkKonami game_ok_queueDirection split: option.split)

lemma game_ok_touch: "game_ok s \<Longrightarrow> game_ok (touchstart x y s)" "game_ok s \<Longrightarrow> game_ok (touchend x y s)"
  by (auto simp: touchstart_def touchend_def game_ok_queueDirection intro!: game_ok_with_audio split: option.split)

lemma game_ok_load_game: "game_ok (load_game now au b)"
  by (simp add: load_game_def browser.extend_def) (simp add: game_ok_def KONAMI_CODE_def)

lemma played_ok: "played F s \<Longrightarrow> game_ok s"
  by (induction rule: played.induct)
    (auto simp: game_ok_load_game game_ok_gameLoop game_ok_round_timeout game_ok_checkKonami game_ok_queueDirection game_ok_start_game game_ok_keydown game_ok_touch)

text \<open>C20. Whatever is pressed and however the frames fall, the maze stays the original one less the eaten pellets, the counter of pellets is exact, a running game has
  lives left, the entered part of the hidden code is a proper prefix, and a round transition always has a pending timeout that ends it.\<close>

theorem game_invariant: "played F s \<Longrightarrow> game_ok s"
  by (rule played_ok)

definition blank_browser :: browser where
  "blank_browser = \<lparr>localStorage = \<lparr>items = Map.empty, can_read = True, can_write = True\<rparr>, sessionStorage = \<lparr>items = Map.empty, can_read = True, can_write = True\<rparr>,
     cookie = [], page = Map.empty, sent = [], navs = [], alerts = []\<rparr>"

definition still :: draw_times where
  "still = \<lparr>at_tile = (\<lambda>_ _. 0), at_pacman = 0, at_ghost = (\<lambda>_. 0)\<rparr>"

theorem game_invariant_witness:
  "let s = gameLoop (\<lambda>_. (0, 0)) still 50 (start_game 0 (load_game 0 (Some Suspended) blank_browser)) in played (\<lambda>_ _. True) s \<and> game_ok s"
proof -
  let ?s = "gameLoop (\<lambda>_. (0, 0)) still 50 (start_game 0 (load_game 0 (Some Suspended) blank_browser))"
  have "played (\<lambda>_ _. True) ?s"
    by (intro played.intros TrueI)
  then show ?thesis
    using game_invariant [where s = ?s and F = "\<lambda>_ _. True"] by (simp add: Let_def)
qed

section \<open>Pac-Man stays in the maze\<close>

text \<open>A direction is one of the four, or none.\<close>

definition direction :: "int \<times> int \<Rightarrow> bool" where
  "direction d = (d \<in> {(0, 0), (1, 0), (-1, 0), (0, 1), (0, -1)})"

definition on_track :: "pac \<Rightarrow> bool" where
  "on_track p = (let c = tile_of (px p); r = tile_of (py p) in 0 \<le> c \<and> c < COLS \<and> 0 \<le> r \<and> r < ROWS \<and> walkable ORIGINAL_MAP c r \<and>
     direction (dirX p, dirY p) \<and> direction (desiredDirX p, desiredDirY p))"

text \<open>A frame in which Pac-Man moves by at most half a tile.\<close>

definition smooth :: "'a game_scheme \<Rightarrow> rat \<Rightarrow> bool" where
  "smooth s now = (0 \<le> pacmanSpeed s * frame_delta now s \<and> pacmanSpeed s * frame_delta now s \<le> TILE / 2)"

lemma tile_of_eq: "tile_of x = c \<longleftrightarrow> 12 * of_int c \<le> x \<and> x < 12 * of_int c + 12"
  by (auto simp: tile_of_def TILE_def floor_eq_iff field_simps)

lemma tile_of_bounds: "12 * of_int (tile_of x) \<le> x" "x < 12 * of_int (tile_of x) + 12"
  using tile_of_eq by blast+

lemma center_of_tile [simp]: "tile_of (center_of c) = c"
  by (simp add: tile_of_eq center_of_def TILE_def)

lemma tunnel_columns:
  assumes "0 \<le> r" "r < ROWS"
  shows "walkable ORIGINAL_MAP 0 r = walkable ORIGINAL_MAP 27 r"
proof -
  have "list_all (\<lambda>r. walkable ORIGINAL_MAP 0 r = walkable ORIGINAL_MAP 27 r) [0..30]"
    by code_simp
  then show ?thesis
    using assms by (auto simp: list_all_iff ROWS_def)
qed

lemma rim_rows: "walkable ORIGINAL_MAP c r \<Longrightarrow> 0 \<le> c \<Longrightarrow> c < COLS \<Longrightarrow> 0 \<le> r \<and> r < ROWS"
  by (auto simp: walkable_def isTileWalkable_def split: if_splits)

text \<open>Where the front tile is a wall, Pac-Man has not reached the middle of his tile.\<close>

definition ahead_clear :: "int \<Rightarrow> int \<Rightarrow> pac \<Rightarrow> bool" where
  "ahead_clear c r p = (dirX p = 0 \<and> dirY p = 0 \<or> walkable ORIGINAL_MAP (c + dirX p) (r + dirY p) \<or> \<not> past_center c r p)"

lemma on_track_turn:
  assumes "on_track p" "c = tile_of (px p)" "r = tile_of (py p)" "direction (dx, dy)"
  shows "on_track (set_dir dx dy (to_center c r p))"
  using assms by (simp add: on_track_def set_dir_def to_center_def Let_def)

lemma on_track_clear: "on_track p \<Longrightarrow> on_track (clear_desired p)"
  by (simp add: on_track_def clear_desired_def Let_def) (simp add: direction_def)

lemma on_track_desired: "on_track p \<Longrightarrow> direction (desiredDirX p, desiredDirY p)"
  by (simp add: on_track_def Let_def)

lemma moves_tile [simp]:
  "px (clear_desired p) = px p" "py (clear_desired p) = py p" "px (set_dir dx dy p) = px p" "py (set_dir dx dy p) = py p"
  "px (to_center c r p) = center_of c" "py (to_center c r p) = center_of r"
  by (simp_all add: clear_desired_def set_dir_def to_center_def)

lemma steer_track:
  assumes "on_track p" "c = tile_of (px p)" "r = tile_of (py p)"
  shows "on_track (steer g mdist c r p)" "tile_of (px (steer g mdist c r p)) = c" "tile_of (py (steer g mdist c r p)) = r"
  using assms by (auto simp: steer_def on_track_def clear_desired_def set_dir_def to_center_def direction_def Let_def)

lemma corner_track:
  assumes "on_track p" "c = tile_of (px p)" "r = tile_of (py p)" "maze g"
  shows "on_track (corner g c r p)" "tile_of (px (corner g c r p)) = c" "tile_of (py (corner g c r p)) = r" "ahead_clear c r (corner g c r p)"
proof -
  have turn: "direction d \<and> walkable ORIGINAL_MAP (c + fst d) (r + snd d)" if "open_turns g c r p = d # ds" for d ds
  proof -
    have "d \<in> set (open_turns g c r p)"
      using that by simp
    then show ?thesis
      by (auto simp: open_turns_def direction_def walkable_maze [OF assms(4)] split: if_splits)
  qed
  have none: "direction (0, 0)"
    by (simp add: direction_def)
  show "on_track (corner g c r p)"
    using assms turn none by (auto simp: corner_def Let_def split: list.split intro!: on_track_clear on_track_turn on_track_desired)
  show "tile_of (px (corner g c r p)) = c" "tile_of (py (corner g c r p)) = r"
    using assms by (auto simp: corner_def Let_def split: list.split)
  show "ahead_clear c r (corner g c r p)"
    using turn by (auto simp: corner_def ahead_clear_def walkable_maze [OF assms(4)] clear_desired_def set_dir_def to_center_def Let_def split: list.split)
qed

text \<open>One move. The column after the wrap at the ends of a row: \<open>0\<close>, \<open>27\<close> or the unwrapped one.\<close>

lemma wrap_x_tile:
  assumes "walkable ORIGINAL_MAP (tile_of x) r" "0 \<le> r" "r < ROWS" "-1 \<le> tile_of x" "tile_of x \<le> 28"
    and "tile_of x = -1 \<Longrightarrow> walkable ORIGINAL_MAP 0 r" "tile_of x = 28 \<Longrightarrow> walkable ORIGINAL_MAP 27 r"
  shows "0 \<le> tile_of (wrap_x x) \<and> tile_of (wrap_x x) < COLS \<and> walkable ORIGINAL_MAP (tile_of (wrap_x x)) r"
proof -
  have zero: "tile_of 0 = 0" and last: "tile_of 324 = 27"
    by (simp_all add: tile_of_eq)
  note tunnel = tunnel_columns [OF assms(2,3)]
  consider "x < 0" | "0 \<le> x" "x \<le> 324" | "324 < x"
    by linarith
  then show ?thesis
  proof cases
    case 1
    then have "tile_of x < 0"
      by (simp add: tile_of_def TILE_def floor_less_iff)
    then have "tile_of x = -1"
      using assms(4) by linarith
    with 1 assms tunnel last show ?thesis
      by (simp add: wrap_x_def COLS_def TILE_def Let_def)
  next
    case 2
    then have "0 \<le> tile_of x" "tile_of x \<le> 27"
      by (auto simp: tile_of_def TILE_def floor_le_iff)
    with 2 assms show ?thesis
      by (simp add: wrap_x_def COLS_def TILE_def Let_def)
  next
    case 3
    then have "27 \<le> tile_of x"
      by (auto simp: tile_of_def TILE_def le_floor_iff)
    then have "tile_of x = 27 \<or> tile_of x = 28"
      using assms(5) by linarith
    with 3 assms tunnel zero show ?thesis
      by (auto simp: wrap_x_def COLS_def TILE_def Let_def)
  qed
qed

lemma shift_tile:
  assumes "0 \<le> d" "d \<le> 6"
  shows "tile_of (x + d) = tile_of x \<or> tile_of (x + d) = tile_of x + 1 \<and> center_of (tile_of x) \<le> x"
    and "tile_of (x - d) = tile_of x \<or> tile_of (x - d) = tile_of x - 1 \<and> x \<le> center_of (tile_of x)"
  using assms tile_of_bounds [of x] by (auto simp: tile_of_eq center_of_def TILE_def)

lemma on_track_at:
  assumes "on_track p" "tile_of y = r" "walkable ORIGINAL_MAP (tile_of x) r" "0 \<le> r" "r < ROWS" "-1 \<le> tile_of x" "tile_of x \<le> 28"
    and "tile_of x = -1 \<Longrightarrow> walkable ORIGINAL_MAP 0 r" "tile_of x = 28 \<Longrightarrow> walkable ORIGINAL_MAP 27 r"
    and "px q = wrap_x x" "py q = y" "dirX q = dirX p" "dirY q = dirY p" "desiredDirX q = desiredDirX p" "desiredDirY q = desiredDirY p"
  shows "on_track q"
  using wrap_x_tile [OF assms(3-9)] assms by (simp add: on_track_def Let_def)

lemma advance_track:
  assumes track: "on_track p" and c: "c = tile_of (px p)" and r: "r = tile_of (py p)" and clear: "ahead_clear c r p" and d: "0 \<le> d" "d \<le> 6"
  shows "on_track (advance d delta lv c r p)"
proof -
  let ?q = "advance d delta lv c r p"
  have here: "0 \<le> c" "c \<le> 27" "0 \<le> r" "r < ROWS" "walkable ORIGINAL_MAP c r"
    using track c r by (auto simp: on_track_def COLS_def Let_def)
  have keep: "dirX ?q = dirX p" "dirY ?q = dirY p" "desiredDirX ?q = desiredDirX p" "desiredDirY ?q = desiredDirY p"
    by (simp_all add: advance_def Let_def)
  have horizontal: "on_track ?q" if dir: "dirX p = 1 \<or> dirX p = -1" "dirY p = 0"
  proof -
    let ?x = "px p + of_int (dirX p) * d"
    have "tile_of ?x = c \<or> tile_of ?x = c + dirX p \<and> past_center c r p"
      using shift_tile [OF d, of "px p"] dir c by (auto simp: past_center_def)
    then have "tile_of ?x = c \<or> tile_of ?x = c + dirX p \<and> walkable ORIGINAL_MAP (c + dirX p) r"
      using clear dir by (auto simp: ahead_clear_def)
    then show ?thesis
      using here dir by (intro on_track_at [OF track, where x = ?x and y = "center_of r" and r = r]) (auto simp: advance_def Let_def)
  qed
  have vertical: "on_track ?q" if dir: "dirX p = 0" "dirY p = 1 \<or> dirY p = -1"
  proof -
    let ?y = "py p + of_int (dirY p) * d"
    have "tile_of ?y = r \<or> tile_of ?y = r + dirY p \<and> past_center c r p"
      using shift_tile [OF d, of "py p"] dir r by (auto simp: past_center_def)
    then have "walkable ORIGINAL_MAP c (tile_of ?y)"
      using clear dir here by (auto simp: ahead_clear_def)
    then show ?thesis
      using here dir rim_rows [of c "tile_of ?y"]
      by (intro on_track_at [OF track, where x = "center_of c" and y = ?y and r = "tile_of ?y"]) (auto simp: advance_def COLS_def Let_def)
  qed
  have "direction (dirX p, dirY p)"
    using track by (simp add: on_track_def Let_def)
  then consider "dirX p = 0" "dirY p = 0" | "dirX p = 1 \<or> dirX p = -1" "dirY p = 0" | "dirX p = 0" "dirY p = 1 \<or> dirY p = -1"
    unfolding direction_def by auto
  then show ?thesis
  proof cases
    case 1
    then show ?thesis
      using track by (simp add: advance_def)
  qed (rule horizontal vertical; assumption)+
qed

lemma on_track_start:
  assumes "px p = px pacman0" "py p = py pacman0" "dirX p = -1" "dirY p = 0" "desiredDirX p = -1" "desiredDirY p = 0"
  shows "on_track p"
proof -
  have tiles: "tile_of (px pacman0) = 14" "tile_of (py pacman0) = 23"
    by (simp_all add: tile_of_eq pacman0_def TILE_def)
  have "walkable ORIGINAL_MAP 14 23"
    by code_simp
  with tiles assms show ?thesis
    by (simp add: on_track_def direction_def COLS_def ROWS_def)
qed

lemma on_track_reset [simp]: "on_track (pacman (resetPositions s))"
  by (rule on_track_start) (simp_all add: resetPositions_def)

lemma pacman_kept [simp]: "pacman (eat s) = pacman s" "pacman (finish_round s) = pacman s"
  by (simp_all add: eat_def finish_round_def show_banner_def Let_def)

lemma track_updatePacman:
  assumes "on_track (pacman s)" "maze (grid s)" "0 \<le> pacmanSpeed s * delta" "pacmanSpeed s * delta \<le> 6"
  shows "on_track (pacman (updatePacman delta s))"
proof -
  let ?p = "pacman s"
  let ?c = "tile_of (px ?p)" and ?r = "tile_of (py ?p)"
  let ?a = "steer (grid s) (pacmanSpeed s * delta) ?c ?r ?p"
  note a = steer_track [OF assms(1) refl refl, where g = "grid s" and mdist = "pacmanSpeed s * delta"]
  note b = corner_track [OF a(1) a(2) [symmetric] a(3) [symmetric] assms(2)]
  show ?thesis
    using advance_track [OF b(1) b(2) [symmetric] b(3) [symmetric] b(4) assms(3,4)] by (simp add: updatePacman_def Let_def)
qed

lemma track_collide: "on_track (pacman s) \<Longrightarrow> on_track (pacman (collide i s))"
  by (simp add: collide_def die_def Let_def)

lemma track_ghosts: "on_track (pacman s) \<Longrightarrow> on_track (pacman (fold (updateGhost rnd delta v) js s))"
proof (induction js arbitrary: s)
  case (Cons i js)
  then have "on_track (pacman (updateGhost rnd delta v i s))"
    by (simp add: updateGhost_def Let_def track_collide)
  then show ?case
    using Cons.IH by simp
qed simp

lemma track_updateGhosts: "on_track (pacman s) \<Longrightarrow> on_track (pacman (updateGhosts rnd delta s))"
  by (simp add: updateGhosts_def Let_def track_ghosts)

lemma track_gameLoop:
  assumes "on_track (pacman s)" "game_ok s" "smooth s now"
  shows "on_track (pacman (gameLoop rnd date now s))"
proof -
  have "on_track (pacman (updatePacman (frame_delta now s) (s\<lparr>frames := n, lastFrameTime := now, canvas := cv\<rparr>)))" for n cv
    using assms by (intro track_updatePacman) (simp_all add: smooth_def game_ok_def pacmanSpeed_def TILE_def)
  then show ?thesis
    using assms(1) by (simp add: gameLoop_def frame_delta_def Let_def track_updateGhosts)
qed

lemma track_with_audio: "on_track (pacman s) \<Longrightarrow> (\<And>t. on_track (pacman t) \<Longrightarrow> on_track (pacman (f t))) \<Longrightarrow> on_track (pacman (with_audio f s))"
  by (simp add: with_audio_def split: option.split)

lemma track_queue: "on_track (pacman s) \<Longrightarrow> direction d \<Longrightarrow> on_track (pacman (queueDirection d s))"
  unfolding queueDirection_def by (rule track_with_audio) (auto simp: on_track_def Let_def)

lemma track_konami: "on_track (pacman s) \<Longrightarrow> on_track (pacman (checkKonami k s))"
  by (simp add: checkKonami_def activateKonamiMode_def show_banner_def)

lemma track_begin [simp]: "on_track (pacman (begin_game now s))"
  by (simp add: begin_game_def new_round_def)

lemma key_dir_direction: "key_dir k = Some d \<Longrightarrow> direction d" "swipe_dir dx dy = Some d \<Longrightarrow> direction d"
  by (auto simp: key_dir_def swipe_dir_def direction_def split: if_splits)

text \<open>C9. As long as every frame moves Pac-Man by at most half a tile he is on a walkable tile inside the maze, whatever is pressed: he never enters a wall, the ghost
  house or the outside, the tunnel and the turns included.\<close>

theorem pacman_stays_on_track:
  assumes "played smooth s"
  shows "on_track (pacman s)"
  using assms
proof (induction rule: played.induct)
  case (load now au b)
  show ?case
    by (rule on_track_start) (simp_all add: load_game_def browser.extend_def pacman0_def)
next
  case (frame s now rnd date)
  then show ?case
    by (intro track_gameLoop) (auto elim!: played_ok)
next
  case (key s k)
  then show ?case
    by (auto simp: keydown_def track_konami key_dir_direction split: option.split intro!: track_with_audio track_queue)
next
  case (swipe s x y)
  then show ?case
    by (auto simp: touchend_def key_dir_direction split: option.split intro!: track_queue)
qed (auto simp: round_timeout_def new_round_def touchstart_def start_game_def Let_def track_konami direction_def intro!: track_queue track_with_audio)

lemma load_game_fields [simp]:
  "pacman (load_game now au b) = pacman0" "level (load_game now au b) = 1" "konamiActivated (load_game now au b) = False" "grid (load_game now au b) = ORIGINAL_MAP"
  "gameRunning (load_game now au b) = False" "konamiIndex (load_game now au b) = 0" "audio (load_game now au b) = audio0 au" "canvas (load_game now au b) = canvas0"
  "frames (load_game now au b) = 0" "lives (load_game now au b) = 5" "totalPellets (load_game now au b) = countPellets ORIGINAL_MAP"
  by (simp_all add: load_game_def browser.extend_def)

lemma begin_game_fields [simp]:
  "level (begin_game now s) = 1" "konamiActivated (begin_game now s) = konamiActivated s" "lastFrameTime (begin_game now s) = now"
  "gameRunning (begin_game now s) = True" "frames (begin_game now s) = frames s + 1" "audio (begin_game now s) = audio s" "canvas (begin_game now s) = canvas s"
  by (simp_all add: begin_game_def new_round_def resetPositions_def)

theorem pacman_stays_on_track_witness:
  "let s = start_game 0 (load_game 0 (Some Suspended) blank_browser) in smooth s 50 \<and> on_track (pacman (gameLoop (\<lambda>_. (0, 0)) still 50 s))"
proof -
  let ?s = "start_game 0 (load_game 0 (Some Suspended) blank_browser)"
  have ok: "smooth ?s 50"
    by (simp add: smooth_def pacmanSpeed_def frame_delta_def TILE_def start_game_def with_audio_def initAudio_def audio0_def)
  then have "played smooth (gameLoop (\<lambda>_. (0, 0)) still 50 ?s)"
    by (intro played.intros)
  from pacman_stays_on_track [OF this] ok show ?thesis
    by (simp add: Let_def)
qed

text \<open>A frame of 50 ms moves him by more than half a tile from the second round on: then he can enter a wall. He is in row 1, column 12, moving right.\<close>

definition late_pac :: pac where
  "late_pac = pacman0\<lparr>px := 12 * 12 + 59 / 10, py := 18, dirX := 1, dirY := 0, desiredDirX := 0, desiredDirY := 0\<rparr>"

theorem slow_frame_enters_wall:
  "let s = (load_game 0 None blank_browser)\<lparr>level := 2, pacman := late_pac\<rparr>; t = updatePacman (frame_delta 50 s) s in
     walkable (grid s) (tile_of (px (pacman s))) (tile_of (py (pacman s))) \<and> \<not> walkable (grid t) (tile_of (px (pacman t))) (tile_of (py (pacman t)))"
  by code_simp

section \<open>The hidden code and the high score\<close>

lemma activate_fields [simp]:
  "konamiActivated (activateKonamiMode s)" "lives (activateKonamiMode s) = 30" "konamiIndex (activateKonamiMode s) = konamiIndex s"
  by (simp_all add: activateKonamiMode_def show_banner_def)

lemma queue_fields [simp]:
  "konamiActivated (queueDirection d s) = konamiActivated s" "lives (queueDirection d s) = lives s" "konamiIndex (queueDirection d s) = konamiIndex s"
  by (simp_all add: queueDirection_def with_audio_def split: option.split)

text \<open>Keys are read when the browser has Web Audio.\<close>

definition audio_ready :: "'a game_scheme \<Rightarrow> bool" where
  "audio_ready s = (initAudio (audio s) \<noteq> None)"

lemma initAudio_again: "initAudio a = Some b \<Longrightarrow> initAudio b \<noteq> None"
  by (auto simp: initAudio_def split: option.splits)

lemma sounds_ready [simp]: "initAudio (playKonamiFanfare a) = None \<longleftrightarrow> initAudio a = None"
  by (auto simp: initAudio_def playKonamiFanfare_def later_def split: option.splits)

lemma initAudio_konami: "initAudio (audio (checkKonami k s)) = None \<longleftrightarrow> initAudio (audio s) = None"
  by (simp add: checkKonami_def activateKonamiMode_def show_banner_def)

lemma ready_konami [simp]: "audio_ready (checkKonami k s) = audio_ready s"
  by (simp add: audio_ready_def initAudio_konami)

lemma ready_with_audio:
  assumes "audio_ready s" "\<And>t. audio_ready t \<Longrightarrow> audio_ready (f t)"
  shows "audio_ready (with_audio f s)"
  using assms initAudio_again by (fastforce simp: audio_ready_def with_audio_def)

lemma keydown_ready: "audio_ready s \<Longrightarrow> audio_ready (keydown k s)"
  unfolding keydown_def queueDirection_def
  by (rule ready_with_audio) (auto intro!: ready_with_audio simp: audio_ready_def [of "_\<lparr>pacman := _\<rparr>"] split: option.split, simp add: audio_ready_def)

lemma checkKonami_audio:
  "konamiActivated (checkKonami k (s\<lparr>audio := a\<rparr>)) = konamiActivated (checkKonami k s)" "lives (checkKonami k (s\<lparr>audio := a\<rparr>)) = lives (checkKonami k s)"
  "konamiIndex (checkKonami k (s\<lparr>audio := a\<rparr>)) = konamiIndex (checkKonami k s)"
  by (simp_all add: checkKonami_def)

lemma keydown_fields [simp]:
  assumes "audio_ready s"
  shows "konamiActivated (keydown k s) = konamiActivated (checkKonami k s)" "lives (keydown k s) = lives (checkKonami k s)"
  "konamiIndex (keydown k s) = konamiIndex (checkKonami k s)"
  using assms by (auto simp: keydown_def with_audio_def audio_ready_def checkKonami_audio split: option.split)

text \<open>The keys of the code, from the start: what the code index and the mode are after any number of them.\<close>

lemma code_prefix:
  assumes "konamiIndex s = 0" "audio_ready s" "n < length KONAMI_CODE"
  shows "konamiIndex (fold keydown (take n KONAMI_CODE) s) = n \<and> konamiActivated (fold keydown (take n KONAMI_CODE) s) = konamiActivated s \<and>
    audio_ready (fold keydown (take n KONAMI_CODE) s)"
  using assms(3)
proof (induction n)
  case (Suc n)
  then show ?case
    by (simp add: take_Suc_conv_app_nth checkKonami_def keydown_ready)
qed (use assms in simp)

text \<open>Typing the code when no part of it has been entered turns the mode on with 30 lives, and the next code can be entered; no proper beginning of it does.\<close>

theorem konami_code_activates:
  assumes "konamiIndex s = 0" "audio_ready s"
  shows "konamiActivated (fold keydown KONAMI_CODE s) \<and> lives (fold keydown KONAMI_CODE s) = 30 \<and> konamiIndex (fold keydown KONAMI_CODE s) = 0 \<and>
    (\<forall>n<length KONAMI_CODE. konamiActivated (fold keydown (take n KONAMI_CODE) s) = konamiActivated s)"
proof -
  let ?n = "length KONAMI_CODE - 1"
  let ?t = "fold keydown (take ?n KONAMI_CODE) s"
  have n: "?n < length KONAMI_CODE" "?n + 1 = length KONAMI_CODE"
    by (simp_all add: KONAMI_CODE_def)
  have "fold keydown KONAMI_CODE s = fold keydown (take ?n KONAMI_CODE @ [KONAMI_CODE ! ?n]) s"
    by (rule arg_cong [where f = "\<lambda>ks. fold keydown ks s"]) (simp add: KONAMI_CODE_def)
  then have "fold keydown KONAMI_CODE s = keydown (KONAMI_CODE ! ?n) ?t"
    by simp
  moreover have "konamiIndex ?t = ?n" "audio_ready ?t"
    using code_prefix [OF assms n(1)] by blast+
  ultimately show ?thesis
    using n code_prefix [OF assms] by (simp add: checkKonami_def)
qed

lemma load_ready: "audio_ready (load_game now (Some c) b)"
  by (simp add: audio_ready_def initAudio_def audio0_def)

theorem konami_code_activates_witness:
  "konamiIndex (load_game 0 (Some Running) blank_browser) = 0 \<and> lives (fold keydown KONAMI_CODE (load_game 0 (Some Running) blank_browser)) = 30"
  using konami_code_activates [of "load_game 0 (Some Running) blank_browser"] load_ready by simp

text \<open>A wrong key is not read as the first one of a new attempt: with one \<open>ArrowUp\<close> too many before it the code does nothing.\<close>

theorem konami_extra_key:
  "\<not> konamiActivated (fold keydown (''ArrowUp'' # KONAMI_CODE) (load_game 0 (Some Running) blank_browser))"
  by (simp add: KONAMI_CODE_def checkKonami_def lower_def load_ready keydown_ready)

text \<open>A stored high score that is not a number is never replaced.\<close>

theorem broken_high_score_stays:
  assumes "highScore s = NaN"
  shows "highScore (updateHUD s) = NaN \<and> localStorage (updateHUD s) = localStorage s"
  using assms by (simp add: updateHUD_def Let_def)

end
