(* ===== verification/PacmanScreen.thy ===== *)
theory PacmanScreen
  imports PacmanGame
begin

text \<open>
  What the arcade game plays and draws: the sounds and the picture have no influence on the game, every frame starts from a clean drawing state and shows the maze as it is, every tone is one the audio
  interface accepts, and a browser without Web Audio cannot start the game.
\<close>

section \<open>Runs\<close>

text \<open>What the player and the browser's clock do, as data; what else happens in between on the screen and in the audio context.\<close>

datatype input = Frame "string \<Rightarrow> rat \<times> rat" rat | RoundEnd | Key string | Pad "int \<times> int" | Code string | Touch rat rat | Swipe rat rat | Start rat

datatype media = ToneTimeout nat | Resumed | Elapse rat

fun react :: "draw_times \<Rightarrow> input \<Rightarrow> game \<Rightarrow> game" where
  "react date (Frame rnd now) s = gameLoop rnd date now s"
| "react date RoundEnd s = round_timeout s"
| "react date (Key k) s = keydown k s"
| "react date (Pad d) s = queueDirection d s"
| "react date (Code k) s = checkKonami k s"
| "react date (Touch x y) s = touchstart x y s"
| "react date (Swipe x y) s = touchend x y s"
| "react date (Start now) s = start_game now s"

fun hear :: "media \<Rightarrow> game \<Rightarrow> game" where
  "hear (ToneTimeout i) s = play (tone_timeout i) s"
| "hear Resumed s = play audio_resumed s"
| "hear (Elapse d) s = play (audio_elapse d) s"

definition run_step :: "input \<times> draw_times \<times> media list \<Rightarrow> game \<Rightarrow> game" where
  "run_step x s = (case x of (i, date, ms) \<Rightarrow> fold hear ms (react date i s))"

section \<open>The game does not depend on its sounds and its picture\<close>

text \<open>The state without them, and states that agree on it.\<close>

definition rules :: "'a game_scheme \<Rightarrow> 'a game_scheme" where
  "rules s = s\<lparr>audio := audio0 None, canvas := canvas0\<rparr>"

definition same_game :: "'a game_scheme \<Rightarrow> 'a game_scheme \<Rightarrow> bool" where
  "same_game s t = (rules s = rules t)"

lemma rules_media [simp]: "rules (s\<lparr>audio := a\<rparr>) = rules s" "rules (s\<lparr>canvas := cv\<rparr>) = rules s"
  by (simp_all add: rules_def)

lemma rules_put_back: "(rules s)\<lparr>audio := a, canvas := cv\<rparr> = s\<lparr>audio := a, canvas := cv\<rparr>"
  by (simp add: rules_def)

lemma media_same: "s\<lparr>audio := audio s, canvas := canvas s\<rparr> = s"
  by simp

text \<open>A function that does not look at the sounds and the picture maps states that agree to states that agree.\<close>

definition blind :: "('a game_scheme \<Rightarrow> 'a game_scheme) \<Rightarrow> bool" where
  "blind f = (\<forall>s a cv. same_game (f (s\<lparr>audio := a, canvas := cv\<rparr>)) (f s))"

lemma same_game_eq: "same_game s t \<Longrightarrow> t = s\<lparr>audio := audio t, canvas := canvas t\<rparr>"
  using rules_put_back [where s = s and a = "audio t" and cv = "canvas t"] rules_put_back [where s = t and a = "audio t" and cv = "canvas t"]
  by (simp add: same_game_def)

lemma blindD:
  assumes "blind f" "same_game s t"
  shows "same_game (f s) (f t)"
proof -
  have "rules (f (s\<lparr>audio := audio t, canvas := canvas t\<rparr>)) = rules (f s)"
    using assms(1) by (simp add: blind_def same_game_def)
  then show ?thesis
    using same_game_eq [OF assms(2)] by (simp add: same_game_def)
qed

lemma blindI: "(\<And>s a cv. same_game (f (s\<lparr>audio := a, canvas := cv\<rparr>)) (f s)) \<Longrightarrow> blind f"
  by (simp add: blind_def)

lemma same_game_refl [simp]: "same_game s s"
  by (simp add: same_game_def)

lemma same_game_media [simp]:
  "same_game (s\<lparr>audio := a\<rparr>) t = same_game s t" "same_game s (t\<lparr>audio := a\<rparr>) = same_game s t"
  "same_game (s\<lparr>canvas := cv\<rparr>) t = same_game s t" "same_game s (t\<lparr>canvas := cv\<rparr>) = same_game s t"
  by (simp_all add: same_game_def)

lemma blind_comp: "blind f \<Longrightarrow> blind g \<Longrightarrow> blind (\<lambda>s. g (f s))"
  by (rule blindI) (simp add: blindD)

lemma blind_updateHUD: "blind updateHUD"
  by (rule blindI) (auto simp: same_game_def rules_def game_ops)

lemmas same_HUD = blindD [OF blind_updateHUD]

lemma blind_resetPositions: "blind resetPositions"
  by (rule blindI) (simp add: same_game_def rules_def resetPositions_def)

lemma blind_eat: "blind eat"
  by (rule blindI) (auto simp: eat_def Let_def intro!: same_HUD, (simp add: same_game_def rules_def frightenedDuration_def)+)

lemma blind_finish_round: "blind finish_round"
  by (rule blindI) (simp add: finish_round_def show_banner_def, simp add: same_game_def rules_def)

lemma blind_page: "blind (\<lambda>s. s\<lparr>page := F (page s)\<rparr>)"
  by (rule blindI) (simp add: same_game_def rules_def)

lemma blind_game_over: "blind (\<lambda>s. s\<lparr>gameOver := True, gameRunning := False\<rparr>)"
  by (rule blindI) (simp add: same_game_def rules_def)

lemma blind_die: "blind die"
proof (rule blindI)
  fix s :: "'a game_scheme" and a cv
  let ?hurt = "\<lambda>t. updateHUD (play playDeathSound (t\<lparr>lives := lives t - 1\<rparr>))" and ?s = "s\<lparr>audio := a, canvas := cv\<rparr>"
  have hurt: "same_game (?hurt ?s) (?hurt s)"
    by (rule same_HUD) (simp, simp add: same_game_def rules_def)
  show "same_game (die ?s) (die s)"
  proof (cases "lives s - 1 \<le> 0")
    case True
    then show ?thesis
      using blindD [OF blind_page, OF blindD [OF blind_page, OF blindD [OF blind_page, OF blindD [OF blind_game_over hurt]]]] by (simp add: die_def Let_def)
  next
    case False
    then show ?thesis
      using blindD [OF blind_resetPositions hurt] by (simp add: die_def Let_def)
  qed
qed

lemma blind_collide: "blind (collide i)"
proof (rule blindI)
  fix s :: "'a game_scheme" and a cv
  let ?s = "s\<lparr>audio := a, canvas := cv\<rparr>"
  let ?eaten = "\<lambda>t. updateHUD (play playEatGhostSound (t\<lparr>score := score t + 200 * level t,
    ghosts := (ghosts t)[i := (ghosts t ! i)\<lparr>gx := 27 / 2 * TILE, gy := 14 * TILE, inHouse := True, releaseDelay := roundTimer t + 4\<rparr>]\<rparr>))"
  have "same_game (?eaten ?s) (?eaten s)"
    by (rule same_HUD) (simp, simp add: same_game_def rules_def)
  then show "same_game (collide i ?s) (collide i s)"
    using blindD [OF blind_die, of ?s s] by (simp add: collide_def Let_def)
qed

lemma blind_updateGhost: "blind (updateGhost rnd delta v i)"
proof (rule blindI)
  fix s :: "'a game_scheme" and a cv
  let ?s = "s\<lparr>audio := a, canvas := cv\<rparr>"
  have look: "release delta ?s g = release delta s g" "aim rnd ?s g = aim rnd s g" for g
    by (simp_all add: release_def aim_def Let_def)
  have "same_game (?s\<lparr>ghosts := gs\<rparr>) (s\<lparr>ghosts := gs\<rparr>)" for gs
    by (simp add: same_game_def rules_def)
  then show "same_game (updateGhost rnd delta v i ?s) (updateGhost rnd delta v i s)"
    by (auto simp: updateGhost_def Let_def look intro!: blindD [OF blind_collide])
qed

lemma blind_fold: "(\<And>x. blind (f x)) \<Longrightarrow> blind (fold f xs)"
proof (induction xs)
  case Nil
  then show ?case
    by (simp add: blind_def)
next
  case (Cons x xs)
  then show ?case
    using blind_comp [of "f x" "fold f xs"] by (simp add: comp_def)
qed

definition tick :: "rat \<Rightarrow> 'a game_scheme \<Rightarrow> 'a game_scheme" where
  "tick delta s = s\<lparr>roundTimer := roundTimer s + delta / 60, frightenedTimer := (if 0 < frightenedTimer s then frightenedTimer s - delta else frightenedTimer s)\<rparr>"

definition ghost_way :: "rat \<Rightarrow> 'a game_scheme \<Rightarrow> rat" where
  "ghost_way delta s = (if 0 < frightenedTimer s then ghostSpeed s * 9 / 20 else ghostSpeed s) * delta"

lemma updateGhosts_tick:
  "updateGhosts rnd delta s = (if roundTransition s then s
     else fold (updateGhost rnd delta (ghost_way delta (tick delta s))) [0..<length (ghosts s)] (tick delta s))"
  unfolding updateGhosts_def tick_def ghost_way_def Let_def by simp

lemma blind_tick: "blind (tick delta)"
  by (rule blindI) (simp add: same_game_def rules_def tick_def)

lemma blind_updateGhosts: "blind (updateGhosts rnd delta)"
proof (rule blindI)
  fix s :: "'a game_scheme" and a cv
  let ?s = "s\<lparr>audio := a, canvas := cv\<rparr>"
  have way: "ghost_way delta (tick delta ?s) = ghost_way delta (tick delta s)"
    by (simp add: ghost_way_def tick_def ghostSpeed_def)
  have "same_game (tick delta ?s) (tick delta s)"
    by (rule blindD [OF blind_tick]) simp
  then have "same_game (fold (updateGhost rnd delta v) js (tick delta ?s)) (fold (updateGhost rnd delta v) js (tick delta s))" for v js
    by (rule blindD [OF blind_fold, OF blind_updateGhost])
  then show "same_game (updateGhosts rnd delta ?s) (updateGhosts rnd delta s)"
    by (simp add: updateGhosts_tick way)
qed

lemma blind_updatePacman: "blind (updatePacman delta)"
proof (rule blindI)
  fix s :: "'a game_scheme" and a cv
  let ?s = "s\<lparr>audio := a, canvas := cv\<rparr>"
  have "same_game (?s\<lparr>invulnerableTimer := i, pacman := p\<rparr>) (s\<lparr>invulnerableTimer := i, pacman := p\<rparr>)" "same_game (?s\<lparr>pacman := p\<rparr>) (s\<lparr>pacman := p\<rparr>)" for i p
    by (simp_all add: same_game_def rules_def)
  then show "same_game (updatePacman delta ?s) (updatePacman delta s)"
    by (auto simp: updatePacman_def pacmanSpeed_def Let_def intro!: blindD [OF blind_finish_round] blindD [OF blind_eat])
qed

lemma same_field: "same_game s t \<Longrightarrow> (\<And>u. f (rules u) = f u) \<Longrightarrow> f s = f t"
  by (metis same_game_def)

lemma rules_fields [simp]:
  "frames (rules s) = frames s" "gameRunning (rules s) = gameRunning s" "lastFrameTime (rules s) = lastFrameTime s" "grid (rules s) = grid s"
  "touchStartX (rules s) = touchStartX s" "touchStartY (rules s) = touchStartY s" "konamiActivated (rules s) = konamiActivated s"
  by (simp_all add: rules_def)

lemma same_gameLoop:
  assumes "same_game s t"
  shows "same_game (gameLoop rnd date now s) (gameLoop rnd date' now t)"
proof -
  have taken: "blind (\<lambda>u. u\<lparr>frames := frames u - 1\<rparr>)" and next_frame: "blind (\<lambda>u. u\<lparr>frames := frames u + 1\<rparr>)" and stamp: "blind (\<lambda>u. u\<lparr>lastFrameTime := now\<rparr>)"
    by (simp_all add: blind_def same_game_def rules_def)
  have "same_game (s\<lparr>frames := frames s - 1, lastFrameTime := now\<rparr>) (t\<lparr>frames := frames t - 1, lastFrameTime := now\<rparr>)"
    using blindD [OF stamp, OF blindD [OF taken, OF assms]] by simp
  then have moved: "same_game (updateGhosts rnd d (updatePacman d (s\<lparr>frames := frames s - 1, lastFrameTime := now, canvas := cv\<rparr>)))
      (updateGhosts rnd d (updatePacman d (t\<lparr>frames := frames t - 1, lastFrameTime := now, canvas := cv'\<rparr>)))" for d cv cv'
    by (intro blindD [OF blind_updateGhosts] blindD [OF blind_updatePacman]) simp
  have "frames s = frames t" "gameRunning s = gameRunning t" "lastFrameTime s = lastFrameTime t"
    by (rule same_field [OF assms], simp)+
  moreover have "same_game (u\<lparr>canvas := cv, frames := Suc (frames u)\<rparr>) (v\<lparr>canvas := cv', frames := Suc (frames v)\<rparr>)"
    if "same_game u v" for u v :: "'a game_scheme" and cv cv'
    using that blindD [OF next_frame, of "u\<lparr>canvas := cv\<rparr>" "v\<lparr>canvas := cv'\<rparr>"] by simp
  ultimately show ?thesis
    using assms blindD [OF taken, OF assms] moved by (simp add: gameLoop_def frame_delta_def Let_def)
qed

lemma blind_new_round: "blind new_round"
  unfolding new_round_def by (rule blind_comp [OF _ blind_resetPositions], rule blindI) (simp add: same_game_def rules_def)

lemma blind_round_timeout: "blind round_timeout"
proof (rule blindI)
  fix s :: "'a game_scheme" and a cv
  let ?s = "s\<lparr>audio := a, canvas := cv\<rparr>"
  have new: "same_game (new_round ?s) (new_round s)"
    by (rule blindD [OF blind_new_round]) simp
  have "blind (\<lambda>u. u\<lparr>roundTransition := False, roundEnds := n\<rparr>)" for n
    by (rule blindI) (simp add: same_game_def rules_def)
  note ended = blindD [OF this new]
  show "same_game (round_timeout ?s) (round_timeout s)"
    using ended blindD [OF blind_page ended] by (auto simp: round_timeout_def Let_def intro!: same_HUD)
qed

lemma blind_activate: "blind activateKonamiMode"
proof (rule blindI)
  fix s :: "'a game_scheme" and a cv
  show "same_game (activateKonamiMode (s\<lparr>audio := a, canvas := cv\<rparr>)) (activateKonamiMode s)"
    unfolding activateKonamiMode_def show_banner_def by (rule same_HUD) (simp, simp add: same_game_def rules_def)
qed

lemma blind_checkKonami: "blind (checkKonami k)"
proof (rule blindI)
  fix s :: "'a game_scheme" and a cv
  let ?s = "s\<lparr>audio := a, canvas := cv\<rparr>"
  have index: "blind (\<lambda>u. u\<lparr>konamiIndex := n\<rparr>)" for n
    by (rule blindI) (simp add: same_game_def rules_def)
  have "same_game (?s\<lparr>konamiIndex := n\<rparr>) (s\<lparr>konamiIndex := n\<rparr>)" for n
    by (simp add: same_game_def rules_def)
  then show "same_game (checkKonami k ?s) (checkKonami k s)"
    by (auto simp: checkKonami_def intro!: blindD [OF index] blindD [OF blind_activate])
qed

lemma blind_begin_game: "blind (begin_game now)"
proof (rule blindI)
  fix s :: "'a game_scheme" and a cv
  let ?s = "s\<lparr>audio := a, canvas := cv\<rparr>"
  let ?reset = "\<lambda>u. u\<lparr>score := 0, level := 1, lives := (if konamiActivated u then 30 else 5), gameOver := False, gameRunning := True, roundTransition := False\<rparr>"
  have reset: "same_game (?reset ?s) (?reset s)"
    by (simp add: same_game_def rules_def)
  have stamp: "blind (\<lambda>u. u\<lparr>lastFrameTime := now, frames := n\<rparr>)" for n
    by (rule blindI) (simp add: same_game_def rules_def)
  show "same_game (begin_game now ?s) (begin_game now s)"
    using blindD [OF stamp [of "frames s + 1"], OF blindD [OF blind_page, OF same_HUD, OF blindD [OF blind_new_round reset]]] by (simp add: begin_game_def)
qed

text \<open>The handlers that begin with \<^verbatim>\<open>initAudio()\<close> agree as long as none of them throws.\<close>

lemma same_with_audio:
  assumes f: "\<And>u v. same_game u v \<Longrightarrow> audio_ready u \<Longrightarrow> audio_ready v \<Longrightarrow> same_game (f u) (f v)" and "same_game s t" "audio_ready s" "audio_ready t"
  shows "same_game (with_audio f s) (with_audio f t)"
proof -
  obtain a b where ab: "initAudio (audio s) = Some a" "initAudio (audio t) = Some b"
    using assms(3,4) by (auto simp: audio_ready_def)
  then have "initAudio a \<noteq> None" "initAudio b \<noteq> None"
    using initAudio_again by blast+
  then have "same_game (f (s\<lparr>audio := a\<rparr>)) (f (t\<lparr>audio := b\<rparr>))"
    using assms(2) by (intro f) (simp_all add: audio_ready_def)
  then show ?thesis
    by (simp add: with_audio_def ab)
qed

section \<open>The audio context\<close>

text \<open>Which constructor there is and whether there is a context: only \<^const>\<open>initAudio\<close> changes that.\<close>

definition port :: "audio \<Rightarrow> bool \<times> bool" where
  "port a = (constructor a = None, audioCtx a = None)"

lemma port_sounds [simp]:
  "port (playWaka a) = port a" "port (playPowerPelletSound a) = port a" "port (playEatGhostSound a) = port a" "port (playIntroMusic a) = port a"
  "port (playDeathSound a) = port a" "port (playRoundWinSound a) = port a" "port (playKonamiFanfare a) = port a" "port (tone_timeout i a) = port a"
  "port (audio_resumed a) = port a" "port (audio_elapse d a) = port a"
  by (simp_all add: port_def playWaka_def playPowerPelletSound_def playEatGhostSound_def playIntroMusic_def playDeathSound_def playRoundWinSound_def
    playKonamiFanfare_def tone_timeout_def audio_resumed_def audio_elapse_def playChipTone_def later_def Let_def)

lemma audio_resetPositions [simp]: "audio (resetPositions s) = audio s" "audio (new_round s) = audio s"
  by (simp_all add: resetPositions_def new_round_def)

lemma port_moves [simp]:
  "port (audio (eat s)) = port (audio s)" "port (audio (finish_round s)) = port (audio s)" "port (audio (die s)) = port (audio s)"
  "port (audio (collide i s)) = port (audio s)" "port (audio (updateGhost rnd delta v i s)) = port (audio s)"
  by (simp_all add: eat_def finish_round_def show_banner_def die_def collide_def updateGhost_def Let_def)

lemma port_ghosts [simp]: "port (audio (fold (updateGhost rnd delta v) js s)) = port (audio s)"
  by (induction js arbitrary: s) simp_all

lemma port_game [simp]:
  "port (audio (updatePacman delta s)) = port (audio s)" "port (audio (updateGhosts rnd delta s)) = port (audio s)"
  "port (audio (gameLoop rnd date now s)) = port (audio s)" "port (audio (round_timeout s)) = port (audio s)" "port (audio (checkKonami k s)) = port (audio s)"
  by (simp_all add: updatePacman_def updateGhosts_def gameLoop_def round_timeout_def checkKonami_def activateKonamiMode_def show_banner_def Let_def)

lemma ready_port: "audio_ready s \<longleftrightarrow> port (audio s) \<noteq> (True, True)"
  by (auto simp: audio_ready_def port_def initAudio_def split: option.splits)

lemma ready_same [simp]:
  "audio_ready (gameLoop rnd date now s) = audio_ready s" "audio_ready (round_timeout s) = audio_ready s" "audio_ready (begin_game now s) = audio_ready s"
  "audio_ready (play (tone_timeout i) s) = audio_ready s" "audio_ready (play audio_resumed s) = audio_ready s" "audio_ready (play (audio_elapse d) s) = audio_ready s"
  "audio_ready (play playIntroMusic s) = audio_ready s"
  by (simp_all add: ready_port)

lemma ready_queue: "audio_ready s \<Longrightarrow> audio_ready (queueDirection d s)"
  unfolding queueDirection_def by (erule ready_with_audio) (simp add: audio_ready_def)

lemma ready_touch: "audio_ready s \<Longrightarrow> audio_ready (touchstart x y s)"
  unfolding touchstart_def by (erule ready_with_audio) (simp add: audio_ready_def)

lemma ready_react: "audio_ready s \<Longrightarrow> audio_ready (react date i s)"
  by (cases i) (auto simp: touchend_def start_game_def ready_queue ready_touch intro!: ready_with_audio keydown_ready split: option.split)

lemma ready_hear: "audio_ready s \<Longrightarrow> audio_ready (hear m s)"
  by (cases m) simp_all

lemma same_hear: "same_game s t \<Longrightarrow> same_game (hear m s) t" "same_game s t \<Longrightarrow> same_game s (hear m t)"
  by (cases m; simp)+

lemma same_queue: "same_game s t \<Longrightarrow> audio_ready s \<Longrightarrow> audio_ready t \<Longrightarrow> same_game (queueDirection d s) (queueDirection d t)"
proof -
  have "blind (\<lambda>u. u\<lparr>pacman := (pacman u)\<lparr>desiredDirX := fst d, desiredDirY := snd d\<rparr>\<rparr>)"
    by (rule blindI) (simp add: same_game_def rules_def)
  note blindD [OF this]
  then show "same_game s t \<Longrightarrow> audio_ready s \<Longrightarrow> audio_ready t \<Longrightarrow> same_game (queueDirection d s) (queueDirection d t)"
    unfolding queueDirection_def by (rule same_with_audio)
qed

lemma same_touch: "same_game s t \<Longrightarrow> audio_ready s \<Longrightarrow> audio_ready t \<Longrightarrow> same_game (touchstart x y s) (touchstart x y t)"
proof -
  have "blind (\<lambda>u. u\<lparr>touchStartX := x, touchStartY := y\<rparr>)"
    by (rule blindI) (simp add: same_game_def rules_def)
  note blindD [OF this]
  then show "same_game s t \<Longrightarrow> audio_ready s \<Longrightarrow> audio_ready t \<Longrightarrow> same_game (touchstart x y s) (touchstart x y t)"
    unfolding touchstart_def by (rule same_with_audio)
qed

lemma same_key: "same_game s t \<Longrightarrow> audio_ready s \<Longrightarrow> audio_ready t \<Longrightarrow> same_game (keydown k s) (keydown k t)"
  unfolding keydown_def
  by (erule (2) same_with_audio [rotated]) (auto split: option.split intro!: same_queue blindD [OF blind_checkKonami])

lemma same_start: "same_game s t \<Longrightarrow> audio_ready s \<Longrightarrow> audio_ready t \<Longrightarrow> same_game (start_game now s) (start_game now t)"
  unfolding start_game_def by (erule (2) same_with_audio [rotated]) (auto intro!: blindD [OF blind_begin_game])

lemma same_react:
  assumes "same_game s t" "audio_ready s" "audio_ready t"
  shows "same_game (react date i s) (react date' i t)"
proof -
  have "touchStartX s = touchStartX t" "touchStartY s = touchStartY t"
    by (rule same_field [OF assms(1)], simp)+
  then show ?thesis
    using assms by (cases i) (auto simp: touchend_def same_gameLoop same_queue same_touch same_key same_start split: option.split
      intro!: blindD [OF blind_round_timeout] blindD [OF blind_checkKonami])
qed

text \<open>C37. The sounds and the picture have no influence on the game: two runs with the same inputs, on browsers with Web Audio, agree in everything else, whatever the state of the
  audio context is, whenever the delayed tones sound and whatever the clock of the drawing shows.\<close>

theorem sound_and_picture_do_not_matter:
  assumes "map fst xs = map fst ys"
  shows "same_game (fold run_step xs (load_game now (Some c) b)) (fold run_step ys (load_game now (Some c') b))"
proof -
  have hear_all: "same_game (fold hear ms s) (fold hear ms' t)" if "same_game s t" for ms ms' s t
  proof -
    have "same_game (fold hear ms s) t"
      using that by (induction ms arbitrary: s) (auto simp: same_hear)
    then show ?thesis
      by (induction ms' arbitrary: t) (auto simp: same_hear)
  qed
  have ready_all: "audio_ready (fold hear ms s)" if "audio_ready s" for ms s
    using that by (induction ms arbitrary: s) (auto simp: ready_hear)
  have "same_game (fold run_step xs s) (fold run_step ys t)" if "same_game s t" "audio_ready s" "audio_ready t" for s t
    using assms that
  proof (induction xs ys arbitrary: s t rule: list_induct2')
    case (4 x xs y ys)
    then show ?case
      by (cases x; cases y) (auto simp: run_step_def intro!: "4.IH" hear_all same_react ready_all ready_react)
  qed simp_all
  moreover have "same_game (load_game now (Some c) b) (load_game now (Some c') b)"
    unfolding load_game_def by (rule same_HUD) (simp add: same_game_def rules_def browser.extend_def)
  ultimately show ?thesis
    by (simp add: load_ready)
qed

definition dark :: draw_times where
  "dark = \<lparr>at_tile = (\<lambda>c r. 200), at_pacman = 100, at_ghost = (\<lambda>_. 150)\<rparr>"

theorem sound_and_picture_do_not_matter_witness:
  "let rnd = (\<lambda>_. (0, 0));
       xs = [(Start 0, still, [Resumed, Elapse 2, ToneTimeout 3]), (Frame rnd 50, still, [])];
       ys = [(Start 0, dark, []), (Frame rnd 50, dark, [ToneTimeout 0])] in
   map fst xs = map fst ys \<and> same_game (fold run_step xs (load_game 0 (Some Suspended) blank_browser)) (fold run_step ys (load_game 0 (Some Running) blank_browser))"
  unfolding Let_def by (intro conjI sound_and_picture_do_not_matter) simp_all

section \<open>Without Web Audio\<close>

text \<open>The tones are guarded against a missing context, the handlers are not: without Web Audio \<^const>\<open>initAudio\<close> throws at the beginning of the start button's handler and the game
  cannot be started; no key, touch or direction is read.\<close>

definition unheard :: "game \<Rightarrow> bool" where
  "unheard s = (port (audio s) = (True, True) \<and> \<not> gameRunning s \<and> roundEnds s = 0 \<and> tones (audio s) = [] \<and> tone_timers (audio s) = [] \<and> pacman s = pacman0)"

lemma with_audio_unready: "unheard s \<Longrightarrow> with_audio f s = s"
  using ready_port [of s] by (simp add: unheard_def with_audio_def audio_ready_def)

lemma unheard_konami: "unheard s \<Longrightarrow> unheard (checkKonami k s)"
  by (auto simp: unheard_def checkKonami_def activateKonamiMode_def show_banner_def playKonamiFanfare_def later_def port_def)

lemma unheard_react: "unheard s \<Longrightarrow> unheard (react date i s)"
proof (cases i)
  case (Frame rnd now)
  then show "unheard s \<Longrightarrow> unheard (react date i s)"
    by (simp add: unheard_def gameLoop_def Let_def)
next
  case RoundEnd
  then show "unheard s \<Longrightarrow> unheard (react date i s)"
    by (simp add: unheard_def round_timeout_def)
qed (auto simp: keydown_def queueDirection_def touchstart_def touchend_def start_game_def with_audio_unready unheard_konami split: option.split)

lemma unheard_hear: "unheard s \<Longrightarrow> unheard (hear m s)"
  by (cases m) (auto simp: unheard_def tone_timeout_def audio_resumed_def audio_elapse_def port_def)

theorem no_audio_no_game:
  "let s = fold run_step xs (load_game now None b) in \<not> gameRunning s \<and> pacman s = pacman0 \<and> tones (audio s) = []"
proof -
  have hear_all: "unheard (fold hear ms s)" if "unheard s" for ms s
    using that by (induction ms arbitrary: s) (auto simp: unheard_hear)
  have "unheard (fold run_step xs s)" if "unheard s" for s
    using that by (induction xs arbitrary: s) (auto simp: run_step_def hear_all unheard_react)
  moreover have "unheard (load_game now None b)"
    by (simp add: unheard_def audio0_def port_def) (simp add: load_game_def browser.extend_def)
  ultimately show ?thesis
    by (auto simp: unheard_def Let_def)
qed

section \<open>The drawing state\<close>

lemma canvas_basic [simp]:
  "canvas (resetPositions s) = canvas s" "canvas (eat s) = canvas s" "canvas (finish_round s) = canvas s" "canvas (activateKonamiMode s) = canvas s"
  by (simp_all add: resetPositions_def eat_def finish_round_def show_banner_def activateKonamiMode_def Let_def)

lemma canvas_die [simp]: "canvas (die s) = canvas s" "canvas (checkKonami k s) = canvas s" "canvas (round_timeout s) = canvas s"
  by (simp_all add: die_def checkKonami_def round_timeout_def new_round_def Let_def)

lemma canvas_collide [simp]: "canvas (collide i s) = canvas s"
  by (simp add: collide_def Let_def)

lemma canvas_moves [simp]: "canvas (updateGhost rnd delta v i s) = canvas s" "canvas (updatePacman delta s) = canvas s"
  by (simp_all add: updateGhost_def updatePacman_def Let_def)

lemma frames_basic [simp]:
  "frames (resetPositions s) = frames s" "frames (eat s) = frames s" "frames (finish_round s) = frames s" "frames (activateKonamiMode s) = frames s"
  by (simp_all add: resetPositions_def eat_def finish_round_def show_banner_def activateKonamiMode_def Let_def)

lemma frames_die [simp]: "frames (die s) = frames s" "frames (checkKonami k s) = frames s" "frames (round_timeout s) = frames s"
  by (simp_all add: die_def checkKonami_def round_timeout_def new_round_def Let_def)

lemma frames_collide [simp]: "frames (collide i s) = frames s"
  by (simp add: collide_def Let_def)

lemma frames_moves [simp]: "frames (updateGhost rnd delta v i s) = frames s" "frames (updatePacman delta s) = frames s"
  by (simp_all add: updateGhost_def updatePacman_def Let_def)

lemma fold_media [simp]: "canvas (fold (updateGhost rnd delta v) js s) = canvas s" "frames (fold (updateGhost rnd delta v) js s) = frames s"
  by (induction js arbitrary: s) simp_all

lemma ghosts_media [simp]: "canvas (updateGhosts rnd delta s) = canvas s" "frames (updateGhosts rnd delta s) = frames s"
  by (simp_all add: updateGhosts_tick) (simp_all add: tick_def)

lemma running_konami [simp]: "gameRunning (checkKonami k s) = gameRunning s" "gameRunning (round_timeout s) = gameRunning s"
  by (simp_all add: checkKonami_def activateKonamiMode_def show_banner_def round_timeout_def new_round_def resetPositions_def Let_def)

lemma colour_tile: "list_all colour_op (tile_ops ms tile x y)"
  by (simp add: tile_ops_def disc_ops_def)

lemma colour_map: "list_all colour_op (background_ops @ drawMap date g)"
  using colour_tile by (auto simp: background_ops_def drawMap_def list_all_iff simp del: upto.simps)

lemma plain_drawPacman: "plain (exec (drawPacman date s) cv) = plain cv"
  by (auto simp: drawPacman_def Let_def intro!: plain_block)

lemma plain_drawGhosts: "plain (exec (drawGhosts date s) cv) = plain cv"
proof -
  have "drawGhosts date s = concat (map block (map (ghost_ops date (frightenedTimer s)) (ghosts s)))"
    by (simp add: drawGhosts_def comp_def)
  then show ?thesis
    by (simp only:) (rule plain_blocks, simp add: list_all_iff ghost_ops_def Let_def)
qed

definition screen_ok :: "'a game_scheme \<Rightarrow> bool" where
  "screen_ok s = (plain (canvas s) \<and> (gameRunning s \<longrightarrow> 0 < frames s))"

lemma screen_gameLoop: "screen_ok s \<Longrightarrow> screen_ok (gameLoop rnd date now s)"
  using plain_exec [OF colour_map] by (auto simp: screen_ok_def gameLoop_def Let_def plain_drawPacman plain_drawGhosts)

lemma screen_with_audio: "screen_ok s \<Longrightarrow> (\<And>t. screen_ok t \<Longrightarrow> screen_ok (f t)) \<Longrightarrow> screen_ok (with_audio f s)"
  by (simp add: with_audio_def screen_ok_def split: option.split)

lemma screen_konami: "screen_ok s \<Longrightarrow> screen_ok (checkKonami k s)"
  by (simp add: screen_ok_def)

lemma screen_queue: "screen_ok s \<Longrightarrow> screen_ok (queueDirection d s)"
  unfolding queueDirection_def by (erule screen_with_audio) (simp add: screen_ok_def)

text \<open>The picture and the loop of frames in every reachable state: no saved drawing state is left over, the coordinates are not moved and nothing has a shadow when a frame
  begins to draw, and a running game has requested its next frame.\<close>

lemma played_screen:
  assumes "played F s"
  shows "screen_ok s"
  using assms
proof (induction rule: played.induct)
  case (key s k)
  then show ?case
    unfolding keydown_def by (elim screen_with_audio) (auto split: option.split intro!: screen_queue screen_konami)
next
  case (touch s x y)
  then show ?case
    unfolding touchstart_def by (elim screen_with_audio) (simp add: screen_ok_def)
next
  case (start s now)
  then show ?case
    unfolding start_game_def by (elim screen_with_audio) (simp add: screen_ok_def)
qed (auto simp: screen_gameLoop screen_queue screen_konami touchend_def split: option.split, auto simp: screen_ok_def)

section \<open>The picture of a frame\<close>

text \<open>The discs among the painted marks: full circles by themselves, at the coordinates of the canvas.\<close>

fun disc :: "mark \<Rightarrow> (rat \<times> rat) list" where
  "disc (FilledPath p [([], Arc x y rad a b)]) = (if motions p = [] then [(x, y)] else [])"
| "disc _ = []"

definition discs :: "mark list \<Rightarrow> (rat \<times> rat) list" where
  "discs ms = concat (map disc ms)"

lemma discs_append [simp]: "discs [] = []" "discs (ms @ ns) = discs ms @ discs ns"
  by (simp_all add: discs_def)

definition pellet_places :: "grid \<Rightarrow> (rat \<times> rat) list" where
  "pellet_places g = concat (map (\<lambda>r. concat (map (\<lambda>c. if is_pellet (cell g c r) then [(center_of c, center_of r)] else []) [0..COLS - 1])) [0..ROWS - 1])"

lemma discs_tile:
  assumes "motions (pen cv) = []"
  shows "discs (painted (tile_ops ms (cell g c r) (of_int c * TILE) (of_int r * TILE)) cv) = (if is_pellet (cell g c r) then [(center_of c, center_of r)] else [])"
    "motions (pen (exec (tile_ops ms (cell g c r) (of_int c * TILE) (of_int r * TILE)) cv)) = []"
  using assms by (auto simp: tile_ops_def disc_ops_def painted_def discs_def is_pellet_def center_of_def)

lemma discs_concat:
  assumes "\<And>x cv. motions (pen cv) = [] \<Longrightarrow> motions (pen (exec (f x) cv)) = [] \<and> discs (painted (f x) cv) = h x" "motions (pen cv) = []"
  shows "motions (pen (exec (concat (map f xs)) cv)) = [] \<and> discs (painted (concat (map f xs)) cv) = concat (map h xs)"
  using assms(2) by (induction xs arbitrary: cv) (auto simp: assms(1) painted_append)

lemma discs_drawMap:
  assumes "motions (pen cv) = []"
  shows "discs (painted (drawMap date g) cv) = pellet_places g"
proof -
  let ?tile = "\<lambda>r c. tile_ops (at_tile date c r) (cell g c r) (of_int c * TILE) (of_int r * TILE)"
  let ?here = "\<lambda>r c. if is_pellet (cell g c r) then [(center_of c, center_of r)] else []"
  have row: "motions (pen (exec (concat (map (?tile r) cs)) cv)) = [] \<and> discs (painted (concat (map (?tile r) cs)) cv) = concat (map (?here r) cs)"
    if "motions (pen cv) = []" for r cs cv
    using that by (intro discs_concat) (simp_all add: discs_tile)
  have "discs (painted (concat (map (\<lambda>r. concat (map (?tile r) [0..COLS - 1])) [0..ROWS - 1])) cv) =
      concat (map (\<lambda>r. concat (map (?here r) [0..COLS - 1])) [0..ROWS - 1])"
    by (rule discs_concat [where f = "\<lambda>r. concat (map (?tile r) [0..COLS - 1])" and h = "\<lambda>r. concat (map (?here r) [0..COLS - 1])", OF row assms, THEN conjunct2])
  then show ?thesis
    by (simp only: drawMap_def pellet_places_def)
qed

lemma discs_drawPacman: "motions (pen cv) = [] \<Longrightarrow> discs (painted (drawPacman date s) cv) = []"
  by (simp add: drawPacman_def painted_def discs_def block_def Let_def)

lemma discs_block: "motions (pen cv) = [] \<Longrightarrow> discs (painted (block (ghost_ops date timer g)) cv) = [] \<and> motions (pen (exec (block (ghost_ops date timer g)) cv)) = []"
  by (simp add: ghost_ops_def painted_def discs_def block_def Let_def)

lemma discs_drawGhosts: "motions (pen cv) = [] \<Longrightarrow> discs (painted (drawGhosts date s) cv) = []"
  using discs_concat [where f = "\<lambda>g. block (ghost_ops date (frightenedTimer s) g)" and h = "\<lambda>g. []" and xs = "ghosts s" and cv = cv]
  by (simp add: drawGhosts_def discs_block)

text \<open>The number of places is the number of pellets.\<close>

lemma map_nth_upto: "map (\<lambda>i. f (xs ! nat i)) [0..int (length xs) - 1] = map f xs"
  by (rule nth_equalityI) auto

lemma pellet_places_count:
  assumes "maze g"
  shows "int (length (pellet_places g)) = countPellets g"
proof -
  have row: "length (concat (map (\<lambda>c. if is_pellet (cell g c r) then [(center_of c, center_of r)] else []) [0..COLS - 1])) = length (filter is_pellet (g ! nat r))"
    if "r \<in> set [0..ROWS - 1]" for r
  proof -
    have "length (g ! nat r) = 28"
      using that maze_dims(2) [OF assms, of "nat r"] by (auto simp: ROWS_def)
    then have "g ! nat r = map (\<lambda>c. cell g c r) [0..COLS - 1]"
      using map_nth_upto [of "\<lambda>x. x" "g ! nat r"] by (simp add: cell_def COLS_def)
    then have "length (filter is_pellet (g ! nat r)) = length (filter (\<lambda>c. is_pellet (cell g c r)) [0..COLS - 1])"
      by (simp add: filter_map comp_def)
    also have "\<dots> = length (concat (map (\<lambda>c. if is_pellet (cell g c r) then [(center_of c, center_of r)] else []) cs))" if "cs = [0..COLS - 1]" for cs
      unfolding that [symmetric] by (induction cs) auto
    finally show ?thesis
      by simp
  qed
  have "length (pellet_places g) = (\<Sum>r\<leftarrow>[0..ROWS - 1]. length (filter is_pellet (g ! nat r)))"
    unfolding pellet_places_def length_concat map_map by (rule arg_cong [where f = sum_list], rule map_cong [OF refl]) (use row in \<open>simp add: comp_def\<close>)
  also have "\<dots> = (\<Sum>row\<leftarrow>g. length (filter is_pellet row))"
    using map_nth_upto [of "\<lambda>row. length (filter is_pellet row)" g] maze_dims(1) [OF assms] by (simp add: ROWS_def)
  finally show ?thesis
    by (simp add: countPellets_rows)
qed

lemma painted_frame:
  assumes "plain (canvas s)" "gameRunning s" "0 < frames s"
  obtains p m1 m2 where "marks (canvas (gameLoop rnd date now s)) = marks (canvas s) @ FilledRect p 0 0 336 372 # m1 @ m2"
    "fillStyle p = ''#03050c''" "motions p = []" "shadowBlur p = 0" "discs m1 = pellet_places (grid s)" "discs m2 = []"
proof -
  let ?p = "(pen (canvas s))\<lparr>fillStyle := ''#03050c''\<rparr>"
  let ?c1 = "exec background_ops (canvas s)" and ?c2 = "exec (drawMap date (grid s)) (exec background_ops (canvas s))"
  define u where "u = (let d = frame_delta now (s\<lparr>frames := frames s - 1\<rparr>) in
    updateGhosts rnd d (updatePacman d (s\<lparr>frames := frames s - 1, lastFrameTime := now, canvas := ?c2\<rparr>)))"
  have u: "canvas (gameLoop rnd date now s) = exec (drawGhosts date u) (exec (drawPacman date u) ?c2)"
    using assms by (simp add: gameLoop_def u_def Let_def)
  have c1: "marks ?c1 = marks (canvas s) @ [FilledRect ?p 0 0 336 372]" "motions (pen ?c1) = []"
    using assms(1) by (simp_all add: background_ops_def plain_def COLS_def ROWS_def TILE_def)
  have "plain ?c2"
    using plain_exec [OF colour_map, of date "grid s" "canvas s"] assms(1) by simp
  then have c2: "motions (pen ?c2) = []" "motions (pen (exec (drawPacman date u) ?c2)) = []"
    using plain_drawPacman [of date u ?c2] by (auto simp: plain_def)
  show ?thesis
  proof (rule that)
    show "marks (canvas (gameLoop rnd date now s)) = marks (canvas s) @ FilledRect ?p 0 0 336 372 # painted (drawMap date (grid s)) ?c1 @
        (painted (drawPacman date u) ?c2 @ painted (drawGhosts date u) (exec (drawPacman date u) ?c2))"
      unfolding u marks_exec [of _ "exec _ _"] c1 by simp
    show "discs (painted (drawMap date (grid s)) ?c1) = pellet_places (grid s)"
      by (rule discs_drawMap) (rule c1)
    show "discs (painted (drawPacman date u) ?c2 @ painted (drawGhosts date u) (exec (drawPacman date u) ?c2)) = []"
      by (simp add: discs_drawPacman discs_drawGhosts c2)
  qed (use assms(1) in \<open>simp_all add: plain_def\<close>)
qed

text \<open>C38. Every frame of a running game first covers the whole canvas with the background, unmoved and without a shadow, and then shows exactly the pellets that are left: one disc
  in the middle of each of their tiles, row by row, as many as the counter of pellets says. The pellet eaten in this frame is still shown, since the maze is drawn before the move.\<close>

theorem frame_shows_maze:
  assumes "played F s" and "gameRunning s" and "new = drop (length (marks (canvas s))) (marks (canvas (gameLoop rnd date now s)))"
  shows "(\<exists>p ms. new = FilledRect p 0 0 336 372 # ms \<and> fillStyle p = ''#03050c'' \<and> motions p = [] \<and> shadowBlur p = 0) \<and>
    discs new = pellet_places (grid s) \<and> int (length (discs new)) = totalPellets s"
proof -
  have "plain (canvas s)" "0 < frames s"
    using played_screen [OF assms(1)] assms(2) by (auto simp: screen_ok_def)
  then obtain p m1 m2 where m: "new = FilledRect p 0 0 336 372 # m1 @ m2" "fillStyle p = ''#03050c''" "motions p = []" "shadowBlur p = 0"
      "discs m1 = pellet_places (grid s)" "discs m2 = []"
    using assms(2,3) by (elim painted_frame [where rnd = rnd and date = date and now = now]) auto
  then have "discs new = pellet_places (grid s)"
    by (simp add: discs_def)
  moreover have "int (length (pellet_places (grid s))) = totalPellets s"
    using played_ok [OF assms(1)] pellet_places_count by (simp add: game_ok_def)
  ultimately show ?thesis
    using m by auto
qed

theorem frame_shows_maze_witness:
  "let s = start_game 0 (load_game 0 (Some Running) blank_browser) in
   gameRunning s \<and> discs (drop (length (marks (canvas s))) (marks (canvas (gameLoop (\<lambda>_. (0, 0)) still 50 s)))) = pellet_places ORIGINAL_MAP"
proof -
  let ?s = "start_game 0 (load_game 0 (Some Running) blank_browser)"
  have s: "gameRunning ?s" "grid ?s = ORIGINAL_MAP"
    by (simp_all add: start_game_def with_audio_def initAudio_def audio0_def begin_game_def new_round_def resetPositions_def)
  have "played (\<lambda>_ _. True) ?s"
    by (intro played.intros)
  from frame_shows_maze [OF this s(1) refl] s show ?thesis
    by (simp add: Let_def)
qed

section \<open>Every tone is accepted\<close>

lemma audio_ok_moves:
  assumes "audio_ok (audio s)"
  shows "audio_ok (audio (eat s))" "audio_ok (audio (finish_round s))" "audio_ok (audio (die s))" "audio_ok (audio (collide i s))" "audio_ok (audio (checkKonami k s))"
    "audio_ok (audio (updateGhost rnd delta v i s))"
  using assms by (simp_all add: eat_def finish_round_def show_banner_def die_def collide_def updateGhost_def checkKonami_def activateKonamiMode_def audio_ok_sounds Let_def)

lemma audio_ok_ghosts: "audio_ok (audio s) \<Longrightarrow> audio_ok (audio (fold (updateGhost rnd delta v) js s))"
  by (induction js arbitrary: s) (simp_all add: audio_ok_moves)

lemma audio_ok_gameLoop:
  assumes "audio_ok (audio s)"
  shows "audio_ok (audio (gameLoop rnd date now s))"
proof -
  have "audio_ok (audio (updatePacman d t))" "audio_ok (audio (updateGhosts rnd d t))" if "audio_ok (audio t)" for d and t :: "'a game_scheme"
    using that by (simp_all add: updatePacman_def audio_ok_moves updateGhosts_tick audio_ok_ghosts Let_def tick_def)
  with assms show ?thesis
    by (simp add: gameLoop_def Let_def)
qed

lemma audio_ok_with: "audio_ok (audio s) \<Longrightarrow> (\<And>t. audio_ok (audio t) \<Longrightarrow> audio_ok (audio (f t))) \<Longrightarrow> audio_ok (audio (with_audio f s))"
  using audio_ok_init [of "audio s"] by (simp add: with_audio_def split: option.split)

lemma audio_ok_queue: "audio_ok (audio s) \<Longrightarrow> audio_ok (audio (queueDirection d s))"
  unfolding queueDirection_def by (erule audio_ok_with) simp

text \<open>Every tone the game starts or has scheduled is one the audio interface accepts: positive pitches, volumes and targets, an end after the start, no time before the context's own.\<close>

theorem tones_accepted:
  assumes "played F s"
  shows "audio_ok (audio s)"
  using assms
proof (induction rule: played.induct)
  case (key s k)
  then show ?case
    unfolding keydown_def by (elim audio_ok_with) (auto split: option.split intro!: audio_ok_queue audio_ok_moves)
next
  case (touch s x y)
  then show ?case
    unfolding touchstart_def by (elim audio_ok_with) simp
next
  case (start s now)
  then show ?case
    unfolding start_game_def by (elim audio_ok_with) (simp add: audio_ok_sounds)
next
  case (timeout s)
  then show ?case
    by (simp add: round_timeout_def Let_def)
qed (auto simp: audio_ok_gameLoop audio_ok_queue audio_ok_moves touchend_def audio_ok_timeout audio_ok_resumed audio_ok_elapse split: option.split)

theorem tones_accepted_witness:
  "let s = play (tone_timeout 2) (start_game 0 (load_game 0 (Some Running) blank_browser)) in length (tones (audio s)) = 1 \<and> audio_ok (audio s)"
proof -
  let ?s = "play (tone_timeout 2) (start_game 0 (load_game 0 (Some Running) blank_browser))"
  have "played (\<lambda>_ _. True) ?s"
    by (intro played.intros)
  from tones_accepted [OF this] show ?thesis
    by (simp add: start_game_def with_audio_def initAudio_def audio0_def playIntroMusic_def later_def melody_def tone_timeout_def playChipTone_def Let_def)
qed

end
