(* ===== verification/Spec2Isabelle.thy ===== *)
theory Spec2Isabelle
  imports AgentStart SelectorPicker PortalStatic PacmanScreen
begin

text \<open>
  \<^bold>\<open>ComputeMesh: the browser code of the portal.\<close>

  ComputeMesh is a network that shares idle graphics cards. Its services are written in Python; what runs in the visitor's browser is the JavaScript under
  \<^verbatim>\<open>src/portal\<close>: the Agent Workspace (\<^verbatim>\<open>agent-workspace/\<close>), the model selector that is loaded into the chat application (\<^verbatim>\<open>webui/model-selector.js\<close>, with an identical copy in
  the Android app), the public portal (\<^verbatim>\<open>portal-core.js\<close> and its controller \<^verbatim>\<open>portal.js\<close>) and a game (\<^verbatim>\<open>apps/pacman/game.js\<close>). The parts share the browser's storage, where the
  portal leaves the key that the workspace sends, and they all talk to one gateway. This library models them function by function and proves what each is for.

  \<^bold>\<open>The platform.\<close> \<open>JsPrelude\<close> has the strings (UTF-8 bytes), \<open>JsValue\<close> the values, numbers (exact rationals, infinities and not-a-number) and coercions of the language,
  \<open>JsJson\<close> its JSON reader and printer, \<open>JsWeb\<close> the browser as the scripts see it: the elements with an id, the two storages, which may refuse access, the cookie
  string, navigation, dialogs and \<^verbatim>\<open>fetch\<close>. Every state of a component is a record that extends \<open>browser\<close>. The gateway is not part of these scripts: it is a
  function from the requests sent so far to an outcome, and a theorem for all such functions holds for every sequence of replies. \<open>PageTree\<close> has pages as trees,
  for the functions that walk over a page. \<open>LabelTables\<close> is the interface of all label tables, a locale with the fallback law, interpreted on every table.
  An asynchronous handler is split at its \<^verbatim>\<open>await\<close>s: the part up to the request and the part that treats the outcome. Step relations interleave these parts with everything
  else that can happen on the page.

  \<^bold>\<open>Agent Workspace.\<close> \<open>AgentAuth\<close> (\<^verbatim>\<open>auth.js\<close>: which token is sent), \<open>AgentState\<close> (\<^verbatim>\<open>state.js\<close>: every operation on workspaces, sessions, events, artifacts, turns, approvals),
  \<open>AgentI18n\<close> (\<^verbatim>\<open>i18n.js\<close>), \<open>AgentViews\<close> (\<^verbatim>\<open>sidebar.js\<close>, \<^verbatim>\<open>timeline.js\<close>, \<^verbatim>\<open>inspector.js\<close>: the HTML, thrown exceptions included), \<open>AgentApp\<close> (\<^verbatim>\<open>composer.js\<close>, \<^verbatim>\<open>app.js\<close>, and
  the relation \<open>agent_step\<close>, which interleaves selections, polls and the replies to every request of them), \<open>AgentStart\<close> (the start of the page from its address). No page of this commit loads these modules
  (\<^verbatim>\<open>agent.html\<close> has a script of its own); they are modelled as they are written. Shown: a header is attached exactly when a token was found; operations address their own resource; the event log and its cursor
  under single replies, under polling of a whole log (all events, each once, in order) and under every interleaving; late details undo the selection made meanwhile;
  the composer sends once; cards keep their markup.

  \<^bold>\<open>Model selector.\<close> \<open>SelectorLabels\<close>, \<open>SelectorState\<close> (two-level storage, a locale \<open>key_value\<close>; session cache and cursor), \<open>SelectorPanel\<close> and \<open>SelectorSessions\<close> (the agent
  panel, relation \<open>sel_step\<close>), \<open>SelectorNotice\<close> (rewriting of notices in payloads and event streams), \<open>SelectorDiscovery\<close> (endpoints, a locale \<open>registry\<close>), \<open>SelectorPool\<close>
  (the worker pool as a relation), \<open>SelectorModels\<close> (ranking, a locale for comparators; merging; choice), \<open>SelectorImages\<close> (shrinking and fitting pictures), \<open>SelectorFetch\<close>
  (the replaced \<^verbatim>\<open>window.fetch\<close>), \<open>SelectorInfo\<close> (model information, drafts, mesh status, start-up), \<open>SelectorPicker\<close> (the dialog of the chat application and the model list mounted in it).
  Shown: at most one poll and one task under way; stream rewriting independent of the chunks; cache round trips; the pool refines the positional map, with bounded
  concurrency, and terminates; the merged catalogue is sorted and best; chat requests carry the selected model, fit the limit, and fall back to the gateway once.

  \<^bold>\<open>Portal.\<close> \<open>PortalAuth\<close> (keys, sign-in links, sign-out, marked texts), \<open>PortalTexts\<close> (the table of 724 keys in two languages), \<open>PortalMarket\<close> (market, prices, models, language
  switch), \<open>PortalForms\<close> (deposit, registration, contact, copy buttons; locale \<open>single_flight\<close>, interpreted on three forms), \<open>PortalMarkdown\<close> (chat formatting), \<open>PortalPlayground\<close>
  (quota, streaming), \<open>PortalInit\<close> (telemetry, start-up), \<open>PortalStaticTexts\<close> and \<open>PortalStatic\<close> (\<^verbatim>\<open>portal.js\<close>: texts without a key, metadata, hooks). Shown: one request at a time per form,
  one idempotency key per checkout, consent before registration, quota before chat; formatting adds no markup of the text's own; prices are exactly the published ones;
  node details are hidden from visitors the gateway refuses; language switches restore the page.

  \<^bold>\<open>Game.\<close> \<open>PacmanSound\<close> (the audio engine: tones started and scheduled), \<open>PacmanCanvas\<close> (the drawing context of the browser as a machine with a stack), \<open>PacmanGame\<close> (maze, movement, ghosts, rounds,
  hidden code, drawing, inputs and frames, with the reachable states as the predicate \<open>played\<close>), \<open>PacmanScreen\<close> (runs with their sounds and pictures). Shown: the maze and the counters stay
  consistent in every reachable state, a round transition always ends, and with frames of at most half a tile Pac-Man never leaves the track; two runs with the same inputs agree
  in all but sound and picture; every frame covers the canvas and shows exactly the pellets that are left; every tone is one the audio interface accepts; without Web Audio no game starts.

  \<^bold>\<open>Root.\<close> This theory composes the parts: the key of a sign-in link of the portal is what the workspace sends, and the session of the model selector's agent panel
  is the one the workspace opens from the address the panel navigates to.

  \<^bold>\<open>Bounds.\<close> Loops over data are structural recursions. The unit loop of sizes runs at most four times, the fitting loop of chat bodies at most five, all as in
  the source; the shrinking loop of pictures at most twelve times; the searches for the information dialog go
  up nine and five levels, as in the source. The JSON reader has fuel for its nesting, the length of the text, and its round trip is proved.

  \<^bold>\<open>Parameters.\<close> The gateway, the URL parser, the comparison of texts by language, the image codec, printers of dates, random numbers and identifiers, the
  Unicode class of pictographs, the parser of markup, the audio constructor, the clock read while drawing, and the page of the chat application: browser or third-party code. What is relied on is stated as a hypothesis
  or as a locale, and the locales are interpreted.

  \<^bold>\<open>Not modelled.\<close> The Python services and the Kotlin app (other languages); the bundles under \<^verbatim>\<open>webui/_app\<close>, \<^verbatim>\<open>app_dist\<close> and the workbox files (build output of third-party front-ends); scrolling,
  focus and speech output (no effect on the modelled state); the registration of handlers and the exports to \<^verbatim>\<open>window\<close>. Case mapping and
  white space are those of the ASCII range, and lengths count bytes. Angles are in units of \<^verbatim>\<open>Math.PI\<close>, and the numbers of the game are exact rationals.
\<close>

section \<open>A key across the portal and the Agent Workspace\<close>

lemma sign_in_other:
  assumes "can_write (localStorage p)" "k \<notin> set portal_keys" "k \<notin> set config_keys" "k \<noteq> overrides_key"
  shows "items (localStorage (sign_in q p)) k = items (localStorage p) k"
proof -
  obtain st where "set_items portal_keys q (localStorage p) = Some st" "items st k = items (localStorage p) k"
    using set_items_ok [OF assms(1), of portal_keys q] assms(2) by auto
  then show ?thesis
    using assms(3,4) by (simp add: sign_in_def navigate_def write_configs_other)
qed

lemma resolve_plain:
  assumes "can_read (localStorage b)" "first_stored (localStorage b) token_keys = q" "plain_token q"
  shows "resolveAuthToken b = Some q"
  using resolve_pasted [OF assms(1), of "[]" q "[]"] plain_token_ends [OF assms(3)] assms(2,3)
  by (simp add: strip_quotes_none strip_bearer_plain)

lemma token_after_sign_in:
  assumes "can_write (localStorage p)" "stored (localStorage p) ''cm_auth_token'' = []" "stored (localStorage p) ''cm_session_token'' = []" "q \<noteq> []"
  shows "first_stored (localStorage (sign_in q p)) token_keys = q" "first_stored (localStorage (sign_out (sign_in q p))) token_keys = q"
proof -
  have "''cm_api_key'' \<in> set portal_keys" "''apiKey'' \<in> set portal_keys"
    by (simp_all add: portal_keys_def)
  note portal = this [THEN sign_in_keys(1) [OF assms(1), where q = q]]
  have other: "k \<notin> set portal_keys" "k \<notin> set config_keys" "k \<noteq> overrides_key" if "k \<in> {''cm_auth_token'', ''cm_session_token''}" for k
    using that by (auto simp: portal_keys_def config_keys_def overrides_key_def)
  have agent: "stored (localStorage (sign_in q p)) ''cm_auth_token'' = []" "stored (localStorage (sign_in q p)) ''cm_session_token'' = []"
    using sign_in_other [OF assms(1) other, where q = q] assms(2,3) by (simp_all add: stored_def)
  show "first_stored (localStorage (sign_in q p)) token_keys = q"
    using portal agent assms(4) by (simp add: token_keys_def stored_def item_text_def)
  show "first_stored (localStorage (sign_out (sign_in q p))) token_keys = q"
    using portal agent assms(4) by (simp add: token_keys_def stored_def item_text_def sign_out_def items_try_remove_item logout_items_def)
qed

text \<open>C6. The key of a sign-in link is the token the Agent Workspace sends, and it is still sent after the visitor has pressed the sign-out button of the portal:
  that button removes three of the keys the link stored and the workspace finds the key under a fourth.\<close>

theorem link_key_reaches_agent:
  assumes "hostname loc = ai_host" and "link_key loc = q" and "plain_token q" and "can_read (localStorage p)" and "can_write (localStorage p)"
    and "stored (localStorage p) ''cm_auth_token'' = []" and "stored (localStorage p) ''cm_session_token'' = []"
    and "r = handleAiSubdomainRouting loc p"
  shows "map_of (headers (auth_request u no_options r)) ''Authorization'' = Some (''Bearer '' @ q) \<and>
    map_of (headers (auth_request u no_options (handleAuthNavClick None tr loc' r))) ''Authorization'' = Some (''Bearer '' @ q)"
proof -
  have q: "q \<noteq> []"
    using assms(3) by (simp add: plain_token_def)
  have r: "r = sign_in q p"
    using assms q by (simp add: handleAiSubdomainRouting_def)
  note tokens = token_after_sign_in [OF assms(5-7) q, folded r]
  have rd: "can_read (localStorage r)"
    using sign_in_keys(2) [OF assms(5), of "''cm_token''" q] assms(4) r by (simp add: portal_keys_def)
  have "stored (localStorage r) ''cm_token'' = q"
    using sign_in_keys(1) [OF assms(5), of "''cm_token''" q] r by (simp add: portal_keys_def stored_def item_text_def)
  then have "hasActiveSession r"
    using rd q by (simp add: hasActiveSession_def session_items_def portal_keys_def)
  then have out: "localStorage (handleAuthNavClick None tr loc' r) = localStorage (sign_out r)"
    using clicked [of r None tr loc'] by simp
  have "can_read (localStorage (sign_out r))"
    using rd by (simp add: sign_out_def)
  then have "resolveAuthToken r = Some q" "resolveAuthToken (handleAuthNavClick None tr loc' r) = Some q"
    using tokens rd out assms(3) by (auto intro!: resolve_plain)
  then show ?thesis
    using q by (simp add: auth_request_def auth_headers_lookup no_options_def)
qed

theorem link_key_reaches_agent_witness:
  "map_of (headers (auth_request ''/v1/agent/workspaces'' no_options (handleAuthNavClick None (\<lambda>l k. None) key_link (handleAiSubdomainRouting key_link portal0))))
     ''Authorization'' = Some ''Bearer cm-42''"
proof -
  have link: "hostname key_link = ai_host" "link_key key_link = ''cm-42''" "plain_token ''cm-42''"
    by code_simp+
  have "stored (localStorage portal0) ''cm_auth_token'' = []" "stored (localStorage portal0) ''cm_session_token'' = []"
    by code_simp+
  from link_key_reaches_agent [OF link portal0_session(1,2) this refl] show ?thesis
    by simp
qed

section \<open>A session across the model selector and the Agent Workspace\<close>

definition panel_address :: "string \<Rightarrow> string option \<Rightarrow> string" where
  "panel_address i m = ''/agent'' @ CHR ''?'' # query_part ''session_id'' i @ (case m of None \<Rightarrow> [] | Some v \<Rightarrow> CHR ''&'' # query_part ''model'' v)"

lemma panel_keys: "plain_key ''session_id''" "plain_key ''model''"
  by (simp_all add: plain_key_def)

lemma panel_address_params:
  "search_params (search_of (panel_address i m)) = (''session_id'', i) # (case m of None \<Rightarrow> [] | Some v \<Rightarrow> [(''model'', v)])"
proof -
  have "search_of (panel_address i m) = CHR ''?'' # query_part ''session_id'' i @ (case m of None \<Rightarrow> [] | Some v \<Rightarrow> CHR ''&'' # query_part ''model'' v)"
    unfolding panel_address_def by (rule search_of_address) (auto simp: query_part_no_mark split: option.split)
  then show ?thesis
    by (cases m) (simp_all add: search_params_parts panel_keys)
qed

lemma toggle_address:
  assumes "\<not> use_legacy s" "agentSessionId s \<noteq> []"
  shows "navs (toggle_click s) = navs s @ [Assign (panel_address (agentSessionId s)
    (if truthy (and_prop (selectedModel s) ''id'') then Some (to_str (safe_prop (selectedModel s) ''id'')) else None))]"
  using assms by (simp add: toggle_click_def navigate_def panel_address_def query_part_def Let_def)



end
